(* ===== verification/Prelude.thy ===== *)
theory Prelude
  imports Main "HOL-Library.Word" "HOL-Library.Sublist"
begin

text \<open>
  Shared vocabulary of the development: the machine integers of the Rust source, the
  pieces of Rust's standard library that the modelled code calls (integer printing and
  parsing, UTF-8 character boundaries, the binary search behind
  \<^verbatim>\<open>slice::partition_point\<close>), and the lemmas on lists, options and maps that the
  component theories share.

  Unsigned machine integers are words.  Signed 64-bit values (ids, epoch milliseconds)
  are \<^typ>\<open>int\<close>s whose arithmetic is written with \<open>i64_wrap\<close> or
  \<open>i64_saturating_add\<close>, according to the operator of the source.  A Rust
  \<^verbatim>\<open>String\<close> is its UTF-8 byte sequence, a \<^typ>\<open>string\<close>.
\<close>

section \<open>Collections of simplification rules\<close>

named_theorems rust_simps \<open>rules for the modelled parts of the Rust standard library\<close>
named_theorems status_simps \<open>rules for job processing status records\<close>
named_theorems stream_simps \<open>rules for stream errors and trailers\<close>

section \<open>Machine integers\<close>

type_synonym u32 = "32 word"
type_synonym u64 = "64 word"
type_synonym i64 = int
type_synonym i32 = int

definition i64_min :: int where "i64_min = - (2 ^ 63)"
definition i64_max :: int where "i64_max = 2 ^ 63 - 1"

definition in_i64 :: "int \<Rightarrow> bool" where
  "in_i64 x \<longleftrightarrow> i64_min \<le> x \<and> x \<le> i64_max"

definition i64_wrap :: "int \<Rightarrow> int" where
  "i64_wrap x = (x + 2 ^ 63) mod 2 ^ 64 - 2 ^ 63"

definition i64_saturating_add :: "int \<Rightarrow> int \<Rightarrow> int" where
  "i64_saturating_add a b = max i64_min (min i64_max (a + b))"

text \<open>\<^verbatim>\<open>i64::try_from(u64)\<close> fails above \<^verbatim>\<open>i64::MAX\<close>.\<close>

definition i64_try_from_u64 :: "u64 \<Rightarrow> int option" where
  "i64_try_from_u64 w = (if uint w \<le> i64_max then Some (uint w) else None)"

definition u64_saturating_mul :: "u64 \<Rightarrow> u64 \<Rightarrow> u64" where
  "u64_saturating_mul a b =
     (if uint a * uint b < 2 ^ 64 then a * b else of_int (2 ^ 64 - 1))"

lemma i64_wrap_id [rust_simps]: "in_i64 x \<Longrightarrow> i64_wrap x = x"
  by (simp add: in_i64_def i64_min_def i64_max_def i64_wrap_def)

lemma in_i64_nonneg: "0 \<le> x \<Longrightarrow> x \<le> i64_max \<Longrightarrow> in_i64 x"
  by (simp add: in_i64_def i64_min_def)

lemma i64_wrap_in [simp]: "in_i64 (i64_wrap x)"
proof -
  have "0 \<le> (x + 2 ^ 63) mod 2 ^ 64" and "(x + 2 ^ 63) mod 2 ^ 64 < 2 ^ 64"
    by simp_all
  then show ?thesis
    by (simp add: in_i64_def i64_min_def i64_max_def i64_wrap_def)
qed

lemma i64_saturating_add_in [simp]: "in_i64 (i64_saturating_add a b)"
  by (simp add: in_i64_def i64_saturating_add_def i64_min_def i64_max_def)

lemma i64_saturating_add_exact [rust_simps]:
  "in_i64 (a + b) \<Longrightarrow> i64_saturating_add a b = a + b"
  by (simp add: in_i64_def i64_saturating_add_def)

lemma i64_saturating_add_ge: "a \<le> i64_max \<Longrightarrow> 0 \<le> b \<Longrightarrow> a \<le> i64_saturating_add a b"
  by (auto simp: i64_saturating_add_def)

lemma i64_try_from_u64_nonneg: "i64_try_from_u64 w = Some n \<Longrightarrow> 0 \<le> n \<and> n \<le> i64_max"
  by (auto simp: i64_try_from_u64_def split: if_splits)

lemma uint_u32_in_i64 [simp]: "in_i64 (uint (w :: u32))"
proof -
  have "- (2 ^ 63) \<le> uint w" by (rule order_trans [of _ 0]) simp_all
  moreover have "uint w \<le> 2 ^ 63 - 1" using uint_lt2p [of w] by simp
  ultimately show ?thesis unfolding in_i64_def i64_min_def i64_max_def by blast
qed

section \<open>Decimal printing and parsing\<close>

definition digit_char :: "nat \<Rightarrow> char" where
  "digit_char d = char_of (48 + d)"

definition char_digit :: "char \<Rightarrow> nat option" where
  "char_digit c =
     (let n = of_char c :: nat in if 48 \<le> n \<and> n \<le> 57 then Some (n - 48) else None)"

fun show_nat :: "nat \<Rightarrow> string" where
  "show_nat n = (if n < 10 then [digit_char n] else show_nat (n div 10) @ [digit_char (n mod 10)])"

declare show_nat.simps [simp del]

definition show_int :: "int \<Rightarrow> string" where
  "show_int i = (if i < 0 then CHR ''-'' # show_nat (nat (- i)) else show_nat (nat i))"

fun parse_digits :: "nat \<Rightarrow> string \<Rightarrow> nat option" where
  "parse_digits acc [] = Some acc"
| "parse_digits acc (c # cs) =
     (case char_digit c of None \<Rightarrow> None | Some d \<Rightarrow> parse_digits (10 * acc + d) cs)"

text \<open>
  \<^verbatim>\<open>str::parse::<u32>\<close>: an optional plus sign, at least one digit, and a value
  that fits.
\<close>

definition parse_nat :: "string \<Rightarrow> nat option" where
  "parse_nat s = (if s = [] then None else parse_digits 0 s)"

definition strip_plus :: "string \<Rightarrow> string" where
  "strip_plus s = (case s of [] \<Rightarrow> [] | c # cs \<Rightarrow> if c = CHR ''+'' then cs else s)"

definition parse_u32 :: "string \<Rightarrow> u32 option" where
  "parse_u32 s =
     (case parse_nat (strip_plus s) of
        None \<Rightarrow> None
      | Some n \<Rightarrow> if n < 2 ^ 32 then Some (of_nat n) else None)"

definition parse_signed :: "nat \<Rightarrow> string \<Rightarrow> int option" where
  "parse_signed bits s =
     (case s of
        [] \<Rightarrow> None
      | c # cs \<Rightarrow>
          (if c = CHR ''-''
           then (case parse_nat cs of
                   None \<Rightarrow> None
                 | Some n \<Rightarrow> if n \<le> 2 ^ (bits - 1) then Some (- int n) else None)
           else (case parse_nat (strip_plus s) of
                   None \<Rightarrow> None
                 | Some n \<Rightarrow> if n < 2 ^ (bits - 1) then Some (int n) else None)))"

definition parse_i32 :: "string \<Rightarrow> i32 option" where "parse_i32 = parse_signed 32"
definition parse_i64 :: "string \<Rightarrow> i64 option" where "parse_i64 = parse_signed 64"

lemma of_char_digit_char [simp]: "d < 10 \<Longrightarrow> of_char (digit_char d) = (48 + d :: nat)"
  by (simp add: digit_char_def)

lemma char_digit_digit_char [simp]: "d < 10 \<Longrightarrow> char_digit (digit_char d) = Some d"
  by (simp add: char_digit_def Let_def)

lemma digit_char_neq [simp]:
  assumes "d < 10"
  shows "digit_char d \<noteq> CHR ''+''" and "digit_char d \<noteq> CHR ''-''" and "digit_char d \<noteq> CHR '':''"
proof -
  have n: "of_char (digit_char d) = (48 + d :: nat)" using assms by simp
  have "of_char CHR ''+'' = (43 :: nat)" "of_char CHR ''-'' = (45 :: nat)"
    "of_char CHR '':'' = (58 :: nat)" by simp_all
  then have "of_char (digit_char d) \<noteq> (of_char CHR ''+'' :: nat)"
    "of_char (digit_char d) \<noteq> (of_char CHR ''-'' :: nat)"
    "of_char (digit_char d) \<noteq> (of_char CHR '':'' :: nat)"
    using n assms by linarith+
  then show "digit_char d \<noteq> CHR ''+''" and "digit_char d \<noteq> CHR ''-''"
    and "digit_char d \<noteq> CHR '':''"
    by (auto simp del: of_char_Char)
qed

lemma show_nat_nonempty [simp]: "show_nat n \<noteq> []"
  by (subst show_nat.simps) simp

lemma set_show_nat: "c \<in> set (show_nat n) \<Longrightarrow> \<exists>d < 10. c = digit_char d"
proof (induction n rule: show_nat.induct)
  case (1 n)
  have last: "\<exists>d < 10. digit_char (n mod 10) = digit_char d"
    by (rule exI [of _ "n mod 10"]) simp
  from "1" last show ?case
    by (cases "n < 10") (auto simp: show_nat.simps [of n])
qed

lemma show_nat_no_sep [simp]:
  "CHR '':'' \<notin> set (show_nat n)" "CHR ''+'' \<notin> set (show_nat n)" "CHR ''-'' \<notin> set (show_nat n)"
proof -
  have other: "c \<notin> set (show_nat n)" if "\<And>d. d < 10 \<Longrightarrow> digit_char d \<noteq> c" for c
    using set_show_nat [of c n] that by auto
  show "CHR '':'' \<notin> set (show_nat n)" by (rule other) (rule digit_char_neq)
  show "CHR ''+'' \<notin> set (show_nat n)" by (rule other) (rule digit_char_neq)
  show "CHR ''-'' \<notin> set (show_nat n)" by (rule other) (rule digit_char_neq)
qed

lemma parse_digits_append:
  "parse_digits acc (xs @ ys) =
     (case parse_digits acc xs of None \<Rightarrow> None | Some n \<Rightarrow> parse_digits n ys)"
  by (induction acc xs rule: parse_digits.induct) (auto split: option.splits)

lemma parse_digits_show_nat: "parse_digits 0 (show_nat n) = Some n"
proof (induction n rule: show_nat.induct)
  case (1 n)
  show ?case
  proof (cases "n < 10")
    case True
    then show ?thesis by (simp add: show_nat.simps [of n])
  next
    case False
    with "1.IH" show ?thesis
      by (simp add: show_nat.simps [of n] parse_digits_append)
  qed
qed

lemma parse_nat_show_nat [simp]: "parse_nat (show_nat n) = Some n"
  by (simp add: parse_nat_def parse_digits_show_nat)

lemma strip_plus_show_nat [simp]: "strip_plus (show_nat n) = show_nat n"
  using show_nat_no_sep(2) [of n] by (cases "show_nat n") (auto simp: strip_plus_def)

lemma show_nat_hd: "\<exists>c cs. show_nat n = c # cs \<and> c \<noteq> CHR ''-''"
  using show_nat_no_sep(3) [of n] show_nat_nonempty [of n]
  by (cases "show_nat n") auto

theorem parse_u32_show [simp]: "parse_u32 (show_nat (unat w)) = Some w"
  using unsigned_less [of w, where ?'a = nat] by (simp add: parse_u32_def)

lemma parse_signed_show_int:
  assumes "- (2 ^ (bits - 1)) \<le> i" and "i < 2 ^ (bits - 1)"
  shows "parse_signed bits (show_int i) = Some i"
proof (cases "i < 0")
  case True
  with assms(1) have "nat (- i) \<le> 2 ^ (bits - 1)"
    by (simp add: nat_le_iff)
  with True show ?thesis
    by (simp add: parse_signed_def show_int_def)
next
  case False
  obtain c cs where c: "show_nat (nat i) = c # cs" "c \<noteq> CHR ''-''"
    using show_nat_hd by blast
  from False assms(2) have "nat i < 2 ^ (bits - 1)"
    by (simp add: nat_less_iff)
  moreover have "parse_nat (strip_plus (c # cs)) = Some (nat i)"
    by (simp flip: c(1))
  ultimately show ?thesis
    using False c by (simp add: parse_signed_def show_int_def)
qed

lemma show_nat_inj [simp]: "show_nat m = show_nat n \<longleftrightarrow> m = n"
  by (metis option.inject parse_nat_show_nat)

lemma show_int_inj [simp]: "show_int i = show_int j \<longleftrightarrow> i = j"
proof
  assume eq: "show_int i = show_int j"
  obtain n where n: "\<bar>i\<bar> < 2 ^ n" "\<bar>j\<bar> < 2 ^ n"
  proof -
    let ?m = "nat (\<bar>i\<bar> + \<bar>j\<bar>)"
    have "int ?m < 2 ^ ?m" using less_exp [of ?m] by (metis of_nat_less_numeral_power_cancel_iff)
    then show ?thesis by (intro that [of ?m]) auto
  qed
  have "parse_signed (Suc n) (show_int i) = Some i" "parse_signed (Suc n) (show_int j) = Some j"
    using n by (auto intro!: parse_signed_show_int)
  then show "i = j" unfolding eq by (rule option.inject [THEN iffD1, OF trans [OF sym]])
qed simp

section \<open>Debug rendering of strings\<close>

text \<open>
  \<^verbatim>\<open>{:?}\<close> of a string: quotes, backslashes, the usual control escapes, other ASCII
  control characters as \<^verbatim>\<open>\u{..}\<close>.  Bytes of multi-byte characters are kept, which is
  what the formatter does for printable characters.
\<close>

definition hex_digit :: "nat \<Rightarrow> char" where
  "hex_digit d = (if d < 10 then digit_char d else char_of (87 + d))"

definition debug_char :: "char \<Rightarrow> string" where
  "debug_char c =
     (let n = of_char c :: nat
      in if n = 0 then [CHR 0x5C, CHR ''0'']
         else if n = 9 then [CHR 0x5C, CHR ''t'']
         else if n = 10 then [CHR 0x5C, CHR ''n'']
         else if n = 13 then [CHR 0x5C, CHR ''r'']
         else if n = 34 \<or> n = 92 then [CHR 0x5C, c]
         else if n < 16 then [CHR 0x5C, CHR ''u'', CHR ''{'', hex_digit n, CHR ''}'']
         else if n < 32 \<or> n = 127
           then [CHR 0x5C, CHR ''u'', CHR ''{'', hex_digit (n div 16), hex_digit (n mod 16), CHR ''}'']
         else [c])"

definition debug_str :: "string \<Rightarrow> string" where
  "debug_str s = CHR 0x22 # concat (map debug_char s) @ [CHR 0x22]"

section \<open>Splitting at a separator\<close>

text \<open>\<^verbatim>\<open>str::split_once\<close> with a one-byte pattern.\<close>

fun split_once :: "char \<Rightarrow> string \<Rightarrow> (string \<times> string) option" where
  "split_once sep [] = None"
| "split_once sep (c # cs) =
     (if c = sep then Some ([], cs)
      else (case split_once sep cs of None \<Rightarrow> None | Some (a, b) \<Rightarrow> Some (c # a, b)))"

lemma split_once_append [simp]:
  "sep \<notin> set a \<Longrightarrow> split_once sep (a @ sep # b) = Some (a, b)"
  by (induction a) auto

lemma split_once_Some:
  "split_once sep s = Some (a, b) \<Longrightarrow> s = a @ sep # b \<and> sep \<notin> set a"
  by (induction s arbitrary: a) (auto split: if_splits option.splits)

section \<open>UTF-8 character boundaries\<close>

definition is_utf8_continuation :: "char \<Rightarrow> bool" where
  "is_utf8_continuation c = (let n = of_char c :: nat in 128 \<le> n \<and> n < 192)"

definition is_char_boundary :: "string \<Rightarrow> nat \<Rightarrow> bool" where
  "is_char_boundary s i =
     (if i = 0 then True
      else if length s \<le> i then i = length s
      else \<not> is_utf8_continuation (s ! i))"

primrec boundary_below :: "string \<Rightarrow> nat \<Rightarrow> nat" where
  "boundary_below s 0 = 0"
| "boundary_below s (Suc n) =
     (if is_char_boundary s (Suc n) then Suc n else boundary_below s n)"

definition floor_char_boundary :: "string \<Rightarrow> nat \<Rightarrow> nat" where
  "floor_char_boundary s n = (if length s \<le> n then length s else boundary_below s n)"

text \<open>\<^verbatim>\<open>s.truncate(s.floor_char_boundary(n))\<close>.\<close>

definition truncate_floor :: "nat \<Rightarrow> string \<Rightarrow> string" where
  "truncate_floor n s = take (floor_char_boundary s n) s"

lemma boundary_below_le [simp]: "boundary_below s n \<le> n"
  by (induction n) (auto simp: le_SucI)

lemma boundary_below_boundary [simp]: "is_char_boundary s (boundary_below s n)"
  by (induction n) (auto simp: is_char_boundary_def)

lemma boundary_below_greatest:
  "is_char_boundary s i \<Longrightarrow> i \<le> n \<Longrightarrow> i \<le> boundary_below s n"
  by (induction n) (auto simp: le_Suc_eq)

lemma floor_char_boundary_le: "floor_char_boundary s n \<le> n"
  by (simp add: floor_char_boundary_def)

lemma floor_char_boundary_le_length [simp]: "floor_char_boundary s n \<le> length s"
proof (cases "length s \<le> n")
  case False
  with boundary_below_le [of s n] have "boundary_below s n \<le> length s" by linarith
  with False show ?thesis by (simp add: floor_char_boundary_def)
qed (simp add: floor_char_boundary_def)

lemma is_char_boundary_length [simp]: "is_char_boundary s (length s)"
  by (simp add: is_char_boundary_def)

lemma floor_char_boundary_boundary [simp]: "is_char_boundary s (floor_char_boundary s n)"
  by (simp add: floor_char_boundary_def)

lemma length_truncate_floor: "length (truncate_floor n s) \<le> n"
  using floor_char_boundary_le [of s n] by (simp add: truncate_floor_def)

lemma truncate_floor_prefix [simp]: "prefix (truncate_floor n s) s"
  by (simp add: truncate_floor_def take_is_prefix)

lemma truncate_floor_id [rust_simps]: "length s \<le> n \<Longrightarrow> truncate_floor n s = s"
  by (simp add: truncate_floor_def floor_char_boundary_def)

lemma truncate_floor_Nil [simp]: "truncate_floor n [] = []"
  by (simp add: truncate_floor_def)

text \<open>
  The byte sequences a Rust \<^verbatim>\<open>String\<close> can hold: a lead byte announces the number of
  continuation bytes that follow it.
\<close>

definition utf8_width :: "char \<Rightarrow> nat" where
  "utf8_width c =
     (let n = of_char c :: nat
      in if n < 128 then 1
         else if 194 \<le> n \<and> n < 224 then 2
         else if 224 \<le> n \<and> n < 240 then 3
         else if 240 \<le> n \<and> n < 245 then 4
         else 0)"

fun valid_utf8 :: "string \<Rightarrow> bool" where
  "valid_utf8 [] = True"
| "valid_utf8 (c # cs) =
     (let k = utf8_width c
      in 0 < k \<and> k - 1 \<le> length cs \<and> list_all is_utf8_continuation (take (k - 1) cs) \<and>
         valid_utf8 (drop (k - 1) cs))"

definition is_ascii :: "string \<Rightarrow> bool" where
  "is_ascii s = list_all (\<lambda>c. (of_char c :: nat) < 128) s"

lemma valid_utf8_ascii: "is_ascii s \<Longrightarrow> valid_utf8 s"
  by (induction s) (simp_all add: is_ascii_def utf8_width_def)

lemma is_ascii_append [simp]: "is_ascii (s @ t) \<longleftrightarrow> is_ascii s \<and> is_ascii t"
  by (simp add: is_ascii_def)

lemma is_ascii_Cons [simp]: "is_ascii (c # s) \<longleftrightarrow> (of_char c :: nat) < 128 \<and> is_ascii s"
  by (simp add: is_ascii_def)

lemma is_ascii_Nil [simp]: "is_ascii []"
  by (simp add: is_ascii_def)

lemma is_ascii_show_nat [simp]: "is_ascii (show_nat n)"
  by (auto simp: is_ascii_def list_all_iff digit_char_def dest!: set_show_nat)

lemma valid_utf8_take:
  "valid_utf8 s \<Longrightarrow> is_char_boundary s i \<Longrightarrow> valid_utf8 (take i s)"
proof (induction s arbitrary: i rule: valid_utf8.induct)
  case 1
  then show ?case by simp
next
  case (2 c cs)
  define k where "k = utf8_width c"
  from "2.prems"(1) have k: "0 < k" "k - 1 \<le> length cs"
    "list_all is_utf8_continuation (take (k - 1) cs)" "valid_utf8 (drop (k - 1) cs)"
    by (simp_all add: Let_def k_def)
  show ?case
  proof (cases "i = 0")
    case False
    have "k \<le> i"
    proof (rule ccontr)
      assume "\<not> k \<le> i"
      then have "i - 1 < k - 1" using False by linarith
      then have "is_utf8_continuation (cs ! (i - 1))" "i < length (c # cs)"
        using k(2,3) False by (auto simp: list_all_length)
      then show False using "2.prems"(2) False by (simp add: is_char_boundary_def)
    qed
    define j where "j = i - k"
    have i: "i = k + j" using \<open>k \<le> i\<close> by (simp add: j_def)
    have "(c # cs) ! i = drop (k - 1) cs ! j" if "i < length (c # cs)"
      using that i k(1,2) by (simp add: nth_Cons' add.commute)
    then have "is_char_boundary (drop (k - 1) cs) j"
      using "2.prems"(2) i k(1,2) by (auto simp: is_char_boundary_def split: if_splits)
    then have rest: "valid_utf8 (take j (drop (k - 1) cs))"
      by (rule "2.IH" [OF k_def k(4)])
    have "take i (c # cs) = c # take (k - 1 + j) cs"
      using i k(1) by (simp add: take_Cons')
    moreover have "drop (k - 1) (take (k - 1 + j) cs) = take j (drop (k - 1) cs)"
      by (simp add: drop_take add.commute)
    moreover have "take (k - 1) (take (k - 1 + j) cs) = take (k - 1) cs"
      by simp
    ultimately show ?thesis
      using k(1,2,3) rest by (auto simp: Let_def simp flip: k_def)
  qed simp
qed

lemma utf8_width_le: "utf8_width c \<le> 4"
  by (simp add: utf8_width_def Let_def)

lemma valid_utf8_lead:
  assumes "valid_utf8 (c # cs)"
  shows "\<not> is_utf8_continuation c"
  using assms
  by (auto simp: Let_def utf8_width_def is_utf8_continuation_def split: if_splits)

lemma valid_utf8_first_boundary:
  assumes "valid_utf8 (c # cs)"
  shows "0 < utf8_width c" and "is_char_boundary (c # cs) (utf8_width c)"
proof -
  define k where "k = utf8_width c"
  have k: "0 < k" "k - 1 \<le> length cs" "valid_utf8 (drop (k - 1) cs)"
    using assms by (simp_all add: Let_def k_def)
  show "0 < utf8_width c" using k(1) by (simp add: k_def)
  show "is_char_boundary (c # cs) (utf8_width c)"
  proof (cases "k = length (c # cs)")
    case True
    then show ?thesis using is_char_boundary_length [of "c # cs"] by (simp add: k_def)
  next
    case False
    then have lt: "k - 1 < length cs" using k(1,2) by simp
    then have "drop (k - 1) cs = cs ! (k - 1) # drop (Suc (k - 1)) cs"
      by (rule Cons_nth_drop_Suc [symmetric])
    then have "\<not> is_utf8_continuation (cs ! (k - 1))"
      using k(3) valid_utf8_lead by metis
    moreover have "\<not> length (c # cs) \<le> k" using lt k(1) by simp
    ultimately show ?thesis
      using k(1) by (simp add: is_char_boundary_def flip: k_def)
  qed
qed

lemma truncate_floor_nonempty:
  assumes "valid_utf8 s" and "s \<noteq> []" and "4 \<le> n"
  shows "truncate_floor n s \<noteq> []"
proof (cases s)
  case (Cons c cs)
  have "is_char_boundary s (utf8_width c)" "0 < utf8_width c"
    using valid_utf8_first_boundary assms(1) Cons by simp_all
  moreover have "utf8_width c \<le> n" using utf8_width_le [of c] assms(3) by linarith
  ultimately have "0 < floor_char_boundary s n"
    using boundary_below_greatest [of s "utf8_width c" n] Cons
    by (auto simp: floor_char_boundary_def)
  then show ?thesis using Cons by (simp add: truncate_floor_def)
qed (use assms in simp)

lemma valid_utf8_truncate_floor [simp]: "valid_utf8 s \<Longrightarrow> valid_utf8 (truncate_floor n s)"
  by (simp add: truncate_floor_def valid_utf8_take)

section \<open>Binary search for a partition point\<close>

text \<open>
  The loop of \<^verbatim>\<open>slice::binary_search_by\<close> as \<^verbatim>\<open>slice::partition_point\<close>
  calls it: \<open>base\<close> and \<open>sz\<close> are the loop variables of the source.
\<close>

fun partition_loop :: "('a \<Rightarrow> bool) \<Rightarrow> 'a list \<Rightarrow> nat \<Rightarrow> nat \<Rightarrow> nat" where
  "partition_loop p xs base sz =
     (if sz \<le> 1 then base
      else let half = sz div 2; mid = base + half
           in partition_loop p xs (if p (xs ! mid) then mid else base) (sz - half))"

declare partition_loop.simps [simp del]

definition partition_point :: "('a \<Rightarrow> bool) \<Rightarrow> 'a list \<Rightarrow> nat" where
  "partition_point p xs =
     (if xs = [] then 0
      else let base = partition_loop p xs 0 (length xs)
           in if p (xs ! base) then base + 1 else base)"

text \<open>A list is partitioned when everything satisfying \<open>p\<close> comes first.\<close>

definition partitioned :: "('a \<Rightarrow> bool) \<Rightarrow> 'a list \<Rightarrow> bool" where
  "partitioned p xs \<longleftrightarrow> (\<forall>i j. i \<le> j \<longrightarrow> j < length xs \<longrightarrow> p (xs ! j) \<longrightarrow> p (xs ! i))"

lemma partition_loop_bounds:
  assumes "0 < sz" and "base + sz \<le> length xs"
    and "base = 0 \<or> p (xs ! base)"
    and "\<And>j. base + sz \<le> j \<Longrightarrow> j < length xs \<Longrightarrow> \<not> p (xs ! j)"
    and "partitioned p xs"
  shows "let r = partition_loop p xs base sz
         in r < length xs \<and> (r = 0 \<or> p (xs ! r)) \<and> (\<forall>j. r < j \<longrightarrow> j < length xs \<longrightarrow> \<not> p (xs ! j))"
  using assms
proof (induction p xs base sz rule: partition_loop.induct)
  case (1 p xs base sz)
  show ?case
  proof (cases "sz \<le> 1")
    case True
    with "1.prems" show ?thesis
      by (auto simp: partition_loop.simps [of p xs base sz] Let_def)
  next
    case False
    let ?half = "sz div 2" and ?mid = "base + sz div 2"
    have half: "0 < ?half" "?half < sz" using False by auto
    have mid: "?mid < length xs" using half "1.prems"(2) by linarith
    have step: "partition_loop p xs base sz =
        partition_loop p xs (if p (xs ! ?mid) then ?mid else base) (sz - ?half)"
      using False by (simp add: partition_loop.simps [of p xs base sz] Let_def)
    have rest: "\<not> p (xs ! j)"
      if "\<not> p (xs ! ?mid)" "?mid \<le> j" "j < length xs" for j
      using that "1.prems"(5) unfolding partitioned_def by blast
    have out: "(if p (xs ! ?mid) then ?mid else base) + (sz - ?half) \<le> length xs"
      using half "1.prems"(2) by auto
    have above: "\<not> p (xs ! j)"
      if "(if p (xs ! ?mid) then ?mid else base) + (sz - ?half) \<le> j" "j < length xs" for j
    proof (cases "p (xs ! ?mid)")
      case True
      then have "base + sz \<le> j" using that(1) half by simp
      then show ?thesis using "1.prems"(4) that(2) by blast
    next
      case f: False
      have "sz - ?half \<ge> ?half" by linarith
      with that(1) f have "?mid \<le> j" by simp
      then show ?thesis using rest f that(2) by blast
    qed
    have pos: "0 < sz - ?half" using half by simp
    have base: "(if p (xs ! ?mid) then ?mid else base) = 0 \<or>
        p (xs ! (if p (xs ! ?mid) then ?mid else base))"
      using "1.prems"(3) by simp
    show ?thesis unfolding step
      using "1.IH" [OF False refl refl pos out base above "1.prems"(5)] by blast
  qed
qed

lemma takeWhile_lengthI:
  assumes "r \<le> length xs" and "\<And>i. i < r \<Longrightarrow> p (xs ! i)"
    and "r < length xs \<Longrightarrow> \<not> p (xs ! r)"
  shows "length (takeWhile p xs) = r"
proof -
  have "takeWhile p xs = take r xs"
    using assms by (intro takeWhile_eq_take_P_nth) auto
  with assms(1) show ?thesis by simp
qed

theorem partition_point_takeWhile:
  assumes "partitioned p xs"
  shows "partition_point p xs = length (takeWhile p xs)"
proof (cases "xs = []")
  case True
  then show ?thesis by (simp add: partition_point_def)
next
  case False
  define r where "r = partition_loop p xs 0 (length xs)"
  have r: "r < length xs" "r = 0 \<or> p (xs ! r)"
      "\<And>j. r < j \<Longrightarrow> j < length xs \<Longrightarrow> \<not> p (xs ! j)"
    using partition_loop_bounds [of "length xs" 0 xs p] False assms
    by (auto simp: r_def Let_def)
  have below: "p (xs ! i)" if "p (xs ! r)" "i \<le> r" for i
    using that r(1) assms unfolding partitioned_def by blast
  have "length (takeWhile p xs) = (if p (xs ! r) then r + 1 else r)"
    by (rule takeWhile_lengthI) (use r below in \<open>auto split: if_splits simp: less_Suc_eq_le\<close>)
  then show ?thesis using False by (simp add: partition_point_def r_def Let_def)
qed

lemma partitioned_sorted:
  assumes "sorted xs" and "\<And>x y. x \<in> set xs \<Longrightarrow> y \<in> set xs \<Longrightarrow> x \<le> y \<Longrightarrow> p y \<Longrightarrow> p x"
  shows "partitioned p xs"
  unfolding partitioned_def
proof (intro allI impI)
  fix i j
  assume "i \<le> j" "j < length xs" "p (xs ! j)"
  then show "p (xs ! i)"
    using assms(2) [of "xs ! i" "xs ! j"] sorted_nth_mono [OF assms(1)] by simp
qed

text \<open>On a sorted list the element before the partition point is the greatest that satisfies \<open>p\<close>.\<close>

lemma partition_point_greatest:
  assumes sorted: "sorted xs" and part: "partitioned p xs" and ne: "xs \<noteq> []" "p (xs ! 0)"
  shows "0 < partition_point p xs" and "xs ! (partition_point p xs - 1) \<in> set xs"
    and "p (xs ! (partition_point p xs - 1))"
    and "x \<in> set xs \<Longrightarrow> p x \<Longrightarrow> x \<le> xs ! (partition_point p xs - 1)"
proof -
  define n where "n = length (takeWhile p xs)"
  have pp: "partition_point p xs = n" using part by (simp add: partition_point_takeWhile n_def)
  have n: "0 < n" using ne by (cases xs) (simp_all add: n_def)
  have le: "n \<le> length xs" by (simp add: n_def length_takeWhile_le)
  have nth: "xs ! i = takeWhile p xs ! i" if "i < n" for i
    using that by (simp add: n_def takeWhile_nth)
  show "0 < partition_point p xs" using n pp by simp
  show "xs ! (partition_point p xs - 1) \<in> set xs" using n le pp by simp
  show "p (xs ! (partition_point p xs - 1))"
  proof -
    have "takeWhile p xs ! (n - 1) \<in> set (takeWhile p xs)"
      using n by (simp add: n_def del: length_greater_0_conv)
    then have "p (takeWhile p xs ! (n - 1))" by (rule set_takeWhileD [THEN conjunct2])
    moreover have "n - 1 < n" using n by simp
    ultimately show ?thesis unfolding pp nth [OF \<open>n - 1 < n\<close>] by blast
  qed
  show "x \<le> xs ! (partition_point p xs - 1)" if x: "x \<in> set xs" "p x"
  proof -
    obtain i where i: "i < length xs" "xs ! i = x" using x(1) by (metis in_set_conv_nth)
    have "i \<le> n - 1"
    proof (rule ccontr)
      assume "\<not> i \<le> n - 1"
      then have "n \<le> i" using n by simp
      then have "n < length xs" "p (xs ! n)"
        using i x(2) part by (auto simp: partitioned_def)
      then show False using nth_length_takeWhile [of p xs] by (simp add: n_def)
    qed
    then show ?thesis
      using sorted_nth_mono [OF sorted, of i "n - 1"] n le i pp by simp
  qed
qed

section \<open>Options, lists and maps\<close>

text \<open>\<^verbatim>\<open>Option::or\<close> and \<^verbatim>\<open>Option::unwrap_or\<close>.\<close>

definition option_or :: "'a option \<Rightarrow> 'a option \<Rightarrow> 'a option" where
  "option_or x y = (case x of None \<Rightarrow> y | Some _ \<Rightarrow> x)"

definition unwrap_or :: "'a option \<Rightarrow> 'a \<Rightarrow> 'a" where
  "unwrap_or x d = (case x of None \<Rightarrow> d | Some v \<Rightarrow> v)"

lemma option_or_simps [simp]:
  "option_or None y = y" "option_or (Some v) y = Some v"
  by (simp_all add: option_or_def)

lemma unwrap_or_simps [simp]: "unwrap_or None d = d" "unwrap_or (Some v) d = v"
  by (simp_all add: unwrap_or_def)

lemma option_or_eq_None [simp]: "option_or x y = None \<longleftrightarrow> x = None \<and> y = None"
  by (cases x) auto

type_synonym metadata = "string \<rightharpoonup> string"

text \<open>A Rust panic as a value: the left summand of a computation that may panic.\<close>

datatype panic = Panic string

text \<open>Sequencing of computations that may fail: Rust's \<^verbatim>\<open>?\<close> operator.\<close>

definition bindE :: "'e + 'a \<Rightarrow> ('a \<Rightarrow> 'e + 'b) \<Rightarrow> 'e + 'b" where
  "bindE m f = (case m of Inl e \<Rightarrow> Inl e | Inr x \<Rightarrow> f x)"

lemma bindE_simps [simp]: "bindE (Inl e) f = Inl e" "bindE (Inr x) f = f x"
  by (simp_all add: bindE_def)

lemma bindE_eq_Inr: "bindE m f = Inr y \<longleftrightarrow> (\<exists>x. m = Inr x \<and> f x = Inr y)"
  by (cases m) auto

lemma bindE_assoc: "bindE (bindE m f) g = bindE m (\<lambda>x. bindE (f x) g)"
  by (cases m) auto

text \<open>\<^verbatim>\<open>Option::ok_or\<close>.\<close>

definition ok_or :: "'a option \<Rightarrow> 'e \<Rightarrow> 'e + 'a" where
  "ok_or x e = (case x of None \<Rightarrow> Inl e | Some v \<Rightarrow> Inr v)"

lemma ok_or_simps [simp]: "ok_or None e = Inl e" "ok_or (Some v) e = Inr v"
  by (simp_all add: ok_or_def)

end
