(* ===== verification/Proto_Data.thy ===== *)
theory Proto_Data
  imports Prelude
begin

text \<open>
  The messages and enumerations of \<^verbatim>\<open>proto/protobuf/jobworkerp/data\<close> that the
  modelled code exchanges.  A protobuf enumeration field is stored as an \<^verbatim>\<open>i32\<close> in
  the generated Rust structs, so the records keep it as \<^typ>\<open>i32\<close> and every
  enumeration comes with its numbering and the partial inverse \<^verbatim>\<open>try_from\<close>.
  A single-precision float is its 32-bit pattern; bytes fields are byte strings.
\<close>

section \<open>Enumerations\<close>

datatype stream_error_code =
    SecUnspecified | SecExecutionFailed | SecTimeout | SecCancelled
  | SecTransportFailed | SecInvalidArgument | SecProviderStreamFailed

primrec stream_error_code_i32 :: "stream_error_code \<Rightarrow> i32" where
  "stream_error_code_i32 SecUnspecified = 0"
| "stream_error_code_i32 SecExecutionFailed = 1"
| "stream_error_code_i32 SecTimeout = 2"
| "stream_error_code_i32 SecCancelled = 3"
| "stream_error_code_i32 SecTransportFailed = 4"
| "stream_error_code_i32 SecInvalidArgument = 5"
| "stream_error_code_i32 SecProviderStreamFailed = 6"

definition stream_error_code_try_from :: "i32 \<Rightarrow> stream_error_code option" where
  "stream_error_code_try_from n =
     (if n = 0 then Some SecUnspecified
      else if n = 1 then Some SecExecutionFailed
      else if n = 2 then Some SecTimeout
      else if n = 3 then Some SecCancelled
      else if n = 4 then Some SecTransportFailed
      else if n = 5 then Some SecInvalidArgument
      else if n = 6 then Some SecProviderStreamFailed
      else None)"

datatype retry_type = RtNone | RtExponential | RtLinear | RtConstant

primrec retry_type_i32 :: "retry_type \<Rightarrow> i32" where
  "retry_type_i32 RtNone = 0"
| "retry_type_i32 RtExponential = 1"
| "retry_type_i32 RtLinear = 2"
| "retry_type_i32 RtConstant = 3"

definition retry_type_try_from :: "i32 \<Rightarrow> retry_type option" where
  "retry_type_try_from n =
     (if n = 0 then Some RtNone
      else if n = 1 then Some RtExponential
      else if n = 2 then Some RtLinear
      else if n = 3 then Some RtConstant
      else None)"

datatype response_type = NoResult | Direct

primrec response_type_i32 :: "response_type \<Rightarrow> i32" where
  "response_type_i32 NoResult = 0"
| "response_type_i32 Direct = 1"

datatype result_status =
    RsSuccess | RsErrorAndRetry | RsFatalError | RsAbort | RsMaxRetry | RsOtherError | RsCancelled

primrec result_status_i32 :: "result_status \<Rightarrow> i32" where
  "result_status_i32 RsSuccess = 0"
| "result_status_i32 RsErrorAndRetry = 1"
| "result_status_i32 RsFatalError = 2"
| "result_status_i32 RsAbort = 3"
| "result_status_i32 RsMaxRetry = 4"
| "result_status_i32 RsOtherError = 5"
| "result_status_i32 RsCancelled = 6"

datatype job_processing_status =
    JpsUnknown | JpsPending | JpsRunning | JpsWaitResult | JpsCancelling

primrec job_processing_status_i32 :: "job_processing_status \<Rightarrow> i32" where
  "job_processing_status_i32 JpsUnknown = 0"
| "job_processing_status_i32 JpsPending = 1"
| "job_processing_status_i32 JpsRunning = 2"
| "job_processing_status_i32 JpsWaitResult = 3"
| "job_processing_status_i32 JpsCancelling = 4"

definition job_processing_status_try_from :: "i32 \<Rightarrow> job_processing_status option" where
  "job_processing_status_try_from n =
     (if n = 0 then Some JpsUnknown
      else if n = 1 then Some JpsPending
      else if n = 2 then Some JpsRunning
      else if n = 3 then Some JpsWaitResult
      else if n = 4 then Some JpsCancelling
      else None)"

datatype queue_type = QtNormal | QtWithBackup | QtDbOnly

primrec queue_type_i32 :: "queue_type \<Rightarrow> i32" where
  "queue_type_i32 QtNormal = 0"
| "queue_type_i32 QtWithBackup = 1"
| "queue_type_i32 QtDbOnly = 2"

datatype streaming_type = StNone | StResponse | StInternal

primrec streaming_type_i32 :: "streaming_type \<Rightarrow> i32" where
  "streaming_type_i32 StNone = 0"
| "streaming_type_i32 StResponse = 1"
| "streaming_type_i32 StInternal = 2"

lemma try_from_i32 [simp]:
  "stream_error_code_try_from (stream_error_code_i32 c) = Some c"
  "retry_type_try_from (retry_type_i32 t) = Some t"
  "job_processing_status_try_from (job_processing_status_i32 s) = Some s"
  by (cases c, simp_all add: stream_error_code_try_from_def)
     (cases t, simp_all add: retry_type_try_from_def,
      cases s, simp_all add: job_processing_status_try_from_def)

lemma enum_i32_inj [simp]:
  "stream_error_code_i32 c = stream_error_code_i32 c' \<longleftrightarrow> c = c'"
  "retry_type_i32 t = retry_type_i32 t' \<longleftrightarrow> t = t'"
  "job_processing_status_i32 s = job_processing_status_i32 s' \<longleftrightarrow> s = s'"
  by (metis option.inject try_from_i32)+

lemma result_status_i32_inj [simp]:
  "result_status_i32 r = result_status_i32 r' \<longleftrightarrow> r = r'"
  by (cases r; cases r') simp_all

lemma stream_error_code_try_from_Some [simp]:
  "stream_error_code_try_from n = Some c \<longleftrightarrow> n = stream_error_code_i32 c"
  by (cases c) (auto simp: stream_error_code_try_from_def)

lemma retry_type_try_from_Some:
  "retry_type_try_from n = Some t \<longleftrightarrow> n = retry_type_i32 t"
  by (cases t) (auto simp: retry_type_try_from_def)

lemma job_processing_status_try_from_Some [simp]:
  "job_processing_status_try_from n = Some s \<longleftrightarrow> n = job_processing_status_i32 s"
  by (cases s) (auto simp: job_processing_status_try_from_def)

section \<open>Messages\<close>

type_synonym f32 = "32 word"
type_synonym job_id = i64
type_synonym worker_id = i64
type_synonym bytes = string

record problem_details =
  pd_type :: string
  pd_status :: i32
  pd_title :: "string option"
  pd_detail :: "string option"
  pd_instance :: "string option"

record stream_error =
  se_code :: i32
  se_message :: string
  se_origin :: string
  se_problem :: "problem_details option"

record trailer =
  tr_metadata :: metadata
  tr_error :: "stream_error option"

datatype result_output_item =
    ItemData bytes | ItemEnd trailer | ItemFinalCollected bytes | ItemUnset

record retry_policy =
  rp_type :: i32
  rp_interval :: u32
  rp_max_interval :: u32
  rp_max_retry :: u32
  rp_basis :: f32

record job_execution_overrides =
  ov_response_type :: "i32 option"
  ov_store_success :: "bool option"
  ov_store_failure :: "bool option"
  ov_broadcast_results :: "bool option"
  ov_retry_policy :: "retry_policy option"

record job_data =
  jd_worker_id :: "worker_id option"
  jd_args :: bytes
  jd_uniq_key :: "string option"
  jd_enqueue_time :: i64
  jd_grabbed_until_time :: "i64 option"
  jd_run_after_time :: i64
  jd_retried :: u32
  jd_priority :: i32
  jd_timeout :: u64
  jd_streaming_type :: i32
  jd_using :: "string option"
  jd_overrides :: "job_execution_overrides option"

record job =
  j_id :: "job_id option"
  j_data :: "job_data option"
  j_metadata :: metadata

record job_result_data =
  jr_job_id :: "job_id option"
  jr_worker_id :: "worker_id option"
  jr_worker_name :: string
  jr_args :: bytes
  jr_uniq_key :: "string option"
  jr_status :: i32
  jr_output :: "bytes option"
  jr_retried :: u32
  jr_max_retry :: u32
  jr_priority :: i32
  jr_timeout :: u64
  jr_streaming_type :: i32
  jr_enqueue_time :: i64
  jr_run_after_time :: i64
  jr_start_time :: i64
  jr_end_time :: i64
  jr_response_type :: i32
  jr_store_success :: bool
  jr_store_failure :: bool
  jr_using :: "string option"
  jr_broadcast_results :: bool
  jr_resolved_retry_policy :: "retry_policy option"
  jr_error :: "stream_error option"

record worker_data =
  w_name :: string
  w_description :: string
  w_runner_id :: "i64 option"
  w_runner_settings :: bytes
  w_retry_policy :: "retry_policy option"
  w_periodic_interval :: u32
  w_channel :: "string option"
  w_queue_type :: i32
  w_response_type :: i32
  w_store_success :: bool
  w_store_failure :: bool
  w_use_static :: bool
  w_broadcast_results :: bool

section \<open>Errors\<close>

text \<open>
  \<^verbatim>\<open>JobWorkerError\<close>.  A payload of a third-party error type is represented by its
  \<^verbatim>\<open>{:?}\<close> rendering; the two payloads the worker inspects further, a gRPC status and
  an HTTP client error, keep what the worker asks of them.
\<close>

datatype tonic_code =
    TcOk | TcCancelled | TcUnknown | TcInvalidArgument | TcDeadlineExceeded | TcNotFound
  | TcAlreadyExists | TcPermissionDenied | TcResourceExhausted | TcFailedPrecondition
  | TcAborted | TcOutOfRange | TcUnimplemented | TcInternal | TcUnavailable | TcDataLoss
  | TcUnauthenticated

record tonic_status =
  ts_code :: tonic_code
  ts_debug :: string

record reqwest_error =
  re_is_timeout :: bool
  re_status :: "nat option"
  re_debug :: string

datatype job_worker_error =
    InvalidParameter string
  | ParseError string
  | CodecError string
  | WorkerNotFound string
  | NotFound string
  | AlreadyExists string
  | LockError string
  | TimeoutError string
  | GenerateIdError string
  | ChanError string
  | SerdeJsonError string
  | RedisError string
  | DBError string
  | DockerError string
  | TonicServerError string
  | TonicClientError tonic_status
  | ReqwestError reqwest_error
  | FailedPrecondition string
  | RuntimeError string
  | CancelledError string
  | OtherError string

primrec should_delete_job_status :: "job_worker_error \<Rightarrow> bool" where
  "should_delete_job_status (InvalidParameter _) = True"
| "should_delete_job_status (ParseError _) = True"
| "should_delete_job_status (CodecError _) = True"
| "should_delete_job_status (WorkerNotFound _) = True"
| "should_delete_job_status (NotFound _) = True"
| "should_delete_job_status (AlreadyExists _) = False"
| "should_delete_job_status (LockError _) = False"
| "should_delete_job_status (TimeoutError _) = False"
| "should_delete_job_status (GenerateIdError _) = False"
| "should_delete_job_status (ChanError _) = False"
| "should_delete_job_status (SerdeJsonError _) = False"
| "should_delete_job_status (RedisError _) = False"
| "should_delete_job_status (DBError _) = False"
| "should_delete_job_status (DockerError _) = False"
| "should_delete_job_status (TonicServerError _) = False"
| "should_delete_job_status (TonicClientError _) = False"
| "should_delete_job_status (ReqwestError _) = False"
| "should_delete_job_status (FailedPrecondition _) = True"
| "should_delete_job_status (RuntimeError _) = False"
| "should_delete_job_status (CancelledError _) = False"
| "should_delete_job_status (OtherError _) = False"

end
