(* ===== verification/Retry.thy ===== *)
theory Retry
  imports Proto_Data "HOL-Library.Signed_Division"
begin

text \<open>
  Retry policies and the jobs built from a result: \<^verbatim>\<open>RetryPolicyExt\<close> and
  \<^verbatim>\<open>calculate_direct_response_timeout_ms\<close> of \<^verbatim>\<open>proto/src/lib.rs\<close>,
  \<^verbatim>\<open>JobBuilder\<close> of \<^verbatim>\<open>app/src/app.rs\<close> and the parameter resolution of
  \<^verbatim>\<open>app/src/app/job.rs\<close>.  Integer arithmetic wraps, as in a release build.
  The precision of single-precision \<^verbatim>\<open>powf\<close> is unspecified and platform dependent,
  so the float operations of the exponential policy are a record of functions that the
  definitions take as an argument.  The clock is an argument too.
\<close>

section \<open>Retry intervals\<close>

record float_ops =
  fo_of_u32 :: "u32 \<Rightarrow> f32"
  fo_powf :: "f32 \<Rightarrow> f32 \<Rightarrow> f32"
  fo_mul :: "f32 \<Rightarrow> f32 \<Rightarrow> f32"
  fo_round :: "f32 \<Rightarrow> f32"
  fo_to_u32 :: "f32 \<Rightarrow> u32"

definition calculate_next_interval :: "float_ops \<Rightarrow> retry_policy \<Rightarrow> u32 \<Rightarrow> u32 option" where
  "calculate_next_interval fo p retry_count =
     (let raw =
        (case unwrap_or (retry_type_try_from (rp_type p)) RtNone of
           RtNone \<Rightarrow> None
         | RtConstant \<Rightarrow> Some (rp_interval p)
         | RtLinear \<Rightarrow> Some (rp_interval p * (retry_count + 1))
         | RtExponential \<Rightarrow>
             Some (fo_to_u32 fo
               (fo_round fo
                 (fo_mul fo (fo_of_u32 fo (rp_interval p))
                   (fo_powf fo (rp_basis p) (fo_of_u32 fo retry_count))))))
      in case raw of
           None \<Rightarrow> None
         | Some r \<Rightarrow>
             Some (if rp_max_interval p > 0 then min r (rp_max_interval p) else r))"

definition retry_intervals :: "float_ops \<Rightarrow> retry_policy \<Rightarrow> u32 list" where
  "retry_intervals fo p =
     List.map_filter (\<lambda>i. calculate_next_interval fo p (of_nat i)) [0..<unat (rp_max_retry p)]"

definition calculate_total_timeout_ms :: "float_ops \<Rightarrow> retry_policy \<Rightarrow> u64 \<Rightarrow> u64" where
  "calculate_total_timeout_ms fo p job_timeout_ms =
     (let retry_count = ucast (rp_max_retry p) :: u64
      in if retry_count = 0 then job_timeout_ms
         else let total_execution_time = job_timeout_ms * (retry_count + 1);
                  total_interval = sum_list (map ucast (retry_intervals fo p))
              in total_execution_time + total_interval)"

definition calculate_direct_response_timeout_ms ::
  "float_ops \<Rightarrow> u64 \<Rightarrow> retry_policy option \<Rightarrow> u64 option" where
  "calculate_direct_response_timeout_ms fo job_timeout_ms retry_policy =
     (if job_timeout_ms = 0 then None
      else case retry_policy of
             Some p \<Rightarrow> Some (calculate_total_timeout_ms fo p job_timeout_ms)
           | None \<Rightarrow> Some job_timeout_ms)"

section \<open>Resolution of job parameters\<close>

record resolved_job_params =
  rj_response_type :: i32
  rj_store_success :: bool
  rj_store_failure :: bool
  rj_broadcast_results :: bool
  rj_retry_policy :: "retry_policy option"

definition resolve_job_params ::
  "worker_data \<Rightarrow> job_execution_overrides option \<Rightarrow> resolved_job_params" where
  "resolve_job_params w overrides =
     (case overrides of
        None \<Rightarrow>
          \<lparr>rj_response_type = w_response_type w, rj_store_success = w_store_success w,
           rj_store_failure = w_store_failure w, rj_broadcast_results = w_broadcast_results w,
           rj_retry_policy = w_retry_policy w\<rparr>
      | Some ov \<Rightarrow>
          \<lparr>rj_response_type = unwrap_or (ov_response_type ov) (w_response_type w),
           rj_store_success = unwrap_or (ov_store_success ov) (w_store_success w),
           rj_store_failure = unwrap_or (ov_store_failure ov) (w_store_failure w),
           rj_broadcast_results = unwrap_or (ov_broadcast_results ov) (w_broadcast_results w),
           rj_retry_policy =
             (if ov_retry_policy ov \<noteq> None then ov_retry_policy ov else w_retry_policy w)\<rparr>)"

definition validate_response_queue_type :: "i32 \<Rightarrow> i32 \<Rightarrow> job_worker_error + unit" where
  "validate_response_queue_type qt rt =
     (if rt = response_type_i32 Direct \<and> qt = queue_type_i32 QtDbOnly
      then Inl (InvalidParameter ''response_type=Direct is not supported for queue_type=DbOnly'')
      else Inr ())"

definition resolve_and_validate_job_params ::
  "worker_data \<Rightarrow> job_execution_overrides option \<Rightarrow> job_worker_error + resolved_job_params" where
  "resolve_and_validate_job_params w overrides =
     (let resolved = resolve_job_params w overrides
      in case validate_response_queue_type (w_queue_type w) (rj_response_type resolved) of
           Inl e \<Rightarrow> Inl e
         | Inr _ \<Rightarrow> Inr resolved)"

section \<open>Building the next job from a result\<close>

definition snapshot_overrides :: "job_result_data \<Rightarrow> job_execution_overrides" where
  "snapshot_overrides dat =
     \<lparr>ov_response_type = Some (jr_response_type dat),
      ov_store_success = Some (jr_store_success dat),
      ov_store_failure = Some (jr_store_failure dat),
      ov_broadcast_results = Some (jr_broadcast_results dat),
      ov_retry_policy = jr_resolved_retry_policy dat\<rparr>"

definition build_retry_job ::
  "float_ops \<Rightarrow> job_result_data \<Rightarrow> worker_data \<Rightarrow> metadata \<Rightarrow> job option" where
  "build_retry_job fo dat w md =
     (if jr_status dat \<noteq> result_status_i32 RsErrorAndRetry then None
      else case option_or (jr_resolved_retry_policy dat) (w_retry_policy w) of
             None \<Rightarrow> None
           | Some policy \<Rightarrow>
               (if rp_type policy = retry_type_i32 RtNone \<or> jr_retried dat \<ge> rp_max_retry policy
                then None
                else
                  let previous_retry_count = jr_retried dat;
                      next_interval_msec = calculate_next_interval fo policy previous_retry_count;
                      run_after_time =
                        (case next_interval_msec of
                           None \<Rightarrow> 0
                         | Some n \<Rightarrow> i64_wrap (jr_end_time dat + uint n))
                  in Some \<lparr>j_id = jr_job_id dat,
                           j_data = Some
                             \<lparr>jd_worker_id = jr_worker_id dat,
                              jd_args = jr_args dat,
                              jd_uniq_key = jr_uniq_key dat,
                              jd_enqueue_time = jr_enqueue_time dat,
                              jd_grabbed_until_time = None,
                              jd_run_after_time = run_after_time,
                              jd_retried = previous_retry_count + 1,
                              jd_priority = jr_priority dat,
                              jd_timeout = jr_timeout dat,
                              jd_streaming_type = jr_streaming_type dat,
                              jd_using = jr_using dat,
                              jd_overrides = Some (snapshot_overrides dat)\<rparr>,
                           j_metadata = md\<rparr>))"

text \<open>
  \<^verbatim>\<open>_calc_next_run_after_time\<close>.  Rust's \<^verbatim>\<open>/\<close> truncates and panics on a zero
  divisor.
\<close>

definition calc_next_run_after_time :: "i64 \<Rightarrow> i64 \<Rightarrow> i64 \<Rightarrow> i64 \<Rightarrow> panic + i64" where
  "calc_next_run_after_time now start_time old_run_after_time periodic_interval =
     (let run_after_time = (if old_run_after_time = 0 then start_time else old_run_after_time);
          next_run_after_time = i64_wrap (run_after_time + periodic_interval)
      in if now > next_run_after_time
         then if periodic_interval = 0 then Inl (Panic ''attempt to divide by zero'')
              else
                let elapsed = i64_wrap (now - next_run_after_time);
                    slots = i64_wrap (i64_wrap (elapsed sdiv periodic_interval) * periodic_interval)
                in Inr (i64_wrap (i64_wrap (slots + next_run_after_time) + periodic_interval))
         else Inr next_run_after_time)"

definition build_next_periodic_job ::
  "i64 \<Rightarrow> job_result_data \<Rightarrow> worker_data \<Rightarrow> panic + job_data option" where
  "build_next_periodic_job now dat w =
     (if w_periodic_interval w = 0 then Inr None
      else case calc_next_run_after_time now (jr_start_time dat) (jr_run_after_time dat)
                  (uint (w_periodic_interval w)) of
             Inl e \<Rightarrow> Inl e
           | Inr run_after_time \<Rightarrow>
               Inr (Some
                 \<lparr>jd_worker_id = jr_worker_id dat,
                  jd_args = jr_args dat,
                  jd_uniq_key = jr_uniq_key dat,
                  jd_enqueue_time = jr_enqueue_time dat,
                  jd_grabbed_until_time = None,
                  jd_run_after_time = run_after_time,
                  jd_retried = jr_retried dat + 1,
                  jd_priority = jr_priority dat,
                  jd_timeout = jr_timeout dat,
                  jd_streaming_type = jr_streaming_type dat,
                  jd_using = jr_using dat,
                  jd_overrides = Some (snapshot_overrides dat)\<rparr>))"

section \<open>Lemmas\<close>

lemma calculate_next_interval_None:
  "calculate_next_interval fo p n = None \<longleftrightarrow>
     unwrap_or (retry_type_try_from (rp_type p)) RtNone = RtNone"
  by (auto simp: calculate_next_interval_def Let_def split: retry_type.splits)

lemma calculate_next_interval_clamped:
  "calculate_next_interval fo p n = Some v \<Longrightarrow> rp_max_interval p > 0 \<Longrightarrow> v \<le> rp_max_interval p"
  by (auto simp: calculate_next_interval_def Let_def split: retry_type.splits)

lemma set_retry_intervals_clamped:
  "v \<in> set (retry_intervals fo p) \<Longrightarrow> rp_max_interval p > 0 \<Longrightarrow> v \<le> rp_max_interval p"
  by (auto simp: retry_intervals_def List.map_filter_def intro: calculate_next_interval_clamped)

lemma length_retry_intervals: "length (retry_intervals fo p) \<le> unat (rp_max_retry p)"
  by (simp add: retry_intervals_def List.map_filter_def)
     (metis length_filter_le length_upt minus_nat.diff_0)

lemma unat_ucast_u32 [simp]: "unat (ucast (w :: u32) :: u64) = unat w"
proof -
  have "unat w < 2 ^ 64" using unsigned_less [of w, where ?'a = nat] by simp
  then show ?thesis by (simp add: unsigned_ucast_eq take_bit_nat_eq_self)
qed

lemma unat_sum_list_u64:
  "sum_list (map unat (xs :: u64 list)) < 2 ^ 64 \<Longrightarrow>
     unat (sum_list xs) = sum_list (map unat xs)"
  by (induction xs) (simp_all add: unat_word_ariths)

lemma build_retry_job_Some:
  assumes "build_retry_job fo dat w md = Some j"
  obtains policy where
    "jr_status dat = result_status_i32 RsErrorAndRetry"
    "option_or (jr_resolved_retry_policy dat) (w_retry_policy w) = Some policy"
    "rp_type policy \<noteq> retry_type_i32 RtNone" "jr_retried dat < rp_max_retry policy"
    "j_id j = jr_job_id dat" "j_metadata j = md"
    "\<exists>d. j_data j = Some d \<and> jd_retried d = jr_retried dat + 1 \<and>
        jd_overrides d = Some (snapshot_overrides dat)"
  using assms
  by (auto simp: build_retry_job_def Let_def not_le split: if_splits option.splits)

lemma retry_succ_bound:
  fixes r m :: u32
  assumes "r < m"
  shows "unat (r + 1) = unat r + 1" and "r + 1 \<le> m"
proof -
  have lt: "unat r < unat m" using assms by (simp add: word_less_nat_alt)
  moreover have "unat m < 2 ^ 32" using unsigned_less [of m, where ?'a = nat] by simp
  ultimately show "unat (r + 1) = unat r + 1" by (simp add: unat_word_ariths)
  with lt show "r + 1 \<le> m" by (simp add: word_le_nat_alt)
qed

lemma in_i64_uint_pos: "(w :: u32) \<noteq> 0 \<Longrightarrow> 0 < uint w"
  by (simp add: uint_0_iff order_less_le)

lemma sdiv_pos: "0 \<le> (a :: int) \<Longrightarrow> 0 < b \<Longrightarrow> a sdiv b = a div b"
  by (auto simp: signed_divide_int_def sgn_if)

text \<open>The catch-up arithmetic: the last slot not after \<open>now\<close>, plus one interval.\<close>

lemma calc_next_run_after_time_late:
  fixes now base p :: int
  defines "nxt \<equiv> base + p"
  assumes p: "0 < p" and base: "0 \<le> base" and late: "nxt < now" and top: "now + p \<le> i64_max"
    and sel: "base = (if old = 0 then start else old)"
  shows "calc_next_run_after_time now start old p = Inr ((now - nxt) div p * p + nxt + p)"
proof -
  let ?q = "(now - nxt) div p * p"
  have nn: "0 \<le> nxt" using p base by (simp add: nxt_def)
  have d0: "0 \<le> (now - nxt) div p" using p late by (simp add: pos_imp_zdiv_nonneg_iff)
  have "?q = (now - nxt) - (now - nxt) mod p" by (simp add: minus_mod_eq_div_mult)
  moreover have "0 \<le> (now - nxt) mod p" using p by simp
  moreover have "0 \<le> ?q" using d0 p by (intro mult_nonneg_nonneg) auto
  ultimately have q: "0 \<le> ?q" "?q \<le> now - nxt" by linarith+
  have "(now - nxt) div p * 1 \<le> ?q" using d0 p by (intro mult_left_mono) auto
  with d0 have d: "0 \<le> (now - nxt) div p" "(now - nxt) div p \<le> ?q" by simp_all
  have rng: "in_i64 x" if "0 \<le> x" "x \<le> now + p" for x
    using that top by (intro in_i64_nonneg) simp_all
  have w: "i64_wrap nxt = nxt" "i64_wrap (now - nxt) = now - nxt"
    "i64_wrap ((now - nxt) sdiv p) = (now - nxt) div p" "i64_wrap ?q = ?q"
    "i64_wrap (?q + nxt) = ?q + nxt" "i64_wrap (?q + nxt + p) = ?q + nxt + p"
    using p nn q d late by (auto simp: sdiv_pos intro!: i64_wrap_id rng)
  show ?thesis
    unfolding calc_next_run_after_time_def Let_def sel [symmetric] nxt_def [symmetric] w
    using p late by simp
qed

lemma calc_next_run_after_time_early:
  assumes "now \<le> base + p" and "in_i64 (base + p)"
    and "base = (if old = 0 then start else old)"
  shows "calc_next_run_after_time now start old p = Inr (base + p)"
  using assms by (simp add: calc_next_run_after_time_def Let_def i64_wrap_id)

section \<open>Properties\<close>

text \<open>
  A periodic worker's next job is built without a panic, keeps the identity of the
  finished run, and is scheduled on the worker's own grid: at a whole number of intervals
  after the previous due time (the start time of a first run), at least one interval
  later, never in the past, and at most one interval after the clock once the schedule
  has fallen behind.
\<close>

theorem next_periodic_job_on_schedule:
  assumes per: "w_periodic_interval w \<noteq> 0"
    and base: "base = (if jr_run_after_time dat = 0 then jr_start_time dat else jr_run_after_time dat)"
    and rng: "0 \<le> base" "base + uint (w_periodic_interval w) \<le> i64_max"
      "now + uint (w_periodic_interval w) \<le> i64_max"
  shows "\<exists>d. build_next_periodic_job now dat w = Inr (Some d) \<and>
      jd_worker_id d = jr_worker_id dat \<and> jd_args d = jr_args dat \<and>
      jd_uniq_key d = jr_uniq_key dat \<and> jd_using d = jr_using dat \<and>
      now \<le> jd_run_after_time d \<and>
      base + uint (w_periodic_interval w) \<le> jd_run_after_time d \<and>
      jd_run_after_time d \<le> max (base + uint (w_periodic_interval w))
        (now + uint (w_periodic_interval w)) \<and>
      uint (w_periodic_interval w) dvd (jd_run_after_time d - base)"
proof -
  define p where "p = uint (w_periodic_interval w)"
  have p: "0 < p" using per by (simp add: p_def in_i64_uint_pos)
  have run: "\<exists>t. calc_next_run_after_time now (jr_start_time dat) (jr_run_after_time dat) p = Inr t \<and>
      now \<le> t \<and> base + p \<le> t \<and> t \<le> max (base + p) (now + p) \<and> p dvd (t - base)"
  proof (cases "base + p < now")
    case True
    define k where "k = (now - (base + p)) div p"
    have calc: "calc_next_run_after_time now (jr_start_time dat) (jr_run_after_time dat) p =
        Inr (k * p + (base + p) + p)"
      using calc_next_run_after_time_late [of p base now] p rng True base
      by (simp add: p_def k_def)
    have "k * p + (now - (base + p)) mod p = now - (base + p)" by (simp add: k_def)
    moreover have "0 \<le> (now - (base + p)) mod p" "(now - (base + p)) mod p < p"
      using p by simp_all
    ultimately have k: "k * p \<le> now - (base + p)" "now - (base + p) < k * p + p"
      by linarith+
    have "0 \<le> k" using True p by (simp add: k_def pos_imp_zdiv_nonneg_iff)
    then have k0: "0 \<le> k * p" using p by simp
    have dvd: "k * p + (base + p) + p - base = (k + 2) * p" by (simp add: algebra_simps)
    have "p dvd k * p + (base + p) + p - base" unfolding dvd by simp
    with calc k k0 show ?thesis by (intro exI [of _ "k * p + (base + p) + p"]) simp
  next
    case False
    have "in_i64 (base + p)"
      using p rng(1,2) by (intro in_i64_nonneg) (simp_all add: p_def)
    then have "calc_next_run_after_time now (jr_start_time dat) (jr_run_after_time dat) p =
        Inr (base + p)"
      using calc_next_run_after_time_early [of now base p] False base by simp
    with False show ?thesis by simp
  qed
  then show ?thesis
    using per by (auto simp: build_next_periodic_job_def simp flip: p_def)
qed

definition example_worker :: worker_data where
  "example_worker =
     \<lparr>w_name = ''daily'', w_description = [], w_runner_id = Some 1, w_runner_settings = [],
      w_retry_policy = Some \<lparr>rp_type = retry_type_i32 RtConstant, rp_interval = 1000,
        rp_max_interval = 0, rp_max_retry = 2, rp_basis = 0\<rparr>,
      w_periodic_interval = 1000, w_channel = None, w_queue_type = 0, w_response_type = 0,
      w_store_success = True, w_store_failure = True, w_use_static = True,
      w_broadcast_results = False\<rparr>"

definition example_result :: job_result_data where
  "example_result =
     \<lparr>jr_job_id = Some 7, jr_worker_id = Some 1, jr_worker_name = ''daily'', jr_args = ''abc'',
      jr_uniq_key = None, jr_status = result_status_i32 RsErrorAndRetry, jr_output = None,
      jr_retried = 0, jr_max_retry = 2, jr_priority = 0, jr_timeout = 500, jr_streaming_type = 0,
      jr_enqueue_time = 10, jr_run_after_time = 5000, jr_start_time = 5100, jr_end_time = 5200,
      jr_response_type = 0, jr_store_success = True, jr_store_failure = True, jr_using = None,
      jr_broadcast_results = False,
      jr_resolved_retry_policy = w_retry_policy example_worker, jr_error = None\<rparr>"

theorem next_periodic_job_on_schedule_witness:
  "\<exists>d. build_next_periodic_job 9300 example_result example_worker = Inr (Some d) \<and>
      jd_worker_id d = Some 1 \<and> 9300 \<le> jd_run_after_time d \<and>
      jd_run_after_time d \<le> 10300 \<and> 1000 dvd (jd_run_after_time d - 5000)"
proof -
  have "w_periodic_interval example_worker \<noteq> 0" "uint (w_periodic_interval example_worker) = 1000"
    by (simp_all add: example_worker_def)
  moreover have "jr_run_after_time example_result = 5000" "jr_worker_id example_result = Some 1"
    by (simp_all add: example_result_def)
  ultimately show ?thesis
    using next_periodic_job_on_schedule [of example_worker 5000 example_result 9300]
    by (auto simp: i64_max_def)
qed

text \<open>
  The wait limit handed to a client of a direct job covers every attempt: with no
  overflow it is exactly the job timeout times the number of attempts plus the intervals
  between them, at most \<open>max_retry\<close> of them and each within \<open>max_interval\<close> when
  that is set.
\<close>

theorem total_timeout_covers_all_attempts:
  assumes "unat t * (unat (rp_max_retry p) + 1) + sum_list (map unat (retry_intervals fo p)) < 2 ^ 64"
  shows "unat (calculate_total_timeout_ms fo p t) =
      unat t * (unat (rp_max_retry p) + 1) + sum_list (map unat (retry_intervals fo p)) \<and>
    length (retry_intervals fo p) \<le> unat (rp_max_retry p) \<and>
    (\<forall>v \<in> set (retry_intervals fo p). rp_max_interval p > 0 \<longrightarrow> v \<le> rp_max_interval p)"
proof (cases "rp_max_retry p = 0")
  case True
  then show ?thesis
    by (simp add: calculate_total_timeout_ms_def retry_intervals_def List.map_filter_def)
next
  case False
  have m: "unat (ucast (rp_max_retry p) + 1 :: u64) = unat (rp_max_retry p) + 1"
    using unsigned_less [of "rp_max_retry p", where ?'a = nat] by (simp add: unat_word_ariths)
  have s: "unat (sum_list (map ucast (retry_intervals fo p)) :: u64) =
      sum_list (map unat (retry_intervals fo p))"
    using unat_sum_list_u64 [of "map ucast (retry_intervals fo p)"] assms by (simp add: comp_def)
  have "(ucast (rp_max_retry p) :: u64) \<noteq> 0"
    using False by (metis unat_0 unat_eq_zero unat_ucast_u32)
  then have "unat (calculate_total_timeout_ms fo p t) =
      unat t * (unat (rp_max_retry p) + 1) + sum_list (map unat (retry_intervals fo p))"
    using assms m s
    by (simp add: calculate_total_timeout_ms_def Let_def unat_word_ariths)
  then show ?thesis
    using length_retry_intervals set_retry_intervals_clamped by blast
qed

definition exact_float_ops :: float_ops where
  "exact_float_ops =
     \<lparr>fo_of_u32 = (\<lambda>n. n), fo_powf = (\<lambda>b e. b ^ unat e), fo_mul = (*), fo_round = (\<lambda>x. x),
      fo_to_u32 = (\<lambda>x. x)\<rparr>"

theorem total_timeout_covers_all_attempts_witness:
  "unat (calculate_total_timeout_ms exact_float_ops (the (w_retry_policy example_worker)) 500) =
     3500 \<and> length (retry_intervals exact_float_ops (the (w_retry_policy example_worker))) \<le> 2"
proof -
  have i: "retry_intervals exact_float_ops (the (w_retry_policy example_worker)) = [1000, 1000]"
    by (simp add: retry_intervals_def calculate_next_interval_def example_worker_def
        List.map_filter_def retry_type_try_from_def upt_rec)
  have "rp_max_retry (the (w_retry_policy example_worker)) = 2"
    by (simp add: example_worker_def)
  then show ?thesis
    using total_timeout_covers_all_attempts [of 500 "the (w_retry_policy example_worker)"
        exact_float_ops] i by simp
qed

end
