(* ===== verification/Json.thy ===== *)
theory Json
  imports Complex_Main Prelude
begin

text \<open>
  \<^verbatim>\<open>serde_json::Value\<close> with insertion-ordered objects (the workspace enables
  \<^verbatim>\<open>preserve_order\<close>), and the accessors the modelled code uses.  Reading and writing
  JSON text is third-party code: definitions that need it take the two functions as
  arguments.
\<close>

datatype json =
    JNull
  | JBool bool
  | JInt int
  | JFloat rat
  | JStr string
  | JArr "json list"
  | JObj "(string \<times> json) list"

type_synonym json_writer = "json \<Rightarrow> string"
type_synonym json_reader = "string \<Rightarrow> json option"

definition as_object :: "json \<Rightarrow> (string \<times> json) list option" where
  "as_object v = (case v of JObj fs \<Rightarrow> Some fs | _ \<Rightarrow> None)"

definition as_str :: "json \<Rightarrow> string option" where
  "as_str v = (case v of JStr s \<Rightarrow> Some s | _ \<Rightarrow> None)"

definition as_u64 :: "json \<Rightarrow> nat option" where
  "as_u64 v = (case v of JInt i \<Rightarrow> if 0 \<le> i \<and> i < 2 ^ 64 then Some (nat i) else None | _ \<Rightarrow> None)"

lemma json_accessors [simp]:
  "as_object (JObj fs) = Some fs" "as_str (JStr s) = Some s"
  "as_u64 (JInt 1) = Some 1"
  by (simp_all add: as_object_def as_str_def as_u64_def)

end
