(* ===== verification/Stream_Error.thy ===== *)
theory Stream_Error
  imports Proto_Data Json
begin

text \<open>
  \<^verbatim>\<open>proto/src/stream_error.rs\<close>: the contract by which the End of a result stream
  reports a failure.  A failed End carries the typed \<^verbatim>\<open>Trailer.error\<close> and, for older
  readers, the same failure as a JSON value of bounded size under a reserved metadata
  key.  The JSON writer and reader are arguments; what the code relies on is
  \<open>serde_v1_laws\<close>.
\<close>

section \<open>Constants and names\<close>

definition STREAM_ERROR_METADATA_KEY :: string where
  "STREAM_ERROR_METADATA_KEY = ''stream_error''"
definition LEGACY_PLUGIN_STREAM_ERROR_KEY :: string where
  "LEGACY_PLUGIN_STREAM_ERROR_KEY = ''jobworkerp.plugin.run_stream_error''"
definition MAX_STREAM_ERROR_BYTES :: nat where "MAX_STREAM_ERROR_BYTES = 4096"
definition MAX_STREAM_ERROR_ORIGIN_BYTES :: nat where "MAX_STREAM_ERROR_ORIGIN_BYTES = 256"
definition WORKER_ORIGIN :: string where "WORKER_ORIGIN = ''WORKER''"
definition UNKNOWN_ORIGIN :: string where "UNKNOWN_ORIGIN = ''UNKNOWN''"
definition LEGACY_PLUGIN_ORIGIN :: string where "LEGACY_PLUGIN_ORIGIN = ''PLUGIN''"
definition CODE_NAME_PREFIX :: string where "CODE_NAME_PREFIX = ''STREAM_ERROR_CODE_''"

definition RESERVED_KEYS :: "string list" where
  "RESERVED_KEYS = [STREAM_ERROR_METADATA_KEY, LEGACY_PLUGIN_STREAM_ERROR_KEY]"

datatype stream_error_outcome = OutcomeSuccess | OutcomeFailed stream_error

text \<open>The names the protobuf compiler generates for the enumeration.\<close>

primrec as_str_name :: "stream_error_code \<Rightarrow> string" where
  "as_str_name SecUnspecified = ''STREAM_ERROR_CODE_UNSPECIFIED''"
| "as_str_name SecExecutionFailed = ''STREAM_ERROR_CODE_EXECUTION_FAILED''"
| "as_str_name SecTimeout = ''STREAM_ERROR_CODE_TIMEOUT''"
| "as_str_name SecCancelled = ''STREAM_ERROR_CODE_CANCELLED''"
| "as_str_name SecTransportFailed = ''STREAM_ERROR_CODE_TRANSPORT_FAILED''"
| "as_str_name SecInvalidArgument = ''STREAM_ERROR_CODE_INVALID_ARGUMENT''"
| "as_str_name SecProviderStreamFailed = ''STREAM_ERROR_CODE_PROVIDER_STREAM_FAILED''"

definition all_stream_error_codes :: "stream_error_code list" where
  "all_stream_error_codes =
     [SecUnspecified, SecExecutionFailed, SecTimeout, SecCancelled, SecTransportFailed,
      SecInvalidArgument, SecProviderStreamFailed]"

definition from_str_name :: "string \<Rightarrow> stream_error_code option" where
  "from_str_name s = find (\<lambda>c. as_str_name c = s) all_stream_error_codes"

definition strip_prefix :: "string \<Rightarrow> string \<Rightarrow> string option" where
  "strip_prefix p s = (if prefix p s then Some (drop (length p) s) else None)"

definition code_to_json_str :: "i32 \<Rightarrow> string" where
  "code_to_json_str code =
     unwrap_or
       (strip_prefix CODE_NAME_PREFIX
          (as_str_name (unwrap_or (stream_error_code_try_from code) SecUnspecified)))
       ''UNSPECIFIED''"

definition code_from_json_str :: "string \<Rightarrow> stream_error_code" where
  "code_from_json_str name = unwrap_or (from_str_name (CODE_NAME_PREFIX @ name)) SecUnspecified"

definition result_status_for :: "i32 \<Rightarrow> result_status" where
  "result_status_for code =
     (case stream_error_code_try_from code of
        Some SecCancelled \<Rightarrow> RsCancelled
      | Some SecInvalidArgument \<Rightarrow> RsOtherError
      | _ \<Rightarrow> RsMaxRetry)"

section \<open>Rendering\<close>

definition describe :: "stream_error \<Rightarrow> string" where
  "describe e = se_origin e @ '' '' @ code_to_json_str (se_code e) @ '': '' @ se_message e"

fun join :: "string \<Rightarrow> string list \<Rightarrow> string" where
  "join sep [] = []"
| "join sep [x] = x"
| "join sep (x # y # xs) = x @ sep @ join sep (y # xs)"

definition failure_diagnostic :: "stream_error \<Rightarrow> string" where
  "failure_diagnostic e =
     (case se_problem e of
        None \<Rightarrow> describe e
      | Some problem \<Rightarrow>
          let status = (if pd_status problem \<noteq> 0 then Some (show_int (pd_status problem)) else None);
              fields = List.map_filter
                (\<lambda>(name, value).
                   case value of
                     None \<Rightarrow> None
                   | Some v \<Rightarrow> if v = [] then None else Some (name @ '': '' @ v))
                [(''type'', Some (pd_type problem)), (''status'', status),
                 (''title'', pd_title problem), (''detail'', pd_detail problem),
                 (''instance'', pd_instance problem)]
          in if fields = [] then describe e
             else describe e @ '' ['' @ join '', '' fields @ '']'')"

definition stream_failure_output :: "stream_error \<Rightarrow> string" where
  "stream_failure_output e = ''stream error: '' @ failure_diagnostic e"

section \<open>Encoding within the size bound\<close>

definition v1_value :: "string \<Rightarrow> string \<Rightarrow> string \<Rightarrow> json" where
  "v1_value code msg org =
     JObj [(''version'', JInt 1), (''code'', JStr code), (''message'', JStr msg),
           (''origin'', JStr org)]"

definition encode_v1 :: "json_writer \<Rightarrow> string \<Rightarrow> string \<Rightarrow> string \<Rightarrow> string" where
  "encode_v1 to_string code msg org = to_string (v1_value code msg org)"

definition encode_bounded_v1 ::
  "json_writer \<Rightarrow> string \<Rightarrow> string \<Rightarrow> string \<Rightarrow> panic + string \<times> string" where
  "encode_bounded_v1 to_string code msg org =
     (let encoded = encode_v1 to_string code msg org
      in if length encoded \<le> MAX_STREAM_ERROR_BYTES then Inr (encoded, msg)
         else
           let boundaries =
                 filter (is_char_boundary msg) [0..<Suc (min (length msg) MAX_STREAM_ERROR_BYTES)];
               fitting = partition_point
                 (\<lambda>end. length (encode_v1 to_string code (take end msg) org)
                           \<le> MAX_STREAM_ERROR_BYTES) boundaries
           in if fitting = 0 then Inl (Panic ''index out of bounds'')
              else let msg' = take (boundaries ! (fitting - 1)) msg
                   in Inr (encode_v1 to_string code msg' org, msg'))"

definition normalize_origin :: "string \<Rightarrow> string" where
  "normalize_origin org =
     (if org = [] then UNKNOWN_ORIGIN else truncate_floor MAX_STREAM_ERROR_ORIGIN_BYTES org)"

definition bound_detail :: "problem_details \<Rightarrow> problem_details" where
  "bound_detail p = p\<lparr>pd_detail := map_option (truncate_floor MAX_STREAM_ERROR_BYTES) (pd_detail p)\<rparr>"

definition normalize :: "json_writer \<Rightarrow> stream_error \<Rightarrow> panic + stream_error \<times> string" where
  "normalize to_string e =
     (let org = normalize_origin (se_origin e);
          msg = truncate_floor MAX_STREAM_ERROR_BYTES (se_message e)
      in bindE (encode_bounded_v1 to_string (code_to_json_str (se_code e)) msg org)
           (\<lambda>(json, msg').
              Inr (e\<lparr>se_origin := org, se_message := msg',
                     se_problem := map_option bound_detail (se_problem e)\<rparr>, json)))"

section \<open>Building Ends\<close>

definition unbounded_error :: "stream_error_code \<Rightarrow> string \<Rightarrow> string \<Rightarrow> stream_error" where
  "unbounded_error code msg org =
     \<lparr>se_code = stream_error_code_i32 code, se_message = msg, se_origin = org, se_problem = None\<rparr>"

definition classified_error ::
  "json_writer \<Rightarrow> stream_error_code \<Rightarrow> string \<Rightarrow> string \<Rightarrow> panic + stream_error" where
  "classified_error to_string code msg org =
     bindE (normalize to_string (unbounded_error code msg org)) (\<lambda>r. Inr (fst r))"

definition cancelled_by_worker :: "json_writer \<Rightarrow> string \<Rightarrow> panic + stream_error" where
  "cancelled_by_worker to_string msg = classified_error to_string SecCancelled msg WORKER_ORIGIN"

definition strip_reserved_keys :: "metadata \<Rightarrow> metadata" where
  "strip_reserved_keys md = fold (\<lambda>key m. m(key := None)) RESERVED_KEYS md"

definition error_trailer_from :: "json_writer \<Rightarrow> metadata \<Rightarrow> stream_error \<Rightarrow> panic + trailer" where
  "error_trailer_from to_string md e =
     bindE (normalize to_string e)
       (\<lambda>(e', json).
          Inr \<lparr>tr_metadata = (strip_reserved_keys md)(STREAM_ERROR_METADATA_KEY \<mapsto> json),
               tr_error = Some e'\<rparr>)"

definition error_trailer ::
  "json_writer \<Rightarrow> metadata \<Rightarrow> stream_error_code \<Rightarrow> string \<Rightarrow> string \<Rightarrow> panic + trailer" where
  "error_trailer to_string md code msg org =
     error_trailer_from to_string md (unbounded_error code msg org)"

definition error_trailer_with_legacy_key ::
  "json_writer \<Rightarrow> metadata \<Rightarrow> stream_error_code \<Rightarrow> string \<Rightarrow> string \<Rightarrow> panic + trailer" where
  "error_trailer_with_legacy_key to_string md code msg org =
     bindE (error_trailer to_string md code msg org)
       (\<lambda>t. case tr_error t of
              None \<Rightarrow> Inl (Panic ''error_trailer always sets the error'')
            | Some e \<Rightarrow>
                Inr (t\<lparr>tr_metadata :=
                  (tr_metadata t)(LEGACY_PLUGIN_STREAM_ERROR_KEY \<mapsto> se_message e)\<rparr>))"

definition normal_trailer :: "metadata \<Rightarrow> trailer" where
  "normal_trailer md = \<lparr>tr_metadata = strip_reserved_keys md, tr_error = None\<rparr>"

definition end_item :: "trailer \<Rightarrow> result_output_item" where
  "end_item t = ItemEnd t"

definition normal_end_item :: "metadata \<Rightarrow> result_output_item" where
  "normal_end_item md = end_item (normal_trailer md)"

definition error_end_item ::
  "json_writer \<Rightarrow> metadata \<Rightarrow> stream_error_code \<Rightarrow> string \<Rightarrow> string \<Rightarrow> panic + result_output_item" where
  "error_end_item to_string md code msg org =
     bindE (error_trailer to_string md code msg org) (\<lambda>t. Inr (end_item t))"

definition error_end_item_from ::
  "json_writer \<Rightarrow> metadata \<Rightarrow> stream_error \<Rightarrow> panic + result_output_item" where
  "error_end_item_from to_string md e =
     bindE (error_trailer_from to_string md e) (\<lambda>t. Inr (end_item t))"

definition error_end_item_with_legacy_key ::
  "json_writer \<Rightarrow> metadata \<Rightarrow> stream_error_code \<Rightarrow> string \<Rightarrow> string \<Rightarrow> panic + result_output_item" where
  "error_end_item_with_legacy_key to_string md code msg org =
     bindE (error_trailer_with_legacy_key to_string md code msg org) (\<lambda>t. Inr (end_item t))"

section \<open>Reading Ends\<close>

datatype parse_error =
    Oversize | InvalidJson | NotObject | Unversioned | UnsupportedVersion
  | MissingCode | InvalidCode | EmptyCode
  | MissingMessage | InvalidMessage | MissingOrigin | InvalidOrigin | EmptyOrigin

text \<open>The derived \<^verbatim>\<open>Debug\<close> names.\<close>

primrec parse_error_debug :: "parse_error \<Rightarrow> string" where
  "parse_error_debug Oversize = ''Oversize''"
| "parse_error_debug InvalidJson = ''InvalidJson''"
| "parse_error_debug NotObject = ''NotObject''"
| "parse_error_debug Unversioned = ''Unversioned''"
| "parse_error_debug UnsupportedVersion = ''UnsupportedVersion''"
| "parse_error_debug MissingCode = ''MissingCode''"
| "parse_error_debug InvalidCode = ''InvalidCode''"
| "parse_error_debug EmptyCode = ''EmptyCode''"
| "parse_error_debug MissingMessage = ''MissingMessage''"
| "parse_error_debug InvalidMessage = ''InvalidMessage''"
| "parse_error_debug MissingOrigin = ''MissingOrigin''"
| "parse_error_debug InvalidOrigin = ''InvalidOrigin''"
| "parse_error_debug EmptyOrigin = ''EmptyOrigin''"

definition required_str ::
  "json option \<Rightarrow> parse_error \<Rightarrow> parse_error \<Rightarrow> parse_error + string" where
  "required_str v missing invalid =
     bindE (ok_or v missing) (\<lambda>j. ok_or (as_str j) invalid)"

definition parse_v1 :: "json_reader \<Rightarrow> string \<Rightarrow> parse_error + stream_error" where
  "parse_v1 from_str encoded =
     (if length encoded > MAX_STREAM_ERROR_BYTES then Inl Oversize
      else
        bindE (ok_or (from_str encoded) InvalidJson) (\<lambda>v.
        bindE (ok_or (as_object v) NotObject) (\<lambda>fields.
        bindE (case map_of fields ''version'' of
                 None \<Rightarrow> Inl Unversioned
               | Some version \<Rightarrow>
                   if as_u64 version = Some 1 then Inr () else Inl UnsupportedVersion) (\<lambda>_.
        bindE (required_str (map_of fields ''code'') MissingCode InvalidCode) (\<lambda>code.
        if code = [] then Inl EmptyCode
        else
        bindE (required_str (map_of fields ''message'') MissingMessage InvalidMessage) (\<lambda>msg.
        bindE (required_str (map_of fields ''origin'') MissingOrigin InvalidOrigin) (\<lambda>org.
        if org = [] then Inl EmptyOrigin
        else Inr \<lparr>se_code = stream_error_code_i32 (code_from_json_str code), se_message = msg,
                  se_origin = org, se_problem = None\<rparr>)))))))"

definition inspect_end :: "json_reader \<Rightarrow> trailer \<Rightarrow> stream_error_outcome" where
  "inspect_end from_str t =
     (case tr_error t of
        Some e \<Rightarrow> OutcomeFailed e
      | None \<Rightarrow>
          (case tr_metadata t STREAM_ERROR_METADATA_KEY of
             Some encoded \<Rightarrow>
               OutcomeFailed
                 (case parse_v1 from_str encoded of
                    Inr e \<Rightarrow> e
                  | Inl reason \<Rightarrow>
                      \<lparr>se_code = stream_error_code_i32 SecUnspecified,
                       se_message = ''malformed '' @ STREAM_ERROR_METADATA_KEY @ '' metadata: ''
                         @ parse_error_debug reason,
                       se_origin = UNKNOWN_ORIGIN, se_problem = None\<rparr>)
           | None \<Rightarrow>
               (case tr_metadata t LEGACY_PLUGIN_STREAM_ERROR_KEY of
                  Some msg \<Rightarrow>
                    OutcomeFailed
                      \<lparr>se_code = stream_error_code_i32 SecExecutionFailed, se_message = msg,
                       se_origin = LEGACY_PLUGIN_ORIGIN, se_problem = None\<rparr>
                | None \<Rightarrow> OutcomeSuccess)))"

definition end_failure :: "json_reader \<Rightarrow> trailer \<Rightarrow> stream_error option" where
  "end_failure from_str t =
     (case inspect_end from_str t of OutcomeSuccess \<Rightarrow> None | OutcomeFailed e \<Rightarrow> Some e)"

definition ensure_end_success :: "json_reader \<Rightarrow> trailer \<Rightarrow> stream_error + unit" where
  "ensure_end_success from_str t =
     (case inspect_end from_str t of OutcomeSuccess \<Rightarrow> Inr () | OutcomeFailed e \<Rightarrow> Inl e)"

definition success_metadata :: "json_reader \<Rightarrow> trailer \<Rightarrow> stream_error + metadata" where
  "success_metadata from_str t =
     bindE (ensure_end_success from_str t) (\<lambda>_. Inr (tr_metadata t))"

section \<open>Lemmas\<close>

text \<open>
  What the code relies on of the JSON library, for the one shape of value it writes and
  for strings that are valid UTF-8: reading back what was written returns it, a longer
  message is never written shorter, and escaping costs at most six bytes per byte.
\<close>

definition serde_v1_laws :: "json_writer \<Rightarrow> json_reader \<Rightarrow> bool" where
  "serde_v1_laws to_string from_str \<longleftrightarrow>
     (\<forall>c m r. valid_utf8 c \<longrightarrow> valid_utf8 m \<longrightarrow> valid_utf8 r \<longrightarrow>
        from_str (to_string (v1_value c m r)) = Some (v1_value c m r)) \<and>
     (\<forall>c m n r. valid_utf8 c \<longrightarrow> valid_utf8 m \<longrightarrow> valid_utf8 n \<longrightarrow> valid_utf8 r \<longrightarrow> prefix m n \<longrightarrow>
        length (to_string (v1_value c m r)) \<le> length (to_string (v1_value c n r))) \<and>
     (\<forall>c m r. valid_utf8 c \<longrightarrow> valid_utf8 m \<longrightarrow> valid_utf8 r \<longrightarrow>
        length (to_string (v1_value c m r)) \<le> 64 + 6 * (length c + length m + length r))"

lemma serde_v1_lawsD:
  assumes "serde_v1_laws to_string from_str" and "valid_utf8 c" "valid_utf8 r"
  shows "valid_utf8 m \<Longrightarrow> from_str (to_string (v1_value c m r)) = Some (v1_value c m r)"
    and "valid_utf8 m \<Longrightarrow> valid_utf8 n \<Longrightarrow> prefix m n \<Longrightarrow>
      length (to_string (v1_value c m r)) \<le> length (to_string (v1_value c n r))"
    and "valid_utf8 m \<Longrightarrow>
      length (to_string (v1_value c m r)) \<le> 64 + 6 * (length c + length m + length r)"
  using assms unfolding serde_v1_laws_def by blast+

lemmas stream_consts =
  STREAM_ERROR_METADATA_KEY_def LEGACY_PLUGIN_STREAM_ERROR_KEY_def MAX_STREAM_ERROR_BYTES_def
  MAX_STREAM_ERROR_ORIGIN_BYTES_def WORKER_ORIGIN_def UNKNOWN_ORIGIN_def LEGACY_PLUGIN_ORIGIN_def

lemma keys_distinct [simp]:
  "STREAM_ERROR_METADATA_KEY \<noteq> LEGACY_PLUGIN_STREAM_ERROR_KEY"
  "LEGACY_PLUGIN_STREAM_ERROR_KEY \<noteq> STREAM_ERROR_METADATA_KEY"
  by (simp_all add: stream_consts)

lemma strip_reserved_keys_apply [stream_simps]:
  "strip_reserved_keys md k =
     (if k = STREAM_ERROR_METADATA_KEY \<or> k = LEGACY_PLUGIN_STREAM_ERROR_KEY then None else md k)"
  by (simp add: strip_reserved_keys_def RESERVED_KEYS_def)

lemma code_to_json_str_cases [stream_simps]:
  "code_to_json_str (stream_error_code_i32 c) = drop 18 (as_str_name c)"
  by (cases c) (simp_all add: code_to_json_str_def strip_prefix_def CODE_NAME_PREFIX_def
      stream_error_code_try_from_def)

lemma code_to_json_str_known:
  "\<exists>c. code_to_json_str code = drop 18 (as_str_name c) \<and>
     c = unwrap_or (stream_error_code_try_from code) SecUnspecified"
proof -
  let ?c = "unwrap_or (stream_error_code_try_from code) SecUnspecified"
  have "code_to_json_str code = code_to_json_str (stream_error_code_i32 ?c)"
    by (simp add: code_to_json_str_def)
  then show ?thesis using code_to_json_str_cases by auto
qed

lemma code_to_json_str_shape:
  "code_to_json_str code \<noteq> [] \<and> length (code_to_json_str code) \<le> 22 \<and>
     valid_utf8 (code_to_json_str code)"
proof -
  obtain c where "code_to_json_str code = drop 18 (as_str_name c)"
    using code_to_json_str_known by blast
  then show ?thesis by (cases c) (simp_all add: utf8_width_def)
qed

lemma code_from_to_json_str [simp]:
  "code_from_json_str (code_to_json_str code) =
     unwrap_or (stream_error_code_try_from code) SecUnspecified"
proof -
  obtain c where c: "code_to_json_str code = drop 18 (as_str_name c)"
      "c = unwrap_or (stream_error_code_try_from code) SecUnspecified"
    using code_to_json_str_known by blast
  have "code_from_json_str (drop 18 (as_str_name c)) = c"
    by (cases c) (simp_all add: code_from_json_str_def from_str_name_def
        all_stream_error_codes_def CODE_NAME_PREFIX_def)
  with c show ?thesis by simp
qed

lemma normalize_origin_shape:
  assumes "valid_utf8 org"
  shows "normalize_origin org \<noteq> []" and "length (normalize_origin org) \<le> 256"
    and "valid_utf8 (normalize_origin org)"
proof -
  show "length (normalize_origin org) \<le> 256" "valid_utf8 (normalize_origin org)"
    using assms length_truncate_floor [of 256 org]
    by (simp_all add: normalize_origin_def stream_consts utf8_width_def)
  show "normalize_origin org \<noteq> []"
    using assms truncate_floor_nonempty [of org 256]
    by (simp add: normalize_origin_def stream_consts)
qed

lemma encode_bounded_v1_spec:
  assumes laws: "serde_v1_laws to_string from_str"
    and c: "valid_utf8 c" "length c \<le> 22" and org: "valid_utf8 org" "length org \<le> 256"
    and msg: "valid_utf8 msg"
  obtains m where
    "encode_bounded_v1 to_string c msg org = Inr (encode_v1 to_string c m org, m)"
    "length (encode_v1 to_string c m org) \<le> MAX_STREAM_ERROR_BYTES"
    "prefix m msg" "valid_utf8 m"
    "\<And>i. is_char_boundary msg i \<Longrightarrow> i \<le> length msg \<Longrightarrow> i \<le> MAX_STREAM_ERROR_BYTES \<Longrightarrow>
       length (encode_v1 to_string c (take i msg) org) \<le> MAX_STREAM_ERROR_BYTES \<Longrightarrow> i \<le> length m"
proof (cases "length (encode_v1 to_string c msg org) \<le> MAX_STREAM_ERROR_BYTES")
  case True
  then show ?thesis
    by (intro that [of msg]) (use msg in \<open>auto simp: encode_bounded_v1_def\<close>)
next
  case False
  define P where "P = (\<lambda>i. length (encode_v1 to_string c (take i msg) org) \<le> MAX_STREAM_ERROR_BYTES)"
  define bs where "bs = filter (is_char_boundary msg)
      [0..<Suc (min (length msg) MAX_STREAM_ERROR_BYTES)]"
  have set_bs: "i \<in> set bs \<longleftrightarrow>
      is_char_boundary msg i \<and> i \<le> length msg \<and> i \<le> MAX_STREAM_ERROR_BYTES" for i
    by (auto simp: bs_def simp del: upt_Suc)
  have sorted: "sorted bs" unfolding bs_def by (rule sorted_wrt_filter) (rule sorted_upt)
  have valid: "valid_utf8 (take i msg)" if "i \<in> set bs" for i
    using that msg set_bs valid_utf8_take by blast
  have mono: "P i" if "i \<in> set bs" "j \<in> set bs" "i \<le> j" "P j" for i j
  proof -
    have "prefix (take i msg) (take j msg)" using that(3) by (metis take_is_prefix take_take min.absorb1)
    then show ?thesis
      using serde_v1_lawsD(2) [OF laws c(1) org(1) valid [OF that(1)] valid [OF that(2)]] that(4)
      by (simp add: P_def encode_v1_def)
  qed
  have part: "partitioned P bs" by (rule partitioned_sorted [OF sorted mono])
  have hd: "bs \<noteq> []" "bs ! 0 = 0"
    by (simp_all add: bs_def upt_conv_Cons is_char_boundary_def del: upt_Suc)
  have "length (to_string (v1_value c [] org)) \<le> 64 + 6 * (length c + 0 + length org)"
    using serde_v1_lawsD(3) [OF laws c(1) org(1), of "[]"] by simp
  then have "P (bs ! 0)"
    using c(2) org(2) hd by (simp add: P_def encode_v1_def stream_consts)
  note pp = partition_point_greatest [OF sorted part hd(1) this]
  define k where "k = bs ! (partition_point P bs - 1)"
  have k: "k \<in> set bs" "P k" using pp(2,3) by (simp_all add: k_def)
  have "encode_bounded_v1 to_string c msg org =
      Inr (encode_v1 to_string c (take k msg) org, take k msg)"
    using False pp(1)
    unfolding encode_bounded_v1_def Let_def bs_def [symmetric] P_def [symmetric] k_def
    by simp
  moreover have "i \<le> length (take k msg)"
    if "is_char_boundary msg i" "i \<le> length msg" "i \<le> MAX_STREAM_ERROR_BYTES" "P i" for i
    using that k(1) pp(4) set_bs by (simp add: k_def)
  ultimately show ?thesis
    using k valid [OF k(1)] by (intro that [of "take k msg"]) (auto simp: P_def take_is_prefix)
qed

lemma parse_v1_encode_v1:
  assumes "serde_v1_laws to_string from_str" and "valid_utf8 m" "valid_utf8 org" "org \<noteq> []"
    and "length (encode_v1 to_string (code_to_json_str code) m org) \<le> MAX_STREAM_ERROR_BYTES"
  shows "parse_v1 from_str (encode_v1 to_string (code_to_json_str code) m org) =
     Inr \<lparr>se_code = stream_error_code_i32
            (unwrap_or (stream_error_code_try_from code) SecUnspecified),
          se_message = m, se_origin = org, se_problem = None\<rparr>"
proof -
  have c: "code_to_json_str code \<noteq> []" "valid_utf8 (code_to_json_str code)"
    using code_to_json_str_shape [of code] by auto
  have "from_str (encode_v1 to_string (code_to_json_str code) m org) =
      Some (v1_value (code_to_json_str code) m org)"
    using serde_v1_lawsD(1) [OF assms(1) c(2) assms(3,2)] by (simp add: encode_v1_def)
  then show ?thesis
    using assms(4,5) c(1) by (simp add: parse_v1_def v1_value_def required_str_def)
qed

lemma normalize_spec:
  assumes laws: "serde_v1_laws to_string from_str"
    and valid: "valid_utf8 (se_message e)" "valid_utf8 (se_origin e)"
  obtains m where
    "normalize to_string e =
       Inr (e\<lparr>se_origin := normalize_origin (se_origin e), se_message := m,
              se_problem := map_option bound_detail (se_problem e)\<rparr>,
            encode_v1 to_string (code_to_json_str (se_code e)) m (normalize_origin (se_origin e)))"
    "prefix m (se_message e)" "valid_utf8 m" "length m \<le> MAX_STREAM_ERROR_BYTES"
    "length (encode_v1 to_string (code_to_json_str (se_code e)) m (normalize_origin (se_origin e)))
       \<le> MAX_STREAM_ERROR_BYTES"
proof -
  let ?c = "code_to_json_str (se_code e)" and ?o = "normalize_origin (se_origin e)"
    and ?t = "truncate_floor MAX_STREAM_ERROR_BYTES (se_message e)"
  have c: "valid_utf8 ?c" "length ?c \<le> 22" using code_to_json_str_shape by auto
  obtain m where m: "encode_bounded_v1 to_string ?c ?t ?o = Inr (encode_v1 to_string ?c m ?o, m)"
      "length (encode_v1 to_string ?c m ?o) \<le> MAX_STREAM_ERROR_BYTES" "prefix m ?t" "valid_utf8 m"
    by (rule encode_bounded_v1_spec [OF laws c normalize_origin_shape(3,2) [OF valid(2)]
        valid_utf8_truncate_floor [OF valid(1), of MAX_STREAM_ERROR_BYTES]])
  have "length m \<le> MAX_STREAM_ERROR_BYTES"
    using m(3) length_truncate_floor [of MAX_STREAM_ERROR_BYTES "se_message e"]
    by (metis prefix_length_le le_trans)
  moreover have "prefix m (se_message e)"
    using m(3) truncate_floor_prefix prefix_order.order_trans by blast
  ultimately show ?thesis
    using m by (intro that [of m]) (simp_all add: normalize_def Let_def)
qed

section \<open>A reference codec\<close>

text \<open>
  A writer and a reader for the one object shape above, with JSON's escaping of quotes
  and backslashes; they satisfy \<open>serde_v1_laws\<close>.
\<close>

fun esc :: "string \<Rightarrow> string" where
  "esc [] = []"
| "esc (c # cs) = (if c = CHR 0x22 \<or> c = CHR 0x5C then CHR 0x5C # c # esc cs else c # esc cs)"

fun read_str :: "string \<Rightarrow> (string \<times> string) option" where
  "read_str [] = None"
| "read_str (c # cs) =
     (if c = CHR 0x22 then Some ([], cs)
      else if c = CHR 0x5C then
        (case cs of [] \<Rightarrow> None | d # ds \<Rightarrow> map_option (apfst (Cons d)) (read_str ds))
      else map_option (apfst (Cons c)) (read_str cs))"

definition v1_head :: string where \<open>v1_head = ''{"version":1,"code":"''\<close>
definition v1_mid1 :: string where \<open>v1_mid1 = '',"message":"''\<close>
definition v1_mid2 :: string where \<open>v1_mid2 = '',"origin":"''\<close>

definition ref_writer :: json_writer where
  "ref_writer v =
     (case v of
        JObj [(_, _), (_, JStr c), (_, JStr m), (_, JStr r)] \<Rightarrow>
          v1_head @ esc c @ CHR 0x22 # v1_mid1 @ esc m @ CHR 0x22 # v1_mid2 @ esc r @
          [CHR 0x22, CHR ''}'']
      | _ \<Rightarrow> [])"

definition ref_reader :: json_reader where
  "ref_reader t =
     (case strip_prefix v1_head t of None \<Rightarrow> None | Some t1 \<Rightarrow>
      case read_str t1 of None \<Rightarrow> None | Some (c, t2) \<Rightarrow>
      case strip_prefix v1_mid1 t2 of None \<Rightarrow> None | Some t3 \<Rightarrow>
      case read_str t3 of None \<Rightarrow> None | Some (m, t4) \<Rightarrow>
      case strip_prefix v1_mid2 t4 of None \<Rightarrow> None | Some t5 \<Rightarrow>
      case read_str t5 of None \<Rightarrow> None | Some (r, t6) \<Rightarrow>
      if t6 = ''}'' then Some (v1_value c m r) else None)"

lemma read_str_esc [simp]: "read_str (esc s @ CHR 0x22 # rest) = Some (s, rest)"
  by (induction s) auto

lemma strip_prefix_append [simp]: "strip_prefix p (p @ s) = Some s"
  by (simp add: strip_prefix_def)

lemma length_esc_mono: "prefix m n \<Longrightarrow> length (esc m) \<le> length (esc n)"
proof -
  have esc_append: "esc (xs @ ys) = esc xs @ esc ys" for xs ys by (induction xs) auto
  assume "prefix m n"
  then show ?thesis by (auto simp: prefix_def esc_append)
qed

lemma length_esc_le: "length (esc s) \<le> 2 * length s"
  by (induction s) auto

lemma ref_codec_laws: "serde_v1_laws ref_writer ref_reader"
proof -
  have "length (ref_writer (v1_value c m r)) = 48 + length (esc c) + length (esc m) + length (esc r)"
    for c m r
    by (simp add: ref_writer_def v1_value_def v1_head_def v1_mid1_def v1_mid2_def)
  moreover have "48 + length (esc c) + length (esc m) + length (esc r)
      \<le> 64 + 6 * (length c + length m + length r)" for c m r
    using length_esc_le [of c] length_esc_le [of m] length_esc_le [of r] by simp
  moreover have "ref_reader (ref_writer (v1_value c m r)) = Some (v1_value c m r)" for c m r
    by (simp add: ref_reader_def ref_writer_def v1_value_def)
  ultimately show ?thesis
    unfolding serde_v1_laws_def using length_esc_mono by auto
qed

section \<open>Properties\<close>

lemma result_status_for_failed [simp]:
  "result_status_for c \<noteq> RsSuccess" "result_status_for c \<noteq> RsErrorAndRetry"
  by (simp_all add: result_status_for_def split: option.splits stream_error_code.splits)

lemma error_trailer_built:
  assumes laws: "serde_v1_laws to_string from_str"
    and valid: "valid_utf8 msg" "valid_utf8 org"
  obtains e json where
    "error_trailer to_string md code msg org =
       Inr \<lparr>tr_metadata = (strip_reserved_keys md)(STREAM_ERROR_METADATA_KEY \<mapsto> json),
            tr_error = Some e\<rparr>"
    "classified_error to_string code msg org = Inr e"
    "parse_v1 from_str json = Inr e" "se_code e = stream_error_code_i32 code"
    "prefix (se_message e) msg" "length (se_message e) \<le> MAX_STREAM_ERROR_BYTES"
    "se_origin e \<noteq> []" "length (se_origin e) \<le> MAX_STREAM_ERROR_ORIGIN_BYTES"
    "se_origin e = normalize_origin org"
proof -
  let ?e = "unbounded_error code msg org" and ?o = "normalize_origin org"
  let ?c = "code_to_json_str (stream_error_code_i32 code)"
  obtain m where m: "normalize to_string ?e = Inr (?e\<lparr>se_origin := ?o, se_message := m\<rparr>,
        encode_v1 to_string ?c m ?o)"
      "prefix m msg" "valid_utf8 m" "length m \<le> MAX_STREAM_ERROR_BYTES"
      "length (encode_v1 to_string ?c m ?o) \<le> MAX_STREAM_ERROR_BYTES"
    using normalize_spec [OF laws, of ?e] valid by (auto simp: unbounded_error_def)
  note o = normalize_origin_shape [OF valid(2)]
  have "parse_v1 from_str (encode_v1 to_string ?c m ?o) = Inr (?e\<lparr>se_origin := ?o, se_message := m\<rparr>)"
    using parse_v1_encode_v1 [OF laws m(3) o(3,1) m(5)] by (simp add: unbounded_error_def)
  then show ?thesis
    using m o by (intro that [of "encode_v1 to_string ?c m ?o" "?e\<lparr>se_origin := ?o, se_message := m\<rparr>"])
      (simp_all add: error_trailer_def error_trailer_from_def classified_error_def
        unbounded_error_def stream_consts)
qed

text \<open>
  The JSON form of a stream error always fits its size bound.  For every valid
  message the encoder returns, without panicking, the JSON value of the longest prefix at
  a character boundary that still fits, together with exactly that prefix, and parsing
  the value gives the same code, message and origin back.
\<close>

theorem encode_bounded_longest_prefix:
  assumes laws: "serde_v1_laws to_string from_str"
    and msg: "valid_utf8 msg"
    and org: "valid_utf8 org" "org \<noteq> []" "length org \<le> MAX_STREAM_ERROR_ORIGIN_BYTES"
  shows "\<exists>json m. encode_bounded_v1 to_string (code_to_json_str code) msg org = Inr (json, m) \<and>
      length json \<le> MAX_STREAM_ERROR_BYTES \<and> prefix m msg \<and>
      (\<forall>i. is_char_boundary msg i \<longrightarrow> i \<le> length msg \<longrightarrow> i \<le> MAX_STREAM_ERROR_BYTES \<longrightarrow>
         length (encode_v1 to_string (code_to_json_str code) (take i msg) org)
           \<le> MAX_STREAM_ERROR_BYTES \<longrightarrow> i \<le> length m) \<and>
      parse_v1 from_str json =
        Inr \<lparr>se_code = stream_error_code_i32
               (unwrap_or (stream_error_code_try_from code) SecUnspecified),
             se_message = m, se_origin = org, se_problem = None\<rparr>"
proof -
  let ?c = "code_to_json_str code"
  have c: "valid_utf8 ?c" "length ?c \<le> 22" using code_to_json_str_shape by auto
  have o: "length org \<le> 256" using org(3) by (simp add: stream_consts)
  obtain m where m:
    "encode_bounded_v1 to_string ?c msg org = Inr (encode_v1 to_string ?c m org, m)"
    "length (encode_v1 to_string ?c m org) \<le> MAX_STREAM_ERROR_BYTES"
    "prefix m msg" "valid_utf8 m"
    "\<And>i. is_char_boundary msg i \<Longrightarrow> i \<le> length msg \<Longrightarrow> i \<le> MAX_STREAM_ERROR_BYTES \<Longrightarrow>
       length (encode_v1 to_string ?c (take i msg) org) \<le> MAX_STREAM_ERROR_BYTES \<Longrightarrow> i \<le> length m"
    by (rule encode_bounded_v1_spec [OF laws c org(1) o msg]) metis
  then show ?thesis
    using parse_v1_encode_v1 [OF laws m(4) org(1,2) m(2)] by blast
qed

theorem encode_bounded_longest_prefix_witness:
  "\<exists>json m. encode_bounded_v1 ref_writer (code_to_json_str 2) ''took too long'' ''WORKER'' =
       Inr (json, m) \<and> length json \<le> MAX_STREAM_ERROR_BYTES \<and> prefix m ''took too long''"
proof -
  have "valid_utf8 ''took too long''" "valid_utf8 ''WORKER''"
    by (simp_all add: utf8_width_def)
  then show ?thesis
    using encode_bounded_longest_prefix [OF ref_codec_laws, of "''took too long''" "''WORKER''" 2]
    by (auto simp: stream_consts)
qed



text \<open>
  The End of a successful stream is read as a success whatever metadata the caller
  supplied: the two reserved keys are removed and every other entry is kept.
\<close>

theorem normal_end_is_success:
  "inspect_end from_str (normal_trailer md) = OutcomeSuccess \<and>
   tr_metadata (normal_trailer md) =
     md(STREAM_ERROR_METADATA_KEY := None, LEGACY_PLUGIN_STREAM_ERROR_KEY := None)"
  by (auto simp: inspect_end_def normal_trailer_def stream_simps fun_eq_iff)

text \<open>
  An End built for readers that only know the deprecated plugin key is built without
  a panic and carries one and the same bounded message under the plugin key, in the JSON
  value and in the typed field.
\<close>

theorem legacy_key_carries_same_message:
  assumes laws: "serde_v1_laws to_string from_str"
    and valid: "valid_utf8 msg" "valid_utf8 org"
  shows "\<exists>t e. error_trailer_with_legacy_key to_string md code msg org = Inr t \<and>
      tr_error t = Some e \<and>
      tr_metadata t LEGACY_PLUGIN_STREAM_ERROR_KEY = Some (se_message e) \<and>
      (\<exists>json. tr_metadata t STREAM_ERROR_METADATA_KEY = Some json \<and> parse_v1 from_str json = Inr e)"
proof -
  obtain e json where
    "error_trailer to_string md code msg org =
       Inr \<lparr>tr_metadata = (strip_reserved_keys md)(STREAM_ERROR_METADATA_KEY \<mapsto> json),
            tr_error = Some e\<rparr>" "parse_v1 from_str json = Inr e"
    using laws valid by (rule error_trailer_built)
  then show ?thesis by (simp add: error_trailer_with_legacy_key_def)
qed

theorem legacy_key_carries_same_message_witness:
  "\<exists>t e. error_trailer_with_legacy_key ref_writer Map.empty SecCancelled ''stop'' ''COMMAND'' = Inr t \<and>
      tr_error t = Some e \<and>
      tr_metadata t LEGACY_PLUGIN_STREAM_ERROR_KEY = Some (se_message e)"
proof -
  have "valid_utf8 ''stop''" "valid_utf8 ''COMMAND''" by (simp_all add: utf8_width_def)
  then show ?thesis
    using legacy_key_carries_same_message [OF ref_codec_laws, of "''stop''" "''COMMAND''"
        Map.empty SecCancelled] by auto
qed

end
