(* ===== verification/Job_Runner.thy ===== *)
theory Job_Runner
  imports Retry Stream_Error
begin

text \<open>
  The worker side of one execution: \<^verbatim>\<open>worker-app/src/worker/runner/result.rs\<close> decides
  the status, the diagnostic and the classification of a run,
  \<^verbatim>\<open>worker-app/src/worker/runner.rs\<close> runs the job and builds its result.  The runner
  itself is outside: what it does in one run is a \<open>runner_event\<close>.
\<close>

section \<open>Failures of a run\<close>

text \<open>
  What the worker reads of an \<^verbatim>\<open>anyhow::Error\<close>: each type it tries to downcast to,
  and the three renderings (\<^verbatim>\<open>{}\<close>, \<^verbatim>\<open>{:#}\<close> and \<^verbatim>\<open>{:?}\<close>, the last without a
  backtrace).
\<close>

record any_error =
  ae_stream_failed :: "stream_error option"
  ae_classified :: "(stream_error \<times> string) option"
  ae_job_worker :: "job_worker_error option"
  ae_tonic :: "tonic_status option"
  ae_reqwest :: "reqwest_error option"
  ae_detected_by_worker :: bool
  ae_display :: string
  ae_alternate :: string
  ae_debug :: string

definition paren :: "string \<Rightarrow> string \<Rightarrow> string" where
  "paren name body = name @ ''('' @ body @ '')''"

primrec job_worker_error_display :: "job_worker_error \<Rightarrow> string" where
  "job_worker_error_display (InvalidParameter s) = paren ''InvalidParameter'' s"
| "job_worker_error_display (ParseError s) = paren ''ParseError'' s"
| "job_worker_error_display (CodecError s) = paren ''CodecError'' s"
| "job_worker_error_display (WorkerNotFound s) = paren ''WorkerNotFound'' s"
| "job_worker_error_display (NotFound s) = paren ''NotFound'' s"
| "job_worker_error_display (AlreadyExists s) = paren ''AlreadyExists'' s"
| "job_worker_error_display (LockError s) = paren ''LockError'' (debug_str s)"
| "job_worker_error_display (TimeoutError s) = paren ''TimeoutError'' s"
| "job_worker_error_display (GenerateIdError s) = paren ''GenerateIdError'' s"
| "job_worker_error_display (ChanError s) = paren ''ChanError'' s"
| "job_worker_error_display (SerdeJsonError s) = paren ''serde_json error'' s"
| "job_worker_error_display (RedisError s) = paren ''RedisError'' s"
| "job_worker_error_display (DBError s) = paren ''DBError'' s"
| "job_worker_error_display (DockerError s) = paren ''docker error'' s"
| "job_worker_error_display (TonicServerError s) = paren ''TonicServerError'' s"
| "job_worker_error_display (TonicClientError s) = paren ''TonicClientError'' (ts_debug s)"
| "job_worker_error_display (ReqwestError e) = paren ''ReqwestError'' (re_debug e)"
| "job_worker_error_display (FailedPrecondition s) = paren ''FailedPrecondition'' s"
| "job_worker_error_display (RuntimeError s) = paren ''RuntimeError'' s"
| "job_worker_error_display (CancelledError s) = paren ''CancelledError'' s"
| "job_worker_error_display (OtherError s) = paren ''OtherError'' s"

text \<open>\<^verbatim>\<open>anyhow::Error::from\<close> a \<^verbatim>\<open>JobWorkerError\<close>, and \<^verbatim>\<open>anyhow!(msg)\<close>.\<close>

definition any_of_message :: "string \<Rightarrow> any_error" where
  "any_of_message msg =
     \<lparr>ae_stream_failed = None, ae_classified = None, ae_job_worker = None, ae_tonic = None,
      ae_reqwest = None, ae_detected_by_worker = False, ae_display = msg, ae_alternate = msg,
      ae_debug = msg\<rparr>"

definition any_of_job_worker_error :: "job_worker_error \<Rightarrow> any_error" where
  "any_of_job_worker_error e =
     (any_of_message (job_worker_error_display e))\<lparr>ae_job_worker := Some e\<rparr>"

text \<open>
  \<^verbatim>\<open>.context(DetectedByWorker)\<close> on an error without causes and with a one-line text,
  which is what the runner wraps.
\<close>

definition detected_by_worker :: "any_error \<Rightarrow> any_error" where
  "detected_by_worker e =
     e\<lparr>ae_detected_by_worker := True,
       ae_display := ''detected by worker'',
       ae_alternate := ''detected by worker: '' @ ae_alternate e,
       ae_debug := ''detected by worker'' @ [CHR 0x0A, CHR 0x0A] @ ''Caused by:'' @ [CHR 0x0A]
                   @ ''    '' @ ae_display e\<rparr>"

datatype result_output_enum =
    RoNormal "any_error + bytes" metadata
  | RoStream "result_output_item list"

definition result_output :: "result_output_enum \<Rightarrow> bytes option" where
  "result_output out =
     (case out of
        RoNormal (Inr v) _ \<Rightarrow> Some v
      | RoNormal (Inl e) _ \<Rightarrow> Some (ae_display e)
      | RoStream _ \<Rightarrow> None)"

definition output_stream :: "result_output_enum \<Rightarrow> result_output_item list option" where
  "output_stream out = (case out of RoNormal _ _ \<Rightarrow> None | RoStream s \<Rightarrow> Some s)"

definition output_metadata :: "result_output_enum \<Rightarrow> metadata option" where
  "output_metadata out = (case out of RoNormal _ md \<Rightarrow> Some md | RoStream _ \<Rightarrow> None)"

section \<open>Status and classification\<close>

definition DEFAULT_RETRY_POLICY :: retry_policy where
  "DEFAULT_RETRY_POLICY =
     \<lparr>rp_type = retry_type_i32 RtNone, rp_interval = 0, rp_max_interval = 0, rp_max_retry = 0,
      rp_basis = 0\<rparr>"

definition can_retry :: "result_status \<Rightarrow> bool" where
  "can_retry st \<longleftrightarrow> st = RsErrorAndRetry"

definition runtime_error_message :: "string \<Rightarrow> string" where
  "runtime_error_message msg = ''runtime error: '' @ debug_str msg"

primrec tonic_result_status :: "tonic_code \<Rightarrow> result_status" where
  "tonic_result_status TcOk = RsSuccess"
| "tonic_result_status TcDeadlineExceeded = RsErrorAndRetry"
| "tonic_result_status TcUnavailable = RsErrorAndRetry"
| "tonic_result_status TcCancelled = RsAbort"
| "tonic_result_status TcAborted = RsAbort"
| "tonic_result_status TcNotFound = RsFatalError"
| "tonic_result_status TcResourceExhausted = RsFatalError"
| "tonic_result_status TcFailedPrecondition = RsFatalError"
| "tonic_result_status TcInvalidArgument = RsFatalError"
| "tonic_result_status TcPermissionDenied = RsFatalError"
| "tonic_result_status TcUnauthenticated = RsFatalError"
| "tonic_result_status TcAlreadyExists = RsFatalError"
| "tonic_result_status TcOutOfRange = RsFatalError"
| "tonic_result_status TcDataLoss = RsFatalError"
| "tonic_result_status TcUnimplemented = RsFatalError"
| "tonic_result_status TcInternal = RsFatalError"
| "tonic_result_status TcUnknown = RsOtherError"

definition status_and_message :: "any_error \<Rightarrow> result_status \<times> string option" where
  "status_and_message err =
     (case ae_job_worker err of
        Some jwe \<Rightarrow>
          (case jwe of
             RuntimeError mes \<Rightarrow> (RsErrorAndRetry, Some (runtime_error_message mes))
           | TimeoutError mes \<Rightarrow> (RsErrorAndRetry, Some (''timeout error: '' @ debug_str mes))
           | CodecError e \<Rightarrow> (RsOtherError, Some (''codec error: '' @ e))
           | NotFound mes \<Rightarrow> (RsOtherError, Some (''not found: '' @ mes))
           | LockError e \<Rightarrow> (RsErrorAndRetry, Some (''invalid parameter: '' @ debug_str e))
           | InvalidParameter e \<Rightarrow> (RsOtherError, Some (''invalid parameter: '' @ debug_str e))
           | FailedPrecondition e \<Rightarrow> (RsOtherError, Some (''failed precondition: '' @ debug_str e))
           | WorkerNotFound e \<Rightarrow> (RsOtherError, Some (''worker not found: '' @ debug_str e))
           | ChanError e \<Rightarrow> (RsErrorAndRetry, Some (''chan error: '' @ e))
           | RedisError e \<Rightarrow> (RsErrorAndRetry, Some (''redis error: '' @ e))
           | DBError e \<Rightarrow> (RsErrorAndRetry, Some (''db error: '' @ e))
           | GenerateIdError mes \<Rightarrow> (RsOtherError, Some (''generate id error: '' @ debug_str mes))
           | AlreadyExists mes \<Rightarrow> (RsOtherError, Some (''conflict error: '' @ debug_str mes))
           | TonicServerError e \<Rightarrow> (RsOtherError, Some (''unexpected error: '' @ e))
           | TonicClientError status \<Rightarrow>
               (tonic_result_status (ts_code status), Some (''client error: '' @ ts_debug status))
           | SerdeJsonError e \<Rightarrow> (RsOtherError, Some (''parse arg json error: '' @ e))
           | ParseError e \<Rightarrow> (RsOtherError, Some (''parse error: '' @ debug_str e))
           | DockerError e \<Rightarrow> (RsOtherError, Some (''docker error: '' @ e))
           | ReqwestError e \<Rightarrow>
               (if re_is_timeout e \<or>
                   (case re_status e of None \<Rightarrow> False | Some c \<Rightarrow> 500 \<le> c \<and> c \<le> 599)
                then (RsErrorAndRetry, Some (''request error: '' @ re_debug e))
                else (RsOtherError, Some (''reqwest unknown error: '' @ re_debug e)))
           | CancelledError mes \<Rightarrow> (RsCancelled, Some (''cancelled: '' @ debug_str mes))
           | OtherError msg \<Rightarrow> (RsOtherError, Some (''other error: '' @ debug_str msg)))
      | None \<Rightarrow> (RsOtherError, Some (''unknown error: '' @ ae_debug err)))"

definition tonic_failure_code :: "tonic_status \<Rightarrow> stream_error_code" where
  "tonic_failure_code status =
     (case ts_code status of
        TcDeadlineExceeded \<Rightarrow> SecTimeout
      | TcUnavailable \<Rightarrow> SecTransportFailed
      | _ \<Rightarrow> SecExecutionFailed)"

definition reqwest_failure_code :: "reqwest_error \<Rightarrow> stream_error_code" where
  "reqwest_failure_code e = (if re_is_timeout e then SecTimeout else SecTransportFailed)"

definition failure_code :: "any_error \<Rightarrow> stream_error_code" where
  "failure_code err =
     (case ae_job_worker err of
        Some jwe \<Rightarrow>
          (case jwe of
             TimeoutError _ \<Rightarrow> SecTimeout
           | InvalidParameter _ \<Rightarrow> SecInvalidArgument
           | SerdeJsonError _ \<Rightarrow> SecInvalidArgument
           | ParseError _ \<Rightarrow> SecInvalidArgument
           | CancelledError _ \<Rightarrow> SecCancelled
           | TonicClientError status \<Rightarrow> tonic_failure_code status
           | ReqwestError e \<Rightarrow> reqwest_failure_code e
           | _ \<Rightarrow> SecExecutionFailed)
      | None \<Rightarrow>
          (case ae_tonic err of
             Some status \<Rightarrow> tonic_failure_code status
           | None \<Rightarrow>
               (case ae_reqwest err of
                  Some e \<Rightarrow> reqwest_failure_code e
                | None \<Rightarrow> SecExecutionFailed)))"

definition handle_error ::
  "json_writer \<Rightarrow> any_error \<Rightarrow> string \<Rightarrow> panic + result_status \<times> string option \<times> stream_error" where
  "handle_error to_string err runner_origin =
     (case ae_stream_failed err of
        Some failure \<Rightarrow>
          Inr (result_status_for (se_code failure), Some (''stream error: '' @ ae_alternate err),
               failure)
      | None \<Rightarrow>
          (case ae_classified err of
             Some (e, diagnostic) \<Rightarrow>
               Inr (RsErrorAndRetry, Some (runtime_error_message diagnostic), e)
           | None \<Rightarrow>
               let (status, msg) = status_and_message err;
                   org = (if ae_detected_by_worker err then WORKER_ORIGIN else runner_origin)
               in bindE (classified_error to_string (failure_code err) (unwrap_or msg []) org)
                    (\<lambda>e. Inr (status, msg, e))))"

definition job_result_status ::
  "json_writer \<Rightarrow> string \<Rightarrow> retry_policy option \<Rightarrow> job_data \<Rightarrow> any_error + result_output_enum \<Rightarrow>
    panic + result_status \<times> result_output_enum \<times> stream_error option" where
  "job_result_status to_string runner_origin policy d res =
     (let failed = (\<lambda>err md.
            bindE (handle_error to_string err runner_origin) (\<lambda>(status, msg, e).
              let st = (if can_retry status \<and>
                           jd_retried d \<ge> rp_max_retry (unwrap_or policy DEFAULT_RETRY_POLICY)
                        then RsMaxRetry else status)
              in Inr (st,
                      RoNormal (Inl (any_of_job_worker_error
                        (RuntimeError (unwrap_or msg ''unknown error(no result, no error)'')))) md,
                      Some e)))
      in case res of
           Inr (RoNormal (Inl err) md) \<Rightarrow> failed err md
         | Inr output \<Rightarrow> Inr (RsSuccess, output, None)
         | Inl err \<Rightarrow> failed err Map.empty)"

section \<open>Running a job\<close>

record job_result =
  jres_id :: "i64 option"
  jres_data :: "job_result_data option"
  jres_metadata :: metadata

definition build_job_result ::
  "i64 option \<Rightarrow> job_id option \<Rightarrow> job_data \<Rightarrow> worker_data \<Rightarrow> resolved_job_params \<Rightarrow> result_status \<Rightarrow>
    bytes option \<Rightarrow> i64 \<Rightarrow> i64 \<Rightarrow> metadata option \<Rightarrow> stream_error option \<Rightarrow> job_result" where
  "build_job_result gen_id jid dat w resolved st res start_msec end_msec md err =
     \<lparr>jres_id = Some (unwrap_or gen_id 0),
      jres_data = Some
        \<lparr>jr_job_id = jid,
         jr_worker_id = jd_worker_id dat,
         jr_worker_name = w_name w,
         jr_args = jd_args dat,
         jr_uniq_key = jd_uniq_key dat,
         jr_status = result_status_i32 st,
         jr_output = res,
         jr_retried = jd_retried dat,
         jr_max_retry = rp_max_retry (unwrap_or (rj_retry_policy resolved) DEFAULT_RETRY_POLICY),
         jr_priority = jd_priority dat,
         jr_timeout = jd_timeout dat,
         jr_streaming_type = jd_streaming_type dat,
         jr_enqueue_time = jd_enqueue_time dat,
         jr_run_after_time = jd_run_after_time dat,
         jr_start_time = start_msec,
         jr_end_time = end_msec,
         jr_response_type = rj_response_type resolved,
         jr_store_success = rj_store_success resolved,
         jr_store_failure = rj_store_failure resolved,
         jr_using = jd_using dat,
         jr_broadcast_results = rj_broadcast_results resolved,
         jr_resolved_retry_policy = rj_retry_policy resolved,
         jr_error = err\<rparr>,
      jres_metadata = unwrap_or md Map.empty\<rparr>"

definition apply_resolved_delivery_settings ::
  "job_result \<Rightarrow> worker_data \<Rightarrow> resolved_job_params \<Rightarrow> job_result" where
  "apply_resolved_delivery_settings r w resolved =
     (case jres_data r of
        None \<Rightarrow> r
      | Some d \<Rightarrow>
          r\<lparr>jres_data := Some (d\<lparr>jr_response_type := rj_response_type resolved,
                                jr_store_success := rj_store_success resolved,
                                jr_store_failure := rj_store_failure resolved,
                                jr_broadcast_results := rj_broadcast_results resolved,
                                jr_worker_name := w_name w,
                                jr_resolved_retry_policy := rj_retry_policy resolved\<rparr>)\<rparr>)"

datatype runner_outcome = OutNormal | OutTimedOut

text \<open>
  What happens first once the runner is started: it returns, it panics (with the payload's
  debug text), or the timer of a job with a timeout fires, and then the runner answers the
  cancellation request.
\<close>

datatype 'a runner_event =
    Returned 'a | RunnerPanicked string | TimerFired "any_error + unit"

definition panic_message :: "string \<Rightarrow> string \<Rightarrow> string" where
  "panic_message name e = ''Caught panic from runner '' @ name @ '': '' @ e"

definition timeout_error :: "u64 \<Rightarrow> any_error" where
  "timeout_error t =
     detected_by_worker (any_of_job_worker_error
       (TimeoutError (''timeout: '' @ show_nat (unat t) @ ''ms'')))"

text \<open>
  The \<^verbatim>\<open>select!\<close> both runs share.  \<open>None\<close>: no timer is armed for a job without a
  timeout, so its firing is no behaviour of the code.
\<close>

definition await_runner ::
  "string \<Rightarrow> job_data \<Rightarrow> ('a \<Rightarrow> any_error + 'b) \<Rightarrow> 'a runner_event \<Rightarrow>
    (panic + (any_error + 'b)) option" where
  "await_runner name d finish ev =
     (case ev of
        Returned r \<Rightarrow> Some (Inr (finish r))
      | RunnerPanicked e \<Rightarrow> Some (Inr (Inl (any_of_message (panic_message name e))))
      | TimerFired ack \<Rightarrow>
          if jd_timeout d > 0 then
            (case ack of
               Inl e \<Rightarrow>
                 Some (Inl (Panic (''called `Result::unwrap()` on an `Err` value: '' @ ae_debug e)))
             | Inr _ \<Rightarrow> Some (Inr (Inl (timeout_error (jd_timeout d)))))
          else None)"

definition run_and_result ::
  "string \<Rightarrow> job_data \<Rightarrow> ((any_error + bytes) \<times> metadata) runner_event \<Rightarrow>
    (panic + (any_error + (any_error + bytes) \<times> metadata)) option" where
  "run_and_result name d ev = await_runner name d Inr ev"

definition run_and_stream ::
  "string \<Rightarrow> job_data \<Rightarrow> (any_error + result_output_item list) runner_event \<Rightarrow>
    (panic + (any_error + result_output_item list)) option" where
  "run_and_stream name d ev = await_runner name d (\<lambda>st. st) ev"

definition outcome_of :: "any_error + 'a \<Rightarrow> runner_outcome" where
  "outcome_of res =
     (case res of
        Inl e \<Rightarrow>
          (case ae_job_worker e of Some (TimeoutError _) \<Rightarrow> OutTimedOut | _ \<Rightarrow> OutNormal)
      | Inr _ \<Rightarrow> OutNormal)"

text \<open>
  What one run sees of its environment: the JSON writer, the id generator, the runner's name
  and answers, the answer of the cancellation monitor, the clock before the wait, after
  sleeping so many milliseconds, and after the run.
\<close>

record run_env =
  env_to_string :: json_writer
  env_gen_id :: "i64 option"
  env_name :: string
  env_monitoring :: "any_error + job_result option"
  env_now :: i64
  env_start :: "u64 \<Rightarrow> i64"
  env_end :: i64
  env_result_event :: "((any_error + bytes) \<times> metadata) runner_event"
  env_stream_event :: "(any_error + result_output_item list) runner_event"

definition setup_cancellation_monitoring_if_supported :: "run_env \<Rightarrow> job_result option" where
  "setup_cancellation_monitoring_if_supported env =
     (case env_monitoring env of Inr r \<Rightarrow> r | Inl _ \<Rightarrow> None)"

definition run_wait_ms :: "i64 \<Rightarrow> i64 \<Rightarrow> u64" where
  "run_wait_ms run_after_time now =
     (let wait = i64_wrap (run_after_time - now) in if wait > 0 then word_of_int wait else 0)"

type_synonym run_output = "job_result \<times> result_output_item list option \<times> runner_outcome"

definition finish_run ::
  "run_env \<Rightarrow> worker_data \<Rightarrow> job \<Rightarrow> job_data \<Rightarrow> resolved_job_params \<Rightarrow>
    any_error + result_output_enum \<Rightarrow> panic + run_output" where
  "finish_run env w j d resolved res =
     bindE (job_result_status (env_to_string env) (env_name env) (rj_retry_policy resolved) d res)
       (\<lambda>(st, mes, err).
          Inr (build_job_result (env_gen_id env) (j_id j) d w resolved st (result_output mes)
                 (env_start env (run_wait_ms (jd_run_after_time d) (env_now env))) (env_end env)
                 (output_metadata mes) err,
               output_stream mes, outcome_of res))"

definition unwrap_none :: panic where
  "unwrap_none = Panic ''called `Option::unwrap()` on a `None` value''"

definition run_job_inner :: "run_env \<Rightarrow> worker_data \<Rightarrow> job \<Rightarrow> (panic + run_output) option" where
  "run_job_inner env w j =
     (case (j_data j, j_id j) of
        (Some d, Some _) \<Rightarrow>
          let resolved = resolve_job_params w (jd_overrides d)
          in (case setup_cancellation_monitoring_if_supported env of
                Some r \<Rightarrow>
                  Some (Inr (apply_resolved_delivery_settings r w resolved, None, OutNormal))
              | None \<Rightarrow>
                  if jd_streaming_type d = streaming_type_i32 StResponse \<or>
                     jd_streaming_type d = streaming_type_i32 StInternal
                  then map_option
                         (\<lambda>r. bindE r (\<lambda>res.
                            finish_run env w j d resolved (map_sum id RoStream res)))
                         (run_and_stream (env_name env) d (env_stream_event env))
                  else map_option
                         (\<lambda>r. bindE r (\<lambda>res.
                            finish_run env w j d resolved
                              (map_sum id (\<lambda>(a, b). RoNormal a b) res)))
                         (run_and_result (env_name env) d (env_result_event env)))
      | _ \<Rightarrow> Some (Inl unwrap_none))"

definition default_job_data :: job_data where
  "default_job_data =
     \<lparr>jd_worker_id = None, jd_args = [], jd_uniq_key = None, jd_enqueue_time = 0,
      jd_grabbed_until_time = None, jd_run_after_time = 0, jd_retried = 0, jd_priority = 0,
      jd_timeout = 0, jd_streaming_type = 0, jd_using = None, jd_overrides = None\<rparr>"

definition job_result_data_for ::
  "i64 option \<Rightarrow> job \<Rightarrow> worker_data \<Rightarrow> result_status \<Rightarrow> bytes option \<Rightarrow> i64 \<Rightarrow> i64 \<Rightarrow>
    metadata option \<Rightarrow> stream_error option \<Rightarrow> job_result" where
  "job_result_data_for gen_id j w st res start_msec end_msec md err =
     (let dat = unwrap_or (j_data j) default_job_data
      in build_job_result gen_id (j_id j) dat w (resolve_job_params w (jd_overrides dat)) st res
           start_msec end_msec md err)"

definition handle_error_option ::
  "json_writer \<Rightarrow> i64 option \<Rightarrow> i64 \<Rightarrow> worker_data \<Rightarrow> job \<Rightarrow> any_error option \<Rightarrow>
    panic + job_result" where
  "handle_error_option to_string gen_id now w j err =
     (let error_message =
        (case err of
           Some e \<Rightarrow> ''error in loading runner for worker:'' @ debug_str (w_name w)
                     @ '', error:'' @ ae_debug e
         | None \<Rightarrow> ''runner not found for static worker:'' @ debug_str (w_name w))
      in bindE (classified_error to_string SecExecutionFailed error_message WORKER_ORIGIN)
           (\<lambda>e. Inr (job_result_data_for gen_id j w RsFatalError
                       (result_output (RoNormal (Inl (any_of_message error_message)) Map.empty))
                       now now (Some (j_metadata j)) (Some e))))"

section \<open>Results of a run\<close>

lemma job_result_status_retry:
  assumes "job_result_status to_string org policy d res = Inr (RsErrorAndRetry, mes, err)"
  shows "jd_retried d < rp_max_retry (unwrap_or policy DEFAULT_RETRY_POLICY)"
  using assms
  by (auto simp: job_result_status_def Let_def bindE_eq_Inr can_retry_def not_le
      split: sum.splits result_output_enum.splits if_splits)

lemma finish_run_Inr:
  assumes "finish_run env w j d resolved res = Inr (r, s, out)"
  obtains st mes err where
    "job_result_status (env_to_string env) (env_name env) (rj_retry_policy resolved) d res =
       Inr (st, mes, err)"
    "r = build_job_result (env_gen_id env) (j_id j) d w resolved st (result_output mes)
           (env_start env (run_wait_ms (jd_run_after_time d) (env_now env))) (env_end env)
           (output_metadata mes) err"
    "s = output_stream mes" "out = outcome_of res"
  using assms by (auto simp: finish_run_def bindE_eq_Inr)

text \<open>What every completed run says of the job it ran.\<close>

lemma run_job_inner_result:
  assumes run: "run_job_inner env w j = Some (Inr (r, s, out))"
    and live: "setup_cancellation_monitoring_if_supported env = None"
  obtains d st mes err res where
    "j_data j = Some d"
    "job_result_status (env_to_string env) (env_name env)
       (rj_retry_policy (resolve_job_params w (jd_overrides d))) d res = Inr (st, mes, err)"
    "r = build_job_result (env_gen_id env) (j_id j) d w (resolve_job_params w (jd_overrides d)) st
           (result_output mes) (env_start env (run_wait_ms (jd_run_after_time d) (env_now env)))
           (env_end env) (output_metadata mes) err"
proof -
  obtain d where d: "j_data j = Some d"
    using run by (auto simp: run_job_inner_def split: option.splits)
  from run live d obtain res where
    "finish_run env w j d (resolve_job_params w (jd_overrides d)) res = Inr (r, s, out)"
    by (auto simp: run_job_inner_def Let_def bindE_eq_Inr split: option.splits if_splits)
  then show ?thesis by (rule finish_run_Inr) (use d that in blast)
qed

lemma run_job_inner_fields:
  assumes run: "run_job_inner env w j = Some (Inr (r, s, out))"
    and live: "setup_cancellation_monitoring_if_supported env = None"
    and d: "j_data j = Some d" and rd: "jres_data r = Some rd"
  shows "jr_retried rd = jd_retried d" "jr_job_id rd = j_id j"
    "jr_resolved_retry_policy rd = rj_retry_policy (resolve_job_params w (jd_overrides d))"
    "jr_status rd = result_status_i32 RsErrorAndRetry \<Longrightarrow>
       jd_retried d < rp_max_retry (unwrap_or (jr_resolved_retry_policy rd) DEFAULT_RETRY_POLICY)"
    "jr_start_time rd = env_start env (run_wait_ms (jd_run_after_time d) (env_now env))"
proof -
  obtain d' st mes err res where d': "j_data j = Some d'"
    and st: "job_result_status (env_to_string env) (env_name env)
       (rj_retry_policy (resolve_job_params w (jd_overrides d'))) d' res = Inr (st, mes, err)"
    and r: "r = build_job_result (env_gen_id env) (j_id j) d' w
           (resolve_job_params w (jd_overrides d')) st (result_output mes)
           (env_start env (run_wait_ms (jd_run_after_time d') (env_now env)))
           (env_end env) (output_metadata mes) err"
    using run live by (rule run_job_inner_result)
  have [simp]: "d' = d" using d d' by simp
  from r rd show pol: "jr_resolved_retry_policy rd = rj_retry_policy (resolve_job_params w (jd_overrides d))"
    and "jr_retried rd = jd_retried d" "jr_job_id rd = j_id j"
      "jr_start_time rd = env_start env (run_wait_ms (jd_run_after_time d) (env_now env))"
    by (auto simp: build_job_result_def)
  assume "jr_status rd = result_status_i32 RsErrorAndRetry"
  with r rd have "result_status_i32 st = result_status_i32 RsErrorAndRetry"
    by (auto simp: build_job_result_def simp del: result_status_i32.simps)
  then have "st = RsErrorAndRetry" by (simp only: result_status_i32_inj)
  with st show "jd_retried d <
      rp_max_retry (unwrap_or (jr_resolved_retry_policy rd) DEFAULT_RETRY_POLICY)"
    unfolding pol by (auto dest: job_result_status_retry)
qed

lemma uint_word_of_int_u64: "0 \<le> x \<Longrightarrow> x < 2 ^ 64 \<Longrightarrow> uint (word_of_int x :: u64) = x"
  by (simp add: uint_word_of_int)

section \<open>Chains of retries\<close>

text \<open>
  One failed attempt and the job that is enqueued for the next: the attempt runs under the
  settings of \<open>w\<close>, the retry is built with whatever settings \<open>w'\<close> the worker has by then.
\<close>

inductive retry_step :: "float_ops \<Rightarrow> worker_data \<Rightarrow> job \<Rightarrow> job \<Rightarrow> bool" for fo where
  attempt: "retry_step fo w j j'"
  if "run_job_inner env w j = Some (Inr (r, s, out))"
     "setup_cancellation_monitoring_if_supported env = None"
     "jres_data r = Some rd"
     "build_retry_job fo rd w' (jres_metadata r) = Some j'"

inductive retry_chain :: "float_ops \<Rightarrow> nat \<Rightarrow> job \<Rightarrow> job \<Rightarrow> bool" for fo where
  start: "retry_chain fo 0 j j"
| again: "retry_chain fo n j j' \<Longrightarrow> retry_step fo w j' j'' \<Longrightarrow> retry_chain fo (Suc n) j j''"

inductive_cases retry_stepE: "retry_step fo w j j'"

lemma retry_step_keeps:
  assumes step: "retry_step fo w j j'" and d: "j_data j = Some d"
    and p: "rj_retry_policy (resolve_job_params w (jd_overrides d)) = Some p"
  obtains d' ov where
    "j_data j' = Some d'" "j_id j' = j_id j" "unat (jd_retried d') = unat (jd_retried d) + 1"
    "jd_retried d' \<le> rp_max_retry p" "jd_overrides d' = Some ov" "ov_retry_policy ov = Some p"
  using step
proof (rule retry_stepE)
  fix env r s out rd w'
  assume run: "run_job_inner env w j = Some (Inr (r, s, out))"
    and live: "setup_cancellation_monitoring_if_supported env = None"
    and rd: "jres_data r = Some rd" and job: "build_retry_job fo rd w' (jres_metadata r) = Some j'"
  have fields: "jr_retried rd = jd_retried d" "jr_job_id rd = j_id j"
      "jr_resolved_retry_policy rd = Some p"
    using run_job_inner_fields [OF run live d rd] p by simp_all
  obtain policy d' where policy: "option_or (jr_resolved_retry_policy rd) (w_retry_policy w') = Some policy"
      and lt: "jr_retried rd < rp_max_retry policy" and id: "j_id j' = jr_job_id rd"
      and d': "j_data j' = Some d'" "jd_retried d' = jr_retried rd + 1"
        "jd_overrides d' = Some (snapshot_overrides rd)"
    using job by (rule build_retry_job_Some) blast
  have "policy = p" using policy fields by (simp add: option_or_def)
  with lt have "unat (jr_retried rd + 1) = unat (jr_retried rd) + 1"
      "jr_retried rd + 1 \<le> rp_max_retry p"
    using retry_succ_bound [of "jr_retried rd" "rp_max_retry p"] by simp_all
  then show ?thesis
    using fields id d' by (intro that [of d' "snapshot_overrides rd"]) (simp_all add: snapshot_overrides_def)
qed

lemma retry_chain_keeps:
  assumes "retry_chain fo n j j'" "j_data j = Some d" "jd_overrides d = Some ov"
    "ov_retry_policy ov = Some p"
  shows "\<exists>d' ov'. j_data j' = Some d' \<and> j_id j' = j_id j \<and>
      unat (jd_retried d') = unat (jd_retried d) + n \<and>
      (n > 0 \<longrightarrow> jd_retried d' \<le> rp_max_retry p) \<and>
      jd_overrides d' = Some ov' \<and> ov_retry_policy ov' = Some p"
  using assms
proof (induction rule: retry_chain.induct)
  case (again n j j' w j'')
  then obtain d' ov' where IH: "j_data j' = Some d'" "j_id j' = j_id j"
      "unat (jd_retried d') = unat (jd_retried d) + n"
      "jd_overrides d' = Some ov'" "ov_retry_policy ov' = Some p" by blast
  have "rj_retry_policy (resolve_job_params w (jd_overrides d')) = Some p"
    using IH by (simp add: resolve_job_params_def)
  with again.hyps(2) IH(1) obtain d'' ov'' where "j_data j'' = Some d''" "j_id j'' = j_id j'"
      "unat (jd_retried d'') = unat (jd_retried d') + 1" "jd_retried d'' \<le> rp_max_retry p"
      "jd_overrides d'' = Some ov''" "ov_retry_policy ov'' = Some p"
    by (rule retry_step_keeps)
  with IH show ?case by simp
qed simp

text \<open>A worker process with a runner that fails: the instance the examples run.\<close>

definition example_failure :: any_error where
  "example_failure =
     (any_of_message ''boom'')\<lparr>ae_classified := Some
        (\<lparr>se_code = stream_error_code_i32 SecExecutionFailed, se_message = ''boom'',
          se_origin = ''COMMAND'', se_problem = None\<rparr>, ''boom'')\<rparr>"

definition example_env :: run_env where
  "example_env =
     \<lparr>env_to_string = (\<lambda>_. []), env_gen_id = Some 77, env_name = ''COMMAND'',
      env_monitoring = Inr None, env_now = 4000, env_start = (\<lambda>ms. 4000 + uint ms),
      env_end = 5600,
      env_result_event = Returned (Inl example_failure, Map.empty),
      env_stream_event = TimerFired (Inr ())\<rparr>"

definition example_job :: job where
  "example_job =
     \<lparr>j_id = Some 7,
      j_data = Some (default_job_data\<lparr>jd_worker_id := Some 1, jd_run_after_time := 5000\<rparr>),
      j_metadata = Map.empty\<rparr>"

lemmas example_run_defs =
  example_failure_def example_env_def example_job_def default_job_data_def any_of_message_def

lemma example_run:
  obtains r rd where
    "run_job_inner example_env example_worker example_job = Some (Inr (r, None, OutNormal))"
    "setup_cancellation_monitoring_if_supported example_env = None"
    "jres_data r = Some rd" "jr_status rd = result_status_i32 RsErrorAndRetry"
    "jr_resolved_retry_policy rd = w_retry_policy example_worker" "jr_retried rd = 0"
    "jr_start_time rd = 5000"
proof -
  have "setup_cancellation_monitoring_if_supported example_env = None"
    by (simp add: setup_cancellation_monitoring_if_supported_def example_env_def)
  moreover have "w_retry_policy example_worker \<noteq> None"
    "rp_max_retry (the (w_retry_policy example_worker)) = 2"
    by (simp_all add: example_worker_def)
  ultimately show ?thesis
    by (auto intro!: that simp: run_job_inner_def example_run_defs run_and_result_def
        await_runner_def finish_run_def job_result_status_def handle_error_def bindE_def
        can_retry_def build_job_result_def resolve_job_params_def output_stream_def
        outcome_of_def run_wait_ms_def i64_wrap_id in_i64_def i64_min_def i64_max_def)
qed

text \<open>
  C12: retries are bounded by the policy in force at the first attempt: if a job runs under a
  worker whose settings resolve to policy \<open>p\<close>, then however the worker's settings change
  between later attempts, every retry carries the same job id and the same policy, counts
  exactly one more attempt than its predecessor, and never exceeds the maximum of \<open>p\<close>.
\<close>

theorem retries_bounded_by_first_policy:
  assumes "j_data j = Some d"
    and "rj_retry_policy (resolve_job_params w (jd_overrides d)) = Some p"
    and "retry_step fo w j j1" and "retry_chain fo n j1 j'"
  shows "\<exists>d' ov'. j_data j' = Some d' \<and> j_id j' = j_id j \<and>
      unat (jd_retried d') = unat (jd_retried d) + Suc n \<and>
      unat (jd_retried d) + Suc n \<le> unat (rp_max_retry p) \<and>
      jd_overrides d' = Some ov' \<and> ov_retry_policy ov' = Some p"
proof -
  obtain d1 ov where d1: "j_data j1 = Some d1" "j_id j1 = j_id j"
      "unat (jd_retried d1) = unat (jd_retried d) + 1" "jd_retried d1 \<le> rp_max_retry p"
      "jd_overrides d1 = Some ov" "ov_retry_policy ov = Some p"
    using assms(3,1,2) by (rule retry_step_keeps)
  obtain d' ov' where d': "j_data j' = Some d'" "j_id j' = j_id j1"
      "unat (jd_retried d') = unat (jd_retried d1) + n"
      "n > 0 \<longrightarrow> jd_retried d' \<le> rp_max_retry p"
      "jd_overrides d' = Some ov'" "ov_retry_policy ov' = Some p"
    using retry_chain_keeps [OF assms(4) d1(1,5,6)] by blast
  have "unat (jd_retried d') \<le> unat (rp_max_retry p)"
    using d'(3,4) d1(4) by (cases "n = 0") (simp_all add: word_le_nat_alt)
  with d1 d' show ?thesis by simp
qed

theorem retries_bounded_by_first_policy_witness:
  "\<exists>j1 d'. retry_step exact_float_ops example_worker example_job j1 \<and>
      j_data j1 = Some d' \<and> j_id j1 = Some 7 \<and> unat (jd_retried d') = 1"
proof -
  obtain r rd where run:
      "run_job_inner example_env example_worker example_job = Some (Inr (r, None, OutNormal))"
      "setup_cancellation_monitoring_if_supported example_env = None" "jres_data r = Some rd"
    and rd: "jr_status rd = result_status_i32 RsErrorAndRetry"
      "jr_resolved_retry_policy rd = w_retry_policy example_worker" "jr_retried rd = 0"
    by (rule example_run)
  have "build_retry_job exact_float_ops rd example_worker (jres_metadata r) \<noteq> None"
    using rd by (simp add: build_retry_job_def option_or_def example_worker_def)
  then obtain j1 where step: "retry_step exact_float_ops example_worker example_job j1"
    using run by (auto intro: retry_step.intros)
  obtain d where "j_data example_job = Some d" "jd_overrides d = None" "jd_retried d = 0"
      "j_id example_job = Some 7"
    by (simp add: example_job_def default_job_data_def)
  moreover obtain p where "w_retry_policy example_worker = Some p"
    by (simp add: example_worker_def)
  ultimately show ?thesis
    using retries_bounded_by_first_policy [of example_job d example_worker p exact_float_ops j1 0 j1]
      step retry_chain.start [of exact_float_ops j1] by (auto simp: resolve_job_params_def)
qed

text \<open>
  A run whose result says \<open>ErrorAndRetry\<close> is re-enqueued exactly when its resolved policy
  exists and is not of type \<open>NONE\<close>; attempts are always left at that point.
\<close>

theorem error_and_retry_is_retried:
  assumes run: "run_job_inner env w j = Some (Inr (r, s, out))"
    and live: "setup_cancellation_monitoring_if_supported env = None"
    and rd: "jres_data r = Some rd"
    and retry: "jr_status rd = result_status_i32 RsErrorAndRetry"
    and p: "jr_resolved_retry_policy rd = Some p"
  shows "jr_retried rd < rp_max_retry p \<and>
      (build_retry_job fo rd w md = None \<longleftrightarrow> rp_type p = retry_type_i32 RtNone)"
proof -
  obtain d where d: "j_data j = Some d"
    using run by (auto simp: run_job_inner_def split: option.splits)
  have lt: "jr_retried rd < rp_max_retry p"
    using run_job_inner_fields(1) [OF run live d rd] run_job_inner_fields(4) [OF run live d rd retry] p
    by simp
  then show ?thesis
    using retry p by (simp add: build_retry_job_def option_or_def Let_def not_le [symmetric])
qed

theorem error_and_retry_is_retried_witness:
  "\<exists>r rd. run_job_inner example_env example_worker example_job = Some (Inr (r, None, OutNormal)) \<and>
      jres_data r = Some rd \<and> build_retry_job exact_float_ops rd example_worker Map.empty \<noteq> None"
proof (rule example_run)
  fix r rd
  assume run: "run_job_inner example_env example_worker example_job = Some (Inr (r, None, OutNormal))"
      "setup_cancellation_monitoring_if_supported example_env = None" "jres_data r = Some rd"
      "jr_status rd = result_status_i32 RsErrorAndRetry"
    and p: "jr_resolved_retry_policy rd = w_retry_policy example_worker"
  then show ?thesis
    using error_and_retry_is_retried [OF run, of "the (w_retry_policy example_worker)"
        exact_float_ops Map.empty]
    by (auto simp: example_worker_def)
qed

text \<open>
  A job with a run-after time never starts early: when the clock has advanced by at least
  the time slept, the recorded start time is not before the run-after time.
\<close>

theorem run_not_before_run_after_time:
  assumes run: "run_job_inner env w j = Some (Inr (r, s, out))"
    and live: "setup_cancellation_monitoring_if_supported env = None"
    and d: "j_data j = Some d" and rd: "jres_data r = Some rd"
    and clock: "\<And>ms. env_start env ms \<ge> env_now env + uint ms"
    and range: "0 \<le> env_now env" "in_i64 (env_now env)" "0 \<le> jd_run_after_time d"
      "in_i64 (jd_run_after_time d)"
  shows "jd_run_after_time d \<le> jr_start_time rd"
proof -
  let ?wait = "jd_run_after_time d - env_now env"
  have "in_i64 ?wait" using range by (auto simp: in_i64_def i64_min_def i64_max_def)
  then have wrap: "i64_wrap ?wait = ?wait" by (rule i64_wrap_id)
  moreover have "uint (word_of_int ?wait :: u64) = ?wait" if "0 < ?wait"
    using that range by (intro uint_word_of_int_u64) (simp_all add: in_i64_def i64_max_def)
  ultimately have "uint (run_wait_ms (jd_run_after_time d) (env_now env)) = max 0 ?wait"
    by (simp add: run_wait_ms_def Let_def del: of_int_diff)
  then show ?thesis
    using clock [of "run_wait_ms (jd_run_after_time d) (env_now env)"]
      run_job_inner_fields(5) [OF run live d rd] by simp
qed

theorem run_not_before_run_after_time_witness:
  "\<exists>r rd. run_job_inner example_env example_worker example_job = Some (Inr (r, None, OutNormal)) \<and>
      jres_data r = Some rd \<and> 5000 \<le> jr_start_time rd"
proof (rule example_run)
  fix r rd
  assume run: "run_job_inner example_env example_worker example_job = Some (Inr (r, None, OutNormal))"
      "setup_cancellation_monitoring_if_supported example_env = None"
    and rd: "jres_data r = Some rd"
  obtain d where d: "j_data example_job = Some d" "jd_run_after_time d = 5000"
    by (simp add: example_job_def)
  have "jd_run_after_time d \<le> jr_start_time rd"
    by (rule run_not_before_run_after_time [OF run d(1) rd])
      (simp_all add: d example_env_def in_i64_def i64_min_def i64_max_def)
  with run rd d show ?thesis by auto
qed

end
