(* ===== verification/Result_Store.thy ===== *)
theory Result_Store
  imports Job_Runner
begin

text \<open>
  Stored results and per-job overrides: \<^verbatim>\<open>infra/src/infra/job_result/rdb.rs\<close> and
  \<^verbatim>\<open>rows.rs\<close>, \<^verbatim>\<open>infra/src/infra/job/overrides.rs\<close>, and the storing rules of
  \<^verbatim>\<open>app/src/app/job_result.rs\<close>.  A table is the list of its rows in primary-key order of
  insertion; each SQL statement of the source is translated to the list operation it denotes
  (rows with equal sort keys, whose order SQL leaves open, keep their table order; a negative
  \<^verbatim>\<open>LIMIT\<close> means no limit, as in SQLite).  The protobuf codec of the output column is a
  parameter.
\<close>

section \<open>Rows\<close>

record job_result_row =
  jrr_id :: i64
  jrr_job_id :: i64
  jrr_worker_id :: i64
  jrr_args :: bytes
  jrr_uniq_key :: "string option"
  jrr_status :: i32
  jrr_output :: bytes
  jrr_retried :: i64
  jrr_priority :: i32
  jrr_timeout :: i64
  jrr_streaming_type :: i32
  jrr_enqueue_time :: i64
  jrr_run_after_time :: i64
  jrr_start_time :: i64
  jrr_end_time :: i64
  jrr_using :: "string option"

record overrides_row =
  or_job_id :: i64
  or_response_type :: "i32 option"
  or_store_success :: "bool option"
  or_store_failure :: "bool option"
  or_broadcast_results :: "bool option"
  or_retry_type :: "i32 option"
  or_retry_interval :: "u32 option"
  or_retry_max_interval :: "u32 option"
  or_retry_max_retry :: "u32 option"
  or_retry_basis :: "f32 option"

record job_row =
  jrw_id :: i64
  jrw_worker_id :: i64
  jrw_args :: bytes
  jrw_uniq_key :: "string option"
  jrw_enqueue_time :: i64
  jrw_grabbed_until_time :: "i64 option"
  jrw_run_after_time :: i64
  jrw_retried :: i64
  jrw_priority :: i32
  jrw_timeout :: i64
  jrw_streaming_type :: i32
  jrw_using :: "string option"

record status_row =
  sw_job_id :: i64
  sw_status :: i32
  sw_worker_id :: i64
  sw_channel :: string
  sw_priority :: i32
  sw_enqueue_time :: i64
  sw_pending_time :: "i64 option"
  sw_start_time :: "i64 option"
  sw_is_streamable :: bool
  sw_broadcast_results :: bool
  sw_worker_instance_id :: "i64 option"
  sw_version :: i64
  sw_updated_at :: i64
  sw_deleted_at :: "i64 option"

text \<open>The tables: jobs, the index of their statuses, results, overrides.\<close>

record rdb =
  db_jobs :: "job_row list"
  db_status :: "status_row list"
  db_results :: "job_result_row list"
  db_overrides :: "overrides_row list"

record output_codec =
  oc_encode :: "bytes \<Rightarrow> bytes"
  oc_decode :: "bytes \<Rightarrow> bytes option"

text \<open>
  What the code relies on of the protobuf codec: decoding inverts encoding, and the empty
  buffer is the message with every field at its default.
\<close>

definition output_codec_laws :: "output_codec \<Rightarrow> bool" where
  "output_codec_laws oc \<longleftrightarrow>
     (\<forall>v. oc_decode oc (oc_encode oc v) = Some v) \<and> oc_decode oc [] = Some []"

datatype db_failure = UniqueViolation | UnwrapNone | Refused string

section \<open>Results\<close>

definition row_of ::
  "output_codec \<Rightarrow> i64 \<Rightarrow> job_result_data \<Rightarrow> db_failure + job_result_row" where
  "row_of oc i d =
     (case (jr_job_id d, jr_worker_id d) of
        (Some jid, Some wid) \<Rightarrow>
          Inr \<lparr>jrr_id = i, jrr_job_id = jid, jrr_worker_id = wid, jrr_args = jr_args d,
               jrr_uniq_key = jr_uniq_key d, jrr_status = jr_status d,
               jrr_output = (case jr_output d of None \<Rightarrow> [] | Some v \<Rightarrow> oc_encode oc v),
               jrr_retried = uint (jr_retried d), jrr_priority = jr_priority d,
               jrr_timeout = sint (jr_timeout d), jrr_streaming_type = jr_streaming_type d,
               jrr_enqueue_time = jr_enqueue_time d, jrr_run_after_time = jr_run_after_time d,
               jrr_start_time = jr_start_time d, jrr_end_time = jr_end_time d,
               jrr_using = jr_using d\<rparr>
      | _ \<Rightarrow> Inl UnwrapNone)"

definition row_to_proto :: "output_codec \<Rightarrow> job_result_row \<Rightarrow> job_result" where
  "row_to_proto oc r =
     \<lparr>jres_id = Some (jrr_id r),
      jres_data = Some
        \<lparr>jr_job_id = Some (jrr_job_id r), jr_worker_id = Some (jrr_worker_id r),
         jr_worker_name = [], jr_args = jrr_args r, jr_uniq_key = jrr_uniq_key r,
         jr_status = jrr_status r, jr_output = oc_decode oc (jrr_output r),
         jr_retried = word_of_int (jrr_retried r), jr_max_retry = 0,
         jr_priority = jrr_priority r, jr_timeout = word_of_int (jrr_timeout r),
         jr_streaming_type = jrr_streaming_type r, jr_enqueue_time = jrr_enqueue_time r,
         jr_run_after_time = jrr_run_after_time r, jr_start_time = jrr_start_time r,
         jr_end_time = jrr_end_time r, jr_response_type = 0, jr_store_success = False,
         jr_store_failure = False, jr_using = jrr_using r, jr_broadcast_results = False,
         jr_resolved_retry_policy = None, jr_error = None\<rparr>,
      jres_metadata = Map.empty\<rparr>"

definition result_create ::
  "output_codec \<Rightarrow> i64 \<Rightarrow> job_result_data \<Rightarrow> rdb \<Rightarrow> db_failure + bool \<times> rdb" where
  "result_create oc i d db =
     bindE (row_of oc i d) (\<lambda>row.
       if i \<in> set (map jrr_id (db_results db)) then Inl UniqueViolation
       else Inr (True, db\<lparr>db_results := db_results db @ [row]\<rparr>))"

definition result_update ::
  "output_codec \<Rightarrow> i64 \<Rightarrow> job_result_data \<Rightarrow> rdb \<Rightarrow> db_failure + bool \<times> rdb" where
  "result_update oc i d db =
     bindE (row_of oc i d) (\<lambda>row.
       Inr (i \<in> set (map jrr_id (db_results db)),
            db\<lparr>db_results := map (\<lambda>r. if jrr_id r = i then row else r) (db_results db)\<rparr>))"

definition result_find :: "output_codec \<Rightarrow> i64 \<Rightarrow> rdb \<Rightarrow> job_result option" where
  "result_find oc i db =
     map_option (row_to_proto oc) (List.find (\<lambda>r. jrr_id r = i) (db_results db))"

definition result_delete_tx :: "i64 \<Rightarrow> rdb \<Rightarrow> bool \<times> rdb" where
  "result_delete_tx i db =
     (i \<in> set (map jrr_id (db_results db)),
      db\<lparr>db_results := filter (\<lambda>r. jrr_id r \<noteq> i) (db_results db)\<rparr>)"

definition referenced :: "rdb \<Rightarrow> i64 \<Rightarrow> bool" where
  "referenced db jid \<longleftrightarrow>
     jid \<in> set (map jrw_id (db_jobs db)) \<or> jid \<in> set (map jrr_job_id (db_results db))"

definition result_delete :: "i64 \<Rightarrow> rdb \<Rightarrow> bool \<times> rdb" where
  "result_delete i db =
     (let job_id_opt = map_option jrr_job_id (List.find (\<lambda>r. jrr_id r = i) (db_results db));
          (del, db') = result_delete_tx i db
      in case job_id_opt of
           Some jid \<Rightarrow>
             (del, if del
                   then db'\<lparr>db_overrides :=
                          filter (\<lambda>o'. \<not> (or_job_id o' = jid \<and> \<not> referenced db' jid))
                            (db_overrides db')\<rparr>
                   else db')
         | None \<Rightarrow> (del, db'))"

definition result_find_latest_by_job_id :: "output_codec \<Rightarrow> i64 \<Rightarrow> rdb \<Rightarrow> job_result option" where
  "result_find_latest_by_job_id oc jid db =
     (case sort_key (\<lambda>r. - jrr_end_time r)
             (filter (\<lambda>r. jrr_job_id r = jid) (db_results db)) of
        [] \<Rightarrow> None
      | r # _ \<Rightarrow> Some (row_to_proto oc r))"

definition result_find_list_by_job_id :: "output_codec \<Rightarrow> i64 \<Rightarrow> rdb \<Rightarrow> job_result list" where
  "result_find_list_by_job_id oc jid db =
     map (row_to_proto oc)
       (take 1000 (sort_key (\<lambda>r. - jrr_end_time r)
          (filter (\<lambda>r. jrr_job_id r = jid) (db_results db))))"

text \<open>\<^verbatim>\<open>LIMIT\<close> and \<^verbatim>\<open>OFFSET\<close>; SQLite reads a negative offset as 0.\<close>

definition sql_limit :: "int \<Rightarrow> int \<Rightarrow> 'a list \<Rightarrow> 'a list" where
  "sql_limit cap off xs =
     (let ys = drop (nat off) xs in if cap < 0 then ys else take (nat cap) ys)"

definition result_find_list ::
  "output_codec \<Rightarrow> i32 option \<Rightarrow> i64 option \<Rightarrow> rdb \<Rightarrow> job_result list" where
  "result_find_list oc cap off db =
     map (row_to_proto oc)
       (let rows = sort_key (\<lambda>r. - jrr_job_id r) (db_results db)
        in case cap of Some l \<Rightarrow> sql_limit l (unwrap_or off 0) rows | None \<Rightarrow> rows)"

record result_filter =
  rf_worker_ids :: "i64 list"
  rf_statuses :: "i32 list"
  rf_start_time_from :: "i64 option"
  rf_start_time_to :: "i64 option"
  rf_end_time_from :: "i64 option"
  rf_end_time_to :: "i64 option"
  rf_priorities :: "i32 list"
  rf_uniq_key :: "string option"

datatype sort_field = SfUnspecified | SfId | SfStartTime | SfEndTime | SfStatus

definition filter_matches :: "result_filter \<Rightarrow> job_result_row \<Rightarrow> bool" where
  "filter_matches f r \<longleftrightarrow>
     jrr_id r > 0 \<and>
     (rf_worker_ids f \<noteq> [] \<longrightarrow> jrr_worker_id r \<in> set (rf_worker_ids f)) \<and>
     (rf_statuses f \<noteq> [] \<longrightarrow> jrr_status r \<in> set (rf_statuses f)) \<and>
     (case rf_start_time_from f of None \<Rightarrow> True | Some t \<Rightarrow> jrr_start_time r \<ge> t) \<and>
     (case rf_start_time_to f of None \<Rightarrow> True | Some t \<Rightarrow> jrr_start_time r \<le> t) \<and>
     (case rf_end_time_from f of None \<Rightarrow> True | Some t \<Rightarrow> jrr_end_time r \<ge> t) \<and>
     (case rf_end_time_to f of None \<Rightarrow> True | Some t \<Rightarrow> jrr_end_time r \<le> t) \<and>
     (rf_priorities f \<noteq> [] \<longrightarrow> jrr_priority r \<in> set (rf_priorities f)) \<and>
     (case rf_uniq_key f of None \<Rightarrow> True | Some k \<Rightarrow> jrr_uniq_key r = Some k)"

primrec sort_column :: "sort_field \<Rightarrow> job_result_row \<Rightarrow> int" where
  "sort_column SfUnspecified r = jrr_end_time r"
| "sort_column SfId r = jrr_id r"
| "sort_column SfStartTime r = jrr_start_time r"
| "sort_column SfEndTime r = jrr_end_time r"
| "sort_column SfStatus r = jrr_status r"

definition ordered_rows ::
  "sort_field option \<Rightarrow> bool option \<Rightarrow> job_result_row list \<Rightarrow> job_result_row list" where
  "ordered_rows sort_by ascending rows =
     (let col = sort_column (unwrap_or sort_by SfEndTime)
      in sort_key (\<lambda>r. if unwrap_or ascending False then col r else - col r) rows)"

definition result_find_list_by ::
  "output_codec \<Rightarrow> result_filter \<Rightarrow> i32 option \<Rightarrow> i64 option \<Rightarrow> sort_field option \<Rightarrow> bool option \<Rightarrow>
    rdb \<Rightarrow> job_result list" where
  "result_find_list_by oc f cap off sort_by ascending db =
     (let limit_value = min (unwrap_or cap 100) 1000;
          offset_value = max 0 (min (unwrap_or off 0) 10000)
      in map (row_to_proto oc)
           (sql_limit limit_value offset_value
              (ordered_rows sort_by ascending (filter (filter_matches f) (db_results db)))))"

definition result_count_by :: "result_filter \<Rightarrow> rdb \<Rightarrow> nat" where
  "result_count_by f db = length (filter (filter_matches f) (db_results db))"

definition bulk_matches ::
  "i64 \<Rightarrow> i32 list \<Rightarrow> i64 list \<Rightarrow> job_result_row \<Rightarrow> bool" where
  "bulk_matches cutoff statuses worker_ids r \<longleftrightarrow>
     jrr_end_time r < cutoff \<and>
     (statuses \<noteq> [] \<longrightarrow> jrr_status r \<in> set statuses) \<and>
     (worker_ids \<noteq> [] \<longrightarrow> jrr_worker_id r \<in> set worker_ids)"

definition result_delete_bulk ::
  "i64 \<Rightarrow> i64 option \<Rightarrow> i32 list \<Rightarrow> i64 list \<Rightarrow> rdb \<Rightarrow> db_failure + nat \<times> rdb" where
  "result_delete_bulk now end_time_before statuses worker_ids db =
     (if end_time_before = None \<and> statuses = [] \<and> worker_ids = []
      then Inl (Refused ''At least one filter condition is required (end_time_before, statuses, or worker_ids)'')
      else
        let cutoff_24h = i64_wrap (now - 24 * 60 * 60 * 1000);
            effective_cutoff = min (unwrap_or end_time_before cutoff_24h) cutoff_24h
        in if (case end_time_before of None \<Rightarrow> False | Some t \<Rightarrow> t > cutoff_24h)
           then Inl (Refused (''Cannot delete results within last 24 hours (requested: ''
                  @ show_int (the end_time_before) @ '', cutoff: '' @ show_int cutoff_24h @ '')''))
           else
             let gone = bulk_matches effective_cutoff statuses worker_ids;
                 db' = db\<lparr>db_results := filter (\<lambda>r. \<not> gone r) (db_results db)\<rparr>
             in Inr (length (filter gone (db_results db)),
                     db'\<lparr>db_overrides :=
                       filter (\<lambda>o'. referenced db' (or_job_id o')) (db_overrides db')\<rparr>))"

section \<open>Overrides\<close>

definition overrides_to_proto :: "overrides_row \<Rightarrow> job_execution_overrides" where
  "overrides_to_proto r =
     \<lparr>ov_response_type = or_response_type r, ov_store_success = or_store_success r,
      ov_store_failure = or_store_failure r, ov_broadcast_results = or_broadcast_results r,
      ov_retry_policy =
        (if or_retry_type r \<noteq> None
         then Some \<lparr>rp_type = unwrap_or (or_retry_type r) 0,
                    rp_interval = unwrap_or (or_retry_interval r) 0,
                    rp_max_interval = unwrap_or (or_retry_max_interval r) 0,
                    rp_max_retry = unwrap_or (or_retry_max_retry r) 0,
                    rp_basis = unwrap_or (or_retry_basis r) 0\<rparr>
         else None)\<rparr>"

definition overrides_from_proto :: "i64 \<Rightarrow> job_execution_overrides \<Rightarrow> overrides_row" where
  "overrides_from_proto jid ov =
     \<lparr>or_job_id = jid, or_response_type = ov_response_type ov,
      or_store_success = ov_store_success ov, or_store_failure = ov_store_failure ov,
      or_broadcast_results = ov_broadcast_results ov,
      or_retry_type = map_option rp_type (ov_retry_policy ov),
      or_retry_interval = map_option rp_interval (ov_retry_policy ov),
      or_retry_max_interval = map_option rp_max_interval (ov_retry_policy ov),
      or_retry_max_retry = map_option rp_max_retry (ov_retry_policy ov),
      or_retry_basis = map_option rp_basis (ov_retry_policy ov)\<rparr>"

fun join_placeholders :: "nat \<Rightarrow> string" where
  "join_placeholders 0 = []"
| "join_placeholders (Suc 0) = ''?''"
| "join_placeholders (Suc n) = ''?, '' @ join_placeholders n"

definition build_in_placeholders :: "nat \<Rightarrow> db_failure + string" where
  "build_in_placeholders count =
     (if count = 0
      then Inl (Refused ''build_in_placeholders called with count=0 would produce invalid SQL'')
      else Inr (join_placeholders count))"

definition create_overrides_tx ::
  "i64 \<Rightarrow> job_execution_overrides \<Rightarrow> rdb \<Rightarrow> db_failure + bool \<times> rdb" where
  "create_overrides_tx jid ov db =
     (if jid \<in> set (map or_job_id (db_overrides db)) then Inl UniqueViolation
      else Inr (True, db\<lparr>db_overrides := db_overrides db @ [overrides_from_proto jid ov]\<rparr>))"

definition find_overrides_tx :: "i64 \<Rightarrow> rdb \<Rightarrow> job_execution_overrides option" where
  "find_overrides_tx jid db =
     map_option overrides_to_proto (List.find (\<lambda>r. or_job_id r = jid) (db_overrides db))"

definition delete_overrides_tx :: "i64 \<Rightarrow> rdb \<Rightarrow> bool \<times> rdb" where
  "delete_overrides_tx jid db =
     (jid \<in> set (map or_job_id (db_overrides db)),
      db\<lparr>db_overrides := filter (\<lambda>r. or_job_id r \<noteq> jid) (db_overrides db)\<rparr>)"

fun chunks :: "nat \<Rightarrow> 'a list \<Rightarrow> 'a list list" where
  "chunks n xs = (if n = 0 \<or> xs = [] then [] else take n xs # chunks n (drop n xs))"

declare chunks.simps [simp del]

definition find_overrides_batch_tx :: "i64 list \<Rightarrow> rdb \<Rightarrow> i64 \<rightharpoonup> job_execution_overrides" where
  "find_overrides_batch_tx job_ids db =
     fold (\<lambda>chunk m.
        m ++ map_of (rev (map (\<lambda>r. (or_job_id r, overrides_to_proto r))
          (filter (\<lambda>r. or_job_id r \<in> set chunk) (db_overrides db)))))
       (chunks 500 job_ids) Map.empty"

section \<open>What is stored\<close>

definition should_store :: "job_result_data \<Rightarrow> bool" where
  "should_store d \<longleftrightarrow>
     jr_status d = result_status_i32 RsSuccess \<and> jr_store_success d \<or>
     jr_status d \<noteq> result_status_i32 RsSuccess \<and> jr_store_failure d"

definition create_job_result_if_necessary ::
  "output_codec \<Rightarrow> i64 \<Rightarrow> job_result_data \<Rightarrow> rdb \<Rightarrow> db_failure + bool \<times> rdb" where
  "create_job_result_if_necessary oc i d db =
     (if should_store d then result_create oc i d db else Inr (False, db))"

definition replace_stored_result ::
  "output_codec \<Rightarrow> i64 \<Rightarrow> job_result_data \<Rightarrow> job_result_data \<Rightarrow> rdb \<Rightarrow> db_failure + rdb" where
  "replace_stored_result oc i recorded replacement db =
     (if should_store replacement then
        bindE (result_update oc i replacement db) (\<lambda>(updated, db').
          if updated then Inr db'
          else bindE (result_create oc i replacement db') (\<lambda>(_, db''). Inr db''))
      else if should_store recorded then Inr (snd (result_delete i db))
      else Inr db)"

definition is_finished :: "job_result \<Rightarrow> bool" where
  "is_finished r =
     (case jres_data r of
        None \<Rightarrow> False
      | Some d \<Rightarrow> jr_status d \<noteq> result_status_i32 RsErrorAndRetry)"

definition fill_worker_data ::
  "worker_data option \<Rightarrow> job_execution_overrides option \<Rightarrow> job_result_data \<Rightarrow> job_result_data" where
  "fill_worker_data worker overrides d =
     (case worker of
        None \<Rightarrow> d
      | Some w \<Rightarrow>
          let resolved = resolve_job_params w overrides
          in d\<lparr>jr_worker_name := w_name w,
               jr_response_type := rj_response_type resolved,
               jr_store_success := rj_store_success resolved,
               jr_store_failure := rj_store_failure resolved,
               jr_broadcast_results := rj_broadcast_results resolved,
               jr_max_retry :=
                 (case jr_resolved_retry_policy d of
                    Some p \<Rightarrow> rp_max_retry p
                  | None \<Rightarrow> (case rj_retry_policy resolved of Some p \<Rightarrow> rp_max_retry p | None \<Rightarrow> 0))\<rparr>)"

section \<open>Lemmas\<close>

lemma row_of_id: "row_of oc i d = Inr row \<Longrightarrow> jrr_id row = i"
  by (auto simp: row_of_def split: option.splits)

lemma row_of_defined:
  assumes "jr_job_id d \<noteq> None" "jr_worker_id d \<noteq> None"
  obtains row where "row_of oc i d = Inr row" "jrr_id row = i"
  using assms by (auto simp: row_of_def)

lemma row_to_proto_row_of:
  assumes "output_codec_laws oc" and "row_of oc i d = Inr row"
  shows "row_to_proto oc row =
     \<lparr>jres_id = Some i,
      jres_data = Some (d\<lparr>jr_worker_name := [], jr_output := Some (unwrap_or (jr_output d) []),
        jr_max_retry := 0, jr_response_type := 0, jr_store_success := False,
        jr_store_failure := False, jr_broadcast_results := False,
        jr_resolved_retry_policy := None, jr_error := None\<rparr>),
      jres_metadata = Map.empty\<rparr>"
  using assms
  by (auto simp: row_of_def row_to_proto_def output_codec_laws_def unwrap_or_def
      split: option.splits)

lemma map_no_match: "i \<notin> f ` set xs \<Longrightarrow> map (\<lambda>r. if f r = i then g r else r) xs = xs"
  by (induction xs) auto

lemma filter_no_match: "i \<notin> f ` set xs \<Longrightarrow> filter (\<lambda>r. f r \<noteq> i) xs = xs"
  by (induction xs) auto

lemma find_none_iff: "i \<notin> f ` set xs \<Longrightarrow> List.find (\<lambda>r. f r = i) xs = None"
  by (induction xs) auto

lemma find_append_new: "i \<notin> f ` set xs \<Longrightarrow> f x = i \<Longrightarrow> List.find (\<lambda>r. f r = i) (xs @ [x]) = Some x"
  by (induction xs) auto

lemma db_results_result_delete:
  "db_results (snd (result_delete i db)) = filter (\<lambda>r. jrr_id r \<noteq> i) (db_results db)"
  by (simp add: result_delete_def result_delete_tx_def Let_def split: option.splits)

lemma concat_chunks: "0 < n \<Longrightarrow> concat (chunks n xs) = xs"
proof (induction n xs rule: chunks.induct)
  case (1 n xs)
  then show ?case by (cases "xs = []") (simp_all add: chunks.simps [of n xs] chunks.simps [of n "[]"])
qed

lemma map_of_overrides:
  assumes "distinct (map or_job_id rows)"
  shows "map_of (rev (map (\<lambda>r. (or_job_id r, overrides_to_proto r)) (filter (\<lambda>r. or_job_id r \<in> A) rows))) j =
    (if j \<in> A then map_option overrides_to_proto (List.find (\<lambda>r. or_job_id r = j) rows) else None)"
  using assms
proof (induction rows)
  case (Cons r rows)
  then show ?case
    by (auto simp: map_add_def find_none_iff split: option.splits)
qed simp

lemma find_overrides_fold:
  assumes "distinct (map or_job_id (db_overrides db))"
  shows "fold (\<lambda>chunk m.
        m ++ map_of (rev (map (\<lambda>r. (or_job_id r, overrides_to_proto r))
          (filter (\<lambda>r. or_job_id r \<in> set chunk) (db_overrides db))))) cs m j =
     (if j \<in> set (concat cs) \<and> find_overrides_tx j db \<noteq> None then find_overrides_tx j db else m j)"
proof (induction cs arbitrary: m)
  case (Cons c cs)
  show ?case
    unfolding fold_Cons comp_def Cons.IH
    by (auto simp: map_add_def map_of_overrides [OF assms] find_overrides_tx_def
        split: option.splits)
qed simp

section \<open>Properties\<close>

definition example_codec :: output_codec where
  "example_codec =
     \<lparr>oc_encode = (\<lambda>v. if v = [] then [] else CHR ''o'' # v),
      oc_decode = (\<lambda>v. case v of [] \<Rightarrow> Some [] | c # cs \<Rightarrow> if c = CHR ''o'' then Some cs else None)\<rparr>"

definition example_db :: rdb where
  "example_db = \<lparr>db_jobs = [], db_status = [], db_results = [], db_overrides = []\<rparr>"

lemma example_codec_laws: "output_codec_laws example_codec"
  by (simp add: output_codec_laws_def example_codec_def)

lemma replace_matches_record:
  assumes fresh: "i \<notin> jrr_id ` set (db_results db)"
    and recorded: "create_job_result_if_necessary oc i recorded db = Inr (b, db1)"
    and ids: "jr_job_id replacement \<noteq> None" "jr_worker_id replacement \<noteq> None"
  shows "\<exists>db2 b' db'. replace_stored_result oc i recorded replacement db1 = Inr db2 \<and>
      create_job_result_if_necessary oc i replacement db = Inr (b', db') \<and>
      db_results db2 = db_results db'"
proof -
  obtain row where row: "row_of oc i replacement = Inr row" "jrr_id row = i"
    using ids by (rule row_of_defined)
  have new: "create_job_result_if_necessary oc i replacement db =
      Inr (if should_store replacement then (True, db\<lparr>db_results := db_results db @ [row]\<rparr>)
           else (False, db))"
    using fresh row by (simp add: create_job_result_if_necessary_def result_create_def bindE_def)
  show ?thesis
  proof (cases "should_store recorded")
    case True
    with recorded obtain old where "row_of oc i recorded = Inr old"
        "db1 = db\<lparr>db_results := db_results db @ [old]\<rparr>"
      by (auto simp: create_job_result_if_necessary_def result_create_def bindE_def
          split: sum.splits if_splits)
    then have old: "jrr_id old = i" "db1 = db\<lparr>db_results := db_results db @ [old]\<rparr>"
      by (simp_all add: row_of_id)
    show ?thesis
      using fresh row old True new
      by (auto simp: replace_stored_result_def result_update_def bindE_def map_no_match
          db_results_result_delete filter_no_match)
  next
    case False
    then have "db1 = db" using recorded by (simp add: create_job_result_if_necessary_def)
    then show ?thesis
      using fresh row False new
      by (auto simp: replace_stored_result_def result_update_def result_create_def bindE_def
          map_no_match image_iff)
  qed
qed

text \<open>
  Bulk deletion keeps its safety promises.  It needs a filter; no result that ended
  within the last 24 hours is removed and neither is one outside the filters; the reported
  number is the number of rows removed; and exactly the overrides that no job and no
  remaining result refers to are cleaned up.
\<close>

theorem delete_bulk_safe:
  assumes del: "result_delete_bulk now before statuses worker_ids db = Inr (n, db')"
    and clock: "in_i64 (now - 24 * 60 * 60 * 1000)"
  shows "\<not> (before = None \<and> statuses = [] \<and> worker_ids = []) \<and>
     (\<forall>r \<in> set (db_results db) - set (db_results db').
        jrr_end_time r < now - 24 * 60 * 60 * 1000 \<and>
        (\<forall>t. before = Some t \<longrightarrow> jrr_end_time r < t) \<and>
        (statuses \<noteq> [] \<longrightarrow> jrr_status r \<in> set statuses) \<and>
        (worker_ids \<noteq> [] \<longrightarrow> jrr_worker_id r \<in> set worker_ids)) \<and>
     n + length (db_results db') = length (db_results db) \<and>
     db_overrides db' = filter (\<lambda>o'. referenced db' (or_job_id o')) (db_overrides db) \<and>
     db_jobs db' = db_jobs db"
proof -
  let ?cut = "now - 24 * 60 * 60 * 1000"
  have wrap: "i64_wrap ?cut = ?cut" using clock by (rule i64_wrap_id)
  let ?gone = "bulk_matches (min (unwrap_or before ?cut) ?cut) statuses worker_ids"
  have filt: "\<not> (before = None \<and> statuses = [] \<and> worker_ids = [])"
    using del by (auto simp: result_delete_bulk_def)
  with del wrap have n: "n = length (filter ?gone (db_results db))"
    and rows: "db_results db' = filter (\<lambda>r. \<not> ?gone r) (db_results db)"
    and rest: "db_jobs db' = db_jobs db"
      "db_overrides db' = filter (\<lambda>o'. referenced db' (or_job_id o')) (db_overrides db)"
    by (auto simp: result_delete_bulk_def Let_def referenced_def split: if_splits)
  have "n + length (db_results db') = length (db_results db)"
    using sum_length_filter_compl [of ?gone "db_results db"] by (simp add: n rows)
  moreover have "\<forall>r \<in> set (db_results db) - set (db_results db'). ?gone r"
    by (auto simp: rows)
  ultimately show ?thesis
    using filt rest by (auto simp: bulk_matches_def unwrap_or_def)
qed

definition example_row :: "i64 \<Rightarrow> i64 \<Rightarrow> i64 \<Rightarrow> job_result_row" where
  "example_row i jid ended =
     \<lparr>jrr_id = i, jrr_job_id = jid, jrr_worker_id = 1, jrr_args = [], jrr_uniq_key = None,
      jrr_status = 0, jrr_output = [], jrr_retried = 0, jrr_priority = 0, jrr_timeout = 0,
      jrr_streaming_type = 0, jrr_enqueue_time = 0, jrr_run_after_time = 0, jrr_start_time = 0,
      jrr_end_time = ended, jrr_using = None\<rparr>"

theorem delete_bulk_safe_witness:
  "\<exists>n db'. result_delete_bulk 90000000 None [] [1]
       (example_db\<lparr>db_results := [example_row 1 8 3000, example_row 2 7 4000000]\<rparr>) = Inr (n, db') \<and>
     n + length (db_results db') = 2 \<and> example_row 2 7 4000000 \<in> set (db_results db')"
proof -
  let ?db = "example_db\<lparr>db_results := [example_row 1 8 3000, example_row 2 7 4000000]\<rparr>"
  have clock: "in_i64 (90000000 - 24 * 60 * 60 * 1000)"
    by (simp add: in_i64_def i64_min_def i64_max_def)
  obtain n db' where del: "result_delete_bulk 90000000 None [] [1] ?db = Inr (n, db')"
    by (simp add: result_delete_bulk_def Let_def)
  note safe = delete_bulk_safe [OF del clock]
  let ?r = "example_row 2 7 4000000"
  have mem: "?r \<in> set (db_results ?db)" by simp
  have late: "\<not> jrr_end_time ?r < 90000000 - 24 * 60 * 60 * 1000" by (simp add: example_row_def)
  from safe have "\<forall>r \<in> set (db_results ?db) - set (db_results db').
      jrr_end_time r < 90000000 - 24 * 60 * 60 * 1000" by blast
  with mem late have "?r \<in> set (db_results db')" by blast
  moreover have "n + length (db_results db') = 2" using safe by simp
  ultimately show ?thesis using del by blast
qed

text \<open>
  A page of results contains only results that match the filters, in the requested
  order, never more than 1000 for a non-negative limit and never more than the count the
  same filters report.
\<close>

theorem find_list_by_page:
  assumes "0 \<le> unwrap_or cap 100"
  shows "length (result_find_list_by oc f cap off sort_by ascending db) \<le> 1000 \<and>
     length (result_find_list_by oc f cap off sort_by ascending db) \<le> result_count_by f db \<and>
     (\<exists>rows. result_find_list_by oc f cap off sort_by ascending db = map (row_to_proto oc) rows \<and>
        (\<forall>r \<in> set rows. r \<in> set (db_results db) \<and> filter_matches f r) \<and>
        sorted (map (\<lambda>r. (if unwrap_or ascending False then 1 else - 1) *
                      sort_column (unwrap_or sort_by SfEndTime) r) rows))"
proof -
  let ?rows = "ordered_rows sort_by ascending (filter (filter_matches f) (db_results db))"
  let ?page = "sql_limit (min (unwrap_or cap 100) 1000) (max 0 (min (unwrap_or off 0) 10000)) ?rows"
  let ?key = "\<lambda>r. (if unwrap_or ascending False then 1 else - 1) *
      sort_column (unwrap_or sort_by SfEndTime) r"
  have key: "?rows = sort_key ?key (filter (filter_matches f) (db_results db))"
    by (cases "unwrap_or ascending False") (simp_all add: ordered_rows_def Let_def)
  have page: "?page = take (nat (min (unwrap_or cap 100) 1000))
      (drop (nat (max 0 (min (unwrap_or off 0) 10000))) ?rows)"
    using assms by (simp add: sql_limit_def Let_def)
  have "sorted (map ?key ?rows)" unfolding key by simp
  then have "sorted (map ?key ?page)"
    unfolding page take_map [symmetric] drop_map [symmetric]
    by (intro sorted_wrt_take sorted_wrt_drop)
  moreover have "set ?page \<subseteq> set ?rows"
    unfolding page by (meson order_trans set_drop_subset set_take_subset)
  moreover have "length ?page \<le> 1000" "length ?page \<le> length ?rows"
    unfolding page by (simp_all, linarith+)
  ultimately show ?thesis
    unfolding result_find_list_by_def Let_def result_count_by_def
    by (intro conjI exI [of _ ?page]) (auto simp: key)
qed

definition no_filter :: result_filter where
  "no_filter = \<lparr>rf_worker_ids = [], rf_statuses = [], rf_start_time_from = None,
     rf_start_time_to = None, rf_end_time_from = None, rf_end_time_to = None, rf_priorities = [],
     rf_uniq_key = None\<rparr>"

theorem find_list_by_page_witness:
  "length (result_find_list_by example_codec no_filter (Some 5000) None None None
     (example_db\<lparr>db_results := [example_row 1 8 3000, example_row 2 7 4000]\<rparr>)) \<le> 1000"
  using find_list_by_page [of "Some 5000" example_codec no_filter None None None
      "example_db\<lparr>db_results := [example_row 1 8 3000, example_row 2 7 4000]\<rparr>"]
  by (simp add: unwrap_or_def)

text \<open>
  A negative limit is passed to the database as it is, so in SQLite the page is not bounded:
  everything after the offset is returned.
\<close>

theorem negative_limit_unbounded:
  "result_find_list_by oc f (Some (- 1)) None sort_by ascending db =
     map (row_to_proto oc) (ordered_rows sort_by ascending (filter (filter_matches f) (db_results db)))"
  by (simp add: result_find_list_by_def sql_limit_def unwrap_or_def)

text \<open>
  A stored result is read back as it was written, apart from the columns the table does
  not have: the settings resolved from the worker, which the reader fills in, and the
  classification of the failure.
\<close>

theorem stored_result_read_back:
  assumes "output_codec_laws oc" and "result_create oc i d db = Inr (b, db')"
  shows "result_find oc i db' =
     Some \<lparr>jres_id = Some i,
       jres_data = Some (d\<lparr>jr_worker_name := [], jr_output := Some (unwrap_or (jr_output d) []),
         jr_max_retry := 0, jr_response_type := 0, jr_store_success := False,
         jr_store_failure := False, jr_broadcast_results := False,
         jr_resolved_retry_policy := None, jr_error := None\<rparr>),
       jres_metadata = Map.empty\<rparr>"
proof -
  obtain row where row: "row_of oc i d = Inr row" "i \<notin> jrr_id ` set (db_results db)"
      "db' = db\<lparr>db_results := db_results db @ [row]\<rparr>"
    using assms(2) by (auto simp: result_create_def bindE_def split: sum.splits if_splits)
  then show ?thesis
    using row_to_proto_row_of [OF assms(1) row(1)] row_of_id [OF row(1)]
    by (simp add: result_find_def find_append_new)
qed

theorem stored_result_read_back_witness:
  "\<exists>b db'. result_create example_codec 70 example_result example_db = Inr (b, db') \<and>
     map_option jres_id (result_find example_codec 70 db') = Some (Some 70)"
proof -
  obtain b db' where "result_create example_codec 70 example_result example_db = Inr (b, db')"
    by (simp add: result_create_def bindE_def row_of_def example_result_def example_db_def)
  with stored_result_read_back [OF example_codec_laws this] show ?thesis by auto
qed

text \<open>
  Per-job overrides survive storage unchanged, read one at a time or in a batch of any
  size: after storing overrides for a job, the single lookup returns them, and a batch lookup
  returns for every requested job what the single lookup returns and nothing for others.
\<close>

theorem stored_overrides_read_back:
  assumes keys: "distinct (map or_job_id (db_overrides db))"
    and created: "create_overrides_tx jid ov db = Inr (b, db')"
  shows "find_overrides_tx jid db' = Some ov \<and>
     find_overrides_batch_tx ids db' =
       (\<lambda>j. if j \<in> set ids then find_overrides_tx j db' else None)"
proof -
  have db': "jid \<notin> or_job_id ` set (db_overrides db)"
      "db' = db\<lparr>db_overrides := db_overrides db @ [overrides_from_proto jid ov]\<rparr>"
    using created by (auto simp: create_overrides_tx_def split: if_splits)
  have "overrides_to_proto (overrides_from_proto jid ov) = ov"
    by (cases "ov_retry_policy ov") (simp_all add: overrides_to_proto_def overrides_from_proto_def)
  moreover have "or_job_id (overrides_from_proto jid ov) = jid"
    by (simp add: overrides_from_proto_def)
  ultimately have "find_overrides_tx jid db' = Some ov"
    using db' by (simp add: find_overrides_tx_def find_append_new)
  moreover have "distinct (map or_job_id (db_overrides db'))"
    using keys db' by (auto simp: overrides_from_proto_def)
  from find_overrides_fold [OF this, of "chunks 500 ids" Map.empty]
  have "find_overrides_batch_tx ids db' =
      (\<lambda>j. if j \<in> set ids then find_overrides_tx j db' else None)"
    by (auto simp: find_overrides_batch_tx_def concat_chunks fun_eq_iff simp del: set_concat)
  ultimately show ?thesis by blast
qed

theorem stored_overrides_read_back_witness:
  "\<exists>b db'. create_overrides_tx 7 (snapshot_overrides example_result) example_db = Inr (b, db') \<and>
     find_overrides_batch_tx [3, 7] db' 7 = Some (snapshot_overrides example_result)"
proof -
  have "distinct (map or_job_id (db_overrides example_db))" by (simp add: example_db_def)
  moreover obtain b db' where
    "create_overrides_tx 7 (snapshot_overrides example_result) example_db = Inr (b, db')"
    by (simp add: create_overrides_tx_def example_db_def)
  ultimately show ?thesis
    using stored_overrides_read_back [of example_db 7 "snapshot_overrides example_result" b db' "[3, 7]"]
    by auto
qed

end
