(* ===== verification/Job_Table.thy ===== *)
theory Job_Table
  imports Result_Store
begin

text \<open>
  The job table: \<^verbatim>\<open>infra/src/infra/job/rdb.rs\<close>, \<^verbatim>\<open>rows.rs\<close> and the database queue of
  \<^verbatim>\<open>infra/src/infra/job/queue/rdb.rs\<close>.  Statements are those of the SQLite build.  A lease is
  the time until which a job is grabbed; a comparison with NULL is false, as in SQL.
\<close>

section \<open>Rows\<close>

text \<open>
  Creation binds the timeout as a 32-bit integer, the other statements as a 64-bit one.
\<close>

definition job_row_of :: "(u64 \<Rightarrow> i64) \<Rightarrow> i64 \<Rightarrow> job_data \<Rightarrow> db_failure + job_row" where
  "job_row_of bind_timeout i d =
     (case jd_worker_id d of
        None \<Rightarrow> Inl UnwrapNone
      | Some wid \<Rightarrow>
          Inr \<lparr>jrw_id = i, jrw_worker_id = wid, jrw_args = jd_args d,
               jrw_uniq_key = jd_uniq_key d, jrw_enqueue_time = jd_enqueue_time d,
               jrw_grabbed_until_time = Some (unwrap_or (jd_grabbed_until_time d) 0),
               jrw_run_after_time = jd_run_after_time d, jrw_retried = uint (jd_retried d),
               jrw_priority = jd_priority d, jrw_timeout = bind_timeout (jd_timeout d),
               jrw_streaming_type = jd_streaming_type d, jrw_using = jd_using d\<rparr>)"

definition as_i32 :: "u64 \<Rightarrow> i64" where
  "as_i32 t = sint (ucast t :: 32 word)"

definition as_i64 :: "u64 \<Rightarrow> i64" where
  "as_i64 t = sint t"

definition job_row_to_proto :: "job_row \<Rightarrow> job_execution_overrides option \<Rightarrow> job" where
  "job_row_to_proto r overrides =
     \<lparr>j_id = Some (jrw_id r),
      j_data = Some
        \<lparr>jd_worker_id = Some (jrw_worker_id r), jd_args = jrw_args r,
         jd_uniq_key = jrw_uniq_key r, jd_enqueue_time = jrw_enqueue_time r,
         jd_grabbed_until_time = jrw_grabbed_until_time r,
         jd_run_after_time = jrw_run_after_time r, jd_retried = word_of_int (jrw_retried r),
         jd_priority = jrw_priority r, jd_timeout = word_of_int (jrw_timeout r),
         jd_streaming_type = jrw_streaming_type r, jd_using = jrw_using r,
         jd_overrides = overrides\<rparr>,
      j_metadata = Map.empty\<rparr>"

section \<open>The job repository\<close>

text \<open>The conflicts of a row with the primary key and the unique key.\<close>

definition conflicts :: "job_row \<Rightarrow> job_row \<Rightarrow> bool" where
  "conflicts row r \<longleftrightarrow>
     jrw_id r = jrw_id row \<or> (jrw_uniq_key row \<noteq> None \<and> jrw_uniq_key r = jrw_uniq_key row)"

definition job_create_tx :: "job \<Rightarrow> rdb \<Rightarrow> db_failure + bool \<times> rdb" where
  "job_create_tx j db =
     (case (j_id j, j_data j) of
        (Some i, Some d) \<Rightarrow>
          bindE (job_row_of as_i32 i d) (\<lambda>row.
            if list_ex (conflicts row) (db_jobs db) then Inl UniqueViolation
            else Inr (True, db\<lparr>db_jobs := db_jobs db @ [row]\<rparr>))
      | _ \<Rightarrow> Inl (Refused ''Cannot insert empty job''))"

definition job_create :: "job \<Rightarrow> rdb \<Rightarrow> db_failure + bool \<times> rdb" where
  "job_create j db =
     bindE (job_create_tx j db) (\<lambda>(res, db').
       case (j_id j, Option.bind (j_data j) jd_overrides) of
         (Some i, Some ov) \<Rightarrow>
           bindE (create_overrides_tx i ov db') (\<lambda>(_, db''). Inr (res, db''))
       | _ \<Rightarrow> Inr (res, db'))"

text \<open>\<^verbatim>\<open>INSERT OR REPLACE\<close> removes every row the new one conflicts with.\<close>

definition job_upsert_tx :: "i64 \<Rightarrow> job_data \<Rightarrow> rdb \<Rightarrow> db_failure + bool \<times> rdb" where
  "job_upsert_tx i d db =
     bindE (job_row_of as_i64 i d) (\<lambda>row.
       Inr (True, db\<lparr>db_jobs := filter (\<lambda>r. \<not> conflicts row r) (db_jobs db) @ [row]\<rparr>))"

definition replace_overrides ::
  "i64 \<Rightarrow> job_execution_overrides option \<Rightarrow> rdb \<Rightarrow> db_failure + rdb" where
  "replace_overrides i ov db =
     (let db' = snd (delete_overrides_tx i db)
      in case ov of
           None \<Rightarrow> Inr db'
         | Some ov \<Rightarrow> bindE (create_overrides_tx i ov db') (\<lambda>(_, db''). Inr db''))"

definition job_upsert :: "i64 \<Rightarrow> job_data \<Rightarrow> rdb \<Rightarrow> db_failure + bool \<times> rdb" where
  "job_upsert i d db =
     bindE (job_upsert_tx i d db) (\<lambda>(res, db').
     bindE (replace_overrides i (jd_overrides d) db') (\<lambda>db''.
       Inr (res, db'')))"

definition job_update_tx :: "i64 \<Rightarrow> job_data \<Rightarrow> rdb \<Rightarrow> db_failure + bool \<times> rdb" where
  "job_update_tx i d db =
     bindE (job_row_of as_i64 i d) (\<lambda>row.
       if i \<in> set (map jrw_id (db_jobs db)) \<and>
          list_ex (\<lambda>r. jrw_id r \<noteq> i \<and> conflicts row r) (db_jobs db)
       then Inl UniqueViolation
       else Inr (i \<in> set (map jrw_id (db_jobs db)),
                 db\<lparr>db_jobs := map (\<lambda>r. if jrw_id r = i then row else r) (db_jobs db)\<rparr>))"

definition job_delete_tx :: "i64 \<Rightarrow> rdb \<Rightarrow> bool \<times> rdb" where
  "job_delete_tx i db =
     (i \<in> set (map jrw_id (db_jobs db)),
      db\<lparr>db_jobs := filter (\<lambda>r. jrw_id r \<noteq> i) (db_jobs db)\<rparr>)"

definition job_delete :: "i64 \<Rightarrow> rdb \<Rightarrow> bool \<times> rdb" where
  "job_delete i db = job_delete_tx i (snd (delete_overrides_tx i db))"

definition find_row_tx :: "i64 \<Rightarrow> rdb \<Rightarrow> job_row option" where
  "find_row_tx i db = List.find (\<lambda>r. jrw_id r = i) (db_jobs db)"

definition job_find :: "i64 \<Rightarrow> rdb \<Rightarrow> job option" where
  "job_find i db = map_option (\<lambda>r. job_row_to_proto r (find_overrides_tx i db)) (find_row_tx i db)"

definition status_of_row :: "job_row \<Rightarrow> job_processing_status" where
  "status_of_row r = (if unwrap_or (jrw_grabbed_until_time r) 0 = 0 then JpsPending else JpsRunning)"

definition job_find_status :: "i64 \<Rightarrow> rdb \<Rightarrow> job_processing_status option" where
  "job_find_status i db = map_option status_of_row (find_row_tx i db)"

definition find_row_list_tx :: "i32 option \<Rightarrow> i64 option \<Rightarrow> rdb \<Rightarrow> job_row list" where
  "find_row_list_tx cap off db =
     (let rows = sort_key (\<lambda>r. - jrw_id r) (db_jobs db)
      in case cap of Some l \<Rightarrow> sql_limit l (unwrap_or off 0) rows | None \<Rightarrow> rows)"

definition job_find_all_status :: "rdb \<Rightarrow> (i64 \<times> job_processing_status) list" where
  "job_find_all_status db = map (\<lambda>r. (jrw_id r, status_of_row r)) (find_row_list_tx None None db)"

text \<open>Overrides are fetched in a batch and taken out of the map as they are used.\<close>

fun with_overrides :: "(i64 \<rightharpoonup> job_execution_overrides) \<Rightarrow> job_row list \<Rightarrow> job list" where
  "with_overrides m [] = []"
| "with_overrides m (r # rs) =
     job_row_to_proto r (m (jrw_id r)) # with_overrides (m(jrw_id r := None)) rs"

definition jobs_of_rows :: "job_row list \<Rightarrow> rdb \<Rightarrow> job list" where
  "jobs_of_rows rows db = with_overrides (find_overrides_batch_tx (map jrw_id rows) db) rows"

definition job_find_list :: "i32 option \<Rightarrow> i64 option \<Rightarrow> rdb \<Rightarrow> job list" where
  "job_find_list cap off db = jobs_of_rows (find_row_list_tx cap off db) db"

definition job_find_list_in :: "i64 list \<Rightarrow> rdb \<Rightarrow> db_failure + job list" where
  "job_find_list_in ids db =
     bindE (build_in_placeholders (length ids)) (\<lambda>_.
       Inr (jobs_of_rows (filter (\<lambda>r. jrw_id r \<in> set ids) (db_jobs db)) db))"

definition lease_le :: "job_row \<Rightarrow> i64 \<Rightarrow> bool" where
  "lease_le r t = (case jrw_grabbed_until_time r of None \<Rightarrow> False | Some g \<Rightarrow> g \<le> t)"

definition find_id_set_in_instant ::
  "i64 \<Rightarrow> bool \<Rightarrow> i32 option \<Rightarrow> i64 option \<Rightarrow> rdb \<Rightarrow> i64 list" where
  "find_id_set_in_instant now include_grabbed cap off db =
     (let rows = sort_key (\<lambda>r. - jrw_id r)
            (filter (\<lambda>r. jrw_run_after_time r = 0 \<and>
               (include_grabbed \<or> jrw_grabbed_until_time r = Some 0 \<or>
                (case jrw_grabbed_until_time r of None \<Rightarrow> False | Some g \<Rightarrow> g < now))) (db_jobs db))
      in map jrw_id (case cap of Some l \<Rightarrow> sql_limit l (unwrap_or off 0) rows | None \<Rightarrow> rows))"

section \<open>The database queue\<close>

definition GRAB_MERGIN_MILLISEC :: i64 where
  "GRAB_MERGIN_MILLISEC = 10000"

definition hundred_years_ms :: i64 where
  "hundred_years_ms = 1000 * 60 * 60 * 24 * 365 * 100"

definition grabbed_until_time :: "u64 option \<Rightarrow> i64 \<Rightarrow> i64" where
  "grabbed_until_time timeout now =
     (let t = as_i64 (unwrap_or timeout 0);
          t = (if t = 0 then hundred_years_ms else t)
      in i64_wrap (i64_wrap (now + t) + GRAB_MERGIN_MILLISEC))"

text \<open>\<^verbatim>\<open>ORDER BY run_after_time, priority DESC\<close>.\<close>

definition queue_order :: "job_row list \<Rightarrow> job_row list" where
  "queue_order rows = sort_key jrw_run_after_time (sort_key (\<lambda>r. - jrw_priority r) rows)"

definition fetchable :: "i64 \<Rightarrow> i64 list \<Rightarrow> u32 \<Rightarrow> bool \<Rightarrow> job_row \<Rightarrow> bool" where
  "fetchable now worker_ids mergin_msec future_only_mode r \<longleftrightarrow>
     jrw_run_after_time r \<le> i64_wrap (now + uint mergin_msec) \<and>
     (future_only_mode \<longrightarrow> jrw_run_after_time r > 0) \<and>
     lease_le r now \<and>
     (worker_ids \<noteq> [] \<longrightarrow> jrw_worker_id r \<in> set worker_ids)"

definition fetch_jobs_to_process ::
  "i64 \<Rightarrow> i64 \<Rightarrow> u32 \<Rightarrow> i64 list \<Rightarrow> u32 \<Rightarrow> bool \<Rightarrow> rdb \<Rightarrow> job list" where
  "fetch_jobs_to_process now off cap worker_ids mergin_msec future_only_mode db =
     jobs_of_rows
       (sql_limit (uint cap) off
          (queue_order
            (filter (fetchable now worker_ids mergin_msec future_only_mode) (db_jobs db)))) db"

definition fetch_timeouted_backup_jobs :: "i64 \<Rightarrow> u32 \<Rightarrow> i64 \<Rightarrow> rdb \<Rightarrow> job list" where
  "fetch_timeouted_backup_jobs now cap off db =
     jobs_of_rows
       (sql_limit (sint cap) off
          (queue_order
            (filter (\<lambda>r. (case jrw_grabbed_until_time r of None \<Rightarrow> False | Some g \<Rightarrow> g > 0) \<and>
               lease_le r now \<and> jrw_run_after_time r = 0) (db_jobs db)))) db"

definition grab_job_with_lease ::
  "i64 \<Rightarrow> i64 \<Rightarrow> u64 option \<Rightarrow> i64 \<Rightarrow> rdb \<Rightarrow> i64 option \<times> rdb" where
  "grab_job_with_lease now i timeout original db =
     (let until = grabbed_until_time timeout now;
          hit = (\<lambda>r. jrw_id r = i \<and> jrw_grabbed_until_time r = Some original)
      in (if list_ex hit (db_jobs db) then Some until else None,
          db\<lparr>db_jobs := map (\<lambda>r. if hit r then r\<lparr>jrw_grabbed_until_time := Some until\<rparr> else r)
                         (db_jobs db)\<rparr>))"

definition grab_job :: "i64 \<Rightarrow> i64 \<Rightarrow> u64 option \<Rightarrow> i64 \<Rightarrow> rdb \<Rightarrow> bool \<times> rdb" where
  "grab_job now i timeout original db =
     (let (lease, db') = grab_job_with_lease now i timeout original db in (lease \<noteq> None, db'))"

definition reset_grabbed_until_time :: "i64 \<Rightarrow> i64 \<Rightarrow> i64 option \<Rightarrow> rdb \<Rightarrow> bool \<times> rdb" where
  "reset_grabbed_until_time i old run_after_time db =
     (let hit = (\<lambda>r. jrw_id r = i \<and> jrw_grabbed_until_time r = Some old)
      in (list_ex hit (db_jobs db),
          db\<lparr>db_jobs := map (\<lambda>r. if hit r
                 then r\<lparr>jrw_grabbed_until_time := Some 0,
                        jrw_run_after_time := unwrap_or run_after_time (jrw_run_after_time r)\<rparr>
                 else r) (db_jobs db)\<rparr>))"

section \<open>Lemmas\<close>

lemma job_row_of_Inr:
  assumes "job_row_of bt i d = Inr row"
  shows "jrw_id row = i"
    and "job_row_to_proto row ov =
      \<lparr>j_id = Some i,
       j_data = Some (d\<lparr>jd_grabbed_until_time := Some (unwrap_or (jd_grabbed_until_time d) 0),
         jd_timeout := word_of_int (bt (jd_timeout d)), jd_overrides := ov\<rparr>),
       j_metadata = Map.empty\<rparr>"
  using assms by (auto simp: job_row_of_def job_row_to_proto_def split: option.splits)

lemma word_of_int_as_i64 [simp]: "word_of_int (as_i64 t) = t"
  by (simp add: as_i64_def)

lemma word_of_int_as_i32: "(word_of_int (as_i32 t) :: u64) = scast (ucast t :: 32 word)"
  by (simp add: as_i32_def)

lemma scast_ucast_small:
  assumes "t < (2 ^ 31 :: u64)"
  shows "(scast (ucast t :: 32 word) :: u64) = t"
proof -
  have t: "uint t < 2 ^ 31" using assms by (simp add: word_less_def)
  have "uint (ucast t :: 32 word) = uint t"
    using t by (simp add: unsigned_ucast_eq take_bit_int_eq_self)
  moreover have "sint (ucast t :: 32 word) = signed_take_bit 31 (uint (ucast t :: 32 word))"
    by (simp add: sint_uint)
  moreover have "signed_take_bit 31 (uint t) = uint t"
    using t by (intro signed_take_bit_int_eq_self) (simp_all add: order_trans [of _ 0])
  ultimately have "sint (ucast t :: 32 word) = uint t" by simp
  then have "word_of_int (sint (ucast t :: 32 word)) = (word_of_int (uint t) :: u64)" by simp
  then show ?thesis by simp
qed

lemma find_overrides_absent:
  "i \<notin> or_job_id ` set (db_overrides db) \<Longrightarrow> find_overrides_tx i db = None"
  by (simp add: find_overrides_tx_def find_none_iff)

lemma find_overrides_created:
  assumes "create_overrides_tx i ov db = Inr (b, db')"
  shows "find_overrides_tx i db' = Some ov" "db_jobs db' = db_jobs db" "db_status db' = db_status db"
proof -
  have "overrides_to_proto (overrides_from_proto i ov) = ov"
    by (cases "ov_retry_policy ov") (simp_all add: overrides_to_proto_def overrides_from_proto_def)
  moreover have "or_job_id (overrides_from_proto i ov) = i" by (simp add: overrides_from_proto_def)
  ultimately show "find_overrides_tx i db' = Some ov" "db_jobs db' = db_jobs db"
      "db_status db' = db_status db"
    using assms by (auto simp: create_overrides_tx_def find_overrides_tx_def find_append_new
        split: if_splits)
qed

lemma ids_of_with_overrides [simp]: "map j_id (with_overrides m rows) = map (Some \<circ> jrw_id) rows"
  by (induction m rows rule: with_overrides.induct) (simp_all add: job_row_to_proto_def fun_upd_def)

lemma length_jobs_of_rows [simp]: "length (jobs_of_rows rows db) = length rows"
  unfolding jobs_of_rows_def using ids_of_with_overrides by (metis length_map)

lemma ids_of_jobs_of_rows [simp]: "map j_id (jobs_of_rows rows db) = map (Some \<circ> jrw_id) rows"
  by (simp add: jobs_of_rows_def)

lemma sql_limit_subset: "set (sql_limit cap off xs) \<subseteq> set xs"
  by (auto simp: sql_limit_def Let_def dest: in_set_takeD in_set_dropD)

lemma length_sql_limit: "0 \<le> cap \<Longrightarrow> length (sql_limit cap off xs) \<le> nat cap"
  by (simp add: sql_limit_def Let_def)

lemma set_queue_order [simp]: "set (queue_order rows) = set rows"
  by (simp add: queue_order_def)

lemma fetched_row:
  assumes "j \<in> set (fetch_jobs_to_process now off cap worker_ids mergin future db)"
  obtains r where "r \<in> set (db_jobs db)" "j_id j = Some (jrw_id r)"
    "fetchable now worker_ids mergin future r"
proof -
  let ?rows = "sql_limit (uint cap) off
     (queue_order (filter (fetchable now worker_ids mergin future) (db_jobs db)))"
  have "j_id j \<in> set (map j_id (jobs_of_rows ?rows db))"
    using assms unfolding fetch_jobs_to_process_def set_map by (rule imageI)
  then obtain r where "r \<in> set ?rows" "j_id j = Some (jrw_id r)" by auto
  then show ?thesis
    using subsetD [OF sql_limit_subset] by (intro that [of r]) fastforce+
qed

text \<open>Sorting by a first key is stable, so it refines the order by a second one.\<close>

definition before :: "('a \<Rightarrow> i64) \<Rightarrow> ('a \<Rightarrow> i64) \<Rightarrow> 'a \<Rightarrow> 'a \<Rightarrow> bool" where
  "before f g a b \<longleftrightarrow> f a < f b \<or> (f a = f b \<and> g a \<le> g b)"

lemma insort_key_before:
  assumes "sorted_wrt (before f g) zs" "\<And>z. z \<in> set zs \<Longrightarrow> g y \<le> g z"
  shows "sorted_wrt (before f g) (insort_key f y zs)"
  using assms by (induction zs) (auto simp: before_def set_insort_key)

lemma sort_key_before:
  "sorted_wrt (\<lambda>a b. g a \<le> g b) ys \<Longrightarrow> sorted_wrt (before f g) (sort_key f ys)"
  by (induction ys) (auto intro: insort_key_before)

lemma queue_order_sorted:
  "sorted_wrt (before jrw_run_after_time (\<lambda>r. - jrw_priority r)) (queue_order rows)"
  unfolding queue_order_def
  using sorted_sort_key [of "\<lambda>r. - jrw_priority r" rows]
  by (intro sort_key_before) (simp add: sorted_map)

lemma sorted_wrt_sql_limit: "sorted_wrt P xs \<Longrightarrow> sorted_wrt P (sql_limit cap off xs)"
  by (simp add: sql_limit_def Let_def sorted_wrt_take sorted_wrt_drop)

abbreviation run_after_of :: "job \<Rightarrow> i64" where
  "run_after_of j \<equiv> jd_run_after_time (the (j_data j))"

abbreviation priority_of :: "job \<Rightarrow> i64" where
  "priority_of j \<equiv> jd_priority (the (j_data j))"

lemma keys_of_with_overrides:
  "map (\<lambda>j. (run_after_of j, priority_of j)) (with_overrides m rows) =
     map (\<lambda>r. (jrw_run_after_time r, jrw_priority r)) rows"
  by (induction m rows rule: with_overrides.induct) (simp_all add: job_row_to_proto_def fun_upd_def)

lemma jobs_of_rows_before:
  assumes "sorted_wrt (before jrw_run_after_time (\<lambda>r. - jrw_priority r)) rows"
  shows "sorted_wrt (before run_after_of (\<lambda>j. - priority_of j)) (jobs_of_rows rows db)"
proof -
  let ?lt = "before fst (\<lambda>k. - snd k)"
  have "sorted_wrt ?lt (map (\<lambda>r. (jrw_run_after_time r, jrw_priority r)) rows)"
    using assms by (simp add: sorted_wrt_map before_def [abs_def])
  then have "sorted_wrt ?lt (map (\<lambda>j. (run_after_of j, priority_of j)) (jobs_of_rows rows db))"
    by (simp only: keys_of_with_overrides jobs_of_rows_def)
  then show ?thesis by (simp add: sorted_wrt_map before_def [abs_def])
qed

lemma grab_leaves_other_leases:
  assumes "grab_job_with_lease now i timeout original db = (Some lease, db')"
    and "lease \<noteq> original"
    and "r \<in> set (db_jobs db')" "jrw_id r = i" "distinct (map jrw_id (db_jobs db))"
  shows "jrw_grabbed_until_time r = Some lease"
proof -
  obtain r0 where r0: "r0 \<in> set (db_jobs db)" "jrw_id r0 = i" "jrw_grabbed_until_time r0 = Some original"
    and lease: "lease = grabbed_until_time timeout now"
    using assms(1) by (auto simp: grab_job_with_lease_def Let_def list_ex_iff split: if_splits)
  obtain r1 where r1: "r1 \<in> set (db_jobs db)"
    "r = (if jrw_id r1 = i \<and> jrw_grabbed_until_time r1 = Some original
          then r1\<lparr>jrw_grabbed_until_time := Some lease\<rparr> else r1)"
    using assms(1,3) lease by (auto simp: grab_job_with_lease_def Let_def)
  then have "jrw_id r1 = i" using assms(4) by (simp split: if_splits)
  then have "r1 = r0"
    using assms(5) r0 r1(1) by (auto simp: distinct_map dest: inj_onD)
  with r1 r0 show ?thesis by simp
qed

section \<open>Properties\<close>

text \<open>
  A created job is read back as it was enqueued, with its overrides, when its timeout is
  below \<open>2 ^ 31\<close> milliseconds; a missing lease is read as 0 and the metadata, which the table
  does not have, as empty.
\<close>

theorem created_job_read_back:
  assumes j: "j_id j = Some i" "j_data j = Some d" and small: "jd_timeout d < 2 ^ 31"
    and fresh: "i \<notin> or_job_id ` set (db_overrides db)"
    and created: "job_create j db = Inr (b, db')"
  shows "job_find i db' = Some
     \<lparr>j_id = Some i,
      j_data = Some (d\<lparr>jd_grabbed_until_time := Some (unwrap_or (jd_grabbed_until_time d) 0)\<rparr>),
      j_metadata = Map.empty\<rparr>"
proof -
  obtain row db1 where row: "job_row_of as_i32 i d = Inr row"
    and db1: "\<not> list_ex (conflicts row) (db_jobs db)" "db1 = db\<lparr>db_jobs := db_jobs db @ [row]\<rparr>"
    and rest: "(case jd_overrides d of None \<Rightarrow> db' = db1
        | Some ov \<Rightarrow> \<exists>b'. create_overrides_tx i ov db1 = Inr (b', db'))"
    using created j
    by (auto simp: job_create_def job_create_tx_def bindE_eq_Inr split: if_splits option.splits)
  have "i \<notin> jrw_id ` set (db_jobs db)"
    using db1(1) job_row_of_Inr(1) [OF row] by (auto simp: list_ex_iff conflicts_def)
  then have found: "find_row_tx i db1 = Some row"
    using db1(2) job_row_of_Inr(1) [OF row] by (simp add: find_row_tx_def find_append_new)
  have "find_overrides_tx i db' = jd_overrides d \<and> db_jobs db' = db_jobs db1"
    using rest fresh db1(2)
    by (cases "jd_overrides d") (auto simp: find_overrides_absent find_overrides_created)
  with found have "job_find i db' = Some (job_row_to_proto row (jd_overrides d))"
    by (simp add: job_find_def find_row_tx_def)
  with job_row_of_Inr(2) [OF row] show ?thesis
    by (simp add: word_of_int_as_i32 scast_ucast_small [OF small])
qed

theorem created_job_read_back_witness:
  "\<exists>db'. job_create example_job example_db = Inr (True, db') \<and>
     job_find 7 db' = Some (example_job\<lparr>j_data :=
       Some ((the (j_data example_job))\<lparr>jd_grabbed_until_time := Some 0\<rparr>)\<rparr>)"
proof -
  let ?d = "the (j_data example_job)"
  have d: "j_id example_job = Some 7" "j_data example_job = Some ?d" "jd_timeout ?d < 2 ^ 31"
      "jd_overrides ?d = None" "jd_grabbed_until_time ?d = None"
    by (simp_all add: example_job_def default_job_data_def)
  obtain db' where c: "job_create example_job example_db = Inr (True, db')"
    by (auto simp: job_create_def job_create_tx_def job_row_of_def bindE_def example_job_def
        default_job_data_def example_db_def)
  have "7 \<notin> or_job_id ` set (db_overrides example_db)" by (simp add: example_db_def)
  from created_job_read_back [OF d(1-3) this c] c d show ?thesis
    by (simp add: example_job_def)
qed

text \<open>
  Creation keeps only 32 bits of the timeout: a job created with a timeout of \<open>2 ^ 32\<close>
  milliseconds is read back with timeout 0, which means no timeout, while the same job
  written by an upsert keeps its timeout.
\<close>

theorem created_job_loses_long_timeout:
  assumes "j_id j = Some i" "j_data j = Some d" "jd_timeout d = 2 ^ 32"
    and "job_create_tx j db = Inr (b, db')" and "job_upsert_tx i d db = Inr (b2, db2)"
  shows "map_option jrw_timeout (find_row_tx i db') = Some 0 \<and>
     map_option jrw_timeout (find_row_tx i db2) = Some (2 ^ 32)"
proof -
  obtain r1 where r1: "job_row_of as_i32 i d = Inr r1" "\<not> list_ex (conflicts r1) (db_jobs db)"
      "db_jobs db' = db_jobs db @ [r1]"
    using assms by (auto simp: job_create_tx_def bindE_eq_Inr split: if_splits)
  obtain r2 where r2: "job_row_of as_i64 i d = Inr r2"
      "db_jobs db2 = filter (\<lambda>r. \<not> conflicts r2 r) (db_jobs db) @ [r2]"
    using assms by (auto simp: job_upsert_tx_def bindE_eq_Inr)
  note id = job_row_of_Inr(1) [OF r1(1)] job_row_of_Inr(1) [OF r2(1)]
  have "i \<notin> jrw_id ` set (db_jobs db)" "i \<notin> jrw_id ` set (filter (\<lambda>r. \<not> conflicts r2 r) (db_jobs db))"
    using r1(2) id by (auto simp: list_ex_iff conflicts_def)
  then have "find_row_tx i db' = Some r1" "find_row_tx i db2 = Some r2"
    using r1(3) r2(2) id by (simp_all add: find_row_tx_def find_append_new)
  moreover have "jrw_timeout r1 = as_i32 (2 ^ 32)" "jrw_timeout r2 = as_i64 (2 ^ 32)"
    using r1(1) r2(1) assms(3) by (auto simp: job_row_of_def split: option.splits)
  ultimately show ?thesis by (simp add: as_i32_def as_i64_def)
qed

theorem created_job_loses_long_timeout_witness:
  "\<exists>d db' db2. jd_timeout d = 2 ^ 32 \<and>
     job_create_tx (example_job\<lparr>j_data := Some d\<rparr>) example_db = Inr (True, db') \<and>
     job_upsert_tx 7 d example_db = Inr (True, db2) \<and>
     map_option jrw_timeout (find_row_tx 7 db') = Some 0 \<and>
     map_option jrw_timeout (find_row_tx 7 db2) = Some (2 ^ 32)"
proof -
  let ?d = "default_job_data\<lparr>jd_worker_id := Some 1, jd_timeout := 2 ^ 32\<rparr>"
  let ?j = "example_job\<lparr>j_data := Some ?d\<rparr>"
  obtain db' db2 where c: "job_create_tx ?j example_db = Inr (True, db')"
      "job_upsert_tx 7 ?d example_db = Inr (True, db2)"
    by (auto simp: job_create_tx_def job_upsert_tx_def job_row_of_def bindE_def example_job_def
        default_job_data_def example_db_def)
  have j: "j_id ?j = Some 7" "j_data ?j = Some ?d" "jd_timeout ?d = 2 ^ 32"
    by (simp_all add: example_job_def)
  from created_job_loses_long_timeout [OF j c] c j(3) show ?thesis by blast
qed

text \<open>
  Fetching takes at most the requested number of jobs, each due within the margin, not
  under a running lease and for one of the requested workers, in the order of their run time
  and, within one run time, of decreasing priority.
\<close>

theorem fetched_jobs_are_due:
  assumes "fetch_jobs_to_process now off cap worker_ids mergin future db = jobs"
  shows "length jobs \<le> unat cap \<and>
     sorted_wrt (before run_after_of (\<lambda>j. - priority_of j)) jobs \<and>
     (\<forall>j \<in> set jobs. \<exists>r \<in> set (db_jobs db). j_id j = Some (jrw_id r) \<and>
        jrw_run_after_time r \<le> i64_wrap (now + uint mergin) \<and>
        (\<exists>g. jrw_grabbed_until_time r = Some g \<and> g \<le> now) \<and>
        (worker_ids = [] \<or> jrw_worker_id r \<in> set worker_ids))"
  unfolding assms [symmetric]
proof (intro conjI ballI)
  have "nat (uint cap) = unat cap" by simp
  then show "length (fetch_jobs_to_process now off cap worker_ids mergin future db) \<le> unat cap"
    unfolding fetch_jobs_to_process_def length_jobs_of_rows
    using length_sql_limit [of "uint cap"] by (metis unsigned_greater_eq)
  show "sorted_wrt (before run_after_of (\<lambda>j. - priority_of j))
       (fetch_jobs_to_process now off cap worker_ids mergin future db)"
    unfolding fetch_jobs_to_process_def
    by (intro jobs_of_rows_before sorted_wrt_sql_limit queue_order_sorted)
  fix j
  assume j: "j \<in> set (fetch_jobs_to_process now off cap worker_ids mergin future db)"
  show "\<exists>r \<in> set (db_jobs db). j_id j = Some (jrw_id r) \<and>
        jrw_run_after_time r \<le> i64_wrap (now + uint mergin) \<and>
        (\<exists>g. jrw_grabbed_until_time r = Some g \<and> g \<le> now) \<and>
        (worker_ids = [] \<or> jrw_worker_id r \<in> set worker_ids)"
    by (rule fetched_row [OF j]) (auto simp: fetchable_def lease_le_def split: option.splits)
qed

definition example_job_row :: job_row where
  "example_job_row =
     \<lparr>jrw_id = 7, jrw_worker_id = 1, jrw_args = [], jrw_uniq_key = Some ''k'', jrw_enqueue_time = 0,
      jrw_grabbed_until_time = Some 0, jrw_run_after_time = 5000, jrw_retried = 0,
      jrw_priority = 0, jrw_timeout = 1000, jrw_streaming_type = 0, jrw_using = None\<rparr>"

theorem fetched_jobs_are_due_witness:
  "\<exists>j. fetch_jobs_to_process 6000 0 10 [1] 500 True (example_db\<lparr>db_jobs := [example_job_row]\<rparr>) = [j] \<and>
     j_id j = Some 7 \<and> run_after_of j \<le> i64_wrap (6000 + uint (500 :: u32))"
proof -
  let ?db = "example_db\<lparr>db_jobs := [example_job_row]\<rparr>"
  obtain j where j: "fetch_jobs_to_process 6000 0 10 [1] 500 True ?db = [j]"
      "run_after_of j = jrw_run_after_time example_job_row"
    by (simp add: fetch_jobs_to_process_def fetchable_def lease_le_def queue_order_def example_job_row_def
        i64_wrap_def sql_limit_def jobs_of_rows_def job_row_to_proto_def)
  from fetched_jobs_are_due [OF j(1)] have "j_id j = Some 7 \<and>
      jrw_run_after_time example_job_row \<le> i64_wrap (6000 + uint (500 :: u32))"
    by (simp add: example_job_row_def)
  with j show ?thesis by simp
qed

text \<open>
  A granted lease excludes the other workers until it expires.  Once a worker has grabbed
  a job, a second grab with the lease both have read fails, and no fetch before the expiry
  returns the job.
\<close>

theorem granted_lease_excludes_others:
  assumes ids: "distinct (map jrw_id (db_jobs db))"
    and grab: "grab_job_with_lease now i timeout original db = (Some lease, db')"
    and new: "lease \<noteq> original"
  shows "fst (grab_job_with_lease now2 i timeout2 original db') = None \<and>
     (\<forall>t < lease. \<forall>j \<in> set (fetch_jobs_to_process t off cap worker_ids mergin future db').
        j_id j \<noteq> Some i)"
proof (intro conjI allI impI ballI notI)
  note lease_of = grab_leaves_other_leases [OF grab new _ _ ids]
  show "fst (grab_job_with_lease now2 i timeout2 original db') = None"
    using lease_of new by (auto simp: grab_job_with_lease_def Let_def list_ex_iff)
  fix t j
  assume t: "t < lease" and id: "j_id j = Some i"
    and j: "j \<in> set (fetch_jobs_to_process t off cap worker_ids mergin future db')"
  obtain r where r: "r \<in> set (db_jobs db')" "j_id j = Some (jrw_id r)"
      "fetchable t worker_ids mergin future r"
    by (rule fetched_row [OF j])
  with id lease_of have "jrw_grabbed_until_time r = Some lease" by simp
  with r(3) t show False by (simp add: fetchable_def lease_le_def)
qed

theorem granted_lease_excludes_others_witness:
  "\<exists>db'. grab_job_with_lease 6000 7 (Some 1000) 0 (example_db\<lparr>db_jobs := [example_job_row]\<rparr>)
        = (Some 17000, db') \<and>
     fst (grab_job_with_lease 6000 7 (Some 1000) 0 db') = None \<and>
     (\<forall>j \<in> set (fetch_jobs_to_process 16999 0 10 [] 500 True db'). j_id j \<noteq> Some 7)"
proof -
  let ?db = "example_db\<lparr>db_jobs := [example_job_row]\<rparr>"
  obtain db' where g: "grab_job_with_lease 6000 7 (Some 1000) 0 ?db = (Some 17000, db')"
    by (simp add: grab_job_with_lease_def grabbed_until_time_def as_i64_def example_job_row_def
        GRAB_MERGIN_MILLISEC_def i64_wrap_def)
  have "(16999 :: i64) < 17000" "distinct (map jrw_id (db_jobs ?db))" "(17000 :: i64) \<noteq> 0" by simp_all
  from this(1) granted_lease_excludes_others [OF this(2) g this(3), of 6000 "Some 1000" 0 10 "[]" 500 True]
  have "fst (grab_job_with_lease 6000 7 (Some 1000) 0 db') = None"
      "\<forall>j \<in> set (fetch_jobs_to_process 16999 0 10 [] 500 True db'). j_id j \<noteq> Some 7"
    by blast+
  with g show ?thesis by blast
qed

text \<open>
  Releasing a lease undoes the grab.  The holder of a lease taken on an idle job puts the
  table back as it was; a release with any other lease changes nothing.
\<close>

theorem release_undoes_grab:
  assumes ids: "distinct (map jrw_id (db_jobs db))"
    and grab: "grab_job_with_lease now i timeout 0 db = (Some lease, db')"
    and new: "lease \<noteq> 0"
  shows "reset_grabbed_until_time i lease None db' = (True, db) \<and>
     (other \<noteq> lease \<longrightarrow> reset_grabbed_until_time i other run_after db' = (False, db'))"
proof (intro conjI impI)
  note lease_of = grab_leaves_other_leases [OF grab new _ _ ids]
  let ?hit = "\<lambda>r. jrw_id r = i \<and> jrw_grabbed_until_time r = Some 0"
  have l: "list_ex ?hit (db_jobs db)" "lease = grabbed_until_time timeout now"
    and db': "db' = db\<lparr>db_jobs := map (\<lambda>r. if ?hit r then r\<lparr>jrw_grabbed_until_time := Some lease\<rparr> else r)
                   (db_jobs db)\<rparr>"
    using grab by (auto simp: grab_job_with_lease_def Let_def split: if_splits)
  have only: "?hit r" if "r \<in> set (db_jobs db)" "jrw_id r = i" for r
    using l(1) that ids by (auto simp: list_ex_iff distinct_map dest: inj_onD)
  let ?grab = "\<lambda>r. if ?hit r then r\<lparr>jrw_grabbed_until_time := Some lease\<rparr> else r"
  let ?reset = "\<lambda>r. if jrw_id r = i \<and> jrw_grabbed_until_time r = Some lease
      then r\<lparr>jrw_grabbed_until_time := Some 0,
             jrw_run_after_time := unwrap_or None (jrw_run_after_time r)\<rparr> else r"
  have "?reset (?grab r) = r" if "r \<in> set (db_jobs db)" for r
    using only [OF that] by (cases r) (simp split: if_splits)
  then have "map (?reset \<circ> ?grab) (db_jobs db) = db_jobs db" by (intro map_idI) simp
  moreover have "list_ex (\<lambda>r. jrw_id r = i \<and> jrw_grabbed_until_time r = Some lease) (db_jobs db')"
  proof -
    obtain r0 where "r0 \<in> set (db_jobs db)" "?hit r0" using l(1) by (auto simp: list_ex_iff)
    then show ?thesis unfolding db' list_ex_iff by (intro bexI [of _ "?grab r0"]) auto
  qed
  ultimately show "reset_grabbed_until_time i lease None db' = (True, db)"
    unfolding reset_grabbed_until_time_def Let_def by (simp add: db')
  assume "other \<noteq> lease"
  with lease_of have none: "\<not> (jrw_id r = i \<and> jrw_grabbed_until_time r = Some other)"
      if "r \<in> set (db_jobs db')" for r
    using that by auto
  then have "map (\<lambda>r. if jrw_id r = i \<and> jrw_grabbed_until_time r = Some other then f r else r)
      (db_jobs db') = db_jobs db'" for f
    by (intro map_idI) auto
  with none show "reset_grabbed_until_time i other run_after db' = (False, db')"
    unfolding reset_grabbed_until_time_def Let_def by (simp add: list_ex_iff)
qed

theorem release_undoes_grab_witness:
  "\<exists>db'. grab_job_with_lease 6000 7 (Some 1000) 0 (example_db\<lparr>db_jobs := [example_job_row]\<rparr>)
        = (Some 17000, db') \<and>
     reset_grabbed_until_time 7 17000 None db' = (True, example_db\<lparr>db_jobs := [example_job_row]\<rparr>)"
proof -
  let ?db = "example_db\<lparr>db_jobs := [example_job_row]\<rparr>"
  obtain db' where g: "grab_job_with_lease 6000 7 (Some 1000) 0 ?db = (Some 17000, db')"
    by (simp add: grab_job_with_lease_def grabbed_until_time_def as_i64_def example_job_row_def
        GRAB_MERGIN_MILLISEC_def i64_wrap_def)
  have "distinct (map jrw_id (db_jobs ?db))" by simp
  from release_undoes_grab [OF this g] g show ?thesis by simp
qed

text \<open>
  An upsert replaces the job that holds its unique key: with the statement of the SQLite
  build, writing a job whose unique key another job has removes that other job.
\<close>

theorem upsert_replaces_holder_of_key:
  assumes "other \<in> set (db_jobs db)" "jrw_uniq_key other = jd_uniq_key d" "jd_uniq_key d = Some k"
    and "distinct (map jrw_id (db_jobs db))" "jrw_id other \<noteq> i"
    and "job_upsert_tx i d db = Inr (b, db')"
  shows "job_find (jrw_id other) db \<noteq> None \<and> job_find (jrw_id other) db' = None \<and>
     job_find i db' \<noteq> None"
proof -
  obtain row where row: "job_row_of as_i64 i d = Inr row"
      "db_jobs db' = filter (\<lambda>r. \<not> conflicts row r) (db_jobs db) @ [row]"
    using assms by (auto simp: job_upsert_tx_def bindE_eq_Inr)
  have key: "jrw_uniq_key row = Some k"
    using row(1) assms(3) by (auto simp: job_row_of_def split: option.splits)
  have "r = other" if "r \<in> set (db_jobs db)" "jrw_id r = jrw_id other" for r
    using that assms(1,4) by (auto simp: distinct_map dest: inj_onD)
  then have gone: "\<forall>r \<in> set (db_jobs db'). jrw_id r \<noteq> jrw_id other"
    using row(2) key assms(2,3,5) job_row_of_Inr(1) [OF row(1)] by (auto simp: conflicts_def)
  have "\<exists>r \<in> set (db_jobs db'). jrw_id r = i"
    using row(2) job_row_of_Inr(1) [OF row(1)] by simp
  with gone assms(1) show ?thesis
    unfolding job_find_def find_row_tx_def option.map_disc_iff find_None_iff by blast
qed

theorem upsert_replaces_holder_of_key_witness:
  "\<exists>d db'. job_upsert_tx 8 d (example_db\<lparr>db_jobs := [example_job_row]\<rparr>) = Inr (True, db') \<and>
     job_find 7 db' = None \<and> job_find 8 db' \<noteq> None"
proof -
  let ?db = "example_db\<lparr>db_jobs := [example_job_row]\<rparr>"
  let ?d = "default_job_data\<lparr>jd_worker_id := Some 1, jd_uniq_key := Some ''k''\<rparr>"
  obtain db' where u: "job_upsert_tx 8 ?d ?db = Inr (True, db')"
    by (auto simp: job_upsert_tx_def job_row_of_def bindE_def default_job_data_def)
  have r: "example_job_row \<in> set (db_jobs ?db)" "jrw_uniq_key example_job_row = jd_uniq_key ?d"
      "jd_uniq_key ?d = Some ''k''" "distinct (map jrw_id (db_jobs ?db))" "jrw_id example_job_row \<noteq> 8"
    by (simp_all add: example_job_row_def)
  from upsert_replaces_holder_of_key [OF r u] u show ?thesis by (auto simp: example_job_row_def)
qed

end
