(* ===== verification/Status_Index.thy ===== *)
theory Status_Index
  imports Job_Table
begin

text \<open>
  The status index, \<^verbatim>\<open>infra/src/infra/job/status/rdb.rs\<close>, with the SQLite statements.  The
  row version counts updates from 1 and is far from the end of its 64 bits, so it is an
  unbounded integer here.
\<close>

section \<open>Statements\<close>

definition sql_update :: "('r \<Rightarrow> bool) \<Rightarrow> ('r \<Rightarrow> 'r) \<Rightarrow> 'r list \<Rightarrow> nat \<times> 'r list" where
  "sql_update p f rows = (length (filter p rows), map (\<lambda>r. if p r then f r else r) rows)"

definition update_status ::
  "(status_row \<Rightarrow> bool) \<Rightarrow> (status_row \<Rightarrow> status_row) \<Rightarrow> rdb \<Rightarrow> nat \<times> rdb" where
  "update_status p f db =
     (let (n, rows) = sql_update p f (db_status db) in (n, db\<lparr>db_status := rows\<rparr>))"

definition update_jobs :: "(job_row \<Rightarrow> bool) \<Rightarrow> (job_row \<Rightarrow> job_row) \<Rightarrow> rdb \<Rightarrow> nat \<times> rdb" where
  "update_jobs p f db = (let (n, rows) = sql_update p f (db_jobs db) in (n, db\<lparr>db_jobs := rows\<rparr>))"

abbreviation live :: "status_row \<Rightarrow> bool" where
  "live r \<equiv> sw_deleted_at r = None"

definition bump :: "i64 \<Rightarrow> status_row \<Rightarrow> status_row" where
  "bump now r = r\<lparr>sw_version := sw_version r + 1, sw_updated_at := now\<rparr>"

definition to_pending :: "i64 \<Rightarrow> status_row \<Rightarrow> status_row" where
  "to_pending now r =
     (bump now r)\<lparr>sw_status := 1, sw_deleted_at := None, sw_start_time := None,
       sw_worker_instance_id := None, sw_pending_time := Some now\<rparr>"

section \<open>Writing the index\<close>

definition DEFAULT_CHANNEL_NAME :: string where
  "DEFAULT_CHANNEL_NAME = ''__default_job_channel__''"

definition channel_for_storage :: "string option \<Rightarrow> string" where
  "channel_for_storage channel = unwrap_or channel DEFAULT_CHANNEL_NAME"

definition channel_from_storage :: "string option \<Rightarrow> string option" where
  "channel_from_storage stored = (if stored = Some DEFAULT_CHANNEL_NAME then None else stored)"

record job_status_config =
  rdb_indexing_enabled :: bool
  cleanup_interval_hours :: u64
  retention_hours :: u64

record status_index_update =
  su_job_id :: i64
  su_status :: job_processing_status
  su_worker_id :: i64
  su_channel :: "string option"
  su_priority :: i32
  su_enqueue_time :: i64
  su_is_streamable :: bool
  su_broadcast_results :: bool
  su_worker_instance_id :: "i64 option"

definition new_status_row :: "i64 \<Rightarrow> status_index_update \<Rightarrow> status_row" where
  "new_status_row now u =
     \<lparr>sw_job_id = su_job_id u, sw_status = 1, sw_worker_id = su_worker_id u,
      sw_channel = unwrap_or (su_channel u) DEFAULT_CHANNEL_NAME, sw_priority = su_priority u,
      sw_enqueue_time = su_enqueue_time u, sw_pending_time = None, sw_start_time = None,
      sw_is_streamable = su_is_streamable u, sw_broadcast_results = su_broadcast_results u,
      sw_worker_instance_id = None, sw_version = 1, sw_updated_at = now, sw_deleted_at = None\<rparr>"

definition insert_status :: "status_row \<Rightarrow> rdb \<Rightarrow> db_failure + rdb" where
  "insert_status row db =
     (if sw_job_id row \<in> set (map sw_job_id (db_status db)) then Inl UniqueViolation
      else Inr (db\<lparr>db_status := db_status db @ [row]\<rparr>))"

definition index_pending :: "i64 \<Rightarrow> status_index_update \<Rightarrow> rdb \<Rightarrow> db_failure + rdb" where
  "index_pending now u db =
     (if list_ex (\<lambda>r. sw_job_id r = su_job_id u \<and> (\<not> live r \<or> sw_status r \<ge> 2)) (db_status db)
      then Inr db
      else insert_status ((new_status_row now u)\<lparr>sw_pending_time := Some now\<rparr>) db)"

definition index_running :: "i64 \<Rightarrow> status_index_update \<Rightarrow> rdb \<Rightarrow> db_failure + rdb" where
  "index_running now u db =
     (let (n, db') = update_status (\<lambda>r. sw_job_id r = su_job_id u \<and> sw_status r < 2 \<and> live r)
            (\<lambda>r. (bump now r)\<lparr>sw_status := 2,
               sw_start_time := option_or (sw_start_time r) (Some now),
               sw_worker_instance_id := su_worker_instance_id u\<rparr>) db
      in if n = 0 then
           (if su_job_id u \<in> set (map sw_job_id (db_status db')) then Inr db'
            else insert_status ((new_status_row now u)\<lparr>sw_status := 2, sw_start_time := Some now,
                   sw_worker_instance_id := su_worker_instance_id u\<rparr>) db')
         else Inr db')"

definition index_deleted :: "i64 \<Rightarrow> i64 \<Rightarrow> i32 \<Rightarrow> rdb \<Rightarrow> rdb" where
  "index_deleted now i st db =
     snd (update_status (\<lambda>r. sw_job_id r = i \<and> live r)
            (\<lambda>r. (bump now r)\<lparr>sw_status := st, sw_deleted_at := Some now\<rparr>) db)"

definition index_status_update ::
  "job_status_config \<Rightarrow> i64 \<Rightarrow> status_index_update \<Rightarrow> rdb \<Rightarrow> db_failure + rdb" where
  "index_status_update cfg now u db =
     (if \<not> rdb_indexing_enabled cfg then Inr db
      else case su_status u of
             JpsPending \<Rightarrow> index_pending now u db
           | JpsRunning \<Rightarrow> index_running now u db
           | JpsWaitResult \<Rightarrow> Inr (index_deleted now (su_job_id u) 3 db)
           | JpsCancelling \<Rightarrow> Inr (index_deleted now (su_job_id u) 4 db)
           | JpsUnknown \<Rightarrow> Inr db)"

definition index_status ::
  "job_status_config \<Rightarrow> i64 \<Rightarrow> i64 \<Rightarrow> job_processing_status \<Rightarrow> i64 \<Rightarrow> string option \<Rightarrow> i32 \<Rightarrow> i64 \<Rightarrow>
     bool \<Rightarrow> bool \<Rightarrow> rdb \<Rightarrow> db_failure + rdb" where
  "index_status cfg now i st wid channel priority enqueue_time is_streamable broadcast_results =
     index_status_update cfg now
       \<lparr>su_job_id = i, su_status = st, su_worker_id = wid, su_channel = channel,
        su_priority = priority, su_enqueue_time = enqueue_time, su_is_streamable = is_streamable,
        su_broadcast_results = broadcast_results, su_worker_instance_id = None\<rparr>"

definition update_status_by_job_id ::
  "job_status_config \<Rightarrow> i64 \<Rightarrow> i64 \<Rightarrow> job_processing_status \<Rightarrow> rdb \<Rightarrow> rdb" where
  "update_status_by_job_id cfg now i st db =
     (if \<not> rdb_indexing_enabled cfg then db
      else snd (update_status (\<lambda>r. sw_job_id r = i \<and> live r)
        (\<lambda>r. (bump now r)\<lparr>sw_status := job_processing_status_i32 st,
           sw_start_time := (if st = JpsRunning then option_or (sw_start_time r) (Some now)
                             else sw_start_time r)\<rparr>) db))"

definition reset_to_pending_by_job_id_tx ::
  "job_status_config \<Rightarrow> i64 \<Rightarrow> i64 \<Rightarrow> rdb \<Rightarrow> bool \<times> rdb" where
  "reset_to_pending_by_job_id_tx cfg now i db =
     (if \<not> rdb_indexing_enabled cfg then (False, db)
      else let (n, db') = update_status (\<lambda>r. sw_job_id r = i \<and> \<not> live r) (to_pending now) db
           in (n = 1, db'))"

definition reset_to_pending_by_job_id :: "job_status_config \<Rightarrow> i64 \<Rightarrow> i64 \<Rightarrow> rdb \<Rightarrow> rdb" where
  "reset_to_pending_by_job_id cfg now i db =
     (if \<not> rdb_indexing_enabled cfg then db
      else snd (update_status (\<lambda>r. sw_job_id r = i \<and> \<not> live r) (to_pending now) db))"

datatype reset_running_outcome = ResetDone | ResetMissing | ResetOwnedByOther

definition reset_running_to_pending_by_owner ::
  "job_status_config \<Rightarrow> i64 \<Rightarrow> i64 \<Rightarrow> i64 \<Rightarrow> rdb \<Rightarrow> reset_running_outcome \<times> rdb" where
  "reset_running_to_pending_by_owner cfg now i owner db =
     (if \<not> rdb_indexing_enabled cfg then (ResetDone, db)
      else let (n, db') = update_status
                 (\<lambda>r. sw_job_id r = i \<and> sw_worker_instance_id r = Some owner \<and> sw_status r = 2 \<and> live r)
                 (to_pending now) db
           in if n = 1 then (ResetDone, db')
              else (case Option.bind (List.find (\<lambda>r. sw_job_id r = i \<and> sw_status r = 2 \<and> live r)
                           (db_status db')) sw_worker_instance_id of
                      Some other \<Rightarrow> (if other \<noteq> owner then ResetOwnedByOther else ResetMissing)
                    | None \<Rightarrow> ResetMissing, db'))"

definition mark_deleted_by_job_id :: "job_status_config \<Rightarrow> i64 \<Rightarrow> i64 \<Rightarrow> rdb \<Rightarrow> rdb" where
  "mark_deleted_by_job_id cfg now i db =
     (if \<not> rdb_indexing_enabled cfg then db
      else snd (update_status (\<lambda>r. sw_job_id r = i \<and> live r)
                  (\<lambda>r. r\<lparr>sw_deleted_at := Some now, sw_updated_at := now\<rparr>) db))"

section \<open>Searching and cleaning the index\<close>

definition status_filters ::
  "i64 \<Rightarrow> job_processing_status option \<Rightarrow> i64 option \<Rightarrow> string option \<Rightarrow> i64 option \<Rightarrow>
     status_row \<Rightarrow> bool" where
  "status_filters now st wid channel min_elapsed r \<longleftrightarrow>
     live r \<and>
     (case st of None \<Rightarrow> True | Some s \<Rightarrow> sw_status r = job_processing_status_i32 s) \<and>
     (case wid of None \<Rightarrow> True | Some w \<Rightarrow> sw_worker_id r = w) \<and>
     (case channel of None \<Rightarrow> True | Some c \<Rightarrow> sw_channel r = c) \<and>
     (case min_elapsed of
        None \<Rightarrow> True
      | Some e \<Rightarrow> (case sw_start_time r of None \<Rightarrow> False | Some t \<Rightarrow> t < i64_wrap (now - e)))"

record job_processing_status_detail =
  sd_job_id :: i64
  sd_status :: job_processing_status
  sd_worker_id :: i64
  sd_channel :: string
  sd_priority :: i32
  sd_enqueue_time :: i64
  sd_start_time :: "i64 option"
  sd_pending_time :: "i64 option"
  sd_is_streamable :: bool
  sd_broadcast_results :: bool
  sd_updated_at :: i64

definition status_detail :: "status_row \<Rightarrow> job_processing_status_detail" where
  "status_detail r =
     \<lparr>sd_job_id = sw_job_id r,
      sd_status = unwrap_or (job_processing_status_try_from (sw_status r)) JpsUnknown,
      sd_worker_id = sw_worker_id r, sd_channel = sw_channel r, sd_priority = sw_priority r,
      sd_enqueue_time = sw_enqueue_time r, sd_start_time = sw_start_time r,
      sd_pending_time = sw_pending_time r, sd_is_streamable = sw_is_streamable r,
      sd_broadcast_results = sw_broadcast_results r, sd_updated_at = sw_updated_at r\<rparr>"

text \<open>\<^verbatim>\<open>ORDER BY start_time\<close>: SQLite takes NULL for the smallest value.\<close>

definition order_by_start :: "bool \<Rightarrow> status_row list \<Rightarrow> status_row list" where
  "order_by_start descending rows =
     (let nulls = filter (\<lambda>r. sw_start_time r = None) rows;
          started = filter (\<lambda>r. sw_start_time r \<noteq> None) rows
      in if descending then sort_key (\<lambda>r. - the (sw_start_time r)) started @ nulls
         else nulls @ sort_key (\<lambda>r. the (sw_start_time r)) started)"

definition find_by_condition ::
  "job_status_config \<Rightarrow> i64 \<Rightarrow> job_processing_status option \<Rightarrow> i64 option \<Rightarrow> string option \<Rightarrow>
     i64 option \<Rightarrow> i32 \<Rightarrow> i32 \<Rightarrow> bool \<Rightarrow> rdb \<Rightarrow> string + job_processing_status_detail list" where
  "find_by_condition cfg now st wid channel min_elapsed cap off descending db =
     (if \<not> rdb_indexing_enabled cfg then
        Inl (''Advanced job status search is disabled. '' @
             ''Enable JOB_STATUS_RDB_INDEXING=true to use this feature.'')
      else Inr (map status_detail
        (sql_limit cap off (order_by_start descending
           (filter (status_filters now st wid channel min_elapsed) (db_status db))))))"

datatype job_processing_status_count_mode = CountTotal | GroupByStatus

record job_processing_status_count_result =
  cr_total :: i64
  cr_counts :: "(job_processing_status \<times> i64) list"

definition group_counts :: "status_row list \<Rightarrow> (job_processing_status \<times> i64) list" where
  "group_counts rows =
     map (\<lambda>s. (unwrap_or (job_processing_status_try_from s) JpsUnknown,
               int (length (filter (\<lambda>r. sw_status r = s) rows))))
       (sorted_list_of_set (set (map sw_status rows)))"

definition count_by_condition ::
  "job_status_config \<Rightarrow> i64 \<Rightarrow> job_processing_status option \<Rightarrow> i64 option \<Rightarrow> string option \<Rightarrow>
     i64 option \<Rightarrow> job_processing_status_count_mode \<Rightarrow> rdb \<Rightarrow>
     string + job_processing_status_count_result" where
  "count_by_condition cfg now st wid channel min_elapsed mode db =
     (if \<not> rdb_indexing_enabled cfg then
        Inl (''Advanced job status count is disabled. '' @
             ''Enable JOB_STATUS_RDB_INDEXING=true to use this feature.'')
      else let rows = filter (status_filters now st wid channel min_elapsed) (db_status db)
           in case mode of
                CountTotal \<Rightarrow> Inr \<lparr>cr_total = int (length rows), cr_counts = []\<rparr>
              | GroupByStatus \<Rightarrow>
                  Inr \<lparr>cr_total = sum_list (map snd (group_counts rows)),
                       cr_counts = group_counts rows\<rparr>)"

definition count_for_status ::
  "job_processing_status_count_result \<Rightarrow> job_processing_status \<Rightarrow> i64 option" where
  "count_for_status cr st = map_option snd (List.find (\<lambda>c. fst c = st) (cr_counts cr))"

definition u64_checked_mul :: "u64 \<Rightarrow> u64 \<Rightarrow> u64 option" where
  "u64_checked_mul a b = (if uint a * uint b < 2 ^ 64 then Some (a * b) else None)"

definition i64_saturating_sub :: "i64 \<Rightarrow> i64 \<Rightarrow> i64" where
  "i64_saturating_sub a b = max i64_min (min i64_max (a - b))"

definition cutoff_from_hours :: "i64 \<Rightarrow> u64 \<Rightarrow> string \<Rightarrow> string + i64" where
  "cutoff_from_hours now hours field =
     (case Option.bind (u64_checked_mul hours 3600) (\<lambda>v. u64_checked_mul v 1000) of
        None \<Rightarrow> Inl (field @ '' '' @ show_nat (unat hours) @ '' overflows millisecond conversion'')
      | Some ms \<Rightarrow>
          (case i64_try_from_u64 ms of
             None \<Rightarrow> Inl (field @ '' '' @ show_nat (unat hours) @
                          '' exceeds i64 range in milliseconds'')
           | Some ms \<Rightarrow> Inr (i64_saturating_sub now ms)))"

definition compute_cutoff_millis :: "i64 \<Rightarrow> u64 \<Rightarrow> string + i64 \<times> i64" where
  "compute_cutoff_millis now hours =
     (if hours = 0 then Inl ''stale_threshold_hours must be greater than 0''
      else bindE (cutoff_from_hours now hours ''stale_threshold_hours'') (\<lambda>cutoff. Inr (now, cutoff)))"

definition compute_orphan_candidate_cutoff_millis :: "i64 \<Rightarrow> u64 \<Rightarrow> string + i64 \<times> i64" where
  "compute_orphan_candidate_cutoff_millis now hours =
     (if hours = 0 then Inr (now, now) else compute_cutoff_millis now hours)"

definition stale :: "i64 \<Rightarrow> i64 \<Rightarrow> rdb \<Rightarrow> status_row \<Rightarrow> bool" where
  "stale now cutoff db r \<longleftrightarrow>
     live r \<and> sw_updated_at r < cutoff \<and>
     sw_job_id r \<notin> set (map jrw_id (filter (\<lambda>j. jrw_run_after_time j > now) (db_jobs db)))"

definition purge_stale_records ::
  "job_status_config \<Rightarrow> i64 \<Rightarrow> u64 \<Rightarrow> rdb \<Rightarrow> string + (nat \<times> i64) \<times> rdb" where
  "purge_stale_records cfg now hours db =
     (if \<not> rdb_indexing_enabled cfg then Inr ((0, 0), db)
      else bindE (compute_cutoff_millis now hours) (\<lambda>(now, cutoff).
        let (n, db') = update_status (stale now cutoff db)
              (\<lambda>r. r\<lparr>sw_deleted_at := Some now, sw_updated_at := now\<rparr>) db
        in Inr ((n, cutoff), db')))"

definition find_stale_job_ids ::
  "job_status_config \<Rightarrow> i64 \<Rightarrow> u64 \<Rightarrow> rdb \<Rightarrow> string + i64 list \<times> i64" where
  "find_stale_job_ids cfg now hours db =
     (if \<not> rdb_indexing_enabled cfg then Inr ([], 0)
      else bindE (compute_orphan_candidate_cutoff_millis now hours) (\<lambda>(now, cutoff).
        Inr (map sw_job_id (filter (stale now cutoff db) (db_status db)), cutoff)))"

definition cleanup_deleted_records ::
  "job_status_config \<Rightarrow> i64 \<Rightarrow> u64 option \<Rightarrow> rdb \<Rightarrow> string + (nat \<times> i64) \<times> rdb" where
  "cleanup_deleted_records cfg now hours db =
     (if \<not> rdb_indexing_enabled cfg then Inr ((0, 0), db)
      else bindE (cutoff_from_hours now (unwrap_or hours (retention_hours cfg)) ''retention_hours'')
        (\<lambda>cutoff.
           let old = (\<lambda>r. case sw_deleted_at r of None \<Rightarrow> False | Some t \<Rightarrow> t < cutoff)
           in Inr ((length (filter old (db_status db)), cutoff),
                   db\<lparr>db_status := filter (\<lambda>r. \<not> old r) (db_status db)\<rparr>)))"

section \<open>The primary key\<close>

text \<open>\<open>keys_ok\<close> is the primary key constraint of the two tables; every operation keeps it.\<close>

definition keys_ok :: "rdb \<Rightarrow> bool" where
  "keys_ok db \<longleftrightarrow> distinct (map sw_job_id (db_status db)) \<and> distinct (map jrw_id (db_jobs db))"

definition status_row_of :: "i64 \<Rightarrow> rdb \<Rightarrow> status_row option" where
  "status_row_of i db = List.find (\<lambda>r. sw_job_id r = i) (db_status db)"

abbreviation version_of :: "i64 \<Rightarrow> rdb \<Rightarrow> i64 option" where
  "version_of i db \<equiv> map_option sw_version (status_row_of i db)"

lemma find_map_keep:
  assumes "\<And>r. r \<in> set rows \<Longrightarrow> P (f r) = P r"
  shows "List.find P (map f rows) = map_option f (List.find P rows)"
  using assms by (induction rows) auto

lemma find_key_iff:
  assumes "distinct (map k rows)"
  shows "List.find (\<lambda>r. k r = i) rows = Some r \<longleftrightarrow> r \<in> set rows \<and> k r = i"
  using assms by (induction rows) (auto simp: image_iff)

lemma filter_key:
  assumes "distinct (map k rows)"
  shows "filter (\<lambda>r. k r = i \<and> P r) rows =
     (case List.find (\<lambda>r. k r = i) rows of None \<Rightarrow> [] | Some r \<Rightarrow> if P r then [r] else [])"
  using assms
proof (induction rows)
  case (Cons a rows)
  have "filter (\<lambda>r. k r = k a \<and> P r) rows = []"
    using Cons.prems by (auto simp: filter_empty_conv) (metis image_eqI)
  with Cons show ?case by auto
qed simp

definition keeps_id :: "(status_row \<Rightarrow> status_row) \<Rightarrow> bool" where
  "keeps_id f \<longleftrightarrow> (\<forall>r. sw_job_id (f r) = sw_job_id r)"

lemma keeps_idI [intro]: "(\<And>r. sw_job_id (f r) = sw_job_id r) \<Longrightarrow> keeps_id f"
  by (simp add: keeps_id_def)

lemma status_row_of_update:
  assumes "keeps_id f"
  shows "status_row_of i (snd (update_status p f db)) =
     map_option (\<lambda>r. if p r then f r else r) (status_row_of i db)"
  using assms unfolding status_row_of_def update_status_def sql_update_def
  by (simp add: find_map_keep keeps_id_def)

lemma keys_ok_update [simp]:
  assumes "keeps_id f"
  shows "keys_ok (snd (update_status p f db)) = keys_ok db"
proof -
  have "sw_job_id \<circ> (\<lambda>r. if p r then f r else r) = sw_job_id"
    using assms by (auto simp: keeps_id_def)
  then show ?thesis by (simp add: keys_ok_def update_status_def sql_update_def)
qed

lemma update_status_count:
  assumes "keys_ok db"
  shows "fst (update_status (\<lambda>r. sw_job_id r = i \<and> P r) f db) =
     (case status_row_of i db of None \<Rightarrow> 0 | Some r \<Rightarrow> if P r then 1 else 0)"
  using assms filter_key [of sw_job_id "db_status db" i P]
  by (auto simp: keys_ok_def update_status_def sql_update_def status_row_of_def split: option.splits)

lemma update_status_none:
  assumes "update_status p f db = (0, db')"
  shows "db' = db"
proof -
  have "map (\<lambda>r. if p r then f r else r) (db_status db) = db_status db"
    using assms by (intro map_idI) (auto simp: update_status_def sql_update_def filter_empty_conv)
  then show ?thesis using assms by (auto simp: update_status_def sql_update_def)
qed

lemma db_jobs_update_status [simp]: "db_jobs (snd (update_status p f db)) = db_jobs db"
  by (simp add: update_status_def sql_update_def)

lemma db_status_update_jobs [simp]: "db_status (snd (update_jobs p f db)) = db_status db"
  by (simp add: update_jobs_def sql_update_def)

lemma status_row_of_update_jobs [simp]: "status_row_of i (snd (update_jobs p f db)) = status_row_of i db"
  by (simp add: status_row_of_def)

lemma keys_ok_update_jobs [simp]:
  assumes "\<And>r. jrw_id (f r) = jrw_id r"
  shows "keys_ok (snd (update_jobs p f db)) = keys_ok db"
proof -
  have "jrw_id \<circ> (\<lambda>r. if p r then f r else r) = jrw_id" using assms by auto
  then show ?thesis by (simp add: keys_ok_def update_jobs_def sql_update_def)
qed

lemma row_fields [simp]:
  "sw_job_id (bump now r) = sw_job_id r" "sw_version (bump now r) = sw_version r + 1"
  "sw_status (bump now r) = sw_status r" "sw_deleted_at (bump now r) = sw_deleted_at r"
  "sw_worker_instance_id (bump now r) = sw_worker_instance_id r"
  "sw_start_time (bump now r) = sw_start_time r" "sw_pending_time (bump now r) = sw_pending_time r"
  "sw_job_id (to_pending now r) = sw_job_id r" "sw_version (to_pending now r) = sw_version r + 1"
  "sw_status (to_pending now r) = 1" "sw_deleted_at (to_pending now r) = None"
  "sw_worker_instance_id (to_pending now r) = None" "sw_start_time (to_pending now r) = None"
  by (simp_all add: bump_def to_pending_def)

section \<open>Properties of the index\<close>

lemma length_order_by_start [simp]: "length (order_by_start desc rows) = length rows"
  using sum_length_filter_compl [of "\<lambda>r. sw_start_time r = None" rows]
  by (simp add: order_by_start_def Let_def)

lemma sum_counts:
  fixes xs :: "int list"
  shows "sum_list (map (\<lambda>s. int (length (filter (\<lambda>x. x = s) xs))) (sorted_list_of_set (set xs))) =
     int (length xs)"
proof -
  have "sum_list (map (\<lambda>s. int (length (filter (\<lambda>x. x = s) xs))) (sorted_list_of_set (set xs))) =
      (\<Sum>s \<in> set xs. int (count_list xs s))"
    by (simp add: sum_list_distinct_conv_sum_set count_list_eq_length_filter eq_commute)
  also have "\<dots> = int (length xs)"
    using sum_count_set [of xs "set xs"] by (simp flip: of_nat_sum)
  finally show ?thesis .
qed

lemma sum_group_counts: "sum_list (map snd (group_counts rows)) = int (length rows)"
  using sum_counts [of "map sw_status rows"]
  by (simp add: group_counts_def comp_def filter_map)

text \<open>
  Counting and searching agree: for the same conditions both counting modes report as many
  jobs as an unbounded search returns.
\<close>

theorem counts_agree_with_search:
  assumes "rdb_indexing_enabled cfg" "cap < 0"
  shows "\<exists>jobs a b. find_by_condition cfg now st wid channel min_elapsed cap 0 desc db = Inr jobs \<and>
     count_by_condition cfg now st wid channel min_elapsed CountTotal db = Inr a \<and>
     count_by_condition cfg now st wid channel min_elapsed GroupByStatus db = Inr b \<and>
     cr_total a = int (length jobs) \<and> cr_total b = int (length jobs)"
  using assms
  by (simp add: find_by_condition_def count_by_condition_def sql_limit_def Let_def sum_group_counts)

definition example_cfg :: job_status_config where
  "example_cfg = \<lparr>rdb_indexing_enabled = True, cleanup_interval_hours = 1, retention_hours = 24\<rparr>"

definition example_update :: status_index_update where
  "example_update = \<lparr>su_job_id = 7, su_status = JpsRunning, su_worker_id = 1, su_channel = None,
     su_priority = 0, su_enqueue_time = 0, su_is_streamable = False, su_broadcast_results = False,
     su_worker_instance_id = Some 3\<rparr>"

theorem counts_agree_with_search_witness:
  "\<exists>jobs a b. find_by_condition example_cfg 100 None None None None (-1) 0 False
        (example_db\<lparr>db_status := [new_status_row 5 example_update]\<rparr>) = Inr jobs \<and>
     count_by_condition example_cfg 100 None None None None CountTotal
        (example_db\<lparr>db_status := [new_status_row 5 example_update]\<rparr>) = Inr a \<and>
     cr_total a = int (length jobs) \<and> length jobs = 1"
proof -
  let ?db = "example_db\<lparr>db_status := [new_status_row 5 example_update]\<rparr>"
  have "rdb_indexing_enabled example_cfg" "(-1 :: i32) < 0" by (simp_all add: example_cfg_def)
  from counts_agree_with_search [OF this, of 100 None None None None False ?db] show ?thesis
    by (auto simp: find_by_condition_def sql_limit_def example_cfg_def status_filters_def new_status_row_def)
qed

text \<open>
  The index converges when the two writes of a starting job arrive out of order: in
  either order a new job ends as one live running row with its start time and its owner.
\<close>

theorem index_converges:
  assumes on: "rdb_indexing_enabled cfg"
    and st: "su_status p = JpsPending" "su_status r = JpsRunning" "su_job_id p = su_job_id r"
    and new: "status_row_of (su_job_id r) db = None"
  shows "\<exists>db1 db2 db3 db4 a b.
     index_status_update cfg t1 p db = Inr db1 \<and> index_status_update cfg t2 r db1 = Inr db2 \<and>
     index_status_update cfg t2 r db = Inr db3 \<and> index_status_update cfg t1 p db3 = Inr db4 \<and>
     db_status db2 = db_status db @ [a] \<and> db_status db4 = db_status db @ [b] \<and>
     (\<forall>x \<in> {a, b}. sw_job_id x = su_job_id r \<and> sw_status x = 2 \<and> live x \<and> sw_start_time x = Some t2 \<and>
        sw_worker_instance_id x = su_worker_instance_id r)"
proof -
  let ?i = "su_job_id r"
  let ?p = "(new_status_row t1 p)\<lparr>sw_pending_time := Some t1\<rparr>"
  let ?r = "(new_status_row t2 r)\<lparr>sw_status := 2, sw_start_time := Some t2,
                   sw_worker_instance_id := su_worker_instance_id r\<rparr>"
  have absent: "x \<in> set (db_status db) \<Longrightarrow> sw_job_id x \<noteq> ?i" for x
    using new by (auto simp: status_row_of_def find_None_iff)
  have out: "?i \<notin> sw_job_id ` set (db_status db)"
    using new by (auto simp: status_row_of_def find_None_iff)
  have none: "map (\<lambda>x. if sw_job_id x = ?i \<and> P x then f x else x) (db_status db) = db_status db"
      "filter (\<lambda>x. sw_job_id x = ?i \<and> P x) (db_status db) = []" for P f
    using absent by (auto intro!: map_idI simp: filter_empty_conv)
  have 1: "index_status_update cfg t1 p db = Inr (db\<lparr>db_status := db_status db @ [?p]\<rparr>)"
    using on st out absent by (auto simp: index_status_update_def index_pending_def insert_status_def
        list_ex_iff new_status_row_def)
  have 2: "index_status_update cfg t2 r (db\<lparr>db_status := db_status db @ [?p]\<rparr>) =
      Inr (db\<lparr>db_status := db_status db @ [(bump t2 ?p)\<lparr>sw_status := 2, sw_start_time := Some t2,
         sw_worker_instance_id := su_worker_instance_id r\<rparr>]\<rparr>)"
    using on st none by (simp add: index_status_update_def index_running_def update_status_def
        sql_update_def new_status_row_def option_or_def)
  have 3: "index_status_update cfg t2 r db = Inr (db\<lparr>db_status := db_status db @ [?r]\<rparr>)"
    using on st none out by (simp add: index_status_update_def index_running_def update_status_def
        sql_update_def insert_status_def new_status_row_def)
  have 4: "index_status_update cfg t1 p (db\<lparr>db_status := db_status db @ [?r]\<rparr>) =
      Inr (db\<lparr>db_status := db_status db @ [?r]\<rparr>)"
    using on st by (simp add: index_status_update_def index_pending_def new_status_row_def)
  show ?thesis
    by (intro exI conjI, rule 1, rule 2, rule 3, rule 4) (auto simp: new_status_row_def st(3))
qed

theorem index_converges_witness:
  "\<exists>db3 db4 b. index_status_update example_cfg 20 example_update example_db = Inr db3 \<and>
     index_status_update example_cfg 10 (example_update\<lparr>su_status := JpsPending\<rparr>) db3 = Inr db4 \<and>
     db_status db4 = [b] \<and> sw_status b = 2"
proof -
  have "rdb_indexing_enabled example_cfg" "su_status (example_update\<lparr>su_status := JpsPending\<rparr>) = JpsPending"
      "su_status example_update = JpsRunning"
      "su_job_id (example_update\<lparr>su_status := JpsPending\<rparr>) = su_job_id example_update"
      "status_row_of (su_job_id example_update) example_db = None"
    by (simp_all add: example_cfg_def example_update_def status_row_of_def example_db_def)
  from index_converges [OF this, of 10 20] show ?thesis
    by (auto simp: example_db_def)
qed

text \<open>
  Cleaning the index is safe: purging marks only rows that were not touched since the
  cutoff and whose job is not scheduled for later, and the physical cleanup removes exactly the
  rows that were deleted before the cutoff; live rows stay.
\<close>

theorem index_cleaning_safe:
  assumes "rdb_indexing_enabled cfg"
  shows "(purge_stale_records cfg now hours db = Inr ((n, cutoff), db1) \<longrightarrow>
       (\<forall>r \<in> set (db_status db). live r \<longrightarrow> sw_updated_at r \<ge> cutoff \<or>
          (\<exists>j \<in> set (db_jobs db). jrw_id j = sw_job_id r \<and> jrw_run_after_time j > now) \<longrightarrow>
          r \<in> set (db_status db1))) \<and>
     (cleanup_deleted_records cfg now keep db = Inr ((m, cutoff), db2) \<longrightarrow>
       set (db_status db2) = {r \<in> set (db_status db). live r \<or> the (sw_deleted_at r) \<ge> cutoff})"
proof (intro conjI impI ballI)
  fix r
  assume p: "purge_stale_records cfg now hours db = Inr ((n, cutoff), db1)" and "r \<in> set (db_status db)" "live r"
    and "sw_updated_at r \<ge> cutoff \<or>
      (\<exists>j \<in> set (db_jobs db). jrw_id j = sw_job_id r \<and> jrw_run_after_time j > now)"
  moreover from this have "\<not> stale now cutoff db r" by (auto simp: stale_def image_iff)
  ultimately show "r \<in> set (db_status db1)"
    using assms by (auto simp: purge_stale_records_def bindE_eq_Inr compute_cutoff_millis_def
        update_status_def sql_update_def split: if_splits)
next
  assume "cleanup_deleted_records cfg now keep db = Inr ((m, cutoff), db2)"
  then have "db_status db2 =
      filter (\<lambda>r. \<not> (case sw_deleted_at r of None \<Rightarrow> False | Some t \<Rightarrow> t < cutoff)) (db_status db)"
    using assms by (auto simp: cleanup_deleted_records_def bindE_eq_Inr Let_def)
  moreover have "\<not> (case sw_deleted_at r of None \<Rightarrow> False | Some t \<Rightarrow> t < cutoff) \<longleftrightarrow>
      live r \<or> the (sw_deleted_at r) \<ge> cutoff" for r
    by (cases "sw_deleted_at r") auto
  ultimately show "set (db_status db2) = {r \<in> set (db_status db). live r \<or> the (sw_deleted_at r) \<ge> cutoff}"
    by auto
qed

theorem index_cleaning_safe_witness:
  "\<exists>n cutoff db1. purge_stale_records example_cfg 7200000 1
       (example_db\<lparr>db_status := [new_status_row 3600000 example_update]\<rparr>) = Inr ((n, cutoff), db1) \<and>
     new_status_row 3600000 example_update \<in> set (db_status db1)"
proof -
  let ?r = "new_status_row 3600000 example_update"
  let ?db = "example_db\<lparr>db_status := [?r]\<rparr>"
  have on: "rdb_indexing_enabled example_cfg" by (simp add: example_cfg_def)
  obtain n db1 where p: "purge_stale_records example_cfg 7200000 1 ?db = Inr ((n, 3600000), db1)"
    by (simp add: purge_stale_records_def on compute_cutoff_millis_def cutoff_from_hours_def
        u64_checked_mul_def i64_try_from_u64_def i64_max_def i64_min_def i64_saturating_sub_def bindE_def
        update_status_def sql_update_def Let_def)
  have "?r \<in> set (db_status ?db)" "live ?r" "sw_updated_at ?r \<ge> 3600000"
    by (simp_all add: new_status_row_def)
  with index_cleaning_safe [OF on, of 7200000 1 ?db n 3600000 db1] p show ?thesis by blast
qed

end
