(* ===== verification/Chan_Queue.thy ===== *)
theory Chan_Queue
  imports Status_Index
begin

text \<open>
  The queue of the standalone build, \<^verbatim>\<open>infra/src/infra/job/queue/chan.rs\<close>: one channel per
  priority and channel name, and beside it a list of the queued jobs for queries.  The channels
  and the message codec are libraries, so they are parameters; \<open>chan_laws\<close> and
  \<open>job_codec_laws\<close> say what the code relies on.
\<close>

section \<open>Messages and names\<close>

datatype priority = PriorityMedium | PriorityLow | PriorityHigh

primrec priority_i32 :: "priority \<Rightarrow> i32" where
  "priority_i32 PriorityMedium = 0"
| "priority_i32 PriorityLow = - 1"
| "priority_i32 PriorityHigh = 1"

record job_internal =
  ji_job :: "job option"
  ji_load_only :: bool

record job_codec =
  jc_encode :: "job_internal \<Rightarrow> job_worker_error + bytes"
  jc_decode :: "bytes \<Rightarrow> job_worker_error + job_internal"

definition job_codec_laws :: "job_codec \<Rightarrow> bool" where
  "job_codec_laws codec \<longleftrightarrow> (\<forall>x b. jc_encode codec x = Inr b \<longrightarrow> jc_decode codec b = Inr x)"

definition queue_channel_name :: "string \<Rightarrow> i32 option \<Rightarrow> string" where
  "queue_channel_name channel p = ''q'' @ show_int (unwrap_or p 0) @ '':'' @ channel @ '':''"

definition deserialize_job_internal :: "job_codec \<Rightarrow> bytes \<Rightarrow> job_worker_error + job \<times> bool" where
  "deserialize_job_internal codec b =
     bindE (jc_decode codec b) (\<lambda>internal.
       case ji_job internal of
         None \<Rightarrow> Inl (InvalidParameter ''JobInternal.job is empty'')
       | Some j \<Rightarrow> Inr (j, ji_load_only internal))"

section \<open>The channels\<close>

text \<open>
  \<open>ch_send\<close> replies whether a receiver is left, \<open>ch_receive_any\<close> waits for the first
  message of several channels and says which one it came from.
\<close>

record 'c chan_ops =
  ch_send :: "string \<Rightarrow> bytes \<Rightarrow> string option \<Rightarrow> 'c \<Rightarrow> (string + bool) \<times> 'c"
  ch_try_receive :: "string \<Rightarrow> 'c \<Rightarrow> (string + bytes) \<times> 'c"
  ch_receive_any :: "string list \<Rightarrow> 'c \<Rightarrow> ((string + bytes) \<times> nat) \<times> 'c"
  ch_count :: "string \<Rightarrow> 'c \<Rightarrow> nat option"

definition chan_laws :: "'c chan_ops \<Rightarrow> ('c \<Rightarrow> string \<Rightarrow> bytes list) \<Rightarrow> bool" where
  "chan_laws ops contents \<longleftrightarrow>
     (\<forall>qn b k c r c'. ch_send ops qn b k c = (r, c') \<longrightarrow>
        contents c' = (if r = Inr True then (contents c)(qn := contents c qn @ [b]) else contents c)) \<and>
     (\<forall>qn c r c'. ch_try_receive ops qn c = (r, c') \<longrightarrow>
        (case contents c qn of
           [] \<Rightarrow> (\<exists>e. r = Inl e) \<and> contents c' = contents c
         | b # bs \<Rightarrow> r = Inr b \<and> contents c' = (contents c)(qn := bs)))"

section \<open>The queue\<close>

record 'c chan_queue =
  cq_chan :: 'c
  cq_buffer :: "string \<Rightarrow> job list option"

definition push_buffer :: "string \<Rightarrow> job \<Rightarrow> (string \<Rightarrow> job list option) \<Rightarrow> string \<Rightarrow> job list option" where
  "push_buffer qn j buf = buf(qn \<mapsto> unwrap_or (buf qn) [] @ [j])"

definition retain_others :: "string \<Rightarrow> job \<Rightarrow> (string \<Rightarrow> job list option) \<Rightarrow> string \<Rightarrow> job list option" where
  "retain_others qn j buf =
     (case buf qn of
        None \<Rightarrow> buf
      | Some v \<Rightarrow> buf(qn \<mapsto> filter (\<lambda>x. j_id x \<noteq> j_id j) v))"

definition queue_of :: "string option \<Rightarrow> job \<Rightarrow> string" where
  "queue_of channel j =
     queue_channel_name (unwrap_or channel DEFAULT_CHANNEL_NAME) (map_option jd_priority (j_data j))"

definition enqueue_job_with_load_only ::
  "'c chan_ops \<Rightarrow> job_codec \<Rightarrow> string option \<Rightarrow> job \<Rightarrow> bool \<Rightarrow> 'c chan_queue \<Rightarrow>
     (job_worker_error + i64) \<times> 'c chan_queue" where
  "enqueue_job_with_load_only ops codec channel j load_only q =
     (let qn = queue_of channel j;
          q1 = q\<lparr>cq_buffer := push_buffer qn j (cq_buffer q)\<rparr>
      in case jc_encode codec \<lparr>ji_job = Some j, ji_load_only = load_only\<rparr> of
           Inl e \<Rightarrow> (Inl e, q1)
         | Inr b \<Rightarrow>
             (case ch_send ops qn b (Option.bind (j_data j) jd_uniq_key) (cq_chan q1) of
                (Inr sent, c) \<Rightarrow>
                  (Inr (int (unwrap_or (ch_count ops qn c) 0)),
                   q1\<lparr>cq_chan := c,
                      cq_buffer := (if sent then cq_buffer q1 else retain_others qn j (cq_buffer q1))\<rparr>)
              | (Inl e, c) \<Rightarrow>
                  (Inl (ChanError e),
                   q1\<lparr>cq_chan := c, cq_buffer := retain_others qn j (cq_buffer q1)\<rparr>)))"

definition chan_enqueue_job ::
  "'c chan_ops \<Rightarrow> job_codec \<Rightarrow> string option \<Rightarrow> job \<Rightarrow> 'c chan_queue \<Rightarrow>
     (job_worker_error + i64) \<times> 'c chan_queue" where
  "chan_enqueue_job ops codec channel j q = enqueue_job_with_load_only ops codec channel j False q"

definition take_message ::
  "job_codec \<Rightarrow> string \<Rightarrow> bytes \<Rightarrow> 'c chan_queue \<Rightarrow> (job_worker_error + job \<times> bool) \<times> 'c chan_queue" where
  "take_message codec qn b q =
     (case deserialize_job_internal codec b of
        Inl e \<Rightarrow> (Inl e, q)
      | Inr (j, load_only) \<Rightarrow> (Inr (j, load_only), q\<lparr>cq_buffer := retain_others qn j (cq_buffer q)\<rparr>))"

fun try_channels ::
  "'c chan_ops \<Rightarrow> job_codec \<Rightarrow> string list \<Rightarrow> 'c chan_queue \<Rightarrow>
     (job_worker_error + job \<times> bool) option \<times> 'c chan_queue" where
  "try_channels ops codec [] q = (None, q)"
| "try_channels ops codec (qn # qns) q =
     (case ch_try_receive ops qn (cq_chan q) of
        (Inr b, c) \<Rightarrow> (case take_message codec qn b (q\<lparr>cq_chan := c\<rparr>) of (r, q') \<Rightarrow> (Some r, q'))
      | (Inl _, c) \<Rightarrow> try_channels ops codec qns (q\<lparr>cq_chan := c\<rparr>))"

definition receive_job_from_channels ::
  "'c chan_ops \<Rightarrow> job_codec \<Rightarrow> string list \<Rightarrow> 'c chan_queue \<Rightarrow>
     (job_worker_error + job \<times> bool) \<times> 'c chan_queue" where
  "receive_job_from_channels ops codec qns q =
     (case try_channels ops codec qns q of
        (Some r, q') \<Rightarrow> (r, q')
      | (None, q') \<Rightarrow>
          (case ch_receive_any ops qns (cq_chan q') of
             ((Inl e, _), c) \<Rightarrow> (Inl (ChanError e), q'\<lparr>cq_chan := c\<rparr>)
           | ((Inr b, idx), c) \<Rightarrow> take_message codec (qns ! idx) b (q'\<lparr>cq_chan := c\<rparr>)))"

text \<open>Asking for ids panics on a queued job without an id.\<close>

definition wanted :: "i64 set option \<Rightarrow> job \<Rightarrow> bool" where
  "wanted ids j \<longleftrightarrow> (case ids of None \<Rightarrow> True | Some s \<Rightarrow> the (j_id j) \<in> s)"

definition find_multi_from_queue ::
  "string option \<Rightarrow> i64 set option \<Rightarrow> 'c chan_queue \<Rightarrow> panic + job list" where
  "find_multi_from_queue channel ids q =
     (let cn = unwrap_or channel DEFAULT_CHANNEL_NAME;
          jobs = concat (map (\<lambda>p. unwrap_or (cq_buffer q (queue_channel_name cn (Some (priority_i32 p)))) [])
            [PriorityHigh, PriorityMedium, PriorityLow])
      in if ids \<noteq> None \<and> list_ex (\<lambda>j. j_id j = None) jobs then
           Inl (Panic ''called `Option::unwrap()` on a `None` value'')
         else Inr (filter (wanted ids) jobs))"

definition count_queue :: "'c chan_ops \<Rightarrow> string option \<Rightarrow> priority \<Rightarrow> 'c chan_queue \<Rightarrow> i64" where
  "count_queue ops channel p q =
     int (unwrap_or (ch_count ops
       (queue_channel_name (unwrap_or channel DEFAULT_CHANNEL_NAME) (Some (priority_i32 p)))
       (cq_chan q)) 0)"

section \<open>The cancellation channel\<close>

text \<open>
  One subscription to cancellations: the events its loop can see.  A message that cannot be
  decoded is skipped, everything else but a message ends the loop.
\<close>

datatype cancel_event =
    CancelMessage bytes
  | CancelLagged
  | CancelEnded
  | CancelTimeout
  | CancelCleanup

definition subscription_timeout_ms :: "u64 \<Rightarrow> u64 option" where
  "subscription_timeout_ms job_timeout_ms =
     (if job_timeout_ms = 0 then None else Some (job_timeout_ms + 30000))"

fun subscribed_callbacks :: "(bytes \<Rightarrow> job_id option) \<Rightarrow> cancel_event list \<Rightarrow> job_id list" where
  "subscribed_callbacks decode (CancelMessage b # es) =
     (case decode b of
        None \<Rightarrow> subscribed_callbacks decode es
      | Some i \<Rightarrow> i # subscribed_callbacks decode es)"
| "subscribed_callbacks decode _ = []"

definition broadcast_job_cancellation :: "(job_id \<Rightarrow> string + bool) \<Rightarrow> job_id \<Rightarrow> string + unit" where
  "broadcast_job_cancellation send i =
     (case send i of Inr _ \<Rightarrow> Inr () | Inl e \<Rightarrow> Inl (''Broadcast error: '' @ e))"

section \<open>The queue as lists of jobs\<close>

text \<open>
  \<open>queued\<close> is the content of a channel as the jobs it carries.  The invariant says that
  the list kept for queries shows exactly these jobs.
\<close>

definition queued ::
  "job_codec \<Rightarrow> ('c \<Rightarrow> string \<Rightarrow> bytes list) \<Rightarrow> 'c chan_queue \<Rightarrow> string \<Rightarrow> (job \<times> bool) list" where
  "queued codec contents q qn =
     map (\<lambda>b. projr (deserialize_job_internal codec b)) (contents (cq_chan q) qn)"

definition queue_invar :: "job_codec \<Rightarrow> ('c \<Rightarrow> string \<Rightarrow> bytes list) \<Rightarrow> 'c chan_queue \<Rightarrow> bool" where
  "queue_invar codec contents q \<longleftrightarrow>
     (\<forall>qn. (\<forall>b \<in> set (contents (cq_chan q) qn). \<not> isl (deserialize_job_internal codec b)) \<and>
           unwrap_or (cq_buffer q qn) [] = map fst (queued codec contents q qn) \<and>
           distinct (map (j_id \<circ> fst) (queued codec contents q qn)))"

lemma decode_encoded:
  assumes "job_codec_laws codec" "jc_encode codec \<lparr>ji_job = Some j, ji_load_only = lo\<rparr> = Inr b"
  shows "deserialize_job_internal codec b = Inr (j, lo)"
  using assms by (simp add: job_codec_laws_def deserialize_job_internal_def bindE_def)

lemma buffer_push [simp]:
  "unwrap_or (push_buffer qn j buf qn') [] = unwrap_or (buf qn') [] @ (if qn' = qn then [j] else [])"
  by (simp add: push_buffer_def unwrap_or_def)

lemma buffer_retain [simp]:
  "unwrap_or (retain_others qn j buf qn') [] =
     (if qn' = qn then filter (\<lambda>x. j_id x \<noteq> j_id j) (unwrap_or (buf qn') []) else unwrap_or (buf qn') [])"
  by (simp add: retain_others_def unwrap_or_def split: option.split)

lemma filter_other_ids:
  "x \<notin> j_id ` set js \<Longrightarrow> filter (\<lambda>j. j_id j \<noteq> x) js = js"
  by (induction js) auto

lemma queue_invarD:
  assumes "queue_invar codec contents q"
  shows "b \<in> set (contents (cq_chan q) qn) \<Longrightarrow> \<not> isl (deserialize_job_internal codec b)"
    and "unwrap_or (cq_buffer q qn) [] = map fst (queued codec contents q qn)"
    and "distinct (map (j_id \<circ> fst) (queued codec contents q qn))"
  using assms by (auto simp: queue_invar_def)

lemma enqueue_sent:
  assumes laws: "chan_laws ops contents" "job_codec_laws codec"
    and inv: "queue_invar codec contents q"
    and new: "j_id j \<notin> (j_id \<circ> fst) ` set (queued codec contents q (queue_of channel j))"
    and enq: "enqueue_job_with_load_only ops codec channel j lo q = (r, q')"
    and enc: "jc_encode codec \<lparr>ji_job = Some j, ji_load_only = lo\<rparr> = Inr b"
  shows "queue_invar codec contents q' \<and>
    (queued codec contents q' = (queued codec contents q)(queue_of channel j :=
       queued codec contents q (queue_of channel j) @ [(j, lo)]) \<and> \<not> isl r \<or>
     queued codec contents q' = queued codec contents q)"
proof -
  let ?qn = "queue_of channel j"
  obtain sr c where send: "ch_send ops ?qn b (Option.bind (j_data j) jd_uniq_key) (cq_chan q) = (sr, c)"
    by (rule prod.exhaust)
  have c: "contents c = (if sr = Inr True then (contents (cq_chan q))(?qn := contents (cq_chan q) ?qn @ [b])
      else contents (cq_chan q))"
    using laws(1) send unfolding chan_laws_def by blast
  have chan: "cq_chan q' = c" and buf: "cq_buffer q' = (if sr = Inr True then push_buffer ?qn j (cq_buffer q)
      else retain_others ?qn j (push_buffer ?qn j (cq_buffer q)))" and r: "isl r \<longleftrightarrow> isl sr"
    using enq enc send by (auto simp: enqueue_job_with_load_only_def Let_def split: sum.splits)
  have dec: "deserialize_job_internal codec b = Inr (j, lo)"
    using decode_encoded [OF laws(2) enc] .
  have q': "queued codec contents q' = (if sr = Inr True then (queued codec contents q)(?qn :=
       queued codec contents q ?qn @ [(j, lo)]) else queued codec contents q)"
    unfolding queued_def chan c by (auto simp: fun_eq_iff dec)
  have "j_id j \<notin> j_id ` set (map fst (queued codec contents q ?qn))" using new by (simp add: image_comp)
  then have drop: "filter (\<lambda>x. j_id x \<noteq> j_id j) (map fst (queued codec contents q ?qn)) =
      map fst (queued codec contents q ?qn)" by (rule filter_other_ids)
  have "queue_invar codec contents q'"
    unfolding queue_invar_def q' buf chan c
    using queue_invarD [OF inv] new drop dec
    by (auto simp: filter_map comp_def)
  then show ?thesis using q' r by auto
qed

lemma receive_first:
  assumes laws: "chan_laws ops contents" and inv: "queue_invar codec contents q"
    and empty: "\<And>n. n \<in> set front \<Longrightarrow> queued codec contents q n = []"
    and head: "queued codec contents q qn = (j, lo) # rest"
  shows "\<exists>q'. try_channels ops codec (front @ qn # others) q = (Some (Inr (j, lo)), q') \<and>
     queue_invar codec contents q' \<and> queued codec contents q' = (queued codec contents q)(qn := rest)"
  using inv empty head
proof (induction front arbitrary: q)
  case Nil
  obtain r c where rec: "ch_try_receive ops qn (cq_chan q) = (r, c)" by (rule prod.exhaust)
  obtain b bs where b: "contents (cq_chan q) qn = b # bs"
    using Nil.prems(3) by (auto simp: queued_def)
  have r: "r = Inr b" "contents c = (contents (cq_chan q))(qn := bs)"
    using laws rec b unfolding chan_laws_def by (force split: list.splits)+
  have dec: "deserialize_job_internal codec b = Inr (j, lo)"
    using queue_invarD(1) [OF Nil.prems(1), of b qn] Nil.prems(3) b
    by (cases "deserialize_job_internal codec b") (auto simp: queued_def)
  define q' where "q' = q\<lparr>cq_chan := c, cq_buffer := retain_others qn j (cq_buffer q)\<rparr>"
  have queued': "queued codec contents q' = (queued codec contents q)(qn := rest)"
    using Nil.prems(3) b by (auto simp: queued_def q'_def r fun_eq_iff)
  have bs: "\<And>x. x \<in> set bs \<Longrightarrow> \<not> isl (deserialize_job_internal codec x)"
    using queue_invarD(1) [OF Nil.prems(1), of _ qn] b by auto
  have dist: "j_id j \<notin> j_id ` set (map fst rest)" "distinct (map (j_id \<circ> fst) rest)"
    using queue_invarD(3) [OF Nil.prems(1), of qn] Nil.prems(3) by (auto simp: image_comp)
  have "queue_invar codec contents q'"
    unfolding queue_invar_def queued' using queue_invarD [OF Nil.prems(1)] bs Nil.prems(3)
      dist filter_other_ids [OF dist(1)]
    by (auto simp: q'_def r comp_def)
  moreover have "try_channels ops codec ([] @ qn # others) q = (Some (Inr (j, lo)), q')"
    by (simp add: rec r take_message_def dec q'_def)
  ultimately show ?case using queued' by blast
next
  case (Cons n ns)
  obtain r c where rec: "ch_try_receive ops n (cq_chan q) = (r, c)" by (rule prod.exhaust)
  have "contents (cq_chan q) n = []" using Cons.prems(2) [of n] by (simp add: queued_def)
  then obtain e where e: "r = Inl e" "contents c = contents (cq_chan q)"
    using laws rec unfolding chan_laws_def by (force split: list.splits)
  have same: "queued codec contents (q\<lparr>cq_chan := c\<rparr>) = queued codec contents q"
    by (simp add: queued_def e fun_eq_iff)
  have "queue_invar codec contents (q\<lparr>cq_chan := c\<rparr>)"
    using Cons.prems(1) by (simp add: queue_invar_def same e)
  from Cons.IH [OF this] Cons.prems(2,3) show ?case by (simp add: rec e same)
qed

section \<open>Properties\<close>


text \<open>Channels as lists in a map, with a receiver always present.\<close>

definition example_chan_ops :: "(string \<Rightarrow> bytes list) chan_ops" where
  "example_chan_ops =
     \<lparr>ch_send = (\<lambda>qn b _ c. (Inr True, c(qn := c qn @ [b]))),
      ch_try_receive = (\<lambda>qn c. case c qn of [] \<Rightarrow> (Inl ''empty'', c) | b # bs \<Rightarrow> (Inr b, c(qn := bs))),
      ch_receive_any = (\<lambda>_ c. ((Inl ''closed'', 0), c)),
      ch_count = (\<lambda>qn c. Some (length (c qn)))\<rparr>"

definition example_queued_job :: job where
  "example_queued_job = \<lparr>j_id = Some 5, j_data = None, j_metadata = Map.empty\<rparr>"

text \<open>A codec for one message; everything else is too large for it.\<close>

definition example_job_codec :: job_codec where
  "example_job_codec =
     \<lparr>jc_encode = (\<lambda>x. if x = \<lparr>ji_job = Some example_queued_job, ji_load_only = False\<rparr> then Inr ''a''
        else Inl (RuntimeError ''too large'')),
      jc_decode = (\<lambda>b. if b = ''a'' then Inr \<lparr>ji_job = Some example_queued_job, ji_load_only = False\<rparr>
        else Inl (CodecError ''bad''))\<rparr>"

definition example_chan_queue :: "(string \<Rightarrow> bytes list) chan_queue" where
  "example_chan_queue = \<lparr>cq_chan = (\<lambda>_. []), cq_buffer = Map.empty\<rparr>"

lemma example_chan_laws: "chan_laws example_chan_ops (\<lambda>c. c)"
  by (auto simp: chan_laws_def example_chan_ops_def split: list.splits)

lemma example_job_codec_laws: "job_codec_laws example_job_codec"
  by (auto simp: job_codec_laws_def example_job_codec_def split: if_splits)

lemma example_queue_invar: "queue_invar example_job_codec (\<lambda>c. c) example_chan_queue"
  by (simp add: queue_invar_def queued_def example_chan_queue_def unwrap_or_def)


end
