(* ===== verification/Status_Claims.thy ===== *)
theory Status_Claims
  imports Status_Index
begin

text \<open>
  The execution claims on the status index, \<^verbatim>\<open>infra/src/infra/job/status/execution.rs\<close>, and the
  publications of \<^verbatim>\<open>infra/src/infra/job/rdb.rs\<close> that share a transaction with them.  A
  transaction is a function that returns the old tables when it rolls back.  The locale
  \<open>version_cas\<close> is the contract of the operations that take over a row.
\<close>

section \<open>Execution claims\<close>

record running_status_candidate =
  rc_job_id :: i64
  rc_worker_id :: i64
  rc_worker_instance_id :: i64
  rc_version :: i64
  rc_start_time :: "i64 option"
  rc_updated_at :: i64

record recovery_claim =
  cl_candidate :: running_status_candidate
  cl_claimed_version :: i64
  cl_deleted_at :: i64

datatype claim_outcome = Claimed | Conflict

record rdb_dispatch_start =
  ds_job_id :: i64
  ds_worker_id :: i64
  ds_worker_instance_id :: i64
  ds_channel :: "string option"
  ds_priority :: i32
  ds_enqueue_time :: i64
  ds_is_streamable :: bool
  ds_broadcast_results :: bool
  ds_timeout :: "u64 option"
  ds_original_grabbed_until_time :: i64

record rdb_dispatch_execution =
  de_job_id :: i64
  de_worker_instance_id :: i64
  de_status_version :: i64
  de_grabbed_until_time :: i64

definition candidate_of :: "status_row \<Rightarrow> running_status_candidate" where
  "candidate_of r =
     \<lparr>rc_job_id = sw_job_id r, rc_worker_id = sw_worker_id r,
      rc_worker_instance_id = the (sw_worker_instance_id r), rc_version = sw_version r,
      rc_start_time = sw_start_time r, rc_updated_at = sw_updated_at r\<rparr>"

definition find_running_by_instance ::
  "i64 \<Rightarrow> i64 \<Rightarrow> i64 \<Rightarrow> rdb \<Rightarrow> running_status_candidate list" where
  "find_running_by_instance instance_id after_job_id cap db =
     map candidate_of
       (sql_limit cap 0 (sort_key sw_job_id
         (filter (\<lambda>r. sw_status r = 2 \<and> live r \<and> sw_worker_instance_id r = Some instance_id \<and>
                      sw_job_id r > after_job_id) (db_status db))))"

definition running_row :: "i64 \<Rightarrow> rdb_dispatch_start \<Rightarrow> status_row" where
  "running_row now st =
     \<lparr>sw_job_id = ds_job_id st, sw_status = 2, sw_worker_id = ds_worker_id st,
      sw_channel = unwrap_or (ds_channel st) DEFAULT_CHANNEL_NAME, sw_priority = ds_priority st,
      sw_enqueue_time = ds_enqueue_time st, sw_pending_time = None, sw_start_time = Some now,
      sw_is_streamable = ds_is_streamable st, sw_broadcast_results = ds_broadcast_results st,
      sw_worker_instance_id = Some (ds_worker_instance_id st), sw_version = 1,
      sw_updated_at = now, sw_deleted_at = None\<rparr>"

text \<open>\<^verbatim>\<open>ON CONFLICT(job_id) DO UPDATE\<close> keeps the pending time and counts the version on.\<close>

definition upsert_running_row :: "status_row \<Rightarrow> rdb \<Rightarrow> rdb" where
  "upsert_running_row new db =
     (if sw_job_id new \<in> set (map sw_job_id (db_status db))
      then db\<lparr>db_status := map (\<lambda>r. if sw_job_id r = sw_job_id new
               then new\<lparr>sw_pending_time := sw_pending_time r, sw_version := sw_version r + 1\<rparr>
               else r) (db_status db)\<rparr>
      else db\<lparr>db_status := db_status db @ [new]\<rparr>)"

datatype dispatch_failure = TimeoutOutOfRange | RowNotFound

definition grab_and_mark_running ::
  "i64 \<Rightarrow> rdb_dispatch_start \<Rightarrow> rdb \<Rightarrow> (dispatch_failure + rdb_dispatch_execution option) \<times> rdb" where
  "grab_and_mark_running now st db =
     (let t = unwrap_or (ds_timeout st) 0;
          t = (if t = 0 then 1000 * 60 * 60 * 24 * 365 * 100 else t)
      in case i64_try_from_u64 t of
           None \<Rightarrow> (Inl TimeoutOutOfRange, db)
         | Some t \<Rightarrow>
             let until = i64_wrap (i64_wrap (now + t) + 10000);
                 (n, db1) = update_jobs
                   (\<lambda>r. jrw_id r = ds_job_id st \<and>
                        jrw_grabbed_until_time r = Some (ds_original_grabbed_until_time st))
                   (\<lambda>r. r\<lparr>jrw_grabbed_until_time := Some until\<rparr>) db
             in if n \<noteq> 1 then (Inr None, db)
                else let db2 = upsert_running_row (running_row now st) db1
                     in case List.find (\<lambda>r. sw_job_id r = ds_job_id st \<and>
                               sw_worker_instance_id r = Some (ds_worker_instance_id st) \<and>
                               sw_status r = 2 \<and> live r) (db_status db2) of
                          None \<Rightarrow> (Inl RowNotFound, db)
                        | Some r \<Rightarrow>
                            (Inr (Some \<lparr>de_job_id = ds_job_id st,
                               de_worker_instance_id = ds_worker_instance_id st,
                               de_status_version = sw_version r, de_grabbed_until_time = until\<rparr>), db2))"

definition release_unstarted_dispatch ::
  "i64 \<Rightarrow> rdb_dispatch_execution \<Rightarrow> rdb \<Rightarrow> claim_outcome \<times> rdb" where
  "release_unstarted_dispatch now e db =
     (let (n, db1) = update_status
            (\<lambda>r. sw_job_id r = de_job_id e \<and> sw_worker_instance_id r = Some (de_worker_instance_id e) \<and>
                 sw_version r = de_status_version e \<and> sw_status r = 2 \<and> live r) (to_pending now) db
      in if n \<noteq> 1 then (Conflict, db)
         else let (m, db2) = update_jobs
                    (\<lambda>r. jrw_id r = de_job_id e \<and>
                         jrw_grabbed_until_time r = Some (de_grabbed_until_time e))
                    (\<lambda>r. r\<lparr>jrw_grabbed_until_time := Some 0\<rparr>) db1
              in if m \<noteq> 1 then (Conflict, db) else (Claimed, db2))"

definition claim_running ::
  "i64 \<Rightarrow> running_status_candidate \<Rightarrow> rdb \<Rightarrow> recovery_claim option \<times> rdb" where
  "claim_running now c db =
     (let (n, db') = update_status
            (\<lambda>r. sw_job_id r = rc_job_id c \<and>
                 sw_worker_instance_id r = Some (rc_worker_instance_id c) \<and>
                 sw_version r = rc_version c \<and> sw_status r = 2 \<and> live r)
            (\<lambda>r. (bump now r)\<lparr>sw_deleted_at := Some now\<rparr>) db
      in if n = 0 then (None, db')
         else (Some \<lparr>cl_candidate = c, cl_claimed_version = rc_version c + 1, cl_deleted_at = now\<rparr>, db'))"

definition owned_by_claim :: "recovery_claim \<Rightarrow> status_row \<Rightarrow> bool" where
  "owned_by_claim cl r \<longleftrightarrow>
     sw_job_id r = rc_job_id (cl_candidate cl) \<and>
     sw_worker_instance_id r = Some (rc_worker_instance_id (cl_candidate cl)) \<and>
     sw_version r = cl_claimed_version cl \<and> sw_deleted_at r = Some (cl_deleted_at cl)"

definition outcome :: "nat \<Rightarrow> claim_outcome" where
  "outcome n = (if n = 1 then Claimed else Conflict)"

definition restore_running :: "i64 \<Rightarrow> recovery_claim \<Rightarrow> rdb \<Rightarrow> claim_outcome \<times> rdb" where
  "restore_running now cl db =
     (let (n, db') = update_status (owned_by_claim cl) (\<lambda>r. (bump now r)\<lparr>sw_deleted_at := None\<rparr>) db
      in (outcome n, db'))"

definition reset_claim_to_pending_tx :: "i64 \<Rightarrow> recovery_claim \<Rightarrow> rdb \<Rightarrow> claim_outcome \<times> rdb" where
  "reset_claim_to_pending_tx now cl db =
     (let (n, db') = update_status (owned_by_claim cl) (to_pending now) db in (outcome n, db'))"

definition reset_claim_to_pending :: "i64 \<Rightarrow> recovery_claim \<Rightarrow> rdb \<Rightarrow> claim_outcome \<times> rdb" where
  "reset_claim_to_pending now cl db = reset_claim_to_pending_tx now cl db"

definition restore_pending_claim_to_running ::
  "i64 \<Rightarrow> recovery_claim \<Rightarrow> rdb \<Rightarrow> claim_outcome \<times> rdb" where
  "restore_pending_claim_to_running now cl db =
     (let (n, db') = update_status
            (\<lambda>r. sw_job_id r = rc_job_id (cl_candidate cl) \<and> sw_status r = 1 \<and>
                 sw_worker_instance_id r = None \<and> sw_version r = cl_claimed_version cl + 1 \<and> live r)
            (\<lambda>r. (bump now r)\<lparr>sw_status := 2,
               sw_worker_instance_id := Some (rc_worker_instance_id (cl_candidate cl)),
               sw_start_time := rc_start_time (cl_candidate cl)\<rparr>) db
      in (outcome n, db'))"

section \<open>Publications that share a transaction with the index\<close>

definition upsert_with_pending_status_reset ::
  "job_status_config option \<Rightarrow> i64 \<Rightarrow> i64 \<Rightarrow> job_data \<Rightarrow> rdb \<Rightarrow> db_failure + bool \<times> rdb" where
  "upsert_with_pending_status_reset index now i d db =
     bindE (job_upsert i d db) (\<lambda>(res, db').
       Inr (res, case index of None \<Rightarrow> db' | Some cfg \<Rightarrow> snd (reset_to_pending_by_job_id_tx cfg now i db')))"

definition upsert_with_recovery_claim_reset ::
  "i64 \<Rightarrow> recovery_claim \<Rightarrow> i64 \<Rightarrow> job_data \<Rightarrow> rdb \<Rightarrow> db_failure + bool \<times> rdb" where
  "upsert_with_recovery_claim_reset now cl i d db =
     bindE (job_upsert i d db) (\<lambda>(res, db').
       case reset_claim_to_pending_tx now cl db' of
         (Claimed, db'') \<Rightarrow> Inr (res, db'')
       | (Conflict, _) \<Rightarrow> Inl (Refused ''recovery claim no longer owns the job status row''))"

section \<open>Compare and set by version\<close>

text \<open>
  The operations that a worker instance or a recovery uses to take over a row have one
  contract: an operation on behalf of the version \<open>ver a\<close> of the row of \<open>job a\<close> succeeds only
  on that version and moves the row to the next one; otherwise it changes nothing.
\<close>

locale version_cas =
  fixes cas :: "i64 \<Rightarrow> 'a \<Rightarrow> rdb \<Rightarrow> bool \<times> rdb"
    and job_of :: "'a \<Rightarrow> i64"
    and ver :: "'a \<Rightarrow> i64"
  assumes cas_wins: "keys_ok db \<Longrightarrow> fst (cas now a db) \<Longrightarrow>
      version_of (job_of a) db = Some (ver a) \<and>
      version_of (job_of a) (snd (cas now a db)) = Some (ver a + 1)"
    and cas_fails: "keys_ok db \<Longrightarrow> \<not> fst (cas now a db) \<Longrightarrow> snd (cas now a db) = db"
    and cas_keys: "keys_ok db \<Longrightarrow> keys_ok (snd (cas now a db))"
begin

lemma cas_overtaken:
  "keys_ok db \<Longrightarrow> version_of (job_of a) db = Some v \<Longrightarrow> ver a < v \<Longrightarrow> cas now a db = (False, db)"
  using cas_wins [of db now a] cas_fails [of db now a] by (cases "cas now a db") fastforce

lemma cas_only_once:
  "keys_ok db \<Longrightarrow> fst (cas now a db) \<Longrightarrow> \<not> fst (cas now' a (snd (cas now a db)))"
  using cas_wins [of db now a] cas_overtaken [of "snd (cas now a db)" a _ now'] cas_keys [of db now a]
  by force

end

definition release_cas :: "i64 \<Rightarrow> rdb_dispatch_execution \<Rightarrow> rdb \<Rightarrow> bool \<times> rdb" where
  "release_cas now e db = map_prod (\<lambda>oc. oc = Claimed) id (release_unstarted_dispatch now e db)"

definition claim_cas :: "i64 \<Rightarrow> running_status_candidate \<Rightarrow> rdb \<Rightarrow> bool \<times> rdb" where
  "claim_cas now c db = map_prod (\<lambda>cl. cl \<noteq> None) id (claim_running now c db)"

definition restore_cas :: "i64 \<Rightarrow> recovery_claim \<Rightarrow> rdb \<Rightarrow> bool \<times> rdb" where
  "restore_cas now cl db = map_prod (\<lambda>oc. oc = Claimed) id (restore_running now cl db)"

definition reset_cas :: "i64 \<Rightarrow> recovery_claim \<Rightarrow> rdb \<Rightarrow> bool \<times> rdb" where
  "reset_cas now cl db = map_prod (\<lambda>oc. oc = Claimed) id (reset_claim_to_pending now cl db)"

definition restore_pending_cas :: "i64 \<Rightarrow> recovery_claim \<Rightarrow> rdb \<Rightarrow> bool \<times> rdb" where
  "restore_pending_cas now cl db =
     map_prod (\<lambda>oc. oc = Claimed) id (restore_pending_claim_to_running now cl db)"

text \<open>What a single guarded update of the row \<open>i\<close> at version \<open>v\<close> does.\<close>

lemma guarded_update:
  assumes "keys_ok db" "\<And>r. P r \<Longrightarrow> sw_version r = v"
    and f: "keeps_id f" "\<And>r. sw_version (f r) = sw_version r + 1"
    and u: "update_status (\<lambda>r. sw_job_id r = i \<and> P r) f db = (n, db')"
  shows "n = 0 \<and> db' = db \<or>
     n = 1 \<and> version_of i db = Some v \<and> version_of i db' = Some (v + 1)"
    and "keys_ok db'"
proof -
  let ?p = "\<lambda>r. sw_job_id r = i \<and> P r"
  have n: "n = (case status_row_of i db of None \<Rightarrow> 0 | Some r \<Rightarrow> if P r then 1 else 0)"
    using update_status_count [OF assms(1), of i P f] by (simp add: u)
  have row: "status_row_of i db' = map_option (\<lambda>r. if ?p r then f r else r) (status_row_of i db)"
    using status_row_of_update [OF f(1), of i ?p db] by (simp add: u)
  show "keys_ok db'" using keys_ok_update [OF f(1), of ?p db] assms(1) by (simp add: u)
  show "n = 0 \<and> db' = db \<or> n = 1 \<and> version_of i db = Some v \<and> version_of i db' = Some (v + 1)"
  proof (cases "n = 0")
    case True
    then show ?thesis using u by (auto dest: update_status_none)
  next
    case False
    then obtain r where r: "status_row_of i db = Some r" "P r" "n = 1"
      using n by (auto split: option.splits if_splits)
    then have "sw_job_id r = i" unfolding status_row_of_def by (auto simp: find_Some_iff)
    with r row assms(2) [OF r(2)] f(2) show ?thesis by simp
  qed
qed

lemma version_casI:
  assumes cas: "\<And>now a db n db'. keys_ok db \<Longrightarrow>
      update_status (\<lambda>r. sw_job_id r = job_of a \<and> P a r) (f now a) db = (n, db') \<Longrightarrow>
      cas now a db = (n = 1, db')"
    and P: "\<And>a r. P a r \<Longrightarrow> sw_version r = ver a"
    and f: "\<And>now a. keeps_id (f now a)" "\<And>now a r. sw_version (f now a r) = sw_version r + 1"
  shows "version_cas cas job_of ver"
proof
  fix db :: rdb and now :: i64 and a
  assume keys: "keys_ok db"
  obtain n db' where u: "update_status (\<lambda>r. sw_job_id r = job_of a \<and> P a r) (f now a) db = (n, db')"
    by (rule prod.exhaust)
  note g = guarded_update [OF keys P f(1) f(2) u]
  have r: "cas now a db = (n = 1, db')" by (rule cas [OF keys u])
  show "fst (cas now a db) \<Longrightarrow> version_of (job_of a) db = Some (ver a) \<and>
      version_of (job_of a) (snd (cas now a db)) = Some (ver a + 1)"
    using g(1) r by auto
  show "\<not> fst (cas now a db) \<Longrightarrow> snd (cas now a db) = db" using g(1) r by auto
  show "keys_ok (snd (cas now a db))" using g(2) r by auto
qed

lemma update_status_at_most_one:
  assumes "keys_ok db" "update_status (\<lambda>r. sw_job_id r = i \<and> P r) f db = (n, db')"
  shows "n \<le> 1"
  using update_status_count [OF assms(1), of i P f] assms(2) by (simp split: option.splits if_splits)

interpretation claim: version_cas claim_cas rc_job_id rc_version
proof (rule version_casI [where P = "\<lambda>c r. sw_worker_instance_id r = Some (rc_worker_instance_id c) \<and>
      sw_version r = rc_version c \<and> sw_status r = 2 \<and> live r"
      and f = "\<lambda>now c r. (bump now r)\<lparr>sw_deleted_at := Some now\<rparr>"])
  fix now and c :: running_status_candidate and db n db'
  assume keys: "keys_ok db" and u: "update_status
      (\<lambda>r. sw_job_id r = rc_job_id c \<and> sw_worker_instance_id r = Some (rc_worker_instance_id c) \<and>
           sw_version r = rc_version c \<and> sw_status r = 2 \<and> live r)
      (\<lambda>r. (bump now r)\<lparr>sw_deleted_at := Some now\<rparr>) db = (n, db')"
  have "n \<le> 1" by (rule update_status_at_most_one [OF keys u])
  then show "claim_cas now c db = (n = 1, db')"
    using u by (auto simp: claim_cas_def claim_running_def)
qed auto

interpretation restore: version_cas restore_cas "\<lambda>cl. rc_job_id (cl_candidate cl)" cl_claimed_version
  by (rule version_casI [where P = "\<lambda>cl r.
      sw_worker_instance_id r = Some (rc_worker_instance_id (cl_candidate cl)) \<and>
      sw_version r = cl_claimed_version cl \<and> sw_deleted_at r = Some (cl_deleted_at cl)"
      and f = "\<lambda>now cl r. (bump now r)\<lparr>sw_deleted_at := None\<rparr>"])
    (auto simp: restore_cas_def restore_running_def outcome_def owned_by_claim_def [abs_def])

interpretation reset: version_cas reset_cas "\<lambda>cl. rc_job_id (cl_candidate cl)" cl_claimed_version
  by (rule version_casI [where P = "\<lambda>cl r.
      sw_worker_instance_id r = Some (rc_worker_instance_id (cl_candidate cl)) \<and>
      sw_version r = cl_claimed_version cl \<and> sw_deleted_at r = Some (cl_deleted_at cl)"
      and f = "\<lambda>now cl. to_pending now"])
    (auto simp: reset_cas_def reset_claim_to_pending_def reset_claim_to_pending_tx_def outcome_def
      owned_by_claim_def [abs_def])

interpretation restore_pending: version_cas restore_pending_cas
    "\<lambda>cl. rc_job_id (cl_candidate cl)" "\<lambda>cl. cl_claimed_version cl + 1"
  by (rule version_casI [where P = "\<lambda>cl r. sw_status r = 1 \<and> sw_worker_instance_id r = None \<and>
      sw_version r = cl_claimed_version cl + 1 \<and> live r"
      and f = "\<lambda>now cl r. (bump now r)\<lparr>sw_status := 2,
        sw_worker_instance_id := Some (rc_worker_instance_id (cl_candidate cl)),
        sw_start_time := rc_start_time (cl_candidate cl)\<rparr>"])
    (auto simp: restore_pending_cas_def restore_pending_claim_to_running_def outcome_def)

interpretation release: version_cas release_cas de_job_id de_status_version
proof
  fix db :: rdb and now and e :: rdb_dispatch_execution
  assume keys: "keys_ok db"
  let ?p = "\<lambda>r. sw_job_id r = de_job_id e \<and>
      (sw_worker_instance_id r = Some (de_worker_instance_id e) \<and>
       sw_version r = de_status_version e \<and> sw_status r = 2 \<and> live r)"
  obtain n db1 where u: "update_status ?p (to_pending now) db = (n, db1)" by (rule prod.exhaust)
  obtain m db2 where v: "update_jobs (\<lambda>r. jrw_id r = de_job_id e \<and>
      jrw_grabbed_until_time r = Some (de_grabbed_until_time e))
      (\<lambda>r. r\<lparr>jrw_grabbed_until_time := Some 0\<rparr>) db1 = (m, db2)" by (rule prod.exhaust)
  have f: "keeps_id (to_pending now)" by auto
  have g: "n = 0 \<and> db1 = db \<or> n = 1 \<and> version_of (de_job_id e) db = Some (de_status_version e) \<and>
      version_of (de_job_id e) db1 = Some (de_status_version e + 1)" "keys_ok db1"
    using guarded_update [OF keys _ f _ u, of "de_status_version e"] by auto
  have r: "release_cas now e db = (if n = 1 \<and> m = 1 then (True, db2) else (False, db))"
    using u v by (simp add: release_cas_def release_unstarted_dispatch_def)
  have "db2 = snd (update_jobs (\<lambda>r. jrw_id r = de_job_id e \<and>
      jrw_grabbed_until_time r = Some (de_grabbed_until_time e))
      (\<lambda>r. r\<lparr>jrw_grabbed_until_time := Some 0\<rparr>) db1)" by (simp add: v)
  then have "status_row_of (de_job_id e) db2 = status_row_of (de_job_id e) db1" "keys_ok db2"
    using g(2) by simp_all
  then show "fst (release_cas now e db) \<Longrightarrow> version_of (de_job_id e) db = Some (de_status_version e) \<and>
      version_of (de_job_id e) (snd (release_cas now e db)) = Some (de_status_version e + 1)"
    "\<not> fst (release_cas now e db) \<Longrightarrow> snd (release_cas now e db) = db"
    "keys_ok (snd (release_cas now e db))"
    using g r keys by (auto split: if_splits)
qed

section \<open>Interleavings\<close>

text \<open>
  One step of any process on the tables, with any arguments and any clock.  The physical
  deletion of rows that were logically deleted longer than the retention time is not a step:
  it ends the life of a row, and the next row of the same job counts from 1 again.
\<close>

inductive index_step :: "rdb \<Rightarrow> rdb \<Rightarrow> bool" where
  index: "index_status_update cfg now u db = Inr db' \<Longrightarrow> index_step db db'"
| by_id: "index_step db (update_status_by_job_id cfg now i st db)"
| undelete: "index_step db (reset_to_pending_by_job_id cfg now i db)"
| by_owner: "index_step db (snd (reset_running_to_pending_by_owner cfg now i owner db))"
| mark: "index_step db (mark_deleted_by_job_id cfg now i db)"
| purge: "purge_stale_records cfg now hours db = Inr (n, db') \<Longrightarrow> index_step db db'"
| dispatch: "index_step db (snd (grab_and_mark_running now st db))"
| release: "index_step db (snd (release_unstarted_dispatch now e db))"
| claim: "index_step db (snd (claim_running now c db))"
| restore: "index_step db (snd (restore_running now cl db))"
| to_pending: "index_step db (snd (reset_claim_to_pending now cl db))"
| restore_pending: "index_step db (snd (restore_pending_claim_to_running now cl db))"
| publish: "upsert_with_recovery_claim_reset now cl i d db = Inr (b, db') \<Longrightarrow> index_step db db'"
| retry: "upsert_with_pending_status_reset idx now i d db = Inr (b, db') \<Longrightarrow> index_step db db'"
| enqueue: "job_create j db = Inr (b, db') \<Longrightarrow> index_step db db'"
| finish: "index_step db (snd (job_delete i db))"
| grab: "index_step db (snd (grab_job_with_lease now i timeout original db))"

text \<open>\<open>advances db db'\<close>: the primary keys are kept, no row disappears and no version decreases.\<close>

definition advances :: "rdb \<Rightarrow> rdb \<Rightarrow> bool" where
  "advances db db' \<longleftrightarrow> (keys_ok db \<longrightarrow> keys_ok db') \<and>
     (\<forall>i v. version_of i db = Some v \<longrightarrow> (\<exists>v' \<ge> v. version_of i db' = Some v'))"

lemma advances_refl [simp]: "advances db db"
  by (auto simp: advances_def)

lemma advances_trans: "advances a b \<Longrightarrow> advances b c \<Longrightarrow> advances a c"
  unfolding advances_def by (meson order_trans)

lemma advances_update_status:
  assumes "keeps_id f" "\<And>r. sw_version r \<le> sw_version (f r)"
  shows "advances db (snd (update_status p f db))"
  unfolding advances_def
proof (intro conjI allI impI)
  show "keys_ok db \<Longrightarrow> keys_ok (snd (update_status p f db))" using assms(1) by simp
  fix i v
  assume "version_of i db = Some v"
  then obtain r where r: "status_row_of i db = Some r" "v = sw_version r" by auto
  then have "version_of i (snd (update_status p f db)) = Some (sw_version (if p r then f r else r))"
    using assms(1) by (simp add: status_row_of_update)
  with r(2) assms(2) [of r] show "\<exists>v' \<ge> v. version_of i (snd (update_status p f db)) = Some v'"
    by (cases "p r") auto
qed

lemma advances_same_status:
  assumes "db_status db' = db_status db" "distinct (map jrw_id (db_jobs db)) \<Longrightarrow> distinct (map jrw_id (db_jobs db'))"
  shows "advances db db'"
  using assms unfolding advances_def keys_ok_def status_row_of_def by auto

lemma advances_insert:
  assumes "insert_status row db = Inr db'"
  shows "advances db db'"
proof -
  have "db_status db' = db_status db @ [row]" "db_jobs db' = db_jobs db"
      "sw_job_id row \<notin> sw_job_id ` set (db_status db)"
    using assms by (auto simp: insert_status_def split: if_splits)
  moreover have "List.find P (xs @ ys) = (case List.find P xs of None \<Rightarrow> List.find P ys | Some x \<Rightarrow> Some x)"
    for P :: "status_row \<Rightarrow> bool" and xs ys
    by (induction xs) auto
  ultimately show ?thesis
    by (auto simp: advances_def keys_ok_def status_row_of_def split: option.splits)
qed

lemma db_overrides_fields [simp]:
  "db_jobs (snd (delete_overrides_tx i db)) = db_jobs db"
  "db_status (snd (delete_overrides_tx i db)) = db_status db"
  by (simp_all add: delete_overrides_tx_def)

lemma replace_overrides_tables:
  "replace_overrides i ov db = Inr db' \<Longrightarrow> db_jobs db' = db_jobs db \<and> db_status db' = db_status db"
  by (auto simp: replace_overrides_def Let_def bindE_eq_Inr find_overrides_created(2,3) split: option.splits)

lemma job_upsert_tables:
  assumes "job_upsert i d db = Inr (b, db')"
  obtains row where "jrw_id row = i" "db_status db' = db_status db"
    "db_jobs db' = filter (\<lambda>r. \<not> conflicts row r) (db_jobs db) @ [row]"
proof -
  obtain db1 where u: "job_upsert_tx i d db = Inr (b, db1)" "replace_overrides i (jd_overrides d) db1 = Inr db'"
    using assms by (auto simp: job_upsert_def bindE_eq_Inr)
  then obtain row where "job_row_of as_i64 i d = Inr row"
      "db1 = db\<lparr>db_jobs := filter (\<lambda>r. \<not> conflicts row r) (db_jobs db) @ [row]\<rparr>"
    by (auto simp: job_upsert_tx_def bindE_eq_Inr)
  with replace_overrides_tables [OF u(2)] show thesis
    by (intro that [of row]) (auto dest: job_row_of_Inr)
qed

lemma advances_job_upsert: "job_upsert i d db = Inr (b, db') \<Longrightarrow> advances db db'"
  by (erule job_upsert_tables, rule advances_same_status)
    (auto simp: distinct_map_filter conflicts_def)

lemma advances_job_create:
  assumes "job_create j db = Inr (b, db')"
  shows "advances db db'"
proof -
  obtain row db1 where row: "\<not> list_ex (conflicts row) (db_jobs db)"
      "db1 = db\<lparr>db_jobs := db_jobs db @ [row]\<rparr>" and
    tables: "db_jobs db' = db_jobs db1" "db_status db' = db_status db1"
    using assms by (auto simp: job_create_def job_create_tx_def bindE_eq_Inr find_overrides_created(2,3)
        split: if_splits option.splits)
  then show ?thesis
    by (intro advances_same_status) (auto simp: list_ex_iff conflicts_def)
qed

lemma advances_index:
  assumes "index_status_update cfg now u db = Inr db'"
  shows "advances db db'"
proof -
  have running: "advances db db'" if "index_running now u db = Inr db'"
  proof -
    obtain n db1 where u: "update_status (\<lambda>r. sw_job_id r = su_job_id u \<and> sw_status r < 2 \<and> live r)
            (\<lambda>r. (bump now r)\<lparr>sw_status := 2,
               sw_start_time := option_or (sw_start_time r) (Some now),
               sw_worker_instance_id := su_worker_instance_id u\<rparr>) db = (n, db1)"
      by (rule prod.exhaust)
    have "advances db (snd (update_status (\<lambda>r. sw_job_id r = su_job_id u \<and> sw_status r < 2 \<and> live r)
            (\<lambda>r. (bump now r)\<lparr>sw_status := 2,
               sw_start_time := option_or (sw_start_time r) (Some now),
               sw_worker_instance_id := su_worker_instance_id u\<rparr>) db))"
      by (rule advances_update_status) auto
    then have "advances db db1" by (simp add: u)
    moreover have "advances db1 db'"
      using that u by (auto simp: index_running_def intro: advances_insert split: if_splits)
    ultimately show ?thesis by (rule advances_trans)
  qed
  have deleted: "advances db (index_deleted now i st db)" for i st
    unfolding index_deleted_def by (rule advances_update_status) auto
  show ?thesis
    using assms running deleted
    by (auto simp: index_status_update_def index_pending_def intro: advances_insert
        split: if_splits job_processing_status.splits)
qed

lemma upsert_running_row_update:
  assumes "sw_job_id new \<in> set (map sw_job_id (db_status db))"
  shows "upsert_running_row new db = snd (update_status (\<lambda>r. sw_job_id r = sw_job_id new)
      (\<lambda>r. new\<lparr>sw_job_id := sw_job_id r, sw_pending_time := sw_pending_time r,
               sw_version := sw_version r + 1\<rparr>) db)"
  using assms by (auto simp: upsert_running_row_def update_status_def sql_update_def intro!: map_cong)

lemma advances_upsert_running: "advances db (upsert_running_row new db)"
proof (cases "sw_job_id new \<in> set (map sw_job_id (db_status db))")
  case True
  then show ?thesis by (simp only: upsert_running_row_update) (rule advances_update_status, auto)
next
  case False
  then have "insert_status new db = Inr (upsert_running_row new db)"
    by (simp add: insert_status_def upsert_running_row_def)
  then show ?thesis by (rule advances_insert)
qed

lemma advances_update_jobs:
  assumes "\<And>r. jrw_id (f r) = jrw_id r"
  shows "advances db (snd (update_jobs p f db))"
proof (rule advances_same_status)
  have "jrw_id \<circ> (\<lambda>r. if p r then f r else r) = jrw_id" using assms by auto
  then show "distinct (map jrw_id (db_jobs db)) \<Longrightarrow>
      distinct (map jrw_id (db_jobs (snd (update_jobs p f db))))"
    by (simp add: update_jobs_def sql_update_def)
qed simp

lemma advances_grab: "advances db (snd (grab_and_mark_running now st db))"
proof -
  have "advances db (upsert_running_row new (snd (update_jobs p (\<lambda>r. r\<lparr>jrw_grabbed_until_time := u\<rparr>) db)))"
    for new p u
    by (rule advances_trans [OF advances_update_jobs advances_upsert_running]) simp
  then show ?thesis
    by (simp add: grab_and_mark_running_def Let_def case_prod_beta split: option.split)
qed

lemma advances_release: "advances db (snd (release_unstarted_dispatch now e db))"
proof -
  have "advances db (snd (update_jobs p (\<lambda>r. r\<lparr>jrw_grabbed_until_time := u\<rparr>)
      (snd (update_status q (to_pending now) db))))" for p q u
    by (rule advances_trans [OF advances_update_status advances_update_jobs]) auto
  then show ?thesis
    by (simp add: release_unstarted_dispatch_def Let_def case_prod_beta)
qed

lemma index_step_advances: "index_step db db' \<Longrightarrow> advances db db'"
proof (induction rule: index_step.induct)
  case (index cfg now u db db') then show ?case by (rule advances_index)
next
  case by_id show ?case
    unfolding update_status_by_job_id_def by (simp, intro impI advances_update_status) auto
next
  case undelete show ?case
    unfolding reset_to_pending_by_job_id_def by (simp, intro impI advances_update_status) auto
next
  case by_owner show ?case
    unfolding reset_running_to_pending_by_owner_def Let_def case_prod_beta
    by (simp, intro impI advances_update_status) auto
next
  case mark show ?case
    unfolding mark_deleted_by_job_id_def by (simp, intro impI advances_update_status) auto
next
  case purge then show ?case
    by (auto simp: purge_stale_records_def bindE_eq_Inr Let_def case_prod_beta
        intro!: advances_update_status split: if_splits)
next
  case dispatch show ?case by (rule advances_grab)
next
  case release show ?case by (rule advances_release)
next
  case claim show ?case
    unfolding claim_running_def Let_def case_prod_beta
    by (auto simp del: split_paired_All intro!: advances_update_status)
next
  case restore show ?case
    unfolding restore_running_def Let_def case_prod_beta by (simp, intro advances_update_status) auto
next
  case to_pending show ?case
    unfolding reset_claim_to_pending_def reset_claim_to_pending_tx_def Let_def case_prod_beta
    by (simp, intro advances_update_status) auto
next
  case restore_pending show ?case
    unfolding restore_pending_claim_to_running_def Let_def case_prod_beta
    by (simp, intro advances_update_status) auto
next
  case (publish now cl i d db b db')
  then obtain b1 db1 where u: "job_upsert i d db = Inr (b1, db1)"
    and k: "(case reset_claim_to_pending_tx now cl db1 of (Claimed, db'') \<Rightarrow> Inr (b1, db'')
       | (Conflict, _) \<Rightarrow> Inl (Refused ''recovery claim no longer owns the job status row'')) = Inr (b, db')"
    by (auto simp: upsert_with_recovery_claim_reset_def bindE_eq_Inr)
  then have "db' = snd (reset_claim_to_pending_tx now cl db1)"
    by (cases "reset_claim_to_pending_tx now cl db1"; cases "fst (reset_claim_to_pending_tx now cl db1)") auto
  moreover have "advances db1 (snd (reset_claim_to_pending_tx now cl db1))"
    unfolding reset_claim_to_pending_tx_def Let_def case_prod_beta by (simp, intro advances_update_status) auto
  ultimately show ?case using advances_job_upsert [OF u] by (auto intro: advances_trans)
next
  case (retry idx now i d db b db')
  then obtain db1 where u: "job_upsert i d db = Inr (b, db1)"
      "db' = (case idx of None \<Rightarrow> db1 | Some cfg \<Rightarrow> snd (reset_to_pending_by_job_id_tx cfg now i db1))"
    by (auto simp: upsert_with_pending_status_reset_def bindE_eq_Inr)
  have "advances db1 (snd (reset_to_pending_by_job_id_tx cfg now i db1))" for cfg
    unfolding reset_to_pending_by_job_id_tx_def Let_def case_prod_beta
    by (simp, intro impI advances_update_status) auto
  then show ?case using u(2) advances_trans [OF advances_job_upsert [OF u(1)]]
    by (cases idx) (simp_all add: advances_job_upsert [OF u(1)])
next
  case (enqueue j db b db') then show ?case by (rule advances_job_create)
next
  case finish show ?case
    by (rule advances_same_status) (auto simp: job_delete_def job_delete_tx_def distinct_map_filter)
next
  case (grab db now i timeout original)
  have "snd (grab_job_with_lease now i timeout original db) =
      snd (update_jobs (\<lambda>r. jrw_id r = i \<and> jrw_grabbed_until_time r = Some original)
        (\<lambda>r. r\<lparr>jrw_grabbed_until_time := Some (grabbed_until_time timeout now)\<rparr>) db)"
    by (simp add: grab_job_with_lease_def update_jobs_def sql_update_def Let_def)
  then show ?case by (simp add: advances_update_jobs)
qed

lemma index_steps_advance: "index_step\<^sup>*\<^sup>* db db' \<Longrightarrow> advances db db'"
  by (induction rule: rtranclp_induct) (auto intro: advances_trans index_step_advances)

lemma later_version:
  assumes "index_step\<^sup>*\<^sup>* db db'" "keys_ok db" "version_of i db = Some v"
  obtains v' where "keys_ok db'" "version_of i db' = Some v'" "v \<le> v'"
  using index_steps_advance [OF assms(1)] assms(2,3) unfolding advances_def by blast

section \<open>Properties\<close>

text \<open>
  The tables keep their primary keys and no status row loses its history: whatever
  sequence of operations the processes perform on the index, the claims and the job table,
  a row stays and its version never decreases.
\<close>

theorem versions_never_decrease:
  assumes "index_step\<^sup>*\<^sup>* db db'" "keys_ok db"
  shows "keys_ok db' \<and> (\<forall>i v. version_of i db = Some v \<longrightarrow> (\<exists>v' \<ge> v. version_of i db' = Some v'))"
  using index_steps_advance [OF assms(1)] assms(2) by (simp add: advances_def)

text \<open>
  C21: an execution that never started is either released by its dispatcher or claimed by the
  recovery, never both, whatever happens in between.
\<close>

theorem release_or_recovery:
  assumes keys: "keys_ok db" and same: "rc_job_id c = de_job_id e" "rc_version c = de_status_version e"
  shows "(release_unstarted_dispatch now e db = (Claimed, db1) \<longrightarrow> index_step\<^sup>*\<^sup>* db1 db2 \<longrightarrow>
        fst (claim_running now2 c db2) = None) \<and>
     (claim_running now c db = (Some cl, db1) \<longrightarrow> index_step\<^sup>*\<^sup>* db1 db2 \<longrightarrow>
        release_unstarted_dispatch now2 e db2 = (Conflict, db2))"
proof (intro conjI impI)
  assume r: "release_unstarted_dispatch now e db = (Claimed, db1)" and steps: "index_step\<^sup>*\<^sup>* db1 db2"
  then have "release_cas now e db = (True, db1)" by (simp add: release_cas_def)
  with release.cas_wins [OF keys, of now e] release.cas_keys [OF keys, of now e]
  have "keys_ok db1" "version_of (de_job_id e) db1 = Some (de_status_version e + 1)" by simp_all
  then obtain v where "keys_ok db2" "version_of (rc_job_id c) db2 = Some v" "rc_version c < v"
    using later_version [OF steps] same by (metis add1_zle_eq)
  then have "claim_cas now2 c db2 = (False, db2)" by (rule claim.cas_overtaken)
  then show "fst (claim_running now2 c db2) = None"
    by (cases "claim_running now2 c db2") (simp add: claim_cas_def)
next
  assume r: "claim_running now c db = (Some cl, db1)" and steps: "index_step\<^sup>*\<^sup>* db1 db2"
  then have "claim_cas now c db = (True, db1)" by (simp add: claim_cas_def)
  with claim.cas_wins [OF keys, of now c] claim.cas_keys [OF keys, of now c]
  have "keys_ok db1" "version_of (rc_job_id c) db1 = Some (rc_version c + 1)" by simp_all
  then obtain v where "keys_ok db2" "version_of (de_job_id e) db2 = Some v" "de_status_version e < v"
    using later_version [OF steps] same by (metis add1_zle_eq)
  then have "release_cas now2 e db2 = (False, db2)" by (rule release.cas_overtaken)
  then show "release_unstarted_dispatch now2 e db2 = (Conflict, db2)"
    by (cases "release_unstarted_dispatch now2 e db2") (auto simp: release_cas_def intro: claim_outcome.exhaust)
qed

text \<open>
  C22: a recovery claim is resolved at most once.  After the claim was restored or reset to
  pending, any later attempt to resolve it conflicts and the retry job cannot be published
  with it.
\<close>

theorem claim_resolved_once:
  assumes keys: "keys_ok db"
    and first: "restore_running now cl db = (Claimed, db1) \<or> reset_claim_to_pending now cl db = (Claimed, db1)"
    and steps: "index_step\<^sup>*\<^sup>* db1 db2"
  shows "restore_running now2 cl db2 = (Conflict, db2) \<and>
     reset_claim_to_pending now2 cl db2 = (Conflict, db2) \<and>
     (\<exists>e. upsert_with_recovery_claim_reset now2 cl i d db2 = Inl e)"
proof -
  let ?i = "rc_job_id (cl_candidate cl)"
  have "restore_cas now cl db = (True, db1) \<or> reset_cas now cl db = (True, db1)"
    using first by (auto simp: restore_cas_def reset_cas_def)
  then have "keys_ok db1 \<and> version_of ?i db1 = Some (cl_claimed_version cl + 1)"
    using restore.cas_wins [OF keys, of now cl] restore.cas_keys [OF keys, of now cl]
      reset.cas_wins [OF keys, of now cl] reset.cas_keys [OF keys, of now cl] by auto
  then obtain v where v: "keys_ok db2" "version_of ?i db2 = Some v" "cl_claimed_version cl < v"
    using later_version [OF steps] by (metis add1_zle_eq)
  have conflict: "reset_claim_to_pending_tx now2 cl db3 = (Conflict, db3)"
    if "keys_ok db3" "db_status db3 = db_status db2" for db3
  proof -
    have "version_of ?i db3 = Some v" using v(2) that(2) by (simp add: status_row_of_def)
    with reset.cas_overtaken [OF that(1) _ v(3)] have "reset_cas now2 cl db3 = (False, db3)" by simp
    then show ?thesis
      by (cases "reset_claim_to_pending_tx now2 cl db3")
        (auto simp: reset_cas_def reset_claim_to_pending_def intro: claim_outcome.exhaust)
  qed
  have "restore_cas now2 cl db2 = (False, db2)" by (rule restore.cas_overtaken [OF v])
  then have "restore_running now2 cl db2 = (Conflict, db2)"
    by (cases "restore_running now2 cl db2") (auto simp: restore_cas_def intro: claim_outcome.exhaust)
  moreover have "\<exists>e. upsert_with_recovery_claim_reset now2 cl i d db2 = Inl e"
  proof (cases "job_upsert i d db2")
    case (Inr res)
    then obtain b db3 where u: "job_upsert i d db2 = Inr (b, db3)" by (cases res) auto
    then have "keys_ok db3" using advances_job_upsert [OF u] v(1) by (simp add: advances_def)
    moreover have "db_status db3 = db_status db2" using u by (rule job_upsert_tables)
    ultimately show ?thesis
      using u conflict by (simp add: upsert_with_recovery_claim_reset_def bindE_def)
  qed (simp add: upsert_with_recovery_claim_reset_def bindE_def)
  ultimately show ?thesis using conflict v(1) by (simp add: reset_claim_to_pending_def)
qed

section \<open>Dispatching\<close>

lemma update_jobs_one:
  assumes keys: "keys_ok db" and f: "\<And>r. jrw_id (f r) = jrw_id r"
    and u: "update_jobs (\<lambda>r. jrw_id r = i \<and> P r) f db = (n, db')"
  shows "n = (case find_row_tx i db of None \<Rightarrow> 0 | Some r \<Rightarrow> if P r then 1 else 0)"
    and "find_row_tx i db' = map_option (\<lambda>r. if P r then f r else r) (find_row_tx i db)"
proof -
  have d: "distinct (map jrw_id (db_jobs db))" using keys by (simp add: keys_ok_def)
  have "n = length (filter (\<lambda>r. jrw_id r = i \<and> P r) (db_jobs db))"
    and db': "db' = db\<lparr>db_jobs := map (\<lambda>r. if jrw_id r = i \<and> P r then f r else r) (db_jobs db)\<rparr>"
    using u by (auto simp: update_jobs_def sql_update_def)
  then show "n = (case find_row_tx i db of None \<Rightarrow> 0 | Some r \<Rightarrow> if P r then 1 else 0)"
    using filter_key [OF d, of i P] by (simp add: find_row_tx_def split: option.splits)
  have "find_row_tx i db' = map_option (\<lambda>r. if jrw_id r = i \<and> P r then f r else r) (find_row_tx i db)"
    unfolding find_row_tx_def db' using f by (simp add: find_map_keep)
  also have "\<dots> = map_option (\<lambda>r. if P r then f r else r) (find_row_tx i db)"
    by (rule option.map_cong0) (auto simp: find_row_tx_def find_Some_iff)
  finally show "find_row_tx i db' = map_option (\<lambda>r. if P r then f r else r) (find_row_tx i db)" .
qed

lemma keys_ok_after_update_jobs:
  assumes "update_jobs p f db = (n, db')" "\<And>r. jrw_id (f r) = jrw_id r" "keys_ok db"
  shows "keys_ok db'"
  using keys_ok_update_jobs [OF assms(2), where p = p and db = db] assms(1,3) by simp

lemma status_row_of_after_update_jobs:
  assumes "update_jobs p f db = (n, db')"
  shows "status_row_of i db' = status_row_of i db"
  using status_row_of_update_jobs [where p = p and f = f and db = db] assms by simp

lemma find_key_and:
  assumes "distinct (map k rows)" "List.find (\<lambda>r. k r = i) rows = Some r" "P r"
  shows "List.find (\<lambda>r. k r = i \<and> P r) rows = Some r"
  using assms by (induction rows) (auto split: if_splits)

lemma upsert_running_row_found:
  assumes "keys_ok db"
  shows "\<exists>r. status_row_of (sw_job_id new) (upsert_running_row new db) = Some r \<and> sw_status r = sw_status new \<and>
     sw_deleted_at r = sw_deleted_at new \<and> sw_worker_instance_id r = sw_worker_instance_id new"
proof (cases "sw_job_id new \<in> set (map sw_job_id (db_status db))")
  case True
  then obtain r where "status_row_of (sw_job_id new) db = Some r"
    by (cases "status_row_of (sw_job_id new) db") (auto simp: status_row_of_def find_None_iff)
  then have "status_row_of (sw_job_id new) (upsert_running_row new db) =
      Some (new\<lparr>sw_job_id := sw_job_id r, sw_pending_time := sw_pending_time r,
               sw_version := sw_version r + 1\<rparr>)"
    unfolding upsert_running_row_update [OF True]
    by (subst status_row_of_update) (auto simp: status_row_of_def find_Some_iff)
  then show ?thesis by simp
next
  case False
  then show ?thesis by (simp add: upsert_running_row_def status_row_of_def find_append_new)
qed

definition dispatch_lease :: "i64 \<Rightarrow> i64 \<Rightarrow> i64" where
  "dispatch_lease now t = i64_wrap (i64_wrap (now + t) + 10000)"

text \<open>The dispatch that is granted, taken apart.\<close>

lemma grab_and_mark_runningE:
  assumes "grab_and_mark_running now st db = (res, db1)" and "keys_ok db"
  obtains (refused) "db1 = db" "\<And>e. res \<noteq> Inr (Some e)"
  | (granted) t db0 r where
      "update_jobs (\<lambda>r. jrw_id r = ds_job_id st \<and>
          jrw_grabbed_until_time r = Some (ds_original_grabbed_until_time st))
        (\<lambda>r. r\<lparr>jrw_grabbed_until_time := Some (dispatch_lease now t)\<rparr>) db = (1, db0)"
      "db1 = upsert_running_row (running_row now st) db0"
      "status_row_of (ds_job_id st) db1 = Some r"
      "sw_status r = 2" "live r" "sw_worker_instance_id r = Some (ds_worker_instance_id st)"
      "res = Inr (Some \<lparr>de_job_id = ds_job_id st, de_worker_instance_id = ds_worker_instance_id st,
         de_status_version = sw_version r, de_grabbed_until_time = dispatch_lease now t\<rparr>)"
proof -
  let ?t = "if unwrap_or (ds_timeout st) 0 = 0 then 1000 * 60 * 60 * 24 * 365 * 100 else unwrap_or (ds_timeout st) 0"
  show thesis
  proof (cases "i64_try_from_u64 ?t")
    case None
    then show thesis using assms(1) by (intro refused) (auto simp: grab_and_mark_running_def Let_def)
  next
    case (Some t)
    obtain n db0 where u: "update_jobs (\<lambda>r. jrw_id r = ds_job_id st \<and>
          jrw_grabbed_until_time r = Some (ds_original_grabbed_until_time st))
        (\<lambda>r. r\<lparr>jrw_grabbed_until_time := Some (dispatch_lease now t)\<rparr>) db = (n, db0)"
      by (rule prod.exhaust)
    let ?db1 = "upsert_running_row (running_row now st) db0"
    have keys0: "keys_ok db0"
      by (rule keys_ok_after_update_jobs [OF u _ assms(2)]) simp
    obtain r where r: "status_row_of (ds_job_id st) ?db1 = Some r" "sw_status r = 2" "live r"
        "sw_worker_instance_id r = Some (ds_worker_instance_id st)"
      using upsert_running_row_found [OF keys0, of "running_row now st"] by (auto simp: running_row_def)
    have "keys_ok ?db1" using advances_upsert_running keys0 by (simp add: advances_def)
    then have "List.find (\<lambda>r. sw_job_id r = ds_job_id st \<and>
         sw_worker_instance_id r = Some (ds_worker_instance_id st) \<and> sw_status r = 2 \<and> live r)
         (db_status ?db1) = Some r"
      using r by (intro find_key_and) (auto simp: keys_ok_def status_row_of_def)
    then show thesis
      using assms(1) u Some r
      by (cases "n = 1") (auto simp: grab_and_mark_running_def Let_def dispatch_lease_def [symmetric]
          intro: refused granted)
  qed
qed

lemma release_succeeds:
  assumes keys: "keys_ok db" and row: "status_row_of (de_job_id e) db = Some r" "sw_status r = 2" "live r"
      "sw_worker_instance_id r = Some (de_worker_instance_id e)" "sw_version r = de_status_version e"
    and lease: "map_option jrw_grabbed_until_time (find_row_tx (de_job_id e) db) = Some (Some (de_grabbed_until_time e))"
  shows "\<exists>db2 r. release_unstarted_dispatch now e db = (Claimed, db2) \<and>
     map_option jrw_grabbed_until_time (find_row_tx (de_job_id e) db2) = Some (Some 0) \<and>
     status_row_of (de_job_id e) db2 = Some r \<and> sw_status r = 1 \<and> live r \<and> sw_worker_instance_id r = None"
proof -
  let ?i = "de_job_id e"
  let ?P = "\<lambda>r. sw_worker_instance_id r = Some (de_worker_instance_id e) \<and>
      sw_version r = de_status_version e \<and> sw_status r = 2 \<and> live r"
  obtain n db1 where u: "update_status (\<lambda>r. sw_job_id r = ?i \<and> ?P r) (to_pending now) db = (n, db1)"
    by (rule prod.exhaust)
  have keep: "keeps_id (to_pending now)" by auto
  have n: "n = 1" using update_status_count [OF keys, of ?i ?P "to_pending now"] row by (simp add: u)
  have id: "sw_job_id r = ?i" using row(1) by (auto simp: status_row_of_def find_Some_iff)
  then have row1: "status_row_of ?i db1 = Some (to_pending now r)"
    using status_row_of_update [OF keep, of ?i "\<lambda>r. sw_job_id r = ?i \<and> ?P r" db] row by (simp add: u)
  have keys1: "keys_ok db1"
    using keys_ok_update [OF keep, of "\<lambda>r. sw_job_id r = ?i \<and> ?P r" db] keys by (simp add: u)
  have "db_jobs db1 = db_jobs db"
    using db_jobs_update_status [of "\<lambda>r. sw_job_id r = ?i \<and> ?P r" "to_pending now" db] by (simp add: u)
  then have jobs: "find_row_tx ?i db1 = find_row_tx ?i db" by (simp add: find_row_tx_def)
  obtain m db2 where v: "update_jobs (\<lambda>r. jrw_id r = ?i \<and>
      jrw_grabbed_until_time r = Some (de_grabbed_until_time e))
      (\<lambda>r. r\<lparr>jrw_grabbed_until_time := Some 0\<rparr>) db1 = (m, db2)" by (rule prod.exhaust)
  have m: "m = 1" "map_option jrw_grabbed_until_time (find_row_tx ?i db2) = Some (Some 0)"
    using update_jobs_one [OF keys1 _ v, unfolded jobs] lease by auto
  have "status_row_of ?i db2 = status_row_of ?i db1" by (rule status_row_of_after_update_jobs [OF v])
  then have "status_row_of ?i db2 = Some (to_pending now r)" by (simp only: row1)
  moreover have "release_unstarted_dispatch now e db = (Claimed, db2)"
    using u v n m(1) by (simp add: release_unstarted_dispatch_def)
  ultimately show ?thesis using m(2) row_fields(10-12) by blast
qed

lemma granted_dispatch:
  assumes keys: "keys_ok db" and g: "grab_and_mark_running now st db = (Inr (Some e), db1)"
  obtains r where "keys_ok db1" "status_row_of (ds_job_id st) db1 = Some r" "sw_status r = 2" "live r"
    "sw_worker_instance_id r = Some (ds_worker_instance_id st)" "sw_version r = de_status_version e"
    "map_option jrw_grabbed_until_time (find_row_tx (ds_job_id st) db1) = Some (Some (de_grabbed_until_time e))"
    "de_job_id e = ds_job_id st" "de_worker_instance_id e = ds_worker_instance_id st"
  using g keys
proof (cases rule: grab_and_mark_runningE)
  case (granted t db0 r)
  have keys0: "keys_ok db0" by (rule keys_ok_after_update_jobs [OF granted(1) _ keys]) simp
  then have keys1: "keys_ok db1" using granted(2) advances_upsert_running by (simp add: advances_def)
  have "map_option jrw_grabbed_until_time (find_row_tx (ds_job_id st) db0) = Some (Some (dispatch_lease now t))"
    using update_jobs_one [OF keys _ granted(1)] by (auto split: option.splits if_splits)
  then have "map_option jrw_grabbed_until_time (find_row_tx (ds_job_id st) db1) = Some (Some (dispatch_lease now t))"
    using granted(2) by (simp add: find_row_tx_def upsert_running_row_def)
  then show ?thesis
    using granted(7) by (intro that [OF keys1 granted(3-6)]) simp_all
next
  case refused
  from refused(2) [of e] show ?thesis by simp
qed

section \<open>Properties of dispatching\<close>

text \<open>
  Dispatching is atomic and can be undone.  A dispatch that is granted leaves the job
  leased and its index row running for the worker instance; when the dispatcher then gives
  the job back, its lease is 0 and its row pending without an owner; a dispatch that is not
  granted leaves the tables as they were.
\<close>

theorem dispatch_atomic_and_undone:
  assumes keys: "keys_ok db"
    and g: "grab_and_mark_running now st db = (res, db1)"
  shows "(\<forall>e. res = Inr (Some e) \<longrightarrow>
       (\<exists>r. status_row_of (ds_job_id st) db1 = Some r \<and> sw_status r = 2 \<and> live r \<and>
          sw_worker_instance_id r = Some (ds_worker_instance_id st) \<and> sw_version r = de_status_version e) \<and>
       map_option jrw_grabbed_until_time (find_row_tx (ds_job_id st) db1) =
         Some (Some (de_grabbed_until_time e)) \<and>
       (\<exists>db2 r. release_unstarted_dispatch now2 e db1 = (Claimed, db2) \<and>
          map_option jrw_grabbed_until_time (find_row_tx (ds_job_id st) db2) = Some (Some 0) \<and>
          status_row_of (ds_job_id st) db2 = Some r \<and> sw_status r = 1 \<and> live r \<and>
          sw_worker_instance_id r = None)) \<and>
     ((\<forall>e. res \<noteq> Inr (Some e)) \<longrightarrow> db1 = db)"
proof (intro conjI allI impI)
  fix e
  assume "res = Inr (Some e)"
  then have g': "grab_and_mark_running now st db = (Inr (Some e), db1)" using g by simp
  obtain r where keys1: "keys_ok db1" and r: "status_row_of (ds_job_id st) db1 = Some r" "sw_status r = 2" "live r"
    "sw_worker_instance_id r = Some (ds_worker_instance_id st)" "sw_version r = de_status_version e"
    and lease: "map_option jrw_grabbed_until_time (find_row_tx (ds_job_id st) db1) =
      Some (Some (de_grabbed_until_time e))"
    and e: "de_job_id e = ds_job_id st" "de_worker_instance_id e = ds_worker_instance_id st"
    by (rule granted_dispatch [OF keys g'])
  show "\<exists>r. status_row_of (ds_job_id st) db1 = Some r \<and> sw_status r = 2 \<and> live r \<and>
      sw_worker_instance_id r = Some (ds_worker_instance_id st) \<and> sw_version r = de_status_version e"
    by (intro exI [of _ r] conjI r)
  show "map_option jrw_grabbed_until_time (find_row_tx (ds_job_id st) db1) =
      Some (Some (de_grabbed_until_time e))" by (rule lease)
  show "\<exists>db2 r. release_unstarted_dispatch now2 e db1 = (Claimed, db2) \<and>
      map_option jrw_grabbed_until_time (find_row_tx (ds_job_id st) db2) = Some (Some 0) \<and>
      status_row_of (ds_job_id st) db2 = Some r \<and> sw_status r = 1 \<and> live r \<and> sw_worker_instance_id r = None"
    by (rule release_succeeds [OF keys1, of e r now2, unfolded e, OF r lease])
next
  assume "\<forall>e. res \<noteq> Inr (Some e)"
  then show "db1 = db" by (cases rule: grab_and_mark_runningE [OF g keys]) simp_all
qed

section \<open>A concrete run\<close>

definition example_start :: rdb_dispatch_start where
  "example_start = \<lparr>ds_job_id = 7, ds_worker_id = 1, ds_worker_instance_id = 3, ds_channel = None,
     ds_priority = 0, ds_enqueue_time = 0, ds_is_streamable = False, ds_broadcast_results = False,
     ds_timeout = Some 1000, ds_original_grabbed_until_time = 0\<rparr>"

definition example_tables :: rdb where
  "example_tables = example_db\<lparr>db_jobs := [example_job_row]\<rparr>"

definition example_execution :: rdb_dispatch_execution where
  "example_execution = \<lparr>de_job_id = 7, de_worker_instance_id = 3, de_status_version = 1,
     de_grabbed_until_time = 17000\<rparr>"

definition example_running :: rdb where
  "example_running = example_db\<lparr>db_jobs := [example_job_row\<lparr>jrw_grabbed_until_time := Some 17000\<rparr>],
     db_status := [running_row 6000 example_start]\<rparr>"

definition example_candidate :: running_status_candidate where
  "example_candidate = candidate_of (running_row 6000 example_start)"

lemma example_grab:
  "grab_and_mark_running 6000 example_start example_tables =
     (Inr (Some example_execution), example_running)"
  by (simp add: grab_and_mark_running_def example_start_def example_tables_def example_execution_def
      example_running_def i64_try_from_u64_def i64_max_def i64_wrap_def update_jobs_def sql_update_def
      example_job_row_def upsert_running_row_def running_row_def example_db_def)

lemma example_keys: "keys_ok example_tables" "keys_ok example_running"
  by (simp_all add: keys_ok_def example_tables_def example_running_def example_db_def)

definition example_claim :: recovery_claim where
  "example_claim = \<lparr>cl_candidate = example_candidate, cl_claimed_version = 2, cl_deleted_at = 9000\<rparr>"

definition example_claimed :: rdb where
  "example_claimed = snd (claim_running 9000 example_candidate example_running)"

lemmas example_run_defs = example_start_def example_execution_def example_running_def
  example_candidate_def candidate_of_def running_row_def example_claim_def example_claimed_def

lemma example_claim_taken:
  "claim_running 9000 example_candidate example_running = (Some example_claim, example_claimed)"
  by (simp add: example_run_defs claim_running_def update_status_def sql_update_def)

lemma example_released:
  "release_unstarted_dispatch 9000 example_execution example_running =
     (Claimed, snd (release_unstarted_dispatch 9000 example_execution example_running))"
  by (simp add: example_run_defs release_unstarted_dispatch_def update_status_def update_jobs_def
      sql_update_def example_job_row_def)

theorem dispatch_atomic_and_undone_witness:
  "\<exists>db2. grab_and_mark_running 6000 example_start example_tables =
       (Inr (Some example_execution), example_running) \<and>
     release_unstarted_dispatch 7000 example_execution example_running = (Claimed, db2) \<and>
     map_option jrw_grabbed_until_time (find_row_tx 7 db2) = Some (Some 0)"
proof -
  have "ds_job_id example_start = 7" by (simp add: example_start_def)
  with dispatch_atomic_and_undone [OF example_keys(1) example_grab, of 7000] example_grab
  show ?thesis by auto
qed

theorem versions_never_decrease_witness:
  "\<exists>v \<ge> 1. version_of 7 example_claimed = Some v"
proof -
  have "index_step\<^sup>*\<^sup>* example_running example_claimed"
    unfolding example_claimed_def by (intro r_into_rtranclp index_step.claim)
  moreover have "version_of 7 example_running = Some 1"
    by (simp add: example_run_defs status_row_of_def)
  ultimately show ?thesis using versions_never_decrease example_keys(2) by blast
qed

theorem release_or_recovery_witness:
  "fst (claim_running 9500 example_candidate
       (snd (release_unstarted_dispatch 9000 example_execution example_running))) = None \<and>
   release_unstarted_dispatch 9500 example_execution example_claimed = (Conflict, example_claimed)"
proof -
  have same: "rc_job_id example_candidate = de_job_id example_execution"
      "rc_version example_candidate = de_status_version example_execution"
    by (simp_all add: example_run_defs)
  note x = release_or_recovery [OF example_keys(2) same]
  from x [of 9000 _ _ 9500] example_released example_claim_taken rtranclp.rtrancl_refl show ?thesis by blast
qed

theorem claim_resolved_once_witness:
  "\<exists>db1. restore_running 9500 example_claim example_claimed = (Claimed, db1) \<and>
     reset_claim_to_pending 9600 example_claim db1 = (Conflict, db1)"
proof -
  have keys: "keys_ok example_claimed"
    using index_step_advances [OF index_step.claim] example_keys(2)
    unfolding example_claimed_def advances_def by blast
  obtain db1 where r: "restore_running 9500 example_claim example_claimed = (Claimed, db1)"
    by (simp add: example_run_defs restore_running_def claim_running_def update_status_def
        sql_update_def owned_by_claim_def bump_def outcome_def)
  from claim_resolved_once [OF keys disjI1 [OF r] rtranclp.rtrancl_refl, of 9600] r show ?thesis by blast
qed

end
