(* ===== verification/Job_Status.thy ===== *)
theory Job_Status
  imports Proto_Data "HOL-Library.AList"
begin

text \<open>
  The authoritative store of job processing states:
  \<^verbatim>\<open>infra/src/infra/job/status.rs\<close> (the record and the repository trait),
  \<^verbatim>\<open>status/memory.rs\<close> (a concurrent hash map) and \<^verbatim>\<open>status/redis.rs\<close> (one Redis
  hash, values encoded as text, the compare-and-set as a script).  A repository is an
  association list from keys to values; the trait's contract is the locale
  \<open>status_repository\<close>, of which both implementations are interpretations.
\<close>

section \<open>Records and transitions\<close>

record status_record =
  sr_status :: job_processing_status
  sr_retried :: u32

datatype status_transition = Applied | Conflict "status_record option"

section \<open>The contract of the repository trait\<close>

text \<open>
  \<open>find\<close> reads a record, \<open>upsert\<close> replaces the status and keeps the attempt number,
  \<open>cas\<close> replaces or removes a record exactly when it is the expected one.
\<close>

locale status_repository =
  fixes find :: "'s \<Rightarrow> job_id \<Rightarrow> status_record option"
    and upsert :: "'s \<Rightarrow> job_id \<Rightarrow> job_processing_status \<Rightarrow> bool \<times> 's"
    and delete :: "'s \<Rightarrow> job_id \<Rightarrow> bool \<times> 's"
    and cas :: "'s \<Rightarrow> job_id \<Rightarrow> status_record option \<Rightarrow> status_record option \<Rightarrow>
      status_transition \<times> 's"
    and invar :: "'s \<Rightarrow> bool"
  assumes find_upsert: "invar s \<Longrightarrow> find (snd (upsert s i st)) =
      (find s)(i \<mapsto> \<lparr>sr_status = st,
        sr_retried = (case find s i of None \<Rightarrow> 0 | Some r \<Rightarrow> sr_retried r)\<rparr>)"
    and find_delete: "invar s \<Longrightarrow> find (snd (delete s i)) = (find s)(i := None)"
    and fst_delete: "invar s \<Longrightarrow> fst (delete s i) = (find s i \<noteq> None)"
    and cas_match: "invar s \<Longrightarrow> find s i = expected \<Longrightarrow>
      fst (cas s i expected nxt) = Applied \<and> find (snd (cas s i expected nxt)) = (find s)(i := nxt)"
    and cas_mismatch: "invar s \<Longrightarrow> find s i \<noteq> expected \<Longrightarrow>
      fst (cas s i expected nxt) = Conflict (find s i) \<and> find (snd (cas s i expected nxt)) = find s"
    and invar_upsert: "invar s \<Longrightarrow> invar (snd (upsert s i st))"
    and invar_delete: "invar s \<Longrightarrow> invar (snd (delete s i))"
    and invar_cas: "invar s \<Longrightarrow> invar (snd (cas s i expected nxt))"
begin

lemma cas_Applied_iff:
  "invar s \<Longrightarrow> fst (cas s i expected nxt) = Applied \<longleftrightarrow> find s i = expected"
  using cas_match [of s i expected nxt] cas_mismatch [of s i expected nxt] by fastforce

lemma cas_outcome:
  assumes "invar s"
  shows "cas s i expected nxt =
    (if find s i = expected then (Applied, snd (cas s i expected nxt))
     else (Conflict (find s i), snd (cas s i expected nxt)))"
  using cas_match [OF assms, of i expected nxt] cas_mismatch [OF assms, of i expected nxt]
  by (auto simp: prod_eq_iff)

lemma find_cas:
  "invar s \<Longrightarrow> find (snd (cas s i expected nxt)) =
     (if find s i = expected then (find s)(i := nxt) else find s)"
  using cas_match [of s i expected nxt] cas_mismatch [of s i expected nxt] by auto

text \<open>Of two compare-and-sets that expect the same record only the first is applied.\<close>

lemma cas_exclusive:
  assumes "invar s" and "fst (cas s i expected n1) = Applied" and "n1 \<noteq> expected"
  shows "fst (cas (snd (cas s i expected n1)) i expected n2) = Conflict n1"
proof -
  let ?s1 = "snd (cas s i expected n1)"
  have "find s i = expected" using assms(1,2) cas_Applied_iff by blast
  then have "find ?s1 i = n1" using find_cas [OF assms(1)] by simp
  then show ?thesis
    using cas_mismatch [OF invar_cas [OF assms(1)], of i expected n1 i expected n2] assms(3) by simp
qed

text \<open>A failed compare-and-set leaves every record as it was and reports the current one.\<close>

lemma cas_conflict:
  assumes "invar s" and "fst (cas s i expected nxt) = Conflict r"
  shows "r = find s i" and "r \<noteq> expected" and "find (snd (cas s i expected nxt)) = find s"
  using assms cas_outcome [OF assms(1), of i expected nxt] find_cas [OF assms(1), of i expected nxt]
  by (auto split: if_splits) (metis fst_conv status_transition.distinct(1) status_transition.inject)+

end

section \<open>The in-memory repository\<close>

type_synonym memory_store = "(job_id \<times> status_record) list"

definition mem_find_status_record :: "memory_store \<Rightarrow> job_id \<Rightarrow> status_record option" where
  "mem_find_status_record s i = map_of s i"

definition mem_upsert_status ::
  "memory_store \<Rightarrow> job_id \<Rightarrow> job_processing_status \<Rightarrow> bool \<times> memory_store" where
  "mem_upsert_status s i st =
     (let retried = unwrap_or (map_option sr_retried (map_of s i)) 0
      in (map_of s i \<noteq> None, AList.update i \<lparr>sr_status = st, sr_retried = retried\<rparr> s))"

definition mem_delete_status :: "memory_store \<Rightarrow> job_id \<Rightarrow> bool \<times> memory_store" where
  "mem_delete_status s i = (map_of s i \<noteq> None, AList.delete i s)"

definition known_status :: "job_processing_status \<Rightarrow> job_processing_status" where
  "known_status st =
     (if st = JpsPending then JpsPending
      else if st = JpsRunning then JpsRunning
      else if st = JpsWaitResult then JpsWaitResult
      else if st = JpsCancelling then JpsCancelling
      else JpsUnknown)"

definition mem_find_status_all :: "memory_store \<Rightarrow> (job_id \<times> job_processing_status) list" where
  "mem_find_status_all s = map (\<lambda>(i, v). (i, known_status (sr_status v))) s"

definition mem_find_status :: "memory_store \<Rightarrow> job_id \<Rightarrow> job_processing_status option" where
  "mem_find_status s i =
     (case map_option sr_status (map_of s i) of
        Some v \<Rightarrow> Some (known_status v)
      | None \<Rightarrow> None)"

definition mem_compare_and_set_status ::
  "memory_store \<Rightarrow> job_id \<Rightarrow> status_record option \<Rightarrow> status_record option \<Rightarrow>
    status_transition \<times> memory_store" where
  "mem_compare_and_set_status s i expected nxt =
     (case map_of s i of
        Some current \<Rightarrow>
          if Some current \<noteq> expected then (Conflict (Some current), s)
          else (case nxt of
                  Some n \<Rightarrow> (Applied, AList.update i n s)
                | None \<Rightarrow> (Applied, AList.delete i s))
      | None \<Rightarrow>
          if expected \<noteq> None then (Conflict None, s)
          else (case nxt of
                  Some n \<Rightarrow> (Applied, AList.update i n s)
                | None \<Rightarrow> (Applied, s)))"

definition mem_invar :: "memory_store \<Rightarrow> bool" where
  "mem_invar s \<longleftrightarrow> distinct (map fst s)"

interpretation mem: status_repository
  mem_find_status_record mem_upsert_status mem_delete_status mem_compare_and_set_status mem_invar
proof (unfold_locales, goal_cases)
  case (1 s i st)
  then show ?case
    by (auto simp: mem_find_status_record_def mem_upsert_status_def update_conv' fun_eq_iff
        split: option.splits)
next
  case (2 s i)
  then show ?case
    by (auto simp: mem_find_status_record_def mem_delete_status_def delete_conv' fun_eq_iff)
next
  case (3 s i)
  then show ?case by (simp add: mem_find_status_record_def mem_delete_status_def)
next
  case (4 s i expected nxt)
  then show ?case
    by (auto simp: mem_find_status_record_def mem_compare_and_set_status_def update_conv'
        delete_conv' fun_eq_iff split: option.splits)
next
  case (5 s i expected nxt)
  then show ?case
    by (cases expected; cases "map_of s i")
       (auto simp: mem_find_status_record_def mem_compare_and_set_status_def)
next
  case (6 s i st)
  then show ?case by (simp add: mem_invar_def mem_upsert_status_def Let_def distinct_update)
next
  case (7 s i)
  then show ?case by (simp add: mem_invar_def mem_delete_status_def distinct_delete)
next
  case (8 s i expected nxt)
  then show ?case
    by (simp add: mem_invar_def mem_compare_and_set_status_def distinct_update distinct_delete
        split: option.splits)
qed

section \<open>The Redis repository\<close>

text \<open>
  The state is the content of the hash \<^verbatim>\<open>JOB_STATUS\<close>.  \<^verbatim>\<open>HSET\<close> reports whether the
  field is new, \<^verbatim>\<open>HDEL\<close> whether it existed.
\<close>

type_synonym redis_hash = "(string \<times> string) list"

definition hget :: "redis_hash \<Rightarrow> string \<Rightarrow> string option" where
  "hget h k = map_of h k"

definition hset :: "redis_hash \<Rightarrow> string \<Rightarrow> string \<Rightarrow> bool \<times> redis_hash" where
  "hset h k v = (map_of h k = None, AList.update k v h)"

definition hdel :: "redis_hash \<Rightarrow> string \<Rightarrow> bool \<times> redis_hash" where
  "hdel h k = (map_of h k \<noteq> None, AList.delete k h)"

definition encode_record :: "status_record \<Rightarrow> string" where
  "encode_record r =
     show_int (job_processing_status_i32 (sr_status r)) @ '':'' @ show_nat (unat (sr_retried r))"

definition decode_record :: "string \<Rightarrow> status_record option" where
  "decode_record v =
     (case split_once CHR '':'' v of
        None \<Rightarrow> None
      | Some (status, retried) \<Rightarrow>
          (case parse_i32 status of
             None \<Rightarrow> None
           | Some n \<Rightarrow>
               (case job_processing_status_try_from n of
                  None \<Rightarrow> None
                | Some st \<Rightarrow>
                    (case parse_u32 retried of
                       None \<Rightarrow> None
                     | Some k \<Rightarrow> Some \<lparr>sr_status = st, sr_retried = k\<rparr>))))"

definition redis_find_status_record :: "redis_hash \<Rightarrow> job_id \<Rightarrow> status_record option" where
  "redis_find_status_record h i = Option.bind (hget h (show_int i)) decode_record"

definition redis_upsert_status ::
  "redis_hash \<Rightarrow> job_id \<Rightarrow> job_processing_status \<Rightarrow> bool \<times> redis_hash" where
  "redis_upsert_status h i st =
     (let retried = unwrap_or (map_option sr_retried (redis_find_status_record h i)) 0
      in hset h (show_int i) (encode_record \<lparr>sr_status = st, sr_retried = retried\<rparr>))"

definition redis_delete_status :: "redis_hash \<Rightarrow> job_id \<Rightarrow> bool \<times> redis_hash" where
  "redis_delete_status h i = hdel h (show_int i)"

definition redis_find_status_all :: "redis_hash \<Rightarrow> (job_id \<times> job_processing_status) list" where
  "redis_find_status_all h =
     List.map_filter
       (\<lambda>(k, v).
          map_option
            (\<lambda>i. case decode_record v of
                    Some r \<Rightarrow> (i, sr_status r)
                  | None \<Rightarrow> (i, JpsUnknown))
            (parse_i64 k)) h"

definition redis_find_status :: "redis_hash \<Rightarrow> job_id \<Rightarrow> job_processing_status option" where
  "redis_find_status h i =
     (case hget h (show_int i) of
        Some v \<Rightarrow> (case decode_record v of Some r \<Rightarrow> Some (sr_status r) | None \<Rightarrow> Some JpsUnknown)
      | None \<Rightarrow> None)"

text \<open>The script: \<^verbatim>\<open>ARGV[2]\<close> and \<^verbatim>\<open>ARGV[3]\<close> are empty for an absent record.\<close>

definition cas_script :: "redis_hash \<Rightarrow> string \<Rightarrow> string \<Rightarrow> string \<Rightarrow> nat \<times> redis_hash" where
  "cas_script h arg1 arg2 arg3 =
     (let current = hget h arg1
      in if (if arg2 = [] then current \<noteq> None else current \<noteq> Some arg2) then (0, h)
         else if arg3 = [] then (1, snd (hdel h arg1))
         else (1, snd (hset h arg1 arg3)))"

definition redis_compare_and_set_status ::
  "redis_hash \<Rightarrow> job_id \<Rightarrow> status_record option \<Rightarrow> status_record option \<Rightarrow>
    status_transition \<times> redis_hash" where
  "redis_compare_and_set_status h i expected nxt =
     (let e = unwrap_or (map_option encode_record expected) [];
          n = unwrap_or (map_option encode_record nxt) [];
          (applied, h') = cas_script h (show_int i) e n
      in if applied = 1 then (Applied, h')
         else (Conflict (redis_find_status_record h' i), h'))"

text \<open>Every value in the hash was written by the repository.\<close>

definition redis_invar :: "redis_hash \<Rightarrow> bool" where
  "redis_invar h \<longleftrightarrow>
     distinct (map fst h) \<and> (\<forall>(k, v) \<in> set h. \<exists>i r. k = show_int i \<and> v = encode_record r)"

lemma status_i32_range: "0 \<le> job_processing_status_i32 s" "job_processing_status_i32 s < 2 ^ 31"
  by (cases s; simp)+

theorem decode_encode_record [simp]: "decode_record (encode_record r) = Some r"
proof -
  let ?st = "show_int (job_processing_status_i32 (sr_status r))"
  have "?st = show_nat (nat (job_processing_status_i32 (sr_status r)))"
    using status_i32_range [of "sr_status r"] by (simp add: show_int_def)
  then have "CHR '':'' \<notin> set ?st" by simp
  moreover have "parse_i32 ?st = Some (job_processing_status_i32 (sr_status r))"
    unfolding parse_i32_def using status_i32_range [of "sr_status r"]
    by (intro parse_signed_show_int) simp_all
  ultimately show ?thesis
    by (simp add: decode_record_def encode_record_def)
qed

lemma encode_record_inj [simp]: "encode_record r = encode_record r' \<longleftrightarrow> r = r'"
  by (metis decode_encode_record option.inject)

lemma encode_record_nonempty [simp]: "encode_record r \<noteq> []"
  by (simp add: encode_record_def)

lemma redis_find_some:
  assumes "redis_invar h"
  shows "hget h (show_int i) = map_option encode_record (redis_find_status_record h i)"
proof (cases "map_of h (show_int i)")
  case (Some v)
  then have "(show_int i, v) \<in> set h" by (rule map_of_SomeD)
  with assms obtain r where "v = encode_record r"
    unfolding redis_invar_def by blast
  with Some show ?thesis by (simp add: redis_find_status_record_def hget_def)
qed (simp add: redis_find_status_record_def hget_def)

lemma redis_find_update:
  "redis_find_status_record (AList.update (show_int i) (encode_record r) h) =
     (redis_find_status_record h)(i \<mapsto> r)"
  by (auto simp: redis_find_status_record_def hget_def update_conv' fun_eq_iff)

lemma redis_find_delete:
  "redis_find_status_record (AList.delete (show_int i) h) = (redis_find_status_record h)(i := None)"
  by (auto simp: redis_find_status_record_def hget_def delete_conv' fun_eq_iff)

lemma redis_invar_update:
  assumes "redis_invar h"
  shows "redis_invar (AList.update (show_int i) (encode_record r) h)"
proof -
  have "set (AList.update k v h) \<subseteq> insert (k, v) (set h)" for k :: string and v :: string
    by (induction h) auto
  then show ?thesis using assms by (auto simp: redis_invar_def distinct_update) blast+
qed

lemma redis_invar_delete: "redis_invar h \<Longrightarrow> redis_invar (AList.delete k h)"
proof -
  have "set (AList.delete k h) \<subseteq> set h" by (auto simp: AList.delete_eq)
  then show "redis_invar h \<Longrightarrow> redis_invar (AList.delete k h)"
    using distinct_delete [of h k] unfolding redis_invar_def by blast
qed

lemmas redis_ops =
  redis_upsert_status_def redis_delete_status_def redis_compare_and_set_status_def
  cas_script_def hset_def hdel_def

lemma redis_cas_script:
  assumes "redis_invar h"
  shows "redis_compare_and_set_status h i expected nxt =
    (if redis_find_status_record h i = expected
     then (Applied, case nxt of None \<Rightarrow> AList.delete (show_int i) h
                    | Some n \<Rightarrow> AList.update (show_int i) (encode_record n) h)
     else (Conflict (redis_find_status_record h i), h))"
  using redis_find_some [OF assms, of i]
  by (cases expected; cases "redis_find_status_record h i"; cases nxt)
     (auto simp: redis_ops)

interpretation redis: status_repository
  redis_find_status_record redis_upsert_status redis_delete_status
  redis_compare_and_set_status redis_invar
proof (unfold_locales, goal_cases)
  case (1 s i st)
  then show ?case
    by (auto simp: redis_upsert_status_def hset_def redis_find_update split: option.splits)
next
  case (2 s i)
  then show ?case by (simp add: redis_delete_status_def hdel_def redis_find_delete)
next
  case (3 s i)
  then show ?case
    using redis_find_some [of s i] by (simp add: redis_delete_status_def hdel_def hget_def)
next
  case (4 s i expected nxt)
  then show ?case
    by (auto simp: redis_cas_script redis_find_update redis_find_delete split: option.splits)
next
  case (5 s i expected nxt)
  then show ?case by (simp add: redis_cas_script)
next
  case (6 s i st)
  then show ?case by (simp add: redis_upsert_status_def hset_def Let_def redis_invar_update)
next
  case (7 s i)
  then show ?case by (simp add: redis_delete_status_def hdel_def redis_invar_delete)
next
  case (8 s i expected nxt)
  then show ?case
    by (auto simp: redis_cas_script redis_invar_update redis_invar_delete split: option.splits)
qed

section \<open>The two repositories side by side\<close>

datatype status_op =
    OpUpsert job_id job_processing_status
  | OpDelete job_id
  | OpFind job_id
  | OpFindRecord job_id
  | OpCas job_id "status_record option" "status_record option"

datatype status_reply =
    RepDone
  | RepDeleted bool
  | RepStatus "job_processing_status option"
  | RepRecord "status_record option"
  | RepTransition status_transition

text \<open>One request each; the boolean of an upsert is left out of the reply (see below).\<close>

fun mem_step :: "memory_store \<Rightarrow> status_op \<Rightarrow> status_reply \<times> memory_store" where
  "mem_step s (OpUpsert i st) = (RepDone, snd (mem_upsert_status s i st))"
| "mem_step s (OpDelete i) = (let (b, s') = mem_delete_status s i in (RepDeleted b, s'))"
| "mem_step s (OpFind i) = (RepStatus (mem_find_status s i), s)"
| "mem_step s (OpFindRecord i) = (RepRecord (mem_find_status_record s i), s)"
| "mem_step s (OpCas i e n) =
     (let (t, s') = mem_compare_and_set_status s i e n in (RepTransition t, s'))"

fun redis_step :: "redis_hash \<Rightarrow> status_op \<Rightarrow> status_reply \<times> redis_hash" where
  "redis_step h (OpUpsert i st) = (RepDone, snd (redis_upsert_status h i st))"
| "redis_step h (OpDelete i) = (let (b, h') = redis_delete_status h i in (RepDeleted b, h'))"
| "redis_step h (OpFind i) = (RepStatus (redis_find_status h i), h)"
| "redis_step h (OpFindRecord i) = (RepRecord (redis_find_status_record h i), h)"
| "redis_step h (OpCas i e n) =
     (let (t, h') = redis_compare_and_set_status h i e n in (RepTransition t, h'))"

fun run_ops :: "('s \<Rightarrow> status_op \<Rightarrow> status_reply \<times> 's) \<Rightarrow> 's \<Rightarrow> status_op list \<Rightarrow> status_reply list" where
  "run_ops step s [] = []"
| "run_ops step s (op # ops) = (let (r, s') = step s op in r # run_ops step s' ops)"

definition status_sim :: "memory_store \<Rightarrow> redis_hash \<Rightarrow> bool" where
  "status_sim s h \<longleftrightarrow> mem_invar s \<and> redis_invar h \<and>
     mem_find_status_record s = redis_find_status_record h"

lemma known_status_id [simp]: "known_status st = st"
  by (cases st) (simp_all add: known_status_def)

lemma mem_find_status_record:
  "mem_find_status s i = map_option sr_status (mem_find_status_record s i)"
  by (simp add: mem_find_status_def mem_find_status_record_def split: option.split)

lemma redis_find_status_record:
  "redis_invar h \<Longrightarrow> redis_find_status h i = map_option sr_status (redis_find_status_record h i)"
  using redis_find_some [of h i] by (simp add: redis_find_status_def split: option.split)

lemma status_sim_step:
  assumes "status_sim s h"
  shows "fst (mem_step s op) = fst (redis_step h op) \<and>
    status_sim (snd (mem_step s op)) (snd (redis_step h op))"
proof -
  from assms have i: "mem_invar s" "redis_invar h"
      and f: "mem_find_status_record s = redis_find_status_record h"
    by (simp_all add: status_sim_def)
  show ?thesis
  proof (cases op)
    case (OpUpsert j st)
    then show ?thesis
      using i f by (simp add: status_sim_def mem.find_upsert redis.find_upsert mem.invar_upsert
          redis.invar_upsert)
  next
    case (OpDelete j)
    then show ?thesis
      using i f mem.find_delete [of s j] redis.find_delete [of h j]
      by (simp add: status_sim_def mem.fst_delete redis.fst_delete mem.invar_delete
          redis.invar_delete split_beta)
  next
    case (OpCas j e n)
    then show ?thesis
      using i f mem.find_cas [of s j e n] redis.find_cas [of h j e n] mem.cas_outcome [of s j e n]
        redis.cas_outcome [of h j e n]
      by (auto simp: status_sim_def mem.invar_cas redis.invar_cas split_beta)
         (metis fst_conv)+
  qed (use i f assms in \<open>simp_all add: mem_find_status_record redis_find_status_record\<close>)
qed

lemma status_sim_run: "status_sim s h \<Longrightarrow> run_ops mem_step s ops = run_ops redis_step h ops"
proof (induction ops arbitrary: s h)
  case (Cons op ops)
  then show ?case
    using status_sim_step [of s h op] by (auto simp: split_beta)
qed simp

section \<open>Properties\<close>


fun race :: "memory_store \<Rightarrow> job_id \<Rightarrow> status_record option \<Rightarrow> status_record option list \<Rightarrow>
    status_transition list" where
  "race s i expected [] = []"
| "race s i expected (n # ns) =
     (let (t, s') = mem_compare_and_set_status s i expected n in t # race s' i expected ns)"

lemma race_lost:
  "mem_invar s \<Longrightarrow> mem_find_status_record s i \<noteq> expected \<Longrightarrow>
     race s i expected ns = replicate (length ns) (Conflict (mem_find_status_record s i))"
proof (induction ns arbitrary: s)
  case (Cons n ns)
  have "fst (mem_compare_and_set_status s i expected n) = Conflict (mem_find_status_record s i)"
      "mem_find_status_record (snd (mem_compare_and_set_status s i expected n)) =
        mem_find_status_record s"
    using mem.cas_mismatch Cons.prems by simp_all
  then show ?case
    using Cons.IH [of "snd (mem_compare_and_set_status s i expected n)"] Cons.prems mem.invar_cas
    by (simp add: split_beta)
qed simp

text \<open>
  A status transition is claimed by exactly one worker.  When any number of workers
  compare-and-set the same record to another one, in any repository state, the first is
  applied and every later one is refused and told the record of the winner.
\<close>

theorem single_winner:
  assumes inv: "mem_invar s" and cur: "mem_find_status_record s i = expected"
    and new: "n \<noteq> expected"
  shows "race s i expected (n # ns) = Applied # replicate (length ns) (Conflict n)"
proof -
  let ?s = "snd (mem_compare_and_set_status s i expected n)"
  have "fst (mem_compare_and_set_status s i expected n) = Applied"
      "mem_find_status_record ?s i = n"
    using mem.cas_match [OF inv cur, of n] by simp_all
  then show ?thesis
    using race_lost [OF mem.invar_cas [OF inv], of i expected n i expected ns] new
    by (simp add: split_beta)
qed

theorem single_winner_witness:
  "race [(5, \<lparr>sr_status = JpsPending, sr_retried = 0\<rparr>)] 5
     (Some \<lparr>sr_status = JpsPending, sr_retried = 0\<rparr>)
     [Some \<lparr>sr_status = JpsRunning, sr_retried = 0\<rparr>, Some \<lparr>sr_status = JpsRunning, sr_retried = 0\<rparr>,
      Some \<lparr>sr_status = JpsCancelling, sr_retried = 0\<rparr>] =
   [Applied, Conflict (Some \<lparr>sr_status = JpsRunning, sr_retried = 0\<rparr>),
    Conflict (Some \<lparr>sr_status = JpsRunning, sr_retried = 0\<rparr>)]"
  using single_winner [of "[(5, \<lparr>sr_status = JpsPending, sr_retried = 0\<rparr>)]" 5
      "Some \<lparr>sr_status = JpsPending, sr_retried = 0\<rparr>" "Some \<lparr>sr_status = JpsRunning, sr_retried = 0\<rparr>"
      "[Some \<lparr>sr_status = JpsRunning, sr_retried = 0\<rparr>, Some \<lparr>sr_status = JpsCancelling, sr_retried = 0\<rparr>]"]
  by (simp add: mem_invar_def mem_find_status_record_def)

text \<open>
  The boolean answers of an upsert are opposite in related states: the in-memory
  repository reports that a record was replaced, Redis that the field is new.
\<close>

theorem upsert_replies_opposite:
  "status_sim s h \<Longrightarrow> fst (mem_upsert_status s i st) = (\<not> fst (redis_upsert_status h i st))"
  using redis_find_some [of h i]
  by (simp add: status_sim_def mem_upsert_status_def redis_upsert_status_def hset_def hget_def
      mem_find_status_record_def fun_eq_iff Let_def)

theorem upsert_replies_opposite_witness:
  "fst (mem_upsert_status [] 5 JpsPending) = (\<not> fst (redis_upsert_status [] 5 JpsPending))"
  by (rule upsert_replies_opposite)
    (simp add: status_sim_def mem_invar_def redis_invar_def mem_find_status_record_def
      redis_find_status_record_def hget_def fun_eq_iff)

end
