(* ===== verification/Job_App.thy ===== *)
theory Job_App
  imports Chan_Queue Status_Claims Job_Status
begin

text \<open>
  The job application of the standalone build: \<^verbatim>\<open>app/src/app/job/rdb_chan.rs\<close> and what it
  takes from \<^verbatim>\<open>app/src/app/job.rs\<close>.  Its state is the database, the memory repository of
  statuses, the job cache and the channel queue.  The log records what leaves the application:
  index writes and stream tasks that are spawned, subscriptions, broadcasts, publications, and the
  runners that its worker starts.
  Error texts that print a whole message of the protocol are cut before it.
\<close>

section \<open>State and environment\<close>

record worker =
  wk_id :: "worker_id option"
  wk_data :: "worker_data option"

datatype app_effect =
    IndexSpawned status_index_update
  | Subscribed job_id bool
  | SubscriptionAborted job_id
  | CancelBroadcast job_id
  | PublishedResult i64 job_result_data bool
  | StreamTaskSpawned job_id
  | StreamPublished job_id
  | EndMarkerSpawned job_id result_output_item
  | RunnerStarted job_id u32

record 'c app_state =
  ap_db :: rdb
  ap_status :: memory_store
  ap_cache :: "job_id \<Rightarrow> (job \<times> u64 option) option"
  ap_queue :: "'c chan_queue"
  ap_log :: "app_effect list"

text \<open>Calls that can fail in the database or a library.\<close>

datatype app_call =
    AcCreate | AcUpsert | AcFind | AcDelete | AcMarkDeleted | AcIndexStatus | AcResetIndex
  | AcDeleteCache | AcPrepare | AcBroadcast | AcStaleIds
  | AcGrab | AcDispatch | AcRelease

text \<open>
  \<open>ae_others\<close> is what other tasks do to the statuses before an access, \<open>ae_wait\<close> what
  happens until the result of a direct job arrives, \<open>ae_admits\<close> whether the cache takes an
  entry.
\<close>

record 'c app_env =
  ae_ops :: "'c chan_ops"
  ae_codec :: job_codec
  ae_to_string :: json_writer
  ae_now :: "nat \<Rightarrow> i64"
  ae_fetch_interval :: u32
  ae_expire_job_result_seconds :: u32
  ae_index :: "job_status_config option"
  ae_id :: "job_worker_error + i64"
  ae_check_streaming :: "worker_id \<Rightarrow> worker_data \<Rightarrow> bool \<Rightarrow> string option \<Rightarrow> job_worker_error + unit"
  ae_find_worker :: "worker_id \<Rightarrow> job_worker_error + worker option"
  ae_find_worker_by_name :: "string \<Rightarrow> job_worker_error + worker option"
  ae_create_temp :: "worker_data \<Rightarrow> bool \<Rightarrow> job_worker_error + worker_id"
  ae_fails :: "app_call \<Rightarrow> job_worker_error option"
  ae_admits :: "job_id \<Rightarrow> bool"
  ae_others :: "nat \<Rightarrow> memory_store \<Rightarrow> memory_store"
  ae_wait :: "job_id \<Rightarrow> 'c app_state \<Rightarrow> (job_worker_error + job_result) \<times> 'c app_state"
  ae_publish :: "i64 \<Rightarrow> job_result_data \<Rightarrow> bool \<Rightarrow> job_worker_error + bool"

type_synonym ('c, 'a) app_result = "(job_worker_error + 'a) \<times> 'c app_state"

abbreviation app_emit :: "app_effect \<Rightarrow> 'c app_state \<Rightarrow> 'c app_state" where
  "app_emit ef s \<equiv> s\<lparr>ap_log := ap_log s @ [ef]\<rparr>"

definition db_error :: "db_failure \<Rightarrow> job_worker_error" where
  "db_error f =
     (case f of
        UniqueViolation \<Rightarrow> DBError ''unique constraint violated''
      | UnwrapNone \<Rightarrow> OtherError ''called `Option::unwrap()` on a `None` value''
      | Refused m \<Rightarrow> RuntimeError m)"

text \<open>A statement that may be answered by a failure of the database.\<close>

definition on_db ::
  "'c app_env \<Rightarrow> app_call \<Rightarrow> (rdb \<Rightarrow> db_failure + 'a \<times> rdb) \<Rightarrow> 'c app_state \<Rightarrow> ('c, 'a) app_result" where
  "on_db env call f s =
     (case ae_fails env call of
        Some e \<Rightarrow> (Inl e, s)
      | None \<Rightarrow>
          (case f (ap_db s) of
             Inl e \<Rightarrow> (Inl (db_error e), s)
           | Inr (x, db) \<Rightarrow> (Inr x, s\<lparr>ap_db := db\<rparr>)))"

section \<open>Time and cache\<close>

definition JOB_TTL_SAFETY_BUFFER_MS :: u64 where
  "JOB_TTL_SAFETY_BUFFER_MS = 300000"

definition is_run_after_job_data :: "'c app_env \<Rightarrow> i64 \<Rightarrow> job_data \<Rightarrow> bool" where
  "is_run_after_job_data env now d \<longleftrightarrow>
     jd_run_after_time d > i64_wrap (now + uint (ae_fetch_interval env))"

definition is_run_after_job :: "'c app_env \<Rightarrow> i64 \<Rightarrow> job \<Rightarrow> bool" where
  "is_run_after_job env now j =
     (case j_data j of None \<Rightarrow> False | Some d \<Rightarrow> is_run_after_job_data env now d)"

definition calculate_job_ttl :: "'c app_env \<Rightarrow> u64 \<Rightarrow> u64 option" where
  "calculate_job_ttl env timeout_ms =
     (if timeout_ms = 0 then
        (let expire_seconds = ae_expire_job_result_seconds env
         in if expire_seconds = 0 then None else Some (ucast expire_seconds * 1000))
      else Some (timeout_ms + JOB_TTL_SAFETY_BUFFER_MS))"

definition set_cache :: "'c app_env \<Rightarrow> job_id \<Rightarrow> job \<Rightarrow> u64 option \<Rightarrow> 'c app_state \<Rightarrow> 'c app_state" where
  "set_cache env i j ttl s =
     (if ae_admits env i then s\<lparr>ap_cache := (ap_cache s)(i \<mapsto> (j, ttl))\<rparr> else s)"

definition delete_cache :: "'c app_env \<Rightarrow> job_id \<Rightarrow> 'c app_state \<Rightarrow> 'c app_state" where
  "delete_cache env i s =
     (case ae_fails env AcDeleteCache of
        Some _ \<Rightarrow> s
      | None \<Rightarrow> s\<lparr>ap_cache := (ap_cache s)(i := None)\<rparr>)"

section \<open>Enqueueing\<close>

datatype pending_status_publication = NewEnqueue | RetryPublication

definition creates_status :: "pending_status_publication \<Rightarrow> bool" where
  "creates_status p \<longleftrightarrow> p = NewEnqueue"

definition set_pending :: "job_id \<Rightarrow> 'c app_state \<Rightarrow> 'c app_state" where
  "set_pending i s = s\<lparr>ap_status := snd (mem_upsert_status (ap_status s) i JpsPending)\<rparr>"

definition clear_status :: "job_id \<Rightarrow> 'c app_state \<Rightarrow> 'c app_state" where
  "clear_status i s = s\<lparr>ap_status := snd (mem_delete_status (ap_status s) i)\<rparr>"

definition enqueue_job_sync_enqueue_only ::
  "'c app_env \<Rightarrow> job \<Rightarrow> worker_data \<Rightarrow> bool \<Rightarrow> pending_status_publication \<Rightarrow> 'c app_state \<Rightarrow>
     ('c, job_id) app_result" where
  "enqueue_job_sync_enqueue_only env j w load_only publication s =
     (case j_id j of
        None \<Rightarrow> (Inl (db_error UnwrapNone), s)
      | Some i \<Rightarrow>
          if is_run_after_job env (ae_now env 2) j then
            (Inl (InvalidParameter ''run_after_time is not supported in rdb_chan mode''), s)
          else
            let owns = \<not> load_only \<and> creates_status publication;
                s1 = (if owns then set_pending i s else s)
            in case enqueue_job_with_load_only (ae_ops env) (ae_codec env) (w_channel w) j load_only
                      (ap_queue s1) of
                 (Inl e, q) \<Rightarrow>
                   (Inl e, let s2 = s1\<lparr>ap_queue := q\<rparr> in if owns then clear_status i s2 else s2)
               | (Inr _, q) \<Rightarrow>
                   (Inr i, let s2 = s1\<lparr>ap_queue := q\<rparr>
                           in if load_only then s2
                              else case j_data j of
                                     None \<Rightarrow> s2
                                   | Some d \<Rightarrow> set_cache env i j (calculate_job_ttl env (jd_timeout d)) s2))"

definition is_successful_result :: "job_result \<Rightarrow> bool" where
  "is_successful_result r =
     (case jres_data r of None \<Rightarrow> False | Some d \<Rightarrow> jr_status d = result_status_i32 RsSuccess)"

text \<open>The stream of a result is kept exactly when it was requested and the result is a success.\<close>

definition stream_for_successful_result :: "job_result \<Rightarrow> bool \<Rightarrow> bool" where
  "stream_for_successful_result r has_stream \<longleftrightarrow> has_stream \<and> is_successful_result r"

definition prepare_direct_response ::
  "'c app_env \<Rightarrow> job_id \<Rightarrow> bool \<Rightarrow> 'c app_state \<Rightarrow> ('c, unit) app_result" where
  "prepare_direct_response env i request_streaming s =
     (case ae_fails env AcPrepare of
        Some e \<Rightarrow> (Inl e, s)
      | None \<Rightarrow> (Inr (), app_emit (Subscribed i request_streaming) s))"

type_synonym enqueue_reply = "job_id \<times> job_result option \<times> bool"

definition enqueue_job_sync ::
  "'c app_env \<Rightarrow> job \<Rightarrow> worker_data \<Rightarrow> 'c app_state \<Rightarrow> ('c, enqueue_reply) app_result" where
  "enqueue_job_sync env j w s =
     (let resolved = resolve_job_params w (Option.bind (j_data j) jd_overrides);
          request_streaming = (case j_data j of None \<Rightarrow> False | Some d \<Rightarrow> jd_streaming_type d \<noteq> 0);
          direct = (rj_response_type resolved = response_type_i32 Direct)
      in case (if direct then
                 (case j_id j of
                    None \<Rightarrow> (Inl (InvalidParameter ''job id is missing''), s)
                  | Some i \<Rightarrow> prepare_direct_response env i request_streaming s)
               else (Inr (), s)) of
           (Inl e, s1) \<Rightarrow> (Inl e, s1)
         | (Inr _, s1) \<Rightarrow>
             (case enqueue_job_sync_enqueue_only env j w False NewEnqueue s1 of
                (Inl e, s2) \<Rightarrow>
                  (Inl e, if direct then app_emit (SubscriptionAborted (the (j_id j))) s2 else s2)
              | (Inr i, s2) \<Rightarrow>
                  if direct then
                    (case ae_wait env i s2 of
                       (Inl e, s3) \<Rightarrow> (Inl e, s3)
                     | (Inr r, s3) \<Rightarrow>
                         (Inr (i, Some r, stream_for_successful_result r request_streaming), s3))
                  else (Inr (i, None, False), s2)))"

definition index_job_status_async ::
  "'c app_env \<Rightarrow> status_index_update \<Rightarrow> 'c app_state \<Rightarrow> 'c app_state" where
  "index_job_status_async env u s =
     (case ae_index env of None \<Rightarrow> s | Some _ \<Rightarrow> app_emit (IndexSpawned u) s)"

record enqueue_args =
  ea_metadata :: metadata
  ea_args :: bytes
  ea_uniq_key :: "string option"
  ea_run_after_time :: i64
  ea_priority :: i32
  ea_timeout :: u64
  ea_reserved_job_id :: "job_id option"
  ea_streaming_type :: streaming_type
  ea_using :: "string option"
  ea_overrides :: "job_execution_overrides option"

definition new_job_data :: "'c app_env \<Rightarrow> worker_id \<Rightarrow> enqueue_args \<Rightarrow> job_data" where
  "new_job_data env wid a =
     \<lparr>jd_worker_id = Some wid, jd_args = ea_args a, jd_uniq_key = ea_uniq_key a,
      jd_enqueue_time = ae_now env 0, jd_grabbed_until_time = None,
      jd_run_after_time = ea_run_after_time a, jd_retried = 0, jd_priority = ea_priority a,
      jd_timeout = ea_timeout a, jd_streaming_type = streaming_type_i32 (ea_streaming_type a),
      jd_using = ea_using a, jd_overrides = ea_overrides a\<rparr>"

definition pending_update ::
  "worker_id \<Rightarrow> worker_data \<Rightarrow> job_id \<Rightarrow> enqueue_args \<Rightarrow> job_data \<Rightarrow> resolved_job_params \<Rightarrow>
     status_index_update" where
  "pending_update wid w i a d resolved =
     \<lparr>su_job_id = i, su_status = JpsPending, su_worker_id = wid, su_channel = w_channel w,
      su_priority = ea_priority a, su_enqueue_time = jd_enqueue_time d,
      su_is_streamable = (ea_streaming_type a \<noteq> StNone),
      su_broadcast_results = rj_broadcast_results resolved, su_worker_instance_id = None\<rparr>"

text \<open>Indexing after a successful step of the enqueue.\<close>

definition then_index ::
  "'c app_env \<Rightarrow> status_index_update \<Rightarrow> ('c, 'a) app_result \<Rightarrow> ('c, 'a) app_result" where
  "then_index env u r =
     (case r of
        (Inl e, s) \<Rightarrow> (Inl e, s)
      | (Inr x, s) \<Rightarrow> (Inr x, index_job_status_async env u s))"

definition create_row :: "'c app_env \<Rightarrow> job \<Rightarrow> 'c app_state \<Rightarrow> ('c, bool) app_result" where
  "create_row env j s = on_db env AcCreate (job_create j) s"

definition cannot_create :: "job_id \<Rightarrow> job_worker_error" where
  "cannot_create i = RuntimeError (''cannot create record: '' @ show_int i)"

definition enqueue_to_rdb ::
  "'c app_env \<Rightarrow> job_id \<Rightarrow> job \<Rightarrow> bool \<Rightarrow> 'c app_state \<Rightarrow> ('c, enqueue_reply) app_result" where
  "enqueue_to_rdb env i j publish s =
     (case create_row env j s of
        (Inl e, s1) \<Rightarrow> (Inl e, s1)
      | (Inr created, s1) \<Rightarrow>
          if created then (Inr (i, None, False), if publish then set_pending i s1 else s1)
          else (Inl (cannot_create i), s1))"

definition enqueue_with_backup ::
  "'c app_env \<Rightarrow> job \<Rightarrow> worker_data \<Rightarrow> 'c app_state \<Rightarrow> ('c, enqueue_reply) app_result" where
  "enqueue_with_backup env j w s =
     (case create_row env j s of
        (Inl e, s1) \<Rightarrow> (Inl e, s1)
      | (Inr _, s1) \<Rightarrow> enqueue_job_sync env j w s1)"

definition route_new_job ::
  "'c app_env \<Rightarrow> worker_data \<Rightarrow> resolved_job_params \<Rightarrow> job_id \<Rightarrow> job \<Rightarrow> job_data \<Rightarrow> 'c app_state \<Rightarrow>
     ('c, enqueue_reply) app_result" where
  "route_new_job env w resolved i j d s =
     (if rj_response_type resolved = response_type_i32 Direct then enqueue_job_sync env j w s
      else if w_periodic_interval w > 0 \<or> is_run_after_job_data env (ae_now env 2) d then
        enqueue_to_rdb env i j True s
      else if w_queue_type w = queue_type_i32 QtWithBackup then enqueue_with_backup env j w s
      else if w_queue_type w = queue_type_i32 QtDbOnly then enqueue_to_rdb env i j False s
      else enqueue_job_sync env j w s)"

definition scheduled_data :: "'c app_env \<Rightarrow> worker_data \<Rightarrow> job_data \<Rightarrow> job_data" where
  "scheduled_data env w d =
     (if (w_periodic_interval w > 0 \<or> w_queue_type w = queue_type_i32 QtDbOnly) \<and> jd_run_after_time d = 0
      then d\<lparr>jd_run_after_time := ae_now env 1\<rparr> else d)"

definition enqueue_job_with_worker ::
  "'c app_env \<Rightarrow> worker \<Rightarrow> enqueue_args \<Rightarrow> 'c app_state \<Rightarrow> ('c, enqueue_reply) app_result" where
  "enqueue_job_with_worker env worker a s =
     (case (wk_id worker, wk_data worker) of
        (Some wid, Some w) \<Rightarrow>
          (case ae_check_streaming env wid w (ea_streaming_type a \<noteq> StNone) (ea_using a) of
             Inl e \<Rightarrow> (Inl e, s)
           | Inr _ \<Rightarrow>
          case resolve_and_validate_job_params w (ea_overrides a) of
             Inl e \<Rightarrow> (Inl e, s)
           | Inr resolved \<Rightarrow>
               if ea_run_after_time a > 0 \<and> rj_response_type resolved = response_type_i32 Direct then
                 (Inl (InvalidParameter ''run_after_time must be 0 for worker response_type=Direct''), s)
               else
          case ae_id env of
             Inl e \<Rightarrow> (Inl e, s)
           | Inr new_id \<Rightarrow>
               let i = unwrap_or (ea_reserved_job_id a) new_id;
                   d = scheduled_data env w (new_job_data env wid a);
                   j = \<lparr>j_id = Some i, j_data = Some d, j_metadata = ea_metadata a\<rparr>
               in then_index env (pending_update wid w i a d resolved)
                    (route_new_job env w resolved i j d s))
      | _ \<Rightarrow> (Inl (WorkerNotFound ''illegal worker structure with empty''), s))"

definition enqueue_job_with_temp_worker ::
  "'c app_env \<Rightarrow> worker_data \<Rightarrow> bool \<Rightarrow> enqueue_args \<Rightarrow> 'c app_state \<Rightarrow> ('c, enqueue_reply) app_result" where
  "enqueue_job_with_temp_worker env w with_random_name a s =
     (case ae_create_temp env w with_random_name of
        Inl e \<Rightarrow> (Inl e, s)
      | Inr wid \<Rightarrow> enqueue_job_with_worker env \<lparr>wk_id = Some wid, wk_data = Some w\<rparr> a s)"

definition app_enqueue_job ::
  "'c app_env \<Rightarrow> worker_id option \<Rightarrow> string option \<Rightarrow> enqueue_args \<Rightarrow> 'c app_state \<Rightarrow>
     ('c, enqueue_reply) app_result" where
  "app_enqueue_job env wid name a s =
     (case (case wid of
              Some i \<Rightarrow> ae_find_worker env i
            | None \<Rightarrow>
                (case name of
                   Some n \<Rightarrow> ae_find_worker_by_name env n
                 | None \<Rightarrow> Inl (WorkerNotFound ''worker_id or worker_name is required''))) of
        Inl e \<Rightarrow> (Inl e, s)
      | Inr (Some w) \<Rightarrow> enqueue_job_with_worker env w a s
      | Inr None \<Rightarrow> (Inl (WorkerNotFound ''name''), s))"

text \<open>A result that is already there, or one that a subscription still waits for.\<close>

datatype channel_future = ReadyFuture "job_result option" bool | WaitingFuture bool

definition enqueue_job_with_channel ::
  "'c app_env \<Rightarrow> worker \<Rightarrow> enqueue_args \<Rightarrow> 'c app_state \<Rightarrow> ('c, job_id \<times> channel_future) app_result" where
  "enqueue_job_with_channel env worker a s =
     (case (wk_id worker, wk_data worker) of
        (Some wid, Some w) \<Rightarrow>
          (let request_streaming = (ea_streaming_type a \<noteq> StNone)
           in case ae_check_streaming env wid w request_streaming (ea_using a) of
             Inl e \<Rightarrow> (Inl e, s)
           | Inr _ \<Rightarrow>
          case resolve_and_validate_job_params w (ea_overrides a) of
             Inl e \<Rightarrow> (Inl e, s)
           | Inr resolved \<Rightarrow>
               if \<not> (rj_response_type resolved = response_type_i32 Direct \<and> ea_run_after_time a = 0 \<and>
                      w_periodic_interval w = 0 \<and>
                      (w_queue_type w = queue_type_i32 QtNormal \<or> w_queue_type w = queue_type_i32 QtWithBackup))
               then (case enqueue_job_with_worker env worker a s of
                       (Inl e, s1) \<Rightarrow> (Inl e, s1)
                     | (Inr (i, r, stream), s1) \<Rightarrow> (Inr (i, ReadyFuture r stream), s1))
               else
          case ae_id env of
             Inl e \<Rightarrow> (Inl e, s)
           | Inr new_id \<Rightarrow>
               let i = unwrap_or (ea_reserved_job_id a) new_id;
                   d = new_job_data env wid a;
                   j = \<lparr>j_id = Some i, j_data = Some d, j_metadata = ea_metadata a\<rparr>
               in case prepare_direct_response env i request_streaming s of
                    (Inl e, s1) \<Rightarrow> (Inl e, s1)
                  | (Inr _, s1) \<Rightarrow>
                      (case enqueue_job_sync_enqueue_only env j w False NewEnqueue s1 of
                         (Inl e, s2) \<Rightarrow> (Inl e, app_emit (SubscriptionAborted i) s2)
                       | (Inr i', s2) \<Rightarrow>
                           (Inr (i', WaitingFuture request_streaming),
                            index_job_status_async env (pending_update wid w i a d resolved) s2)))
      | _ \<Rightarrow> (Inl (WorkerNotFound ''worker id or data is missing''), s))"

definition DEFAULT_LOAD_TIMEOUT_MS :: u64 where
  "DEFAULT_LOAD_TIMEOUT_MS = 600000"

definition build_load_job :: "i64 \<Rightarrow> job_id \<Rightarrow> worker_id \<Rightarrow> u64 option \<Rightarrow> job" where
  "build_load_job now i wid timeout_ms =
     \<lparr>j_id = Some i,
      j_data = Some
        \<lparr>jd_worker_id = Some wid, jd_args = [], jd_uniq_key = None, jd_enqueue_time = now,
         jd_grabbed_until_time = None, jd_run_after_time = 0, jd_retried = 0, jd_priority = 0,
         jd_timeout = unwrap_or timeout_ms DEFAULT_LOAD_TIMEOUT_MS,
         jd_streaming_type = streaming_type_i32 StNone, jd_using = None,
         jd_overrides = Some
           \<lparr>ov_response_type = Some (response_type_i32 Direct), ov_store_success = Some False,
            ov_store_failure = Some False, ov_broadcast_results = Some False, ov_retry_policy = None\<rparr>\<rparr>,
      j_metadata = Map.empty\<rparr>"

definition load_result_to_outcome :: "worker_id \<Rightarrow> job_result option \<Rightarrow> job_worker_error + bool" where
  "load_result_to_outcome wid r =
     (case Option.bind r jres_data of
        None \<Rightarrow> Inl (TimeoutError (''load timed out or returned no result for worker '' @ show_int wid))
      | Some d \<Rightarrow>
          if jr_status d = result_status_i32 RsSuccess then Inr True
          else Inl (RuntimeError (''load failed for worker '' @ show_int wid @ '': '' @
            unwrap_or (jr_output d) [])))"

definition load_worker ::
  "'c app_env \<Rightarrow> worker_id \<Rightarrow> u64 option \<Rightarrow> 'c app_state \<Rightarrow> ('c, bool) app_result" where
  "load_worker env wid timeout_ms s =
     (case ae_find_worker env wid of
        Inl e \<Rightarrow> (Inl e, s)
      | Inr found \<Rightarrow>
          (case (Option.bind found wk_id, Option.bind found wk_data) of
             (Some _, Some w) \<Rightarrow>
               (case ae_id env of
                  Inl e \<Rightarrow> (Inl e, s)
                | Inr i \<Rightarrow>
                    (case enqueue_job_sync_enqueue_only env (build_load_job (ae_now env 0) i wid timeout_ms)
                            w True RetryPublication s of
                       (Inl e, s1) \<Rightarrow> (Inl e, s1)
                     | (Inr _, s1) \<Rightarrow>
                         (case ae_wait env i s1 of
                            (Inl e, s2) \<Rightarrow> (Inl e, s2)
                          | (Inr r, s2) \<Rightarrow> (load_result_to_outcome wid (Some r), s2))))
           | _ \<Rightarrow> (Inl (WorkerNotFound (''worker not found: '' @ show_int wid)), s)))"

section \<open>Updating and completing\<close>

definition reset_index_to_pending_for_retry :: "'c app_env \<Rightarrow> job_id \<Rightarrow> 'c app_state \<Rightarrow> 'c app_state" where
  "reset_index_to_pending_for_retry env i s =
     (case (ae_index env, ae_fails env AcResetIndex) of
        (Some cfg, None) \<Rightarrow> s\<lparr>ap_db := reset_to_pending_by_job_id cfg (ae_now env 3) i (ap_db s)\<rparr>
      | _ \<Rightarrow> s)"

definition result_or :: "'e + 'a \<Rightarrow> 'e + 'a \<Rightarrow> 'e + 'a" where
  "result_or a b = (case a of Inr x \<Rightarrow> Inr x | Inl _ \<Rightarrow> b)"

definition uses_rdb_queue :: "bool \<Rightarrow> worker_data \<Rightarrow> bool" where
  "uses_rdb_queue run_after w \<longleftrightarrow>
     run_after \<or> w_periodic_interval w > 0 \<or> w_queue_type w = queue_type_i32 QtDbOnly \<or>
     w_queue_type w = queue_type_i32 QtWithBackup"

definition uses_chan_queue :: "bool \<Rightarrow> worker_data \<Rightarrow> bool" where
  "uses_chan_queue run_after w \<longleftrightarrow>
     \<not> run_after \<and> w_periodic_interval w = 0 \<and>
     (w_queue_type w = queue_type_i32 QtNormal \<or> w_queue_type w = queue_type_i32 QtWithBackup)"

definition find_data_by_opt :: "'c app_env \<Rightarrow> worker_id option \<Rightarrow> job_worker_error + worker_data option" where
  "find_data_by_opt env wid =
     (case wid of
        None \<Rightarrow> Inr None
      | Some i \<Rightarrow> bindE (ae_find_worker env i) (\<lambda>w. Inr (Option.bind w wk_data)))"

definition update_job :: "'c app_env \<Rightarrow> job \<Rightarrow> 'c app_state \<Rightarrow> ('c, unit) app_result" where
  "update_job env j s =
     (case (j_id j, j_data j) of
        (Some i, Some d) \<Rightarrow>
          (let run_after = is_run_after_job_data env (ae_now env 0) d
           in case find_data_by_opt env (jd_worker_id d) of
                Inr (Some w) \<Rightarrow>
                  (case (if uses_rdb_queue run_after w
                         then on_db env AcUpsert
                                (upsert_with_pending_status_reset (ae_index env) (ae_now env 3) i d) s
                         else (Inr False, reset_index_to_pending_for_retry env i s)) of
                     (res_db, s1) \<Rightarrow>
                   case (if uses_chan_queue run_after w
                         then (case enqueue_job_sync_enqueue_only env j w False RetryPublication s1 of
                                 (Inl e, s2) \<Rightarrow> (Inl e, s2)
                               | (Inr _, s2) \<Rightarrow> (Inr True, s2))
                         else (Inr False, s1)) of
                     (res_chan, s2) \<Rightarrow>
                   case result_or res_chan res_db of
                     Inr _ \<Rightarrow> (Inr (), delete_cache env i s2)
                   | Inl e \<Rightarrow> (Inl e, s2))
              | _ \<Rightarrow> (Inl (WorkerNotFound ''in re-enqueue job''), s))
      | _ \<Rightarrow> (Inl (NotFound ''illegal re-enqueue job''), s))"

text \<open>The status repository of memory never fails, so neither does the cleanup.\<close>

definition mark_index_deleted :: "'c app_env \<Rightarrow> job_id \<Rightarrow> 'c app_state \<Rightarrow> 'c app_state" where
  "mark_index_deleted env i s =
     (case (ae_index env, ae_fails env AcMarkDeleted) of
        (Some cfg, None) \<Rightarrow> s\<lparr>ap_db := mark_deleted_by_job_id cfg (ae_now env 4) i (ap_db s)\<rparr>
      | _ \<Rightarrow> s)"

definition delete_row :: "'c app_env \<Rightarrow> job_id \<Rightarrow> 'c app_state \<Rightarrow> ('c, bool) app_result" where
  "delete_row env i s = on_db env AcDelete (\<lambda>db. Inr (job_delete i db)) s"

definition cleanup_job :: "'c app_env \<Rightarrow> job_id \<Rightarrow> 'c app_state \<Rightarrow> ('c, unit) app_result" where
  "cleanup_job env i s =
     (Inr (), clear_status i (delete_cache env i (snd (delete_row env i (mark_index_deleted env i s)))))"

definition response_type_try_from :: "i32 \<Rightarrow> response_type option" where
  "response_type_try_from n =
     List.find (\<lambda>t. response_type_i32 t = n) [NoResult, Direct]"

text \<open>The End of a job that failed before it had a stream; building it may panic.\<close>

definition end_marker_failure :: "'c app_env \<Rightarrow> job_result_data \<Rightarrow> panic + stream_error" where
  "end_marker_failure env d =
     (case (case jr_error d of
              Some e \<Rightarrow> if se_code e \<noteq> stream_error_code_i32 SecUnspecified then Some e else None
            | None \<Rightarrow> None) of
        Some e \<Rightarrow> Inr e
      | None \<Rightarrow>
          if jr_status d = result_status_i32 RsCancelled
          then cancelled_by_worker (ae_to_string env) ''job was cancelled before its result stream started''
          else classified_error (ae_to_string env) SecExecutionFailed
                 ''job failed before its result stream started'' WORKER_ORIGIN)"

definition spawn_end_marker_if_needed ::
  "'c app_env \<Rightarrow> job_result_data \<Rightarrow> job_id \<Rightarrow> 'c app_state \<Rightarrow> ('c, bool) app_result" where
  "spawn_end_marker_if_needed env d i s =
     (if jr_streaming_type d \<noteq> streaming_type_i32 StNone \<and> jr_status d \<noteq> result_status_i32 RsSuccess
      then (case bindE (end_marker_failure env d) (error_end_item_from (ae_to_string env) Map.empty) of
              Inl (Panic m) \<Rightarrow> (Inl (OtherError m), s)
            | Inr item \<Rightarrow> (Inr True, app_emit (EndMarkerSpawned i item) s))
      else (Inr False, s))"

text \<open>The task that publishes a stream and then cleans up; it runs when the stream has ended.\<close>

definition stream_task :: "'c app_env \<Rightarrow> job_id \<Rightarrow> 'c app_state \<Rightarrow> 'c app_state" where
  "stream_task env i s = snd (cleanup_job env i (app_emit (StreamPublished i) s))"

definition finish_response ::
  "'c app_env \<Rightarrow> i64 \<Rightarrow> job_result_data \<Rightarrow> job_id \<Rightarrow> bool \<Rightarrow> bool \<Rightarrow> 'c app_state \<Rightarrow> ('c, bool \<times> bool) app_result" where
  "finish_response env rid d i to_listen has_stream s =
     (let published = ae_publish env rid d to_listen;
          s1 = app_emit (PublishedResult rid d to_listen) s
      in if has_stream then
           (map_sum id (\<lambda>b. (b, True)) published, app_emit (StreamTaskSpawned i) s1)
         else
           (case spawn_end_marker_if_needed env d i s1 of
              (Inl e, s2) \<Rightarrow> (Inl e, s2)
            | (Inr rx, s2) \<Rightarrow>
                (map_sum id (\<lambda>b. (b, rx)) published, snd (cleanup_job env i s2))))"

definition complete_job ::
  "'c app_env \<Rightarrow> i64 \<Rightarrow> job_result_data \<Rightarrow> bool \<Rightarrow> 'c app_state \<Rightarrow> ('c, bool \<times> bool) app_result" where
  "complete_job env rid d has_stream s =
     (case jr_job_id d of
        None \<Rightarrow> (Inr (False, False), s)
      | Some i \<Rightarrow>
          (case response_type_try_from (jr_response_type d) of
             Some Direct \<Rightarrow> finish_response env rid d i True has_stream s
           | Some _ \<Rightarrow> finish_response env rid d i (jr_broadcast_results d) has_stream s
           | None \<Rightarrow> (Inr (False, False), snd (cleanup_job env i s))))"

section \<open>Cancelling\<close>

text \<open>
  The lifecycle of a cancellation is shared by the applications; a backend supplies the accesses
  to its status repository (numbered, since others act before each of them) and its hooks.
\<close>

definition MAX_CANCELLATION_STATUS_TRANSITION_ATTEMPTS :: nat where
  "MAX_CANCELLATION_STATUS_TRANSITION_ATTEMPTS = 3"

datatype pending_cancellation_disposition = AwaitQueuedDelivery | FinalizedWithoutDelivery

record 's cancel_backend =
  cb_find :: "nat \<Rightarrow> job_id \<Rightarrow> 's \<Rightarrow> (job_worker_error + status_record option) \<times> 's"
  cb_cas :: "nat \<Rightarrow> job_id \<Rightarrow> status_record \<Rightarrow> status_record \<Rightarrow> 's \<Rightarrow> (job_worker_error + status_transition) \<times> 's"
  cb_delete_status :: "job_id \<Rightarrow> 's \<Rightarrow> (job_worker_error + unit) \<times> 's"
  cb_record_cancelling_index :: "job_id \<Rightarrow> 's \<Rightarrow> 's"
  cb_remove_pending :: "job_id \<Rightarrow> 's \<Rightarrow> (job_worker_error + pending_cancellation_disposition) \<times> 's"
  cb_cancel_unpublished :: "job_id \<Rightarrow> 's \<Rightarrow> (job_worker_error + bool) \<times> 's"
  cb_record_completion :: "job_id \<Rightarrow> 's \<Rightarrow> 's"
  cb_broadcast :: "job_id \<Rightarrow> 's \<Rightarrow> (job_worker_error + unit) \<times> 's"

definition applied_cancellation ::
  "'s cancel_backend \<Rightarrow> job_id \<Rightarrow> status_record \<Rightarrow> 's \<Rightarrow> (job_worker_error + bool) \<times> 's" where
  "applied_cancellation cb i r s =
     (let s1 = cb_record_cancelling_index cb i s
      in if sr_status r = JpsPending then
           (case cb_remove_pending cb i s1 of
              (Inl e, s2) \<Rightarrow> (Inl e, s2)
            | (Inr AwaitQueuedDelivery, s2) \<Rightarrow> (Inr True, s2)
            | (Inr FinalizedWithoutDelivery, s2) \<Rightarrow>
                (case cb_delete_status cb i (cb_record_completion cb i s2) of
                   (Inl e, s3) \<Rightarrow> (Inl e, s3)
                 | (Inr _, s3) \<Rightarrow> (Inr True, s3)))
         else
           (case cb_broadcast cb i s1 of
              (Inl e, s2) \<Rightarrow> (Inl e, s2)
            | (Inr _, s2) \<Rightarrow> (Inr True, s2)))"

fun cancel_attempts ::
  "'s cancel_backend \<Rightarrow> job_id \<Rightarrow> nat \<Rightarrow> status_record \<Rightarrow> 's \<Rightarrow> (job_worker_error + bool) \<times> 's" where
  "cancel_attempts cb i 0 r s =
     (case cb_find cb 4 i s of
        (Inl e, s1) \<Rightarrow> (Inl e, s1)
      | (Inr found, s1) \<Rightarrow>
          (Inr (case found of None \<Rightarrow> False | Some c \<Rightarrow> sr_status c = JpsCancelling), s1))"
| "cancel_attempts cb i (Suc k) r s =
     (if sr_status r = JpsUnknown then (Inr False, s)
      else if sr_status r = JpsCancelling then (Inr True, s)
      else case cb_cas cb (Suc k) i r \<lparr>sr_status = JpsCancelling, sr_retried = sr_retried r\<rparr> s of
             (Inl e, s1) \<Rightarrow> (Inl e, s1)
           | (Inr Applied, s1) \<Rightarrow> applied_cancellation cb i r s1
           | (Inr (status_transition.Conflict (Some current)), s1) \<Rightarrow> cancel_attempts cb i k current s1
           | (Inr (status_transition.Conflict None), s1) \<Rightarrow> (Inr False, s1))"

definition cancel_job_lifecycle ::
  "'s cancel_backend \<Rightarrow> job_id \<Rightarrow> 's \<Rightarrow> (job_worker_error + bool) \<times> 's" where
  "cancel_job_lifecycle cb i s =
     (case cb_find cb 0 i s of
        (Inl e, s1) \<Rightarrow> (Inl e, s1)
      | (Inr None, s1) \<Rightarrow> cb_cancel_unpublished cb i s1
      | (Inr (Some r), s1) \<Rightarrow>
          if sr_status r = JpsUnknown then (Inr False, s1)
          else cancel_attempts cb i MAX_CANCELLATION_STATUS_TRANSITION_ATTEMPTS r s1)"

definition is_rdb_only_pending_job :: "'c app_env \<Rightarrow> job \<Rightarrow> bool \<Rightarrow> job_worker_error + bool" where
  "is_rdb_only_pending_job env j is_run_after =
     (if is_run_after then Inr True
      else case Option.bind (j_data j) jd_worker_id of
             None \<Rightarrow> Inr False
           | Some wid \<Rightarrow>
               bindE (ae_find_worker env wid) (\<lambda>found.
                 Inr (case Option.bind found wk_data of
                        None \<Rightarrow> False
                      | Some w \<Rightarrow> w_periodic_interval w > 0 \<or> w_queue_type w = queue_type_i32 QtDbOnly)))"

definition find_row :: "'c app_env \<Rightarrow> job_id \<Rightarrow> 'c app_state \<Rightarrow> job_worker_error + job option" where
  "find_row env i s =
     (case ae_fails env AcFind of Some e \<Rightarrow> Inl e | None \<Rightarrow> Inr (job_find i (ap_db s)))"

definition remove_pending_rdb_job ::
  "'c app_env \<Rightarrow> job_id \<Rightarrow> 'c app_state \<Rightarrow> ('c, pending_cancellation_disposition) app_result" where
  "remove_pending_rdb_job env i s =
     (case bindE (find_row env i s) (\<lambda>found.
             case found of
               Some j \<Rightarrow> is_rdb_only_pending_job env j (is_run_after_job env (ae_now env 2) j)
             | None \<Rightarrow> Inr False) of
        Inl e \<Rightarrow> (Inl e, s)
      | Inr rdb_only \<Rightarrow>
          (case delete_row env i s of
             (Inr deleted, s1) \<Rightarrow>
               (Inr (if deleted \<and> rdb_only then FinalizedWithoutDelivery else AwaitQueuedDelivery), s1)
           | (Inl _, s1) \<Rightarrow> (Inr AwaitQueuedDelivery, s1)))"

definition remove_unpublished_rdb_only_job ::
  "'c app_env \<Rightarrow> job_id \<Rightarrow> 'c app_state \<Rightarrow> ('c, bool) app_result" where
  "remove_unpublished_rdb_only_job env i s =
     (case find_row env i s of
        Inl e \<Rightarrow> (Inl e, s)
      | Inr None \<Rightarrow> (Inr False, s)
      | Inr (Some j) \<Rightarrow>
          (case is_rdb_only_pending_job env j (is_run_after_job env (ae_now env 2) j) of
             Inl e \<Rightarrow> (Inl e, s)
           | Inr False \<Rightarrow> (Inr False, s)
           | Inr True \<Rightarrow> delete_row env i s))"

definition record_cancelling_index :: "'c app_env \<Rightarrow> job_id \<Rightarrow> 'c app_state \<Rightarrow> 'c app_state" where
  "record_cancelling_index env i s =
     (case (ae_index env, ae_fails env AcIndexStatus) of
        (Some cfg, None) \<Rightarrow>
          s\<lparr>ap_db := update_status_by_job_id cfg (ae_now env 3) i JpsCancelling (ap_db s)\<rparr>
      | _ \<Rightarrow> s)"

definition broadcast_cancelled_job :: "'c app_env \<Rightarrow> job_id \<Rightarrow> 'c app_state \<Rightarrow> ('c, unit) app_result" where
  "broadcast_cancelled_job env i s =
     (case ae_fails env AcBroadcast of
        Some e \<Rightarrow> (Inl e, s)
      | None \<Rightarrow> (Inr (), app_emit (CancelBroadcast i) s))"

definition others_act :: "'c app_env \<Rightarrow> nat \<Rightarrow> 'c app_state \<Rightarrow> 'c app_state" where
  "others_act env n s = s\<lparr>ap_status := ae_others env n (ap_status s)\<rparr>"

definition standalone_backend :: "'c app_env \<Rightarrow> 'c app_state cancel_backend" where
  "standalone_backend env =
     \<lparr>cb_find = (\<lambda>n i s. let s1 = others_act env n s in (Inr (mem_find_status_record (ap_status s1) i), s1)),
      cb_cas = (\<lambda>n i r r' s.
        let s1 = others_act env n s
        in case mem_compare_and_set_status (ap_status s1) i (Some r) (Some r') of
             (t, st) \<Rightarrow> (Inr t, s1\<lparr>ap_status := st\<rparr>)),
      cb_delete_status = (\<lambda>i s. (Inr (), clear_status i s)),
      cb_record_cancelling_index = record_cancelling_index env,
      cb_remove_pending = remove_pending_rdb_job env,
      cb_cancel_unpublished = remove_unpublished_rdb_only_job env,
      cb_record_completion = mark_index_deleted env,
      cb_broadcast = broadcast_cancelled_job env\<rparr>"

definition cancel_job :: "'c app_env \<Rightarrow> job_id \<Rightarrow> 'c app_state \<Rightarrow> ('c, bool) app_result" where
  "cancel_job env i s = cancel_job_lifecycle (standalone_backend env) i s"

definition delete_job :: "'c app_env \<Rightarrow> job_id \<Rightarrow> 'c app_state \<Rightarrow> ('c, bool) app_result" where
  "delete_job env i s = cancel_job env i s"

section \<open>Queries and maintenance\<close>

definition find_job :: "'c app_env \<Rightarrow> job_id \<Rightarrow> 'c app_state \<Rightarrow> ('c, job option) app_result" where
  "find_job env i s =
     (case ap_cache s i of
        Some (j, _) \<Rightarrow> (Inr (Some j), s)
      | None \<Rightarrow>
          (case find_row env i s of
             Inl e \<Rightarrow> (Inl e, s)
           | Inr None \<Rightarrow> (Inr None, s)
           | Inr (Some j) \<Rightarrow>
               (Inr (Some j),
                case j_data j of
                  None \<Rightarrow> s
                | Some d \<Rightarrow> set_cache env i j (calculate_job_ttl env (jd_timeout d)) s)))"

definition find_job_list ::
  "'c app_env \<Rightarrow> i32 option \<Rightarrow> i64 option \<Rightarrow> 'c app_state \<Rightarrow> job_worker_error + job list" where
  "find_job_list env cap off s =
     (case ae_fails env AcFind of Some e \<Rightarrow> Inl e | None \<Rightarrow> Inr (job_find_list cap off (ap_db s)))"

text \<open>\<^verbatim>\<open>as usize\<close> of a 32-bit limit.\<close>

definition as_usize :: "i32 \<Rightarrow> nat" where
  "as_usize n = nat (n mod 2 ^ 64)"

text \<open>The limit is looked at after each job that was added.\<close>

fun take_with_limit :: "i32 option \<Rightarrow> 'a list \<Rightarrow> 'a list \<Rightarrow> 'a list" where
  "take_with_limit cap acc [] = acc"
| "take_with_limit cap acc (x # xs) =
     (let acc' = acc @ [x]
      in if (case cap of None \<Rightarrow> False | Some l \<Rightarrow> length acc' \<ge> as_usize l) then acc'
         else take_with_limit cap acc' xs)"

definition find_job_queue_list ::
  "i32 option \<Rightarrow> string option \<Rightarrow> 'c app_state \<Rightarrow> panic + (job \<times> job_processing_status option) list" where
  "find_job_queue_list cap channel s =
     bindE (find_multi_from_queue channel None (ap_queue s)) (\<lambda>jobs.
       Inr (take_with_limit cap []
         (map (\<lambda>j. (j, mem_find_status (ap_status s) (the (j_id j))))
           (filter (\<lambda>j. j_id j \<noteq> None) jobs))))"

fun find_jobs_of :: "'c app_env \<Rightarrow> job_processing_status \<Rightarrow> job_id list \<Rightarrow> 'c app_state \<Rightarrow>
    ('c, (job \<times> job_processing_status) list) app_result" where
  "find_jobs_of env st [] s = (Inr [], s)"
| "find_jobs_of env st (i # is) s =
     (case find_job env i s of
        (Inl e, s1) \<Rightarrow> (Inl e, s1)
      | (Inr found, s1) \<Rightarrow>
          (case find_jobs_of env st is s1 of
             (Inl e, s2) \<Rightarrow> (Inl e, s2)
           | (Inr js, s2) \<Rightarrow> (Inr (case found of None \<Rightarrow> js | Some j \<Rightarrow> (j, st) # js), s2)))"

definition find_list_with_processing_status ::
  "'c app_env \<Rightarrow> job_processing_status \<Rightarrow> i32 option \<Rightarrow> 'c app_state \<Rightarrow>
     ('c, (job \<times> job_processing_status) list) app_result" where
  "find_list_with_processing_status env st cap s =
     find_jobs_of env st
       (take (as_usize (unwrap_or cap 100))
         (map fst (filter (\<lambda>(i, x). x = st) (mem_find_status_all (ap_status s))))) s"

definition find_job_status :: "job_id \<Rightarrow> 'c app_state \<Rightarrow> job_processing_status option" where
  "find_job_status i s = mem_find_status (ap_status s) i"

definition find_all_job_status :: "'c app_state \<Rightarrow> (job_id \<times> job_processing_status) list" where
  "find_all_job_status s = mem_find_status_all (ap_status s)"

definition INDEX_UNAVAILABLE :: string where
  "INDEX_UNAVAILABLE = ''RDB JobProcessingStatus index repository not available. '' @
     ''Ensure JOB_STATUS_RDB_INDEXING=true''"

definition is_orphaned :: "'c app_env \<Rightarrow> job_id \<Rightarrow> 'c app_state \<Rightarrow> ('c, bool) app_result" where
  "is_orphaned env i s =
     (if find_job_status i s \<noteq> None then (Inr False, s)
      else case find_job env i s of
             (Inl e, s1) \<Rightarrow> (Inl e, s1)
           | (Inr found, s1) \<Rightarrow> (Inr (found = None), s1))"

fun purge_each :: "'c app_env \<Rightarrow> job_status_config \<Rightarrow> nat \<Rightarrow> job_id list \<Rightarrow> 'c app_state \<Rightarrow> ('c, nat) app_result" where
  "purge_each env cfg n [] s = (Inr n, s)"
| "purge_each env cfg n (i # is) s =
     (case is_orphaned env i s of
        (Inl e, s1) \<Rightarrow> (Inl e, s1)
      | (Inr False, s1) \<Rightarrow> purge_each env cfg n is s1
      | (Inr True, s1) \<Rightarrow>
          (case ae_fails env AcMarkDeleted of
             Some e \<Rightarrow> (Inl e, s1)
           | None \<Rightarrow>
               purge_each env cfg (Suc n) is
                 (s1\<lparr>ap_db := mark_deleted_by_job_id cfg (ae_now env 4) i (ap_db s1)\<rparr>)))"

definition purge_orphaned_stale_records ::
  "'c app_env \<Rightarrow> job_status_config \<Rightarrow> u64 \<Rightarrow> 'c app_state \<Rightarrow> ('c, nat \<times> i64) app_result" where
  "purge_orphaned_stale_records env cfg hours s =
     (case ae_fails env AcStaleIds of
        Some e \<Rightarrow> (Inl e, s)
      | None \<Rightarrow>
          (case find_stale_job_ids cfg (ae_now env 0) hours (ap_db s) of
             Inl m \<Rightarrow> (Inl (OtherError m), s)
           | Inr (ids, cutoff) \<Rightarrow>
               (case purge_each env cfg 0 ids s of
                  (Inl e, s1) \<Rightarrow> (Inl e, s1)
                | (Inr n, s1) \<Rightarrow> (Inr (n, cutoff), s1))))"

definition purge_stale_job_processing_status ::
  "'c app_env \<Rightarrow> u64 \<Rightarrow> bool \<Rightarrow> 'c app_state \<Rightarrow> ('c, nat \<times> i64) app_result" where
  "purge_stale_job_processing_status env hours orphaned_only s =
     (case ae_index env of
        None \<Rightarrow> (Inl (OtherError INDEX_UNAVAILABLE), s)
      | Some cfg \<Rightarrow>
          if \<not> orphaned_only then
            (case purge_stale_records cfg (ae_now env 0) hours (ap_db s) of
               Inl m \<Rightarrow> (Inl (OtherError m), s)
             | Inr (r, db) \<Rightarrow> (Inr r, s\<lparr>ap_db := db\<rparr>))
          else purge_orphaned_stale_records env cfg hours s)"

definition cleanup_job_processing_status ::
  "'c app_env \<Rightarrow> u64 option \<Rightarrow> 'c app_state \<Rightarrow> ('c, nat \<times> i64) app_result" where
  "cleanup_job_processing_status env retention s =
     (case ae_index env of
        None \<Rightarrow> (Inl (OtherError INDEX_UNAVAILABLE), s)
      | Some cfg \<Rightarrow>
          (case cleanup_deleted_records cfg (ae_now env 0) retention (ap_db s) of
             Inl m \<Rightarrow> (Inl (OtherError m), s)
           | Inr (r, db) \<Rightarrow> (Inr r, s\<lparr>ap_db := db\<rparr>)))"

definition count_jobs :: "'c app_state \<Rightarrow> i64" where
  "count_jobs s = int (length (db_jobs (ap_db s)))"

definition app_find_by_condition ::
  "'c app_env \<Rightarrow> job_processing_status option \<Rightarrow> i64 option \<Rightarrow> string option \<Rightarrow> i64 option \<Rightarrow> i32 \<Rightarrow> i32 \<Rightarrow>
     bool \<Rightarrow> 'c app_state \<Rightarrow> job_worker_error + job_processing_status_detail list" where
  "app_find_by_condition env st wid channel min_elapsed cap off descending s =
     (case ae_index env of
        None \<Rightarrow> Inl (OtherError (''Advanced job status search is disabled. '' @
          ''Enable JOB_STATUS_RDB_INDEXING=true to use this feature.''))
      | Some cfg \<Rightarrow>
          map_sum OtherError id
            (find_by_condition cfg (ae_now env 0) st wid channel min_elapsed cap off descending (ap_db s)))"

definition app_count_by_condition ::
  "'c app_env \<Rightarrow> job_processing_status option \<Rightarrow> i64 option \<Rightarrow> string option \<Rightarrow> i64 option \<Rightarrow>
     job_processing_status_count_mode \<Rightarrow> 'c app_state \<Rightarrow> job_worker_error + job_processing_status_count_result" where
  "app_count_by_condition env st wid channel min_elapsed mode s =
     (case ae_index env of
        None \<Rightarrow> Inl (OtherError (''Advanced job status count is disabled. '' @
          ''Enable JOB_STATUS_RDB_INDEXING=true to use this feature.''))
      | Some cfg \<Rightarrow>
          map_sum OtherError id
            (count_by_condition cfg (ae_now env 0) st wid channel min_elapsed mode (ap_db s)))"

end
