(* ===== verification/Job_Cancel.thy ===== *)
theory Job_Cancel
  imports Job_App
begin

text \<open>
  Cancellation in the standalone job application: what the shared lifecycle of
  \<^verbatim>\<open>app/src/app/job.rs\<close> achieves over the memory repository, with other tasks acting on the
  statuses before each access.
\<close>

section \<open>Accesses to the parts of the state\<close>

abbreviation status_of :: "job_id \<Rightarrow> 'c app_state \<Rightarrow> status_record option" where
  "status_of i s \<equiv> mem_find_status_record (ap_status s) i"

abbreviation row_of_job :: "job_id \<Rightarrow> 'c app_state \<Rightarrow> job_row option" where
  "row_of_job i s \<equiv> find_row_tx i (ap_db s)"

named_theorems app_fields \<open>fields that an operation leaves alone\<close>

lemma set_pending_fields [app_fields, simp]:
  "ap_db (set_pending i s) = ap_db s" "ap_cache (set_pending i s) = ap_cache s"
  "ap_queue (set_pending i s) = ap_queue s" "ap_log (set_pending i s) = ap_log s"
  by (simp_all add: set_pending_def)

lemma clear_status_fields [app_fields, simp]:
  "ap_db (clear_status i s) = ap_db s" "ap_cache (clear_status i s) = ap_cache s"
  "ap_queue (clear_status i s) = ap_queue s" "ap_log (clear_status i s) = ap_log s"
  by (simp_all add: clear_status_def)

lemma set_cache_fields [app_fields, simp]:
  "ap_db (set_cache env i j ttl s) = ap_db s" "ap_status (set_cache env i j ttl s) = ap_status s"
  "ap_queue (set_cache env i j ttl s) = ap_queue s" "ap_log (set_cache env i j ttl s) = ap_log s"
  by (simp_all add: set_cache_def)

lemma delete_cache_fields [app_fields, simp]:
  "ap_db (delete_cache env i s) = ap_db s" "ap_status (delete_cache env i s) = ap_status s"
  "ap_queue (delete_cache env i s) = ap_queue s" "ap_log (delete_cache env i s) = ap_log s"
  by (simp_all add: delete_cache_def split: option.split)

lemma others_act_fields [app_fields, simp]:
  "ap_db (others_act env n s) = ap_db s" "ap_cache (others_act env n s) = ap_cache s"
  "ap_queue (others_act env n s) = ap_queue s" "ap_log (others_act env n s) = ap_log s"
  "ap_status (others_act env n s) = ae_others env n (ap_status s)"
  by (simp_all add: others_act_def)

lemma index_async_fields [app_fields, simp]:
  "ap_db (index_job_status_async env u s) = ap_db s"
  "ap_cache (index_job_status_async env u s) = ap_cache s"
  "ap_queue (index_job_status_async env u s) = ap_queue s"
  "ap_status (index_job_status_async env u s) = ap_status s"
  by (simp_all add: index_job_status_async_def split: option.split)

lemma mark_index_fields [app_fields, simp]:
  "ap_cache (mark_index_deleted env i s) = ap_cache s" "ap_queue (mark_index_deleted env i s) = ap_queue s"
  "ap_log (mark_index_deleted env i s) = ap_log s" "ap_status (mark_index_deleted env i s) = ap_status s"
  "db_jobs (ap_db (mark_index_deleted env i s)) = db_jobs (ap_db s)"
  by (simp_all add: mark_index_deleted_def mark_deleted_by_job_id_def split: option.split)

lemma db_overrides_update_status [simp]: "db_overrides (snd (update_status p f db)) = db_overrides db"
  by (simp add: update_status_def sql_update_def)

lemma cancelling_index_fields [app_fields, simp]:
  "ap_cache (record_cancelling_index env i s) = ap_cache s"
  "ap_queue (record_cancelling_index env i s) = ap_queue s"
  "ap_log (record_cancelling_index env i s) = ap_log s"
  "ap_status (record_cancelling_index env i s) = ap_status s"
  "db_jobs (ap_db (record_cancelling_index env i s)) = db_jobs (ap_db s)"
  "db_overrides (ap_db (record_cancelling_index env i s)) = db_overrides (ap_db s)"
  by (simp_all add: record_cancelling_index_def update_status_by_job_id_def split: option.split)

lemma on_db_fields:
  assumes "on_db env call f s = (r, s')"
  shows "ap_cache s' = ap_cache s" "ap_queue s' = ap_queue s" "ap_log s' = ap_log s" "ap_status s' = ap_status s"
    "\<And>e. r = Inl e \<Longrightarrow> s' = s"
  using assms by (auto simp: on_db_def split: option.splits sum.splits)

lemma find_row_tx_jobs: "db_jobs db = db_jobs db' \<Longrightarrow> find_row_tx i db = find_row_tx i db'"
  by (simp add: find_row_tx_def)

lemma find_row_deleted [simp]: "find_row_tx k (snd (job_delete i db)) = (if k = i then None else find_row_tx k db)"
proof -
  have "List.find (\<lambda>r. jrw_id r = k) (filter (\<lambda>r. jrw_id r \<noteq> i) rows) =
      (if k = i then None else List.find (\<lambda>r. jrw_id r = k) rows)" for rows
    by (induction rows) auto
  from this [of "db_jobs db"] show ?thesis by (simp add: find_row_tx_def job_delete_def job_delete_tx_def)
qed

lemma delete_row_outcome:
  assumes "delete_row env i s = (r, s')"
  shows "ap_cache s' = ap_cache s" "ap_queue s' = ap_queue s" "ap_log s' = ap_log s" "ap_status s' = ap_status s"
    and "\<And>e. r = Inl e \<Longrightarrow> s' = s"
    and "\<And>b. r = Inr b \<Longrightarrow> ap_db s' = snd (job_delete i (ap_db s)) \<and> b = (row_of_job i s \<noteq> None)"
proof -
  have "fst (job_delete i (ap_db s)) = (row_of_job i s \<noteq> None)"
    by (auto simp: job_delete_def job_delete_tx_def find_row_tx_def find_None_iff image_iff)
  then show "\<And>b. r = Inr b \<Longrightarrow> ap_db s' = snd (job_delete i (ap_db s)) \<and> b = (row_of_job i s \<noteq> None)"
    using assms by (cases "job_delete i (ap_db s)")
      (auto simp: delete_row_def on_db_def split: option.splits)
qed (use assms in \<open>auto simp: delete_row_def dest: on_db_fields\<close>)

section \<open>Cancelling\<close>

lemma standalone_backend_simps [simp]:
  "cb_find (standalone_backend env) n i s =
     (Inr (status_of i (others_act env n s)), others_act env n s)"
  "cb_cas (standalone_backend env) n i r r' s =
     (case mem_compare_and_set_status (ap_status (others_act env n s)) i (Some r) (Some r') of
        (t, st) \<Rightarrow> (Inr t, others_act env n s\<lparr>ap_status := st\<rparr>))"
  "cb_delete_status (standalone_backend env) i s = (Inr (), clear_status i s)"
  "cb_record_cancelling_index (standalone_backend env) = record_cancelling_index env"
  "cb_remove_pending (standalone_backend env) = remove_pending_rdb_job env"
  "cb_cancel_unpublished (standalone_backend env) = remove_unpublished_rdb_only_job env"
  "cb_record_completion (standalone_backend env) = mark_index_deleted env"
  "cb_broadcast (standalone_backend env) = broadcast_cancelled_job env"
  by (simp_all add: standalone_backend_def Let_def)

text \<open>
  A cancellation has taken effect when the status says so, so that a delivery of the queued or
  running job sees it, or when the job is gone from the database and has no status left.
\<close>

definition cancelled :: "job_id \<Rightarrow> 'c app_state \<Rightarrow> bool" where
  "cancelled i s \<longleftrightarrow>
     (\<exists>r. status_of i s = Some r \<and> sr_status r = JpsCancelling) \<or>
     (status_of i s = None \<and> row_of_job i s = None)"

lemma remove_pending_outcome:
  assumes "remove_pending_rdb_job env i s = (r, s')"
  shows "ap_cache s' = ap_cache s" "ap_queue s' = ap_queue s" "ap_log s' = ap_log s" "ap_status s' = ap_status s"
    and "r = Inr FinalizedWithoutDelivery \<Longrightarrow> row_of_job i s' = None"
proof -
  obtain d s1 where d: "delete_row env i s = (d, s1)" by (rule prod.exhaust)
  show "ap_cache s' = ap_cache s" "ap_queue s' = ap_queue s" "ap_log s' = ap_log s" "ap_status s' = ap_status s"
      "r = Inr FinalizedWithoutDelivery \<Longrightarrow> row_of_job i s' = None"
    using assms delete_row_outcome [OF d]
    by (auto simp: remove_pending_rdb_job_def d split: sum.splits if_splits)
qed

lemma applied_outcome:
  assumes "mem_invar (ap_status s)" "status_of i s = Some c" "sr_status c = JpsCancelling"
    and res: "applied_cancellation (standalone_backend env) i r s = (res, s')"
  shows "ap_cache s' = ap_cache s" "ap_queue s' = ap_queue s"
    "ap_log s' \<in> {ap_log s, ap_log s @ [CancelBroadcast i]}" "cancelled i s'"
    "sr_status r \<noteq> JpsPending \<Longrightarrow> res = Inr True \<Longrightarrow> ap_log s' = ap_log s @ [CancelBroadcast i]"
    "res \<noteq> Inr False" "mem_invar (ap_status s')"
proof -
  obtain d s2 where d: "remove_pending_rdb_job env i (record_cancelling_index env i s) = (d, s2)"
    by (rule prod.exhaust)
  note rp = remove_pending_outcome [OF d]
  note defs = applied_cancellation_def Let_def
  show "ap_cache s' = ap_cache s" "ap_queue s' = ap_queue s"
      "ap_log s' \<in> {ap_log s, ap_log s @ [CancelBroadcast i]}"
      "sr_status r \<noteq> JpsPending \<Longrightarrow> res = Inr True \<Longrightarrow> ap_log s' = ap_log s @ [CancelBroadcast i]"
      "res \<noteq> Inr False"
    using res rp(1,2,3) by (auto simp: defs d broadcast_cancelled_job_def
        split: if_splits sum.splits pending_cancellation_disposition.splits option.splits)
  have "status_of i (clear_status i x) = None" "mem_invar (ap_status (clear_status i x))"
    if "mem_invar (ap_status x)" for x :: "'a app_state"
    using mem.find_delete [OF that] mem.invar_delete [OF that] by (simp_all add: clear_status_def)
  then show "cancelled i s'" "mem_invar (ap_status s')"
    using res rp(4,5) assms(1,2,3) find_row_tx_jobs [of "ap_db (mark_index_deleted env i s2)" "ap_db s2"]
    by (auto simp: defs d broadcast_cancelled_job_def cancelled_def
        split: if_splits sum.splits pending_cancellation_disposition.splits option.splits)
qed

lemma cancel_attempts_outcome:
  assumes others: "\<And>n st. mem_invar st \<Longrightarrow> mem_invar (ae_others env n st)"
    and "mem_invar (ap_status s)" "sr_status r = JpsCancelling \<Longrightarrow> cancelled i s"
    and "cancel_attempts (standalone_backend env) i k r s = (res, s')"
  shows "ap_cache s' = ap_cache s \<and> ap_queue s' = ap_queue s \<and>
     ap_log s' \<in> {ap_log s, ap_log s @ [CancelBroadcast i]} \<and> (res = Inr True \<longrightarrow> cancelled i s') \<and>
     (res = Inr False \<longrightarrow> ap_db s' = ap_db s \<and> ap_log s' = ap_log s) \<and> mem_invar (ap_status s')"
  using assms(2-)
proof (induction k arbitrary: r s)
  case 0
  then show ?case
    using others by (auto simp: cancelled_def split: option.splits)
next
  case (Suc k)
  let ?s1 = "others_act env (Suc k) s"
  let ?new = "\<lparr>sr_status = JpsCancelling, sr_retried = sr_retried r\<rparr>"
  have inv1: "mem_invar (ap_status ?s1)" using Suc.prems(1) others by simp
  obtain t st where cas: "mem_compare_and_set_status (ap_status ?s1) i (Some r) (Some ?new) = (t, st)"
    by (rule prod.exhaust)
  have st: "mem_invar st" using mem.invar_cas [OF inv1, of i "Some r" "Some ?new"] cas by simp
  have found: "mem_find_status_record st i = (if t = Applied then Some ?new else status_of i ?s1)"
      "\<And>c. t = status_transition.Conflict c \<Longrightarrow> c = status_of i ?s1"
    using mem.cas_match [OF inv1, of i "Some r" "Some ?new"] cas
      mem.cas_mismatch [OF inv1, of i "Some r" "Some ?new"]
    by (cases "status_of i ?s1 = Some r"; auto)+
  consider (stop) "sr_status r \<in> {JpsUnknown, JpsCancelling}"
    | (applied) "sr_status r \<notin> {JpsUnknown, JpsCancelling}" "t = Applied"
    | (gone) "sr_status r \<notin> {JpsUnknown, JpsCancelling}" "t = status_transition.Conflict None"
    | (again) c where "sr_status r \<notin> {JpsUnknown, JpsCancelling}" "t = status_transition.Conflict (Some c)"
    by (metis status_transition.exhaust not_None_eq)
  then show ?case
  proof cases
    case stop
    then show ?thesis using Suc.prems by auto
  next
    case applied
    then have "applied_cancellation (standalone_backend env) i r (?s1\<lparr>ap_status := st\<rparr>) = (res, s')"
      using Suc.prems(3) cas by (simp add: Let_def)
    from applied_outcome [OF _ _ _ this, of ?new] st found(1) applied(2) show ?thesis by auto
  next
    case gone
    then show ?thesis using Suc.prems(3) cas st by (auto simp: Let_def)
  next
    case again
    then have "cancel_attempts (standalone_backend env) i k c (?s1\<lparr>ap_status := st\<rparr>) = (res, s')"
      using Suc.prems(3) cas by (simp add: Let_def)
    moreover have "sr_status c = JpsCancelling \<Longrightarrow> cancelled i (?s1\<lparr>ap_status := st\<rparr>)"
      using found again(2) by (auto simp: cancelled_def)
    ultimately show ?thesis using Suc.IH [of "?s1\<lparr>ap_status := st\<rparr>" c] st by simp
  qed
qed

lemma unpublished_outcome:
  assumes "remove_unpublished_rdb_only_job env i s = (res, s')"
  shows "ap_cache s' = ap_cache s" "ap_queue s' = ap_queue s" "ap_log s' = ap_log s" "ap_status s' = ap_status s"
    "res = Inr True \<Longrightarrow> row_of_job i s' = None" "res = Inr False \<Longrightarrow> ap_db s' = ap_db s"
proof -
  obtain d s1 where d: "delete_row env i s = (d, s1)" by (rule prod.exhaust)
  have "job_find i (ap_db s) = None \<longleftrightarrow> row_of_job i s = None" by (simp add: job_find_def)
  then show "ap_cache s' = ap_cache s" "ap_queue s' = ap_queue s" "ap_log s' = ap_log s" "ap_status s' = ap_status s"
    "res = Inr True \<Longrightarrow> row_of_job i s' = None" "res = Inr False \<Longrightarrow> ap_db s' = ap_db s"
    using assms delete_row_outcome [OF d]
    by (auto simp: remove_unpublished_rdb_only_job_def find_row_def d split: sum.splits option.splits bool.splits)
qed

lemma cancel_job_outcome:
  assumes others: "\<And>n st. mem_invar st \<Longrightarrow> mem_invar (ae_others env n st)"
    and inv: "mem_invar (ap_status s)" and res: "cancel_job env i s = (res, s')"
  shows "ap_cache s' = ap_cache s \<and> ap_queue s' = ap_queue s \<and>
     ap_log s' \<in> {ap_log s, ap_log s @ [CancelBroadcast i]} \<and> (res = Inr True \<longrightarrow> cancelled i s') \<and>
     (res = Inr False \<longrightarrow> ap_db s' = ap_db s \<and> ap_log s' = ap_log s) \<and> mem_invar (ap_status s')"
proof -
  let ?s1 = "others_act env 0 s"
  have inv1: "mem_invar (ap_status ?s1)" using inv others by simp
  show ?thesis
  proof (cases "status_of i ?s1")
    case None
    then have "remove_unpublished_rdb_only_job env i ?s1 = (res, s')"
      using res by (simp add: cancel_job_def cancel_job_lifecycle_def Let_def)
    from unpublished_outcome [OF this] None inv1 show ?thesis by (auto simp: cancelled_def)
  next
    case (Some r)
    show ?thesis
    proof (cases "sr_status r = JpsUnknown")
      case True
      then show ?thesis using res Some inv1
        by (auto simp: cancel_job_def cancel_job_lifecycle_def Let_def)
    next
      case False
      then have "cancel_attempts (standalone_backend env) i MAX_CANCELLATION_STATUS_TRANSITION_ATTEMPTS r ?s1 =
          (res, s')"
        using res Some by (simp add: cancel_job_def cancel_job_lifecycle_def)
      from cancel_attempts_outcome [OF others inv1 _ this] Some show ?thesis by (auto simp: cancelled_def)
    qed
  qed
qed

text \<open>Nobody interferes and nothing fails.\<close>

definition quiet :: "'c app_env \<Rightarrow> bool" where
  "quiet env \<longleftrightarrow> (\<forall>n st. ae_others env n st = st) \<and> (\<forall>c. ae_fails env c = None)"

definition rdb_only_row :: "'c app_env \<Rightarrow> job_id \<Rightarrow> 'c app_state \<Rightarrow> job_worker_error + bool" where
  "rdb_only_row env i s =
     (case job_find i (ap_db s) of
        None \<Rightarrow> Inr False
      | Some j \<Rightarrow> is_rdb_only_pending_job env j (is_run_after_job env (ae_now env 2) j))"

lemma quietD:
  assumes "quiet env"
  shows "ae_others env n st = st" "ae_fails env c = None" "others_act env n s = s"
  using assms by (simp_all add: quiet_def others_act_def)

lemma remove_pending_quiet:
  assumes "quiet env"
  shows "remove_pending_rdb_job env i s =
     (case rdb_only_row env i s of
        Inl e \<Rightarrow> (Inl e, s)
      | Inr only \<Rightarrow> (Inr (if row_of_job i s \<noteq> None \<and> only then FinalizedWithoutDelivery else AwaitQueuedDelivery),
          s\<lparr>ap_db := snd (job_delete i (ap_db s))\<rparr>))"
proof -
  have "fst (job_delete i (ap_db s)) = (row_of_job i s \<noteq> None)"
    by (auto simp: job_delete_def job_delete_tx_def find_row_tx_def find_None_iff image_iff)
  then show ?thesis
    by (cases "job_delete i (ap_db s)")
      (auto simp: remove_pending_rdb_job_def rdb_only_row_def find_row_def quietD [OF assms] bindE_def
        delete_row_def on_db_def split: option.splits sum.splits)
qed

lemma cancel_quiet:
  assumes q: "quiet env" and inv: "mem_invar (ap_status s)" and r: "status_of i s = Some r"
    and st: "sr_status r \<notin> {JpsUnknown, JpsCancelling}"
  obtains s1 where "cancel_job env i s = applied_cancellation (standalone_backend env) i r s1"
    "s1 = s\<lparr>ap_status := ap_status s1\<rparr>" "mem_invar (ap_status s1)"
    "status_of i s1 = Some (r\<lparr>sr_status := JpsCancelling\<rparr>)"
proof -
  let ?new = "\<lparr>sr_status = JpsCancelling, sr_retried = sr_retried r\<rparr>"
  obtain t m where cas: "mem_compare_and_set_status (ap_status s) i (Some r) (Some ?new) = (t, m)"
    by (rule prod.exhaust)
  have t: "t = Applied" "mem_find_status_record m i = Some ?new" "mem_invar m"
    using mem.cas_match [OF inv r, of "Some ?new"] mem.invar_cas [OF inv, of i "Some r" "Some ?new"] cas by auto
  have "cancel_job env i s = applied_cancellation (standalone_backend env) i r (s\<lparr>ap_status := m\<rparr>)"
    using st r cas t(1) by (simp add: cancel_job_def cancel_job_lifecycle_def quietD [OF q]
        MAX_CANCELLATION_STATUS_TRANSITION_ATTEMPTS_def numeral_3_eq_3)
  then show ?thesis using t by (intro that [of "s\<lparr>ap_status := m\<rparr>"]) simp_all
qed

section \<open>Properties of cancellation\<close>


lemma cancel_states:
  assumes q: "quiet env" and inv: "mem_invar (ap_status s)" and r: "status_of i s = Some r"
    and res: "cancel_job env i s = (res, s')"
  shows "(sr_status r = JpsUnknown \<longrightarrow> res = Inr False \<and> s' = s) \<and>
     (sr_status r = JpsCancelling \<longrightarrow> res = Inr True \<and> s' = s) \<and>
     (sr_status r \<in> {JpsRunning, JpsWaitResult} \<longrightarrow>
        res = Inr True \<and> status_of i s' = Some (r\<lparr>sr_status := JpsCancelling\<rparr>) \<and>
        ap_log s' = ap_log s @ [CancelBroadcast i] \<and> row_of_job i s' = row_of_job i s) \<and>
     (sr_status r = JpsPending \<and> rdb_only_row env i s = Inr True \<longrightarrow>
        res = Inr True \<and> status_of i s' = None \<and> row_of_job i s' = None \<and> ap_log s' = ap_log s) \<and>
     (sr_status r = JpsPending \<and> rdb_only_row env i s = Inr False \<longrightarrow>
        res = Inr True \<and> status_of i s' = Some (r\<lparr>sr_status := JpsCancelling\<rparr>) \<and>
        row_of_job i s' = None \<and> ap_log s' = ap_log s \<and> ap_queue s' = ap_queue s)"
proof (cases "sr_status r \<in> {JpsUnknown, JpsCancelling}")
  case True
  then show ?thesis using res r
    by (auto simp: cancel_job_def cancel_job_lifecycle_def quietD [OF q]
        MAX_CANCELLATION_STATUS_TRANSITION_ATTEMPTS_def numeral_3_eq_3)
next
  case False
  obtain s1 where s1: "cancel_job env i s = applied_cancellation (standalone_backend env) i r s1"
      "s1 = s\<lparr>ap_status := ap_status s1\<rparr>" "mem_invar (ap_status s1)"
      "status_of i s1 = Some (r\<lparr>sr_status := JpsCancelling\<rparr>)"
    using cancel_quiet [OF q inv r False] .
  let ?s2 = "record_cancelling_index env i s1"
  have same: "db_jobs (ap_db ?s2) = db_jobs (ap_db s)" "ap_log ?s2 = ap_log s" "ap_queue ?s2 = ap_queue s"
    using arg_cong [OF s1(2), of ap_db] arg_cong [OF s1(2), of ap_log] arg_cong [OF s1(2), of ap_queue] by simp_all
  have rows: "row_of_job k ?s2 = row_of_job k s" for k using find_row_tx_jobs [OF same(1)] .
  show ?thesis
  proof (cases "sr_status r = JpsPending")
    case False
    then have "applied_cancellation (standalone_backend env) i r s1 =
        (Inr True, app_emit (CancelBroadcast i) ?s2)"
      by (simp add: applied_cancellation_def Let_def broadcast_cancelled_job_def
          quietD [OF q])
    then show ?thesis using False s1 res same rows \<open>sr_status r \<notin> _\<close> by (auto simp: cancelled_def)
  next
    case pending: True
    have job: "rdb_only_row env i ?s2 = rdb_only_row env i s"
      using rows [of i] arg_cong [OF s1(2), of ap_db]
      by (simp add: rdb_only_row_def job_find_def find_overrides_tx_def)
    note defs = applied_cancellation_def Let_def pending remove_pending_quiet [OF q] job
    note final = find_row_tx_jobs [OF mark_index_fields(5)] mem.find_delete [OF s1(3)]
    have "rdb_only_row env i s = Inr True \<Longrightarrow> row_of_job i s \<noteq> None"
      by (auto simp: rdb_only_row_def job_find_def split: option.splits)
    then have "rdb_only_row env i s = Inr True \<longrightarrow>
        res = Inr True \<and> status_of i s' = None \<and> row_of_job i s' = None \<and> ap_log s' = ap_log s"
      using res s1(1) rows [of i] same
      by (auto simp: defs clear_status_def final)
    moreover have "rdb_only_row env i s = Inr False \<longrightarrow>
        res = Inr True \<and> status_of i s' = Some (r\<lparr>sr_status := JpsCancelling\<rparr>) \<and>
        row_of_job i s' = None \<and> ap_log s' = ap_log s \<and> ap_queue s' = ap_queue s"
      using res s1(1,4) same by (auto simp: defs)
    ultimately show ?thesis using pending by simp
  qed
qed

text \<open>
  What a cancellation does depends on the status it finds.  A running job is marked and the
  cancellation broadcast, and so is a job that already waits for its result; a pending job of
  the database is removed with its status; a pending job of the channel queue keeps the status
  for its delivery; an unknown status is refused and a second cancellation changes nothing.
\<close>

theorem cancel_by_state:
  assumes q: "quiet env" and inv: "mem_invar (ap_status s)" and r: "status_of i s = Some r"
    and res: "cancel_job env i s = (res, s')"
  shows "(sr_status r = JpsUnknown \<longrightarrow> res = Inr False \<and> s' = s) \<and>
     (sr_status r = JpsCancelling \<longrightarrow> res = Inr True \<and> s' = s) \<and>
     (sr_status r \<in> {JpsRunning, JpsWaitResult} \<longrightarrow>
        res = Inr True \<and> status_of i s' = Some (r\<lparr>sr_status := JpsCancelling\<rparr>) \<and>
        ap_log s' = ap_log s @ [CancelBroadcast i] \<and> row_of_job i s' = row_of_job i s) \<and>
     (sr_status r = JpsPending \<and> rdb_only_row env i s = Inr True \<longrightarrow>
        res = Inr True \<and> status_of i s' = None \<and> row_of_job i s' = None \<and> ap_log s' = ap_log s) \<and>
     (sr_status r = JpsPending \<and> rdb_only_row env i s = Inr False \<longrightarrow>
        res = Inr True \<and> status_of i s' = Some (r\<lparr>sr_status := JpsCancelling\<rparr>) \<and>
        row_of_job i s' = None \<and> ap_log s' = ap_log s \<and> ap_queue s' = ap_queue s)"
  using cancel_states [OF q inv r res] .

section \<open>An example application\<close>

definition example_app_worker :: "i32 \<Rightarrow> worker_data" where
  "example_app_worker queue_type =
     \<lparr>w_name = ''w'', w_description = [], w_runner_id = Some 1, w_runner_settings = [], w_retry_policy = None,
      w_periodic_interval = 0, w_channel = None, w_queue_type = queue_type, w_response_type = 0,
      w_store_success = False, w_store_failure = False, w_use_static = False, w_broadcast_results = False\<rparr>"

text \<open>Everything works, nobody interferes, and channels are lists.\<close>

definition example_app_env :: "(string \<Rightarrow> bytes list) app_env" where
  "example_app_env =
     \<lparr>ae_ops = example_chan_ops,
      ae_codec = \<lparr>jc_encode = (\<lambda>_. Inr ''a''), jc_decode = (\<lambda>_. Inl (CodecError ''x''))\<rparr>,
      ae_to_string = ref_writer, ae_now = (\<lambda>_. 9000), ae_fetch_interval = 1000,
      ae_expire_job_result_seconds = 60, ae_index = None, ae_id = Inr 70,
      ae_check_streaming = (\<lambda>_ _ _ _. Inr ()),
      ae_find_worker = (\<lambda>i. Inr (Some \<lparr>wk_id = Some i, wk_data = Some (example_app_worker 0)\<rparr>)),
      ae_find_worker_by_name = (\<lambda>_. Inr None), ae_create_temp = (\<lambda>_ _. Inr 3),
      ae_fails = (\<lambda>_. None), ae_admits = (\<lambda>_. True), ae_others = (\<lambda>_ st. st),
      ae_wait = (\<lambda>_ s. (Inl (TimeoutError ''no result''), s)), ae_publish = (\<lambda>_ _ _. Inr True)\<rparr>"

definition example_app_state :: "(string \<Rightarrow> bytes list) app_state" where
  "example_app_state =
     \<lparr>ap_db = \<lparr>db_jobs = [], db_status = [], db_results = [], db_overrides = []\<rparr>,
      ap_status = [(5, \<lparr>sr_status = JpsRunning, sr_retried = 1\<rparr>)], ap_cache = Map.empty,
      ap_queue = example_chan_queue, ap_log = []\<rparr>"

lemma example_app_invar: "mem_invar (ap_status example_app_state)"
  by (simp add: mem_invar_def example_app_state_def)

lemma example_app_quiet: "quiet example_app_env"
  by (simp add: quiet_def example_app_env_def)

lemma example_cancel:
  "\<exists>s'. cancel_job example_app_env 5 example_app_state = (Inr True, s')"
proof -
  obtain res s' where c: "cancel_job example_app_env 5 example_app_state = (res, s')" by (rule prod.exhaust)
  have "fst (cancel_job example_app_env 5 example_app_state) = Inr True"
    by (simp add: cancel_job_def cancel_job_lifecycle_def example_app_state_def mem_find_status_record_def
        MAX_CANCELLATION_STATUS_TRANSITION_ATTEMPTS_def numeral_3_eq_3 mem_compare_and_set_status_def
        applied_cancellation_def broadcast_cancelled_job_def Let_def others_act_def example_app_env_def)
  with c show ?thesis by simp
qed


theorem cancel_by_state_witness:
  "\<exists>s'. cancel_job example_app_env 5 example_app_state = (Inr True, s') \<and>
     status_of 5 s' = Some \<lparr>sr_status = JpsCancelling, sr_retried = 1\<rparr> \<and> ap_log s' = [CancelBroadcast 5]"
proof -
  obtain s' where c: "cancel_job example_app_env 5 example_app_state = (Inr True, s')" using example_cancel ..
  have "status_of 5 example_app_state = Some \<lparr>sr_status = JpsRunning, sr_retried = 1\<rparr>"
    by (simp add: example_app_state_def mem_find_status_record_def)
  from cancel_by_state [OF example_app_quiet example_app_invar this c] c show ?thesis
    by (simp add: example_app_state_def)
qed

end
