(* ===== verification/Job_Lifecycle.thy ===== *)
theory Job_Lifecycle
  imports Job_Cancel
begin

text \<open>
  Properties of the standalone job application: where an enqueued job is kept, what a failed
  operation leaves behind, and that a completed job leaves nothing.
\<close>

section \<open>Enqueueing\<close>

lemma status_set_pending:
  assumes "mem_invar (ap_status s)"
  shows "mem_find_status_record (ap_status (set_pending i s)) = (mem_find_status_record (ap_status s))
     (i \<mapsto> \<lparr>sr_status = JpsPending, sr_retried = (case status_of i s of None \<Rightarrow> 0 | Some r \<Rightarrow> sr_retried r)\<rparr>)"
    and "mem_invar (ap_status (set_pending i s))"
  using mem.find_upsert [OF assms, of i JpsPending] mem.invar_upsert [OF assms, of i JpsPending]
  by (simp_all add: set_pending_def)

lemma status_clear:
  assumes "mem_invar (ap_status s)"
  shows "mem_find_status_record (ap_status (clear_status i s)) = (mem_find_status_record (ap_status s))(i := None)"
    and "mem_invar (ap_status (clear_status i s))"
  using mem.find_delete [OF assms, of i] mem.invar_delete [OF assms, of i] by (simp_all add: clear_status_def)

text \<open>The job as the cache takes it after it was queued.\<close>

definition cached :: "'c app_env \<Rightarrow> bool \<Rightarrow> job_id \<Rightarrow> job \<Rightarrow> 'c app_state \<Rightarrow> 'c app_state" where
  "cached env load_only i j s =
     (if load_only then s
      else case j_data j of
             None \<Rightarrow> s
           | Some d \<Rightarrow> set_cache env i j (calculate_job_ttl env (jd_timeout d)) s)"

lemma cached_fields [simp]:
  "ap_db (cached env lo i j s) = ap_db s" "ap_status (cached env lo i j s) = ap_status s"
  "ap_queue (cached env lo i j s) = ap_queue s" "ap_log (cached env lo i j s) = ap_log s"
  by (simp_all add: cached_def split: option.split)

lemma enqueue_only_new:
  assumes "j_id j = Some i" "\<not> is_run_after_job env (ae_now env 2) j"
    and "enqueue_job_with_load_only (ae_ops env) (ae_codec env) (w_channel w) j False (ap_queue s) = (er, q)"
  shows "enqueue_job_sync_enqueue_only env j w False NewEnqueue s =
     (case er of
        Inl e \<Rightarrow> (Inl e, clear_status i (set_pending i s\<lparr>ap_queue := q\<rparr>))
      | Inr _ \<Rightarrow> (Inr i, cached env False i j (set_pending i s\<lparr>ap_queue := q\<rparr>)))"
  using assms by (simp add: enqueue_job_sync_enqueue_only_def creates_status_def cached_def Let_def split: sum.split)

lemma enqueue_only_other:
  assumes "j_id j = Some i" "\<not> is_run_after_job env (ae_now env 2) j" "lo \<or> pub = RetryPublication"
    and "enqueue_job_with_load_only (ae_ops env) (ae_codec env) (w_channel w) j lo (ap_queue s) = (er, q)"
  shows "enqueue_job_sync_enqueue_only env j w lo pub s =
     (case er of
        Inl e \<Rightarrow> (Inl e, s\<lparr>ap_queue := q\<rparr>)
      | Inr _ \<Rightarrow> (Inr i, cached env lo i j (s\<lparr>ap_queue := q\<rparr>)))"
  using assms by (cases lo; cases pub)
    (simp_all add: enqueue_job_sync_enqueue_only_def creates_status_def cached_def Let_def split: sum.split)

lemma enqueue_only_delayed:
  assumes "j_id j = Some i" "is_run_after_job env (ae_now env 2) j"
  shows "enqueue_job_sync_enqueue_only env j w lo pub s =
     (Inl (InvalidParameter ''run_after_time is not supported in rdb_chan mode''), s)"
  using assms by (simp add: enqueue_job_sync_enqueue_only_def)

lemma failed_new_enqueue:
  assumes "enqueue_job_sync_enqueue_only env j w False NewEnqueue s = (Inl e, s')" "j_id j = Some i"
    and inv: "mem_invar (ap_status s)" and new: "status_of i s = None"
  shows "ap_db s' = ap_db s" "ap_cache s' = ap_cache s" "ap_log s' = ap_log s"
    "mem_find_status_record (ap_status s') = mem_find_status_record (ap_status s)"
proof -
  obtain er q where q: "enqueue_job_with_load_only (ae_ops env) (ae_codec env) (w_channel w) j False (ap_queue s) =
      (er, q)" by (rule prod.exhaust)
  have "mem_invar (ap_status (set_pending i s\<lparr>ap_queue := q\<rparr>))" using status_set_pending(2) [OF inv] by simp
  from status_clear(1) [OF this, of i] have "mem_find_status_record (ap_status (clear_status i (set_pending i s\<lparr>ap_queue := q\<rparr>))) =
      mem_find_status_record (ap_status s)"
    using new by (simp add: status_set_pending(1) [OF inv] fun_upd_idem)
  moreover have "s' = s \<or> s' = clear_status i (set_pending i s\<lparr>ap_queue := q\<rparr>)"
  proof (cases "is_run_after_job env (ae_now env 2) j")
    case True
    then show ?thesis using assms(1) enqueue_only_delayed [OF assms(2) True, of w False NewEnqueue s] by simp
  next
    case False
    then show ?thesis using assms(1) enqueue_only_new [OF assms(2) _ q] by (cases er) simp_all
  qed
  ultimately show "ap_db s' = ap_db s" "ap_cache s' = ap_cache s" "ap_log s' = ap_log s"
    "mem_find_status_record (ap_status s') = mem_find_status_record (ap_status s)" by auto
qed

lemma successful_new_enqueue:
  assumes "enqueue_job_sync_enqueue_only env j w False NewEnqueue s = (Inr k, s')" "j_id j = Some i"
  obtains n q where "k = i" "\<not> is_run_after_job env (ae_now env 2) j"
    "enqueue_job_with_load_only (ae_ops env) (ae_codec env) (w_channel w) j False (ap_queue s) = (Inr n, q)"
    "s' = cached env False i j (set_pending i s\<lparr>ap_queue := q\<rparr>)"
proof -
  obtain er q where q: "enqueue_job_with_load_only (ae_ops env) (ae_codec env) (w_channel w) j False (ap_queue s) =
      (er, q)" by (rule prod.exhaust)
  have "\<not> is_run_after_job env (ae_now env 2) j" using assms enqueue_only_delayed [OF assms(2)] by force
  with assms(1) enqueue_only_new [OF assms(2) this q] q show thesis
    by (cases er) (auto intro: that)
qed

lemma job_create_reply: "job_create j db = Inr (b, db') \<Longrightarrow> b = True"
  by (auto simp: job_create_def job_create_tx_def bindE_eq_Inr split: option.splits if_splits)

lemma create_row_outcome:
  assumes "create_row env j s = (r, s')"
  shows "ap_cache s' = ap_cache s" "ap_queue s' = ap_queue s" "ap_log s' = ap_log s" "ap_status s' = ap_status s"
  using on_db_fields [OF assms [unfolded create_row_def]] by blast+

lemma create_row_failed: "create_row env j s = (Inl e, s') \<Longrightarrow> s' = s"
  by (auto simp: create_row_def on_db_def split: option.splits sum.splits)

lemma create_row_done:
  assumes "create_row env j s = (Inr b, s')"
  shows "b = True" "job_create j (ap_db s) = Inr (True, ap_db s')" "s' = s\<lparr>ap_db := ap_db s'\<rparr>"
proof -
  obtain db where db: "job_create j (ap_db s) = Inr (b, db)" "s' = s\<lparr>ap_db := db\<rparr>"
    using assms unfolding create_row_def on_db_def by (auto split: option.splits sum.splits)
  note b = job_create_reply [OF db(1)]
  show "b = True" by (fact b)
  show "job_create j (ap_db s) = Inr (True, ap_db s')" using db b by simp
  show "s' = s\<lparr>ap_db := ap_db s'\<rparr>" by (simp add: db(2))
qed

text \<open>A job that does not wait for its result.\<close>

definition no_wait :: "worker_data \<Rightarrow> enqueue_args \<Rightarrow> bool" where
  "no_wait w a \<longleftrightarrow> rj_response_type (resolve_job_params w (ea_overrides a)) \<noteq> response_type_i32 Direct"

definition new_id :: "'c app_env \<Rightarrow> enqueue_args \<Rightarrow> job_id" where
  "new_id env a = unwrap_or (ea_reserved_job_id a) (projr (ae_id env))"

definition new_job :: "'c app_env \<Rightarrow> worker_id \<Rightarrow> worker_data \<Rightarrow> enqueue_args \<Rightarrow> job" where
  "new_job env wid w a =
     \<lparr>j_id = Some (new_id env a), j_data = Some (scheduled_data env w (new_job_data env wid a)),
      j_metadata = ea_metadata a\<rparr>"

definition kept_in_rdb :: "'c app_env \<Rightarrow> worker_data \<Rightarrow> job \<Rightarrow> bool" where
  "kept_in_rdb env w j \<longleftrightarrow>
     w_periodic_interval w > 0 \<or> is_run_after_job env (ae_now env 2) j \<or>
     w_queue_type w \<in> {queue_type_i32 QtWithBackup, queue_type_i32 QtDbOnly}"

definition kept_in_chan :: "'c app_env \<Rightarrow> worker_data \<Rightarrow> job \<Rightarrow> bool" where
  "kept_in_chan env w j \<longleftrightarrow>
     w_periodic_interval w = 0 \<and> \<not> is_run_after_job env (ae_now env 2) j \<and>
     w_queue_type w \<noteq> queue_type_i32 QtDbOnly"

lemma new_job_fields [simp]:
  "jd_overrides (scheduled_data env w (new_job_data env wid a)) = ea_overrides a"
  "jd_worker_id (scheduled_data env w (new_job_data env wid a)) = Some wid"
  "jd_uniq_key (scheduled_data env w (new_job_data env wid a)) = ea_uniq_key a"
  by (simp_all add: scheduled_data_def new_job_data_def)

lemma enqueue_sync_no_wait:
  assumes "no_wait w a"
  shows "enqueue_job_sync env (new_job env wid w a) w s =
     (case enqueue_job_sync_enqueue_only env (new_job env wid w a) w False NewEnqueue s of
        (Inl e, s1) \<Rightarrow> (Inl e, s1)
      | (Inr i, s1) \<Rightarrow> (Inr (i, None, False), s1))"
  using assms by (simp add: enqueue_job_sync_def new_job_def no_wait_def Let_def split: prod.splits sum.splits)

lemma enqueue_reaches_route:
  assumes "wk_id worker = Some wid" "wk_data worker = Some w"
    and "enqueue_job_with_worker env worker a s = (r, s')"
  obtains e where "r = Inl e" "s' = s"
  | resolved where "resolve_and_validate_job_params w (ea_overrides a) = Inr resolved"
      "resolved = resolve_job_params w (ea_overrides a)"
      "then_index env (pending_update wid w (new_id env a) a (scheduled_data env w (new_job_data env wid a)) resolved)
         (route_new_job env w resolved (new_id env a) (new_job env wid w a)
           (scheduled_data env w (new_job_data env wid a)) s) = (r, s')"
  using assms
  by (fastforce simp: enqueue_job_with_worker_def new_id_def new_job_def Let_def resolve_and_validate_job_params_def
      split: sum.splits if_splits)

lemma route_no_wait:
  assumes "no_wait w a"
  shows "route_new_job env w (resolve_job_params w (ea_overrides a)) (new_id env a) (new_job env wid w a)
       (scheduled_data env w (new_job_data env wid a)) s =
     (if w_periodic_interval w > 0 \<or> is_run_after_job env (ae_now env 2) (new_job env wid w a) then
        enqueue_to_rdb env (new_id env a) (new_job env wid w a) True s
      else if w_queue_type w = queue_type_i32 QtWithBackup then enqueue_with_backup env (new_job env wid w a) w s
      else if w_queue_type w = queue_type_i32 QtDbOnly then
        enqueue_to_rdb env (new_id env a) (new_job env wid w a) False s
      else enqueue_job_sync env (new_job env wid w a) w s)"
  using assms by (simp add: route_new_job_def no_wait_def is_run_after_job_def new_job_def)

lemma enqueue_to_rdb_failed: "enqueue_to_rdb env i j publish s = (Inl e, s') \<Longrightarrow> s' = s"
  by (auto simp: enqueue_to_rdb_def split: prod.splits sum.splits if_splits
      dest: create_row_failed create_row_done(1))

lemma enqueue_to_rdb_done:
  assumes "enqueue_to_rdb env i j publish s = (Inr x, s')"
  obtains db where "x = (i, None, False)" "job_create j (ap_db s) = Inr (True, db)"
    "s' = (if publish then set_pending i (s\<lparr>ap_db := db\<rparr>) else s\<lparr>ap_db := db\<rparr>)"
proof -
  obtain b s1 where c: "create_row env j s = (Inr b, s1)"
    using assms by (auto simp: enqueue_to_rdb_def split: prod.splits sum.splits)
  note d = create_row_done [OF c]
  show thesis
    using assms c d by (intro that [of "ap_db s1"]) (auto simp: enqueue_to_rdb_def)
qed

text \<open>
  C27: a failed request leaves nothing behind.  When a request that does not wait for a result
  fails, whatever failed, no status, no cache entry and no index write of the new job are left,
  and no row either unless the job was to be kept as a backup.
\<close>

theorem failed_enqueue_leaves_no_trace:
  assumes ids: "wk_id worker = Some wid" "wk_data worker = Some w" and wait: "no_wait w a"
    and inv: "mem_invar (ap_status s)" and new: "status_of (new_id env a) s = None"
    and failed: "enqueue_job_with_worker env worker a s = (Inl e, s')"
  shows "mem_find_status_record (ap_status s') = mem_find_status_record (ap_status s) \<and>
     ap_cache s' = ap_cache s \<and> ap_log s' = ap_log s \<and>
     (ap_db s' = ap_db s \<or> w_queue_type w = queue_type_i32 QtWithBackup)"
proof (rule enqueue_reaches_route [OF ids failed])
  fix resolved
  let ?j = "new_job env wid w a"
  assume "resolved = resolve_job_params w (ea_overrides a)"
    and "then_index env (pending_update wid w (new_id env a) a (scheduled_data env w (new_job_data env wid a)) resolved)
         (route_new_job env w resolved (new_id env a) ?j (scheduled_data env w (new_job_data env wid a)) s) = (Inl e, s')"
  then have r: "route_new_job env w (resolve_job_params w (ea_overrides a)) (new_id env a) ?j
      (scheduled_data env w (new_job_data env wid a)) s = (Inl e, s')"
    by (auto simp: then_index_def split: prod.splits sum.splits)
  have j: "j_id ?j = Some (new_id env a)" by (simp add: new_job_def)
  consider (rdb) b where "enqueue_to_rdb env (new_id env a) ?j b s = (Inl e, s')"
    | (backup) "w_queue_type w = queue_type_i32 QtWithBackup" "enqueue_with_backup env ?j w s = (Inl e, s')"
    | (chan) "enqueue_job_sync env ?j w s = (Inl e, s')"
    using r unfolding route_no_wait [OF wait] by (auto split: if_splits)
  then show ?thesis
  proof cases
    case rdb
    then show ?thesis by (auto dest: enqueue_to_rdb_failed)
  next
    case chan
    then have "enqueue_job_sync_enqueue_only env ?j w False NewEnqueue s = (Inl e, s')"
      by (auto simp: enqueue_sync_no_wait [OF wait] split: prod.splits sum.splits)
    from failed_new_enqueue [OF this j inv new] show ?thesis by simp
  next
    case backup
    then consider "s' = s" | b s1 where "create_row env ?j s = (Inr b, s1)"
        "enqueue_job_sync_enqueue_only env ?j w False NewEnqueue s1 = (Inl e, s')"
      by (auto simp: enqueue_with_backup_def enqueue_sync_no_wait [OF wait]
          split: prod.splits sum.splits dest: create_row_failed)
    then show ?thesis
    proof cases
      case 2
      note same = create_row_outcome [OF 2(1)]
      from failed_new_enqueue [OF 2(2) j] inv new same backup(1) show ?thesis by simp
    qed simp
  qed
qed simp

lemma enqueue_sync_done:
  assumes wait: "no_wait w a" and "enqueue_job_sync env (new_job env wid w a) w s = (Inr (i, res, stream), s')"
  obtains n q where "i = new_id env a" "res = None" "\<not> stream"
    "enqueue_job_with_load_only (ae_ops env) (ae_codec env) (w_channel w) (new_job env wid w a) False (ap_queue s) =
       (Inr n, q)"
    "s' = cached env False i (new_job env wid w a) (set_pending i s\<lparr>ap_queue := q\<rparr>)"
proof -
  have j: "j_id (new_job env wid w a) = Some (new_id env a)" by (simp add: new_job_def)
  have "enqueue_job_sync_enqueue_only env (new_job env wid w a) w False NewEnqueue s = (Inr i, s')"
      "res = None" "\<not> stream"
    using assms(2) by (auto simp: enqueue_sync_no_wait [OF wait] split: prod.splits sum.splits)
  with successful_new_enqueue [OF this(1) j] that show thesis by blast
qed


lemma job_create_row:
  assumes "job_create j db = Inr (b, db')" "j_id j = Some i" "j_data j = Some d"
  obtains row where "job_row_of as_i32 i d = Inr row" "db_jobs db' = db_jobs db @ [row]"
proof -
  obtain row db1 where "job_row_of as_i32 i d = Inr row" "db1 = db\<lparr>db_jobs := db_jobs db @ [row]\<rparr>"
      "db_jobs db' = db_jobs db1"
    using assms by (auto simp: job_create_def job_create_tx_def bindE_eq_Inr find_overrides_created(2,3)
        split: if_splits option.splits)
  then show thesis by (intro that) simp_all
qed

text \<open>
  The exception of a failed backup.  When a job with a unique key was written as a backup and
  its channel then refuses it, the request fails, but its row stays and no job with
  that key can be created any more.
\<close>

theorem failed_backup_blocks_key:
  assumes ids: "wk_id worker = Some wid" "wk_data worker = Some w" and wait: "no_wait w a"
    and inv: "mem_invar (ap_status s)" and new: "status_of (new_id env a) s = None"
    and failed: "enqueue_job_with_worker env worker a s = (Inl e, s')" and created: "ap_db s' \<noteq> ap_db s"
    and key: "ea_uniq_key a = Some k"
  shows "row_of_job (new_id env a) s' \<noteq> None \<and>
     (\<forall>j d. j_data j = Some d \<longrightarrow> jd_uniq_key d = Some k \<longrightarrow> (\<nexists>x. job_create j (ap_db s') = Inr x))"
proof -
  let ?j = "new_job env wid w a" and ?i = "new_id env a"
  have j: "j_id ?j = Some ?i" "j_data ?j = Some (scheduled_data env w (new_job_data env wid a))"
    by (simp_all add: new_job_def)
  have r: "route_new_job env w (resolve_job_params w (ea_overrides a)) ?i ?j
      (scheduled_data env w (new_job_data env wid a)) s = (Inl e, s')"
    using created
    by (rule_tac enqueue_reaches_route [OF ids failed])
      (auto simp: then_index_def split: prod.splits sum.splits)
  have "enqueue_with_backup env ?j w s = (Inl e, s')"
  proof -
    have "ap_db s' = ap_db s" if "enqueue_job_sync env ?j w s = (Inl e, s')"
    proof -
      have "enqueue_job_sync_enqueue_only env ?j w False NewEnqueue s = (Inl e, s')"
        using that by (auto simp: enqueue_sync_no_wait [OF wait] split: prod.splits sum.splits)
      from failed_new_enqueue(1) [OF this j(1) inv new] show ?thesis .
    qed
    with r created show ?thesis
      unfolding route_no_wait [OF wait] by (auto split: if_splits dest: enqueue_to_rdb_failed)
  qed
  then obtain b s1 where c: "create_row env ?j s = (Inr b, s1)"
      "enqueue_job_sync_enqueue_only env ?j w False NewEnqueue s1 = (Inl e, s')"
    using created by (auto simp: enqueue_with_backup_def enqueue_sync_no_wait [OF wait]
        split: prod.splits sum.splits dest: create_row_failed)
  have db: "ap_db s' = ap_db s1"
    using failed_new_enqueue(1) [OF c(2) j(1)] inv new create_row_outcome(4) [OF c(1)] by simp
  obtain row where row: "job_row_of as_i32 ?i (scheduled_data env w (new_job_data env wid a)) = Inr row"
      "db_jobs (ap_db s') = db_jobs (ap_db s) @ [row]"
    using job_create_row [OF create_row_done(2) [OF c(1)] j] unfolding db .
  have id: "jrw_id row = ?i" "jrw_uniq_key row = Some k"
    using row(1) key by (auto simp: job_row_of_def)
  have "row_of_job ?i s' \<noteq> None"
    using id(1) row(2) by (auto simp: find_row_tx_def find_None_iff)
  moreover have "\<nexists>x. job_create j' (ap_db s') = Inr x"
    if "j_data j' = Some d" "jd_uniq_key d = Some k" for j' d
  proof -
    have "list_ex (conflicts row') (db_jobs (ap_db s'))" if "job_row_of as_i32 i' d = Inr row'" for i' row'
    proof -
      have "jrw_uniq_key row' = Some k"
        using that \<open>jd_uniq_key d = Some k\<close> by (auto simp: job_row_of_def split: option.splits)
      then show ?thesis using id(2) row(2) by (simp add: conflicts_def)
    qed
    then show ?thesis
      using that(1) by (auto simp: job_create_def job_create_tx_def bindE_eq_Inr split: option.splits)
  qed
  ultimately show ?thesis by blast
qed

section \<open>Retries\<close>

definition runs_later :: "'c app_env \<Rightarrow> job_data \<Rightarrow> bool" where
  "runs_later env d = is_run_after_job_data env (ae_now env 0) d"

lemma update_job_eq:
  assumes "j_id j = Some i" "j_data j = Some d" "find_data_by_opt env (jd_worker_id d) = Inr (Some w)"
    and "(if uses_rdb_queue (runs_later env d) w
          then on_db env AcUpsert (upsert_with_pending_status_reset (ae_index env) (ae_now env 3) i d) s
          else (Inr False, reset_index_to_pending_for_retry env i s)) = (res_db, s1)"
    and "(if uses_chan_queue (runs_later env d) w
          then enqueue_job_sync_enqueue_only env j w False RetryPublication s1 else (Inr i, s1)) = (res_chan, s2)"
  shows "update_job env j s =
     (case res_chan of
        Inr _ \<Rightarrow> (Inr (), delete_cache env i s2)
      | Inl _ \<Rightarrow> (case res_db of Inr _ \<Rightarrow> (Inr (), delete_cache env i s2) | Inl e \<Rightarrow> (Inl e, s2)))"
proof (cases "uses_chan_queue (runs_later env d) w")
  case True
  then show ?thesis
    using assms by (auto simp: update_job_def Let_def runs_later_def result_or_def split: sum.splits prod.splits)
next
  case False
  then show ?thesis
    using assms by (auto simp: update_job_def Let_def runs_later_def result_or_def split: sum.splits prod.splits)
qed

lemma index_reset_fields [simp]:
  "ap_cache (reset_index_to_pending_for_retry env i s) = ap_cache s"
  "ap_queue (reset_index_to_pending_for_retry env i s) = ap_queue s"
  "ap_status (reset_index_to_pending_for_retry env i s) = ap_status s"
  "ap_log (reset_index_to_pending_for_retry env i s) = ap_log s"
  "db_jobs (ap_db (reset_index_to_pending_for_retry env i s)) = db_jobs (ap_db s)"
  by (simp_all add: reset_index_to_pending_for_retry_def reset_to_pending_by_job_id_def split: option.split)

text \<open>
  A retry that is lost is reported as enqueued.  The reply of an update is an error only when
  both the row and the channel of a backed-up job failed: a job that is kept in the database
  only is reported as updated although its row could not be written, and a job of the channel only
  although its channel refused it.
\<close>

theorem lost_retry_reported_as_enqueued:
  assumes j: "j_id j = Some i" "j_data j = Some d"
    and w: "find_data_by_opt env (jd_worker_id d) = Inr (Some w)"
  shows "(\<forall>e s'. update_job env j s = (Inl e, s') \<longrightarrow>
       uses_rdb_queue (runs_later env d) w \<and> uses_chan_queue (runs_later env d) w) \<and>
     (\<forall>e. uses_rdb_queue (runs_later env d) w \<longrightarrow> \<not> uses_chan_queue (runs_later env d) w \<longrightarrow>
       ae_fails env AcUpsert = Some e \<longrightarrow> update_job env j s = (Inr (), delete_cache env i s)) \<and>
     (\<forall>e q. \<not> uses_rdb_queue (runs_later env d) w \<longrightarrow> uses_chan_queue (runs_later env d) w \<longrightarrow>
       enqueue_job_with_load_only (ae_ops env) (ae_codec env) (w_channel w) j False (ap_queue s) = (Inl e, q) \<longrightarrow>
       (\<exists>s'. update_job env j s = (Inr (), s') \<and> db_jobs (ap_db s') = db_jobs (ap_db s)))"
proof -
  let ?rdb = "if uses_rdb_queue (runs_later env d) w
      then on_db env AcUpsert (upsert_with_pending_status_reset (ae_index env) (ae_now env 3) i d) s
      else (Inr False, reset_index_to_pending_for_retry env i s)"
  obtain rd s1 where rdb: "?rdb = (rd, s1)" by (rule prod.exhaust)
  obtain rc s2 where chan: "(if uses_chan_queue (runs_later env d) w
      then enqueue_job_sync_enqueue_only env j w False RetryPublication s1 else (Inr i, s1)) = (rc, s2)"
    by (rule prod.exhaust)
  note eq = update_job_eq [OF j w rdb chan]
  have "uses_rdb_queue (runs_later env d) w \<and> uses_chan_queue (runs_later env d) w"
    if "update_job env j s = (Inl e, s')" for e s'
    using that rdb chan unfolding eq by (auto split: sum.splits if_splits)
  moreover have "update_job env j s = (Inr (), delete_cache env i s)"
    if "uses_rdb_queue (runs_later env d) w" "\<not> uses_chan_queue (runs_later env d) w"
      "ae_fails env AcUpsert = Some e" for e
    using that rdb chan unfolding eq by (auto simp: on_db_def split: sum.splits)
  moreover have "\<exists>s'. update_job env j s = (Inr (), s') \<and> db_jobs (ap_db s') = db_jobs (ap_db s)"
    if r: "\<not> uses_rdb_queue (runs_later env d) w" and c: "uses_chan_queue (runs_later env d) w"
      and q: "enqueue_job_with_load_only (ae_ops env) (ae_codec env) (w_channel w) j False (ap_queue s) = (Inl e, q)"
      for e q
  proof -
    have s1: "s1 = reset_index_to_pending_for_retry env i s" "rd = Inr False" using rdb r by auto
    have q1: "enqueue_job_with_load_only (ae_ops env) (ae_codec env) (w_channel w) j False (ap_queue s1) = (Inl e, q)"
      using q s1 by simp
    have "s2 = s1 \<or> s2 = s1\<lparr>ap_queue := q\<rparr>"
      using chan c enqueue_only_delayed [OF j(1), of env w False RetryPublication s1]
        enqueue_only_other [OF j(1) _ _ q1, of RetryPublication]
      by (cases "is_run_after_job env (ae_now env 2) j") auto
    then have "db_jobs (ap_db s2) = db_jobs (ap_db s)" using s1 by auto
    then show ?thesis unfolding eq s1(2) by (cases rc) auto
  qed
  ultimately show ?thesis by blast
qed

text \<open>
  A retried job cannot be looked up.  After a successful retry of a job that lives on its
  channel only, the job is queued, but the cache entry just made for it is deleted again,
  so that a lookup finds nothing while the job waits and runs.
\<close>

theorem retried_job_not_found:
  assumes j: "j_id j = Some i" "j_data j = Some d"
    and w: "find_data_by_opt env (jd_worker_id d) = Inr (Some w)" and q: "quiet env"
    and chan: "uses_chan_queue (runs_later env d) w" "\<not> uses_rdb_queue (runs_later env d) w"
      "\<not> is_run_after_job env (ae_now env 2) j"
    and sent: "enqueue_job_with_load_only (ae_ops env) (ae_codec env) (w_channel w) j False (ap_queue s) = (Inr n, cq)"
    and row: "row_of_job i s = None"
  shows "\<exists>s'. update_job env j s = (Inr (), s') \<and> ap_queue s' = cq \<and> find_job env i s' = (Inr None, s')"
proof -
  let ?s1 = "reset_index_to_pending_for_retry env i s"
  have sent': "enqueue_job_with_load_only (ae_ops env) (ae_codec env) (w_channel w) j False (ap_queue ?s1) = (Inr n, cq)"
    using sent by simp
  let ?s2 = "cached env False i j (?s1\<lparr>ap_queue := cq\<rparr>)"
  have "enqueue_job_sync_enqueue_only env j w False RetryPublication ?s1 = (Inr i, ?s2)"
    using enqueue_only_other [OF j(1) chan(3) _ sent', of RetryPublication] by simp
  then have "update_job env j s = (Inr (), delete_cache env i ?s2)"
    using update_job_eq [OF j w, of s "Inr False" ?s1 "Inr i" ?s2] chan by simp
  moreover have "row_of_job i (delete_cache env i ?s2) = None"
    using row find_row_tx_jobs [of "ap_db ?s1" "ap_db s" i] by simp
  then have "find_job env i (delete_cache env i ?s2) = (Inr None, delete_cache env i ?s2)"
    by (simp add: find_job_def find_row_def job_find_def quietD [OF q] delete_cache_def)
  ultimately show ?thesis by auto
qed

section \<open>Examples\<close>

definition example_args :: enqueue_args where
  "example_args =
     \<lparr>ea_metadata = Map.empty, ea_args = ''x'', ea_uniq_key = Some ''k'', ea_run_after_time = 0, ea_priority = 0,
      ea_timeout = 0, ea_reserved_job_id = None, ea_streaming_type = StNone, ea_using = None, ea_overrides = None\<rparr>"

definition example_registered :: "queue_type \<Rightarrow> worker" where
  "example_registered qt = \<lparr>wk_id = Some 3, wk_data = Some (example_app_worker (queue_type_i32 qt))\<rparr>"

text \<open>The same application with a queue that takes nothing.\<close>

definition example_full_env :: "(string \<Rightarrow> bytes list) app_env" where
  "example_full_env = example_app_env\<lparr>ae_codec := \<lparr>jc_encode = (\<lambda>_. Inl (RuntimeError ''full'')),
     jc_decode = (\<lambda>_. Inl (CodecError ''x''))\<rparr>\<rparr>"

definition example_queued :: job where
  "example_queued = new_job example_app_env 3 (example_app_worker 0) example_args"

lemmas example_enqueue_defs = example_args_def example_registered_def example_app_worker_def example_full_env_def
  example_app_env_def example_app_state_def example_chan_ops_def example_chan_queue_def

lemma example_no_wait: "no_wait (example_app_worker qt) example_args"
  by (simp add: no_wait_def resolve_job_params_def example_app_worker_def example_args_def)

lemma example_new: "status_of (new_id example_app_env example_args) example_app_state = None"
  "status_of (new_id example_full_env example_args) example_app_state = None"
  by (simp_all add: new_id_def example_enqueue_defs mem_find_status_record_def unwrap_or_def)

lemma example_registered_simps:
  "wk_id (example_registered qt) = Some 3"
  "wk_data (example_registered qt) = Some (example_app_worker (queue_type_i32 qt))"
  by (simp_all add: example_registered_def)

lemmas example_enqueue_run = enqueue_job_with_worker_def resolve_and_validate_job_params_def resolve_job_params_def
  validate_response_queue_type_def Let_def then_index_def route_new_job_def enqueue_job_sync_def
  enqueue_job_sync_enqueue_only_def is_run_after_job_def is_run_after_job_data_def scheduled_data_def
  new_job_data_def enqueue_with_backup_def create_row_def on_db_def creates_status_def
  enqueue_job_with_load_only_def unwrap_or_def

lemma example_full:
  assumes "qt \<in> {QtNormal, QtWithBackup}"
  shows "\<exists>e s'. enqueue_job_with_worker example_full_env (example_registered qt) example_args example_app_state =
       (Inl e, s') \<and> (qt = QtWithBackup \<longrightarrow> ap_db s' \<noteq> ap_db example_app_state)"
  using assms
  by (cases qt) (auto simp: example_enqueue_defs example_enqueue_run job_create_def job_create_tx_def job_row_of_def bindE_def
      i64_wrap_def i64_try_from_u64_def conflicts_def)

lemma example_accepted:
  "\<exists>x s'. enqueue_job_with_worker example_app_env (example_registered QtNormal) example_args example_app_state =
     (Inr x, s')"
  by (simp add: example_enqueue_defs example_enqueue_run i64_wrap_def) blast

theorem failed_enqueue_leaves_no_trace_witness:
  "\<exists>e s'. enqueue_job_with_worker example_full_env (example_registered QtNormal) example_args example_app_state =
     (Inl e, s') \<and> status_of 70 s' = None \<and> ap_db s' = ap_db example_app_state"
proof -
  obtain e s' where run: "enqueue_job_with_worker example_full_env (example_registered QtNormal) example_args
      example_app_state = (Inl e, s')" using example_full [of QtNormal] by auto
  have "new_id example_full_env example_args = 70"
    by (simp add: new_id_def unwrap_or_def example_full_env_def example_app_env_def example_args_def)
  with failed_enqueue_leaves_no_trace [OF example_registered_simps example_no_wait example_app_invar example_new(2) run]
    example_new(2) run show ?thesis by (simp add: example_app_worker_def)
qed

theorem failed_backup_blocks_key_witness:
  "\<exists>e s'. enqueue_job_with_worker example_full_env (example_registered QtWithBackup) example_args example_app_state =
     (Inl e, s') \<and> (\<nexists>x. job_create example_queued (ap_db s') = Inr x)"
proof -
  obtain e s' where run: "enqueue_job_with_worker example_full_env (example_registered QtWithBackup) example_args
      example_app_state = (Inl e, s')" "ap_db s' \<noteq> ap_db example_app_state" using example_full [of QtWithBackup] by auto
  have key: "ea_uniq_key example_args = Some ''k''" by (simp add: example_args_def)
  from failed_backup_blocks_key [OF example_registered_simps example_no_wait example_app_invar example_new(2) run key]
  show ?thesis using run(1) key by (simp add: example_queued_def new_job_def)
qed


text \<open>A retry on the channel of a worker whose queue takes nothing, and on one that works.\<close>

lemma example_queued_simps:
  "j_id example_queued = Some 70"
  "j_data example_queued = Some (new_job_data example_app_env 3 example_args)"
  "find_data_by_opt env (jd_worker_id (new_job_data example_app_env 3 example_args)) =
     bindE (ae_find_worker env 3) (\<lambda>w. Inr (Option.bind w wk_data))"
  by (simp_all add: example_queued_def new_job_def new_id_def example_enqueue_defs example_enqueue_run find_data_by_opt_def)

theorem lost_retry_reported_as_enqueued_witness:
  "\<exists>s'. update_job example_full_env example_queued example_app_state = (Inr (), s') \<and> db_jobs (ap_db s') = []"
proof -
  have w: "find_data_by_opt example_full_env (jd_worker_id (new_job_data example_app_env 3 example_args)) =
      Inr (Some (example_app_worker 0))"
    unfolding example_queued_simps by (simp add: bindE_def example_full_env_def example_app_env_def)
  have "\<not> uses_rdb_queue (runs_later example_full_env (new_job_data example_app_env 3 example_args)) (example_app_worker 0)"
    "uses_chan_queue (runs_later example_full_env (new_job_data example_app_env 3 example_args)) (example_app_worker 0)"
    by (simp_all add: uses_rdb_queue_def uses_chan_queue_def runs_later_def example_enqueue_defs example_enqueue_run i64_wrap_def)
  moreover have "\<exists>e q. enqueue_job_with_load_only (ae_ops example_full_env) (ae_codec example_full_env)
      (w_channel (example_app_worker 0)) example_queued False (ap_queue example_app_state) = (Inl e, q)"
    by (simp add: enqueue_job_with_load_only_def Let_def example_full_env_def)
  ultimately show ?thesis
    using lost_retry_reported_as_enqueued [OF example_queued_simps(1,2) w, of example_app_state]
    by (auto simp: example_app_state_def)
qed

theorem retried_job_not_found_witness:
  "\<exists>s'. update_job example_app_env example_queued example_app_state = (Inr (), s') \<and>
     find_job example_app_env 70 s' = (Inr None, s')"
proof -
  let ?d = "new_job_data example_app_env 3 example_args" and ?w = "example_app_worker 0"
  have w: "find_data_by_opt example_app_env (jd_worker_id ?d) = Inr (Some ?w)"
    unfolding example_queued_simps by (simp add: bindE_def example_app_env_def)
  have chan: "uses_chan_queue (runs_later example_app_env ?d) ?w" "\<not> uses_rdb_queue (runs_later example_app_env ?d) ?w"
    "\<not> is_run_after_job example_app_env (ae_now example_app_env 2) example_queued"
    by (simp_all add: uses_rdb_queue_def uses_chan_queue_def runs_later_def example_queued_def new_job_def
        example_enqueue_defs example_enqueue_run i64_wrap_def)
  obtain n cq where sent: "enqueue_job_with_load_only (ae_ops example_app_env) (ae_codec example_app_env)
      (w_channel ?w) example_queued False (ap_queue example_app_state) = (Inr n, cq)"
    by (simp add: enqueue_job_with_load_only_def Let_def example_enqueue_defs)
  have "row_of_job 70 example_app_state = None" by (simp add: find_row_tx_def example_app_state_def)
  from retried_job_not_found [OF example_queued_simps(1,2) w example_app_quiet chan sent this]
  show ?thesis by auto
qed

end
