(* ===== verification/Job_Completion.thy ===== *)
theory Job_Completion
  imports Job_Lifecycle
begin

text \<open>
  The end of a job in the standalone application: what completing it removes, what the purge of
  the index may touch, and an invariant of all operations.
\<close>

section \<open>Completion\<close>

text \<open>Nothing of a job is left: no row, no cache entry, no status and no live row of the index.\<close>

definition gone :: "'c app_env \<Rightarrow> job_id \<Rightarrow> 'c app_state \<Rightarrow> bool" where
  "gone env i s \<longleftrightarrow> row_of_job i s = None \<and> ap_cache s i = None \<and> status_of i s = None \<and>
     (\<forall>cfg r. ae_index env = Some cfg \<longrightarrow> rdb_indexing_enabled cfg \<longrightarrow> r \<in> set (db_status (ap_db s)) \<longrightarrow>
        sw_job_id r = i \<longrightarrow> \<not> live r)"

lemma db_status_delete [simp]: "db_status (snd (job_delete i db)) = db_status db"
  by (simp add: job_delete_def job_delete_tx_def)

lemma marked_not_live:
  assumes "rdb_indexing_enabled cfg" "r \<in> set (db_status (mark_deleted_by_job_id cfg now i db))" "sw_job_id r = i"
  shows "\<not> live r"
proof -
  have "r \<in> (\<lambda>r. if sw_job_id r = i \<and> live r then r\<lparr>sw_deleted_at := Some now, sw_updated_at := now\<rparr> else r) `
      set (db_status db)"
    using assms(1,2) by (simp add: mark_deleted_by_job_id_def update_status_def sql_update_def)
  then obtain r0 where "r = (if sw_job_id r0 = i \<and> live r0
      then r0\<lparr>sw_deleted_at := Some now, sw_updated_at := now\<rparr> else r0)" by (rule imageE)
  then show ?thesis using assms(3) by (cases "sw_job_id r0 = i \<and> live r0") auto
qed

lemma cleanup_works:
  assumes up: "\<And>c. ae_fails env c = None" and inv: "mem_invar (ap_status s)"
  shows "gone env i (snd (cleanup_job env i s))"
    and "k \<noteq> i \<Longrightarrow> status_of k (snd (cleanup_job env i s)) = status_of k s \<and>
      ap_cache (snd (cleanup_job env i s)) k = ap_cache s k \<and>
      row_of_job k (snd (cleanup_job env i s)) = row_of_job k s"
    and "ap_log (snd (cleanup_job env i s)) = ap_log s"
    and "mem_invar (ap_status (snd (cleanup_job env i s)))"
proof -
  let ?s1 = "mark_index_deleted env i s"
  let ?s2 = "snd (delete_row env i ?s1)"
  have s2: "?s2 = ?s1\<lparr>ap_db := snd (job_delete i (ap_db ?s1))\<rparr>"
    by (cases "job_delete i (ap_db ?s1)") (simp add: delete_row_def on_db_def up)
  have s3: "snd (cleanup_job env i s) = clear_status i (?s2\<lparr>ap_cache := (ap_cache s)(i := None)\<rparr>)"
    by (simp add: cleanup_job_def delete_cache_def up s2)
  have inv2: "mem_invar (ap_status (?s2\<lparr>ap_cache := (ap_cache s)(i := None)\<rparr>))" using inv s2 by simp
  note status = status_clear [OF inv2, of i]
  have marked: "\<not> live r"
    if "sw_job_id r = i" "ae_index env = Some cfg" "rdb_indexing_enabled cfg" "r \<in> set (db_status (ap_db ?s1))" for cfg r
    using that by (intro marked_not_live) (auto simp: mark_index_deleted_def up)
  show "gone env i (snd (cleanup_job env i s))"
    using marked unfolding gone_def s3 status(1) by (simp add: s2)
  show "ap_log (snd (cleanup_job env i s)) = ap_log s" unfolding s3 by (simp add: s2)
  show "mem_invar (ap_status (snd (cleanup_job env i s)))" unfolding s3 by (rule status(2))
  show "status_of k (snd (cleanup_job env i s)) = status_of k s \<and>
      ap_cache (snd (cleanup_job env i s)) k = ap_cache s k \<and>
      row_of_job k (snd (cleanup_job env i s)) = row_of_job k s" if "k \<noteq> i"
    using that find_row_tx_jobs [of "ap_db ?s1" "ap_db s" k] unfolding s3 status(1) by (simp add: s2)
qed

lemma end_marker_built:
  assumes laws: "serde_v1_laws (ae_to_string env) from_str"
    and valid: "\<And>e. jr_error d = Some e \<Longrightarrow> valid_utf8 (se_message e) \<and> valid_utf8 (se_origin e)"
  obtains item where "bindE (end_marker_failure env d) (error_end_item_from (ae_to_string env) Map.empty) = Inr item"
proof -
  have built: "\<exists>item. error_end_item_from (ae_to_string env) Map.empty e = Inr item"
    if "valid_utf8 (se_message e)" "valid_utf8 (se_origin e)" for e
    by (rule normalize_spec [OF laws that]) (simp add: error_end_item_from_def error_trailer_from_def bindE_def)
  have "valid_utf8 WORKER_ORIGIN" by (rule valid_utf8_ascii) (simp add: stream_consts)
  note shape = normalize_origin_shape(3) [OF this] this
  have classified: "\<exists>e. classified_error (ae_to_string env) code msg WORKER_ORIGIN = Inr e \<and>
      valid_utf8 (se_message e) \<and> valid_utf8 (se_origin e)" if "valid_utf8 msg" for code msg
  proof -
    let ?e = "unbounded_error code msg WORKER_ORIGIN"
    have "valid_utf8 (se_message ?e)" "valid_utf8 (se_origin ?e)"
      using that shape by (simp_all add: unbounded_error_def)
    then show ?thesis
      by (rule normalize_spec [OF laws]) (simp add: classified_error_def bindE_def, simp add: unbounded_error_def shape)
  qed
  have texts: "valid_utf8 ''job was cancelled before its result stream started''"
      "valid_utf8 ''job failed before its result stream started''"
    by (rule valid_utf8_ascii, simp)+
  have "\<exists>e. end_marker_failure env d = Inr e \<and> valid_utf8 (se_message e) \<and> valid_utf8 (se_origin e)"
    using valid classified [OF texts(1)] classified [OF texts(2)]
    by (auto simp: end_marker_failure_def cancelled_by_worker_def split: option.split)
  then obtain e where e: "end_marker_failure env d = Inr e" "valid_utf8 (se_message e)" "valid_utf8 (se_origin e)"
    by blast
  obtain item where "error_end_item_from (ae_to_string env) Map.empty e = Inr item" using built [OF e(2,3)] by blast
  then show thesis using e(1) by (intro that [of item]) (simp add: bindE_def)
qed

lemma completion_outcome:
  assumes up: "\<And>c. ae_fails env c = None" and inv: "mem_invar (ap_status s)"
    and laws: "serde_v1_laws (ae_to_string env) from_str"
    and valid: "\<And>e. jr_error d = Some e \<Longrightarrow> valid_utf8 (se_message e) \<and> valid_utf8 (se_origin e)"
    and job: "jr_job_id d = Some i" "response_type_try_from (jr_response_type d) \<noteq> None"
    and run: "complete_job env rid d has_stream s = (res, s1)"
  shows "(\<exists>to_listen l. ap_log s1 = ap_log s @ PublishedResult rid d to_listen # l) \<and>
     (if has_stream
      then ap_db s1 = ap_db s \<and> ap_status s1 = ap_status s \<and> ap_cache s1 = ap_cache s \<and>
        gone env i (stream_task env i s1)
      else gone env i s1) \<and>
     (\<forall>k. k \<noteq> i \<longrightarrow> status_of k s1 = status_of k s \<and> ap_cache s1 k = ap_cache s k \<and>
        row_of_job k s1 = row_of_job k s)"
proof -
  obtain b where r: "finish_response env rid d i b has_stream s = (res, s1)"
    using run job by (auto simp: complete_job_def split: option.splits response_type.splits)
  let ?p = "app_emit (PublishedResult rid d b) s"
  show ?thesis
  proof (cases has_stream)
    case True
    then have s1: "s1 = app_emit (StreamTaskSpawned i) ?p"
      using r by (auto simp: finish_response_def Let_def)
    have "gone env i (stream_task env i s1)"
      unfolding stream_task_def using up inv s1 by (intro cleanup_works(1)) simp_all
    with s1 True show ?thesis by simp
  next
    case False
    obtain item where item: "bindE (end_marker_failure env d) (error_end_item_from (ae_to_string env) Map.empty) = Inr item"
      using end_marker_built [OF laws valid] .
    have "\<exists>rx s2. spawn_end_marker_if_needed env d i ?p = (Inr rx, s2) \<and>
        (s2 = ?p \<or> s2 = app_emit (EndMarkerSpawned i item) ?p)"
      unfolding spawn_end_marker_if_needed_def item by (auto intro: exI [of _ True] exI [of _ False])
    then obtain rx s2 where s2: "spawn_end_marker_if_needed env d i ?p = (Inr rx, s2)"
        "s2 = ?p \<or> s2 = app_emit (EndMarkerSpawned i item) ?p" by blast
    then have s1: "s1 = snd (cleanup_job env i s2)"
      using r False by (simp add: finish_response_def Let_def)
    have inv2: "mem_invar (ap_status s2)" using s2(2) inv by auto
    note c = cleanup_works [OF up inv2, where i = i]
    have same: "status_of k s2 = status_of k s" "ap_cache s2 = ap_cache s" "row_of_job k s2 = row_of_job k s" for k
      using s2(2) by auto
    have "\<exists>l. ap_log s2 = ap_log s @ PublishedResult rid d b # l" using s2(2) by auto
    then show ?thesis using c(1) c(2) c(3) False same unfolding s1 by auto
  qed
qed


section \<open>Purging the index\<close>

text \<open>The application knows a job when it has a status, a row or a cache entry.\<close>

definition known :: "job_id \<Rightarrow> 'c app_state \<Rightarrow> bool" where
  "known i s \<longleftrightarrow> status_of i s \<noteq> None \<or> row_of_job i s \<noteq> None \<or> ap_cache s i \<noteq> None"

lemma find_job_outcome:
  assumes "find_job env i s = (r, s')"
  shows "ap_db s' = ap_db s" "ap_status s' = ap_status s" "ap_queue s' = ap_queue s" "ap_log s' = ap_log s"
    and "\<And>k. ap_cache s k \<noteq> None \<Longrightarrow> ap_cache s' k \<noteq> None"
    and "r = Inr None \<Longrightarrow> ap_cache s i = None \<and> row_of_job i s = None"
  using assms
  by (auto simp: find_job_def find_row_def set_cache_def job_find_def split: option.splits sum.splits if_splits)

lemma is_orphaned_outcome:
  assumes "is_orphaned env i s = (r, s')"
  shows "ap_db s' = ap_db s" "ap_status s' = ap_status s" "known k s \<Longrightarrow> known k s'"
    and "r = Inr True \<Longrightarrow> \<not> known i s"
proof -
  obtain f s1 where f: "find_job env i s = (f, s1)" by (rule prod.exhaust)
  note o = find_job_outcome [OF f]
  have none: "find_job_status i s = None \<longleftrightarrow> status_of i s = None"
    by (simp add: find_job_status_def mem_find_status_def mem_find_status_record_def split: option.split)
  have "s' = s \<or> s' = s1" using assms by (auto simp: is_orphaned_def f split: if_splits sum.splits)
  with o show "ap_db s' = ap_db s" "ap_status s' = ap_status s" "known k s \<Longrightarrow> known k s'"
    by (auto simp: known_def)
  show "r = Inr True \<Longrightarrow> \<not> known i s"
    using assms o none by (auto simp: is_orphaned_def f known_def split: if_splits sum.splits)
qed

lemma mark_other_row:
  "k \<noteq> i \<Longrightarrow> status_row_of k (mark_deleted_by_job_id cfg now i db) = status_row_of k db"
proof -
  assume "k \<noteq> i"
  moreover have "sw_job_id r = k" if "status_row_of k db = Some r" for r
    using that by (auto simp: status_row_of_def find_Some_iff)
  moreover have "keeps_id (\<lambda>r. r\<lparr>sw_deleted_at := Some now, sw_updated_at := now\<rparr>)" by auto
  ultimately show ?thesis
    by (cases "status_row_of k db") (auto simp: mark_deleted_by_job_id_def status_row_of_update)
qed

lemma purge_each_spares:
  assumes "purge_each env cfg n ids s = (r, s')" "known k s"
  shows "status_row_of k (ap_db s') = status_row_of k (ap_db s) \<and> db_jobs (ap_db s') = db_jobs (ap_db s) \<and>
     ap_status s' = ap_status s"
  using assms
proof (induction ids arbitrary: n s)
  case Nil
  then show ?case by simp
next
  case (Cons i "is")
  obtain o1 s1 where o: "is_orphaned env i s = (o1, s1)" by (rule prod.exhaust)
  note out = is_orphaned_outcome [OF o]
  let ?s2 = "s1\<lparr>ap_db := mark_deleted_by_job_id cfg (ae_now env 4) i (ap_db s1)\<rparr>"
  have jobs: "db_jobs (ap_db ?s2) = db_jobs (ap_db s1)" by (simp add: mark_deleted_by_job_id_def)
  show ?case
  proof (cases "o1 = Inr True \<and> ae_fails env AcMarkDeleted = None")
    case True
    then have k: "k \<noteq> i" using out(4) Cons.prems(2) by auto
    have "known k ?s2"
      using out(3) [OF Cons.prems(2)] find_row_tx_jobs [OF jobs] by (simp add: known_def)
    moreover have "purge_each env cfg (Suc n) is ?s2 = (r, s')" using Cons.prems(1) True o by simp
    ultimately have "status_row_of k (ap_db s') = status_row_of k (ap_db ?s2) \<and>
        db_jobs (ap_db s') = db_jobs (ap_db ?s2) \<and> ap_status s' = ap_status ?s2"
      using Cons.IH by blast
    then show ?thesis using mark_other_row [OF k] jobs out(1,2) by simp
  next
    case False
    then consider "s' = s1" | "o1 = Inr False" "purge_each env cfg n is s1 = (r, s')"
      using Cons.prems(1) o by (auto split: sum.splits bool.splits option.splits)
    then show ?thesis
      using Cons.IH [of n s1] out(1,2) out(3) [OF Cons.prems(2)] by cases auto
  qed
qed

text \<open>
  Purging orphans spares every job the application knows.  Whatever the age limit, the index
  row of a job with a status, a row in the job table or a cache entry is the same afterwards,
  and statuses and jobs are never touched.
\<close>

theorem purge_spares_known_jobs:
  assumes known: "known k s"
    and run: "purge_stale_job_processing_status env hours True s = (res, s')"
  shows "status_row_of k (ap_db s') = status_row_of k (ap_db s) \<and> db_jobs (ap_db s') = db_jobs (ap_db s) \<and>
     ap_status s' = ap_status s"
proof -
  consider "s' = s" | cfg ids r where "purge_each env cfg 0 ids s = (r, s')"
    using run by (auto simp: purge_stale_job_processing_status_def purge_orphaned_stale_records_def
        split: option.splits sum.splits prod.splits)
  then show ?thesis using purge_each_spares [OF _ known] by cases auto
qed

text \<open>Job 7 has a row and a stale entry in the index; a result completes job 5.\<close>

definition example_indexed_state :: "(string \<Rightarrow> bytes list) app_state" where
  "example_indexed_state = example_app_state\<lparr>ap_db := example_running\<rparr>"

definition example_indexed_env :: "(string \<Rightarrow> bytes list) app_env" where
  "example_indexed_env = example_app_env\<lparr>ae_index := Some example_cfg, ae_now := \<lambda>_. 90000000\<rparr>"

theorem purge_spares_known_jobs_witness:
  "known 7 example_indexed_state \<and>
   version_of 7 (ap_db (snd (purge_stale_job_processing_status example_indexed_env 1 True example_indexed_state))) =
     Some 1"
proof -
  obtain res s' where run: "purge_stale_job_processing_status example_indexed_env 1 True example_indexed_state =
      (res, s')" by (rule prod.exhaust)
  have k: "known 7 example_indexed_state"
    by (simp add: known_def find_row_tx_def example_indexed_state_def example_running_def example_job_row_def)
  have "version_of 7 (ap_db example_indexed_state) = Some 1"
    by (simp add: status_row_of_def example_indexed_state_def example_running_def running_row_def example_start_def)
  with purge_spares_known_jobs [OF k run] k run show ?thesis by simp
qed

definition example_done :: job_result_data where
  "example_done = example_result\<lparr>jr_job_id := Some 5\<rparr>"


section \<open>Every operation\<close>

text \<open>
  The invariant of the application, and how an operation may change the state: the database only
  by steps of its own relation, the rest within the invariant.
\<close>

definition app_ok :: "'c app_state \<Rightarrow> bool" where
  "app_ok s \<longleftrightarrow> mem_invar (ap_status s) \<and> (\<forall>i j ttl. ap_cache s i = Some (j, ttl) \<longrightarrow> j_id j = Some i)"

definition evolves :: "'c app_state \<Rightarrow> 'c app_state \<Rightarrow> bool" where
  "evolves s s' \<longleftrightarrow> index_step\<^sup>*\<^sup>* (ap_db s) (ap_db s') \<and> (app_ok s \<longrightarrow> app_ok s')"

lemma evolves_refl [simp]: "evolves s s"
  by (simp add: evolves_def)

lemma evolves_trans [trans]: "evolves a b \<Longrightarrow> evolves b c \<Longrightarrow> evolves a c"
  unfolding evolves_def by (meson rtranclp_trans)

lemma evolves_step:
  assumes "index_step\<^sup>*\<^sup>* (ap_db s) db"
  shows "evolves s (s\<lparr>ap_db := db\<rparr>)"
  using assms by (simp add: evolves_def app_ok_def)

lemma evolves_parts:
  "evolves s (set_pending i s)" "evolves s (clear_status i s)" "evolves s (delete_cache env i s)"
  "evolves s (app_emit ef s)" "evolves s (s\<lparr>ap_queue := q\<rparr>)" "evolves s (index_job_status_async env u s)"
  "j_id j = Some i \<Longrightarrow> evolves s (set_cache env i j ttl s)"
  by (auto simp: evolves_def app_ok_def set_pending_def clear_status_def delete_cache_def
      index_job_status_async_def set_cache_def mem.invar_upsert mem.invar_delete split: option.splits)

lemma evolves_cached: "j_id j = Some i \<Longrightarrow> evolves s (cached env lo i j s)"
  by (auto simp: cached_def evolves_parts(7) split: option.split)

lemma evolves_index:
  "evolves s (mark_index_deleted env i s)" "evolves s (record_cancelling_index env i s)"
  "evolves s (reset_index_to_pending_for_retry env i s)"
  unfolding mark_index_deleted_def record_cancelling_index_def reset_index_to_pending_for_retry_def
  by (auto intro!: evolves_step r_into_rtranclp index_step.intros split: option.splits)

lemma evolves_on_db:
  assumes "on_db env c f s = (r, s')" "\<And>x db'. f (ap_db s) = Inr (x, db') \<Longrightarrow> index_step (ap_db s) db'"
  shows "evolves s s'"
  using assms by (auto simp: on_db_def intro!: evolves_step r_into_rtranclp split: option.splits sum.splits)

text \<open>The same after a state that has already evolved.\<close>

lemma evolves_after:
  "evolves s a \<Longrightarrow> evolves s (set_pending i a)" "evolves s a \<Longrightarrow> evolves s (clear_status i a)"
  "evolves s a \<Longrightarrow> evolves s (delete_cache env i a)" "evolves s a \<Longrightarrow> evolves s (app_emit ef a)"
  "evolves s a \<Longrightarrow> evolves s (a\<lparr>ap_queue := q\<rparr>)" "evolves s a \<Longrightarrow> evolves s (index_job_status_async env u a)"
  "evolves s a \<Longrightarrow> evolves s (mark_index_deleted env i a)"
  "evolves s a \<Longrightarrow> evolves s (record_cancelling_index env i a)"
  "evolves s a \<Longrightarrow> evolves s (reset_index_to_pending_for_retry env i a)"
  "evolves s a \<Longrightarrow> j_id j = Some i \<Longrightarrow> evolves s (set_cache env i j ttl a)"
  "evolves s a \<Longrightarrow> j_id j = Some i \<Longrightarrow> evolves s (cached env lo i j a)"
  by (erule evolves_trans, (rule evolves_parts | rule evolves_index | rule evolves_cached); assumption?)+

end
