(* ===== verification/Job_Invariant.thy ===== *)
theory Job_Invariant
  imports Job_Completion
begin

text \<open>
  Every operation of the standalone application keeps its invariant and changes the database only
  by the steps that \<^verbatim>\<open>Status_Claims\<close> reasons about, so that what is shown there of any sequence
  of steps holds of any sequence of operations.
\<close>

lemma evolves_delete_row: "delete_row env i s = (r, s') \<Longrightarrow> evolves s s'"
  unfolding delete_row_def by (erule evolves_on_db) (metis Inr_inject index_step.finish snd_conv)

lemma evolves_create_row: "create_row env j s = (r, s') \<Longrightarrow> evolves s s'"
  unfolding create_row_def by (erule evolves_on_db) (rule index_step.enqueue)

lemma evolves_enqueue_only:
  assumes "enqueue_job_sync_enqueue_only env j w lo pub s = (r, s')"
  shows "evolves s s'"
proof (cases "j_id j")
  case None
  then show ?thesis using assms by (simp add: enqueue_job_sync_enqueue_only_def)
next
  case (Some i)
  show ?thesis
  proof (cases "is_run_after_job env (ae_now env 2) j")
    case True
    then show ?thesis using assms enqueue_only_delayed [OF Some True, of w lo pub s] by simp
  next
    case now: False
    obtain er q where q: "enqueue_job_with_load_only (ae_ops env) (ae_codec env) (w_channel w) j lo (ap_queue s) =
        (er, q)" by (rule prod.exhaust)
    show ?thesis
    proof (cases "\<not> lo \<and> pub = NewEnqueue")
      case True
      then show ?thesis
        using assms enqueue_only_new [OF Some now, of w s er q] q
        by (cases er) (auto intro!: evolves_after Some)
    next
      case False
      then have "lo \<or> pub = RetryPublication" by (cases pub) auto
      from enqueue_only_other [OF Some now this q] assms show ?thesis
        by (cases er) (auto intro!: evolves_after Some)
    qed
  qed
qed

text \<open>Other tasks keep the invariant too.\<close>

definition env_ok :: "'c app_env \<Rightarrow> bool" where
  "env_ok env \<longleftrightarrow> (\<forall>n st. mem_invar st \<longrightarrow> mem_invar (ae_others env n st)) \<and>
     (\<forall>i s. evolves s (snd (ae_wait env i s)))"

lemma evolves_wait: "env_ok env \<Longrightarrow> ae_wait env i s = (r, s') \<Longrightarrow> evolves s s'"
  unfolding env_ok_def by (metis snd_conv)

lemma evolves_prepare: "prepare_direct_response env i b s = (r, s') \<Longrightarrow> evolves s s'"
  by (auto simp: prepare_direct_response_def intro!: evolves_after split: option.splits)

lemma evolves_sync:
  assumes ok: "env_ok env" and run: "enqueue_job_sync env j w s = (r, s')"
  shows "evolves s s'"
proof -
  let ?direct = "rj_response_type (resolve_job_params w (Option.bind (j_data j) jd_overrides)) = response_type_i32 Direct"
  let ?streaming = "case j_data j of None \<Rightarrow> False | Some d \<Rightarrow> jd_streaming_type d \<noteq> 0"
  obtain p s1 where p: "(if ?direct then (case j_id j of None \<Rightarrow> (Inl (InvalidParameter ''job id is missing''), s)
      | Some i \<Rightarrow> prepare_direct_response env i ?streaming s) else (Inr (), s)) = (p, s1)" by (rule prod.exhaust)
  have s1: "evolves s s1"
    using p by (auto split: if_splits option.splits dest: evolves_prepare)
  obtain e s2 where e: "enqueue_job_sync_enqueue_only env j w False NewEnqueue s1 = (e, s2)" by (rule prod.exhaust)
  have s2: "evolves s s2" using s1 evolves_enqueue_only [OF e] by (rule evolves_trans)
  have waited: "ae_wait env i s2 = (x, s') \<Longrightarrow> evolves s s'" for i x
    using evolves_trans [OF s2 evolves_wait [OF ok]] .
  have "s' \<in> {s1, s2, app_emit (SubscriptionAborted (the (j_id j))) s2} \<or> (\<exists>i x. ae_wait env i s2 = (x, s'))"
    using run unfolding enqueue_job_sync_def Let_def p by (auto simp: e split: sum.splits if_splits prod.splits)
  then show ?thesis using s1 s2 waited evolves_after(4) [OF s2] by auto
qed

lemma evolves_to_rdb:
  assumes "enqueue_to_rdb env i j publish s = (r, s')"
  shows "evolves s s'"
proof -
  obtain c s1 where c: "create_row env j s = (c, s1)" by (rule prod.exhaust)
  have "s' = s1 \<or> s' = set_pending i s1"
    using assms by (auto simp: enqueue_to_rdb_def c split: sum.splits if_splits)
  then show ?thesis using evolves_create_row [OF c] by (auto intro: evolves_after)
qed

lemma evolves_backup:
  assumes "env_ok env" "enqueue_with_backup env j w s = (r, s')"
  shows "evolves s s'"
proof -
  obtain c s1 where c: "create_row env j s = (c, s1)" by (rule prod.exhaust)
  then consider "s' = s1" | "enqueue_job_sync env j w s1 = (r, s')"
    using assms(2) by (auto simp: enqueue_with_backup_def split: sum.splits)
  then show ?thesis
    using evolves_create_row [OF c] evolves_sync [OF assms(1)] by cases (auto intro: evolves_trans)
qed

lemma evolves_route: "env_ok env \<Longrightarrow> route_new_job env w resolved i j d s = (r, s') \<Longrightarrow> evolves s s'"
  unfolding route_new_job_def by (auto split: if_splits dest: evolves_sync evolves_to_rdb evolves_backup)

lemma evolves_enqueue:
  assumes "env_ok env" "enqueue_job_with_worker env worker a s = (r, s')"
  shows "evolves s s'"
proof (cases "wk_id worker = None \<or> wk_data worker = None")
  case True
  then show ?thesis using assms(2) by (auto simp: enqueue_job_with_worker_def split: option.splits)
next
  case False
  then obtain wid w where ids: "wk_id worker = Some wid" "wk_data worker = Some w" by auto
  show ?thesis
  proof (rule enqueue_reaches_route [OF ids assms(2)])
    fix resolved
    assume r: "then_index env (pending_update wid w (new_id env a) a (scheduled_data env w (new_job_data env wid a)) resolved)
         (route_new_job env w resolved (new_id env a) (new_job env wid w a)
           (scheduled_data env w (new_job_data env wid a)) s) = (r, s')"
    obtain x s1 where x: "route_new_job env w resolved (new_id env a) (new_job env wid w a)
           (scheduled_data env w (new_job_data env wid a)) s = (x, s1)" by (rule prod.exhaust)
    have "evolves s s1" using evolves_route [OF assms(1) x] .
    with r show ?thesis by (auto simp: then_index_def x split: sum.splits intro: evolves_after)
  qed simp
qed

lemma evolves_channel:
  assumes ok: "env_ok env" and run: "enqueue_job_with_channel env worker a s = (r, s')"
  shows "evolves s s'"
proof -
  obtain x s0 where x: "enqueue_job_with_worker env worker a s = (x, s0)" by (rule prod.exhaust)
  consider "s' = s" | "s' = s0"
    | i b y s1 where "prepare_direct_response env i b s = (y, s1)" "s' = s1"
    | i b y s1 j w z s2 where "prepare_direct_response env i b s = (y, s1)"
        "enqueue_job_sync_enqueue_only env j w False NewEnqueue s1 = (z, s2)"
        "s' = app_emit (SubscriptionAborted i) s2 \<or> (\<exists>u. s' = index_job_status_async env u s2)"
    using run unfolding enqueue_job_with_channel_def Let_def x
    by (simp split: option.splits sum.splits if_splits prod.splits) blast+
  then show ?thesis
  proof cases
    case 2
    then show ?thesis using evolves_enqueue [OF ok x] by simp
  next
    case 3
    then show ?thesis using evolves_prepare by blast
  next
    case 4
    have "evolves s s2" using evolves_trans [OF evolves_prepare [OF 4(1)] evolves_enqueue_only [OF 4(2)]] .
    with 4(3) show ?thesis by (auto intro: evolves_after)
  qed simp
qed

lemma evolves_load:
  assumes "env_ok env" "load_worker env wid t s = (r, s')"
  shows "evolves s s'"
proof -
  have "evolves s s2" if "enqueue_job_sync_enqueue_only env j w lo pub s = (x, s1)" "ae_wait env i s1 = (y, s2)"
    for j w lo pub x s1 i y s2
    using evolves_trans [OF evolves_enqueue_only [OF that(1)] evolves_wait [OF assms(1) that(2)]] .
  then show ?thesis
    using assms(2) unfolding load_worker_def
    by (auto split: option.splits sum.splits prod.splits dest: evolves_enqueue_only)
qed

lemma evolves_update:
  assumes "update_job env j s = (r, s')"
  shows "evolves s s'"
proof (cases "\<exists>i d w. j_id j = Some i \<and> j_data j = Some d \<and> find_data_by_opt env (jd_worker_id d) = Inr (Some w)")
  case False
  then show ?thesis using assms by (auto simp: update_job_def Let_def split: option.splits sum.splits)
next
  case True
  then obtain i d w where j: "j_id j = Some i" "j_data j = Some d"
    and w: "find_data_by_opt env (jd_worker_id d) = Inr (Some w)" by blast
  obtain rd s1 where rdb: "(if uses_rdb_queue (runs_later env d) w
      then on_db env AcUpsert (upsert_with_pending_status_reset (ae_index env) (ae_now env 3) i d) s
      else (Inr False, reset_index_to_pending_for_retry env i s)) = (rd, s1)" by (rule prod.exhaust)
  obtain rc s2 where chan: "(if uses_chan_queue (runs_later env d) w
      then enqueue_job_sync_enqueue_only env j w False RetryPublication s1 else (Inr i, s1)) = (rc, s2)"
    by (rule prod.exhaust)
  have "evolves s s1"
    using rdb evolves_index(3)
    by (auto split: if_splits elim!: evolves_on_db intro: index_step.retry)
  moreover have "evolves s1 s2" using chan by (auto split: if_splits dest: evolves_enqueue_only)
  ultimately have "evolves s s2" by (rule evolves_trans)
  then show ?thesis
    using assms unfolding update_job_eq [OF j w rdb chan] by (auto split: sum.splits intro: evolves_after)
qed

lemma evolves_cleanup: "evolves s (snd (cleanup_job env i s))"
proof -
  obtain b s1 where d: "delete_row env i (mark_index_deleted env i s) = (b, s1)" by (rule prod.exhaust)
  have "evolves s s1" using evolves_trans [OF evolves_index(1) evolves_delete_row [OF d]] .
  then show ?thesis by (simp add: cleanup_job_def d evolves_after)
qed

lemma evolves_log: "evolves s (s\<lparr>ap_log := l\<rparr>)"
  by (simp add: evolves_def app_ok_def)

lemma evolves_complete:
  assumes "complete_job env rid d has_stream s = (r, s')"
  shows "evolves s s'"
proof -
  have marker: "evolves s s2" if "spawn_end_marker_if_needed env d i (app_emit ef s) = (x, s2)" for i ef x s2
    using that by (auto simp: spawn_end_marker_if_needed_def intro!: evolves_log
        split: if_splits sum.splits panic.splits)
  have finish: "evolves s s'" if "finish_response env rid d i b has_stream s = (r, s')" for i b
    using that unfolding finish_response_def Let_def
    by (auto split: if_splits sum.splits prod.splits dest: marker intro: evolves_log evolves_trans [OF _ evolves_cleanup])
  show ?thesis
    using assms evolves_cleanup unfolding complete_job_def
    by (auto split: option.splits response_type.splits dest: finish)
qed

lemma evolves_stream_task: "evolves s (stream_task env i s)"
  unfolding stream_task_def using evolves_trans [OF evolves_after(4) [OF evolves_refl] evolves_cleanup] .

lemma evolves_remove_pending:
  assumes "remove_pending_rdb_job env i s = (r, s')"
  shows "evolves s s'"
proof -
  obtain b s1 where d: "delete_row env i s = (b, s1)" by (rule prod.exhaust)
  have "s' = s \<or> s' = s1" using assms by (auto simp: remove_pending_rdb_job_def d split: sum.splits)
  then show ?thesis using evolves_delete_row [OF d] by auto
qed

lemma evolves_applied:
  assumes "applied_cancellation (standalone_backend env) i r s = (x, s')"
  shows "evolves s s'"
proof -
  obtain b s1 where d: "remove_pending_rdb_job env i (record_cancelling_index env i s) = (b, s1)"
    by (rule prod.exhaust)
  have s1: "evolves s s1" using evolves_trans [OF evolves_index(2) evolves_remove_pending [OF d]] .
  have "s' \<in> {s1, clear_status i (mark_index_deleted env i s1), record_cancelling_index env i s,
      app_emit (CancelBroadcast i) (record_cancelling_index env i s)}"
    using assms by (auto simp: applied_cancellation_def Let_def d broadcast_cancelled_job_def
        split: if_splits sum.splits option.splits pending_cancellation_disposition.splits)
  then show ?thesis using s1 evolves_trans [OF evolves_index(2) evolves_log] by (auto intro!: evolves_after)
qed

lemma evolves_others:
  assumes "env_ok env"
  shows "evolves s (others_act env n s)"
proof -
  have "\<forall>n st. mem_invar st \<longrightarrow> mem_invar (ae_others env n st)"
    using assms unfolding env_ok_def by (rule conjunct1)
  then show ?thesis by (simp add: evolves_def app_ok_def)
qed

lemma evolves_cas:
  assumes "env_ok env" "mem_compare_and_set_status (ap_status (others_act env n s)) i e x = (t, st)"
  shows "evolves s (others_act env n s\<lparr>ap_status := st\<rparr>)"
proof -
  have "mem_invar (ap_status (others_act env n s)) \<Longrightarrow> mem_invar st"
    using mem.invar_cas [of "ap_status (others_act env n s)" i e x] assms(2) by simp
  then have "evolves (others_act env n s) (others_act env n s\<lparr>ap_status := st\<rparr>)"
    by (simp add: evolves_def app_ok_def)
  from evolves_trans [OF evolves_others [OF assms(1)] this] show ?thesis .
qed

lemma evolves_attempts:
  assumes "env_ok env" "cancel_attempts (standalone_backend env) i k r s = (x, s')"
  shows "evolves s s'"
  using assms(2)
proof (induction k arbitrary: r s)
  case 0
  then show ?case using evolves_others [OF assms(1)] by auto
next
  case (Suc k)
  obtain t st where cas: "mem_compare_and_set_status (ap_status (others_act env (Suc k) s)) i (Some r)
      (Some \<lparr>sr_status = JpsCancelling, sr_retried = sr_retried r\<rparr>) = (t, st)" by (rule prod.exhaust)
  note c = evolves_cas [OF assms(1) cas]
  consider "s' = s" | "s' = others_act env (Suc k) s\<lparr>ap_status := st\<rparr>"
    | "applied_cancellation (standalone_backend env) i r (others_act env (Suc k) s\<lparr>ap_status := st\<rparr>) = (x, s')"
    | c where "cancel_attempts (standalone_backend env) i k c (others_act env (Suc k) s\<lparr>ap_status := st\<rparr>) = (x, s')"
    using Suc.prems cas by (auto split: if_splits status_transition.splits option.splits)
  then show ?case
    by cases (auto intro: evolves_trans [OF c] evolves_applied Suc.IH c)
qed

lemma evolves_cancel:
  assumes "env_ok env" "cancel_job env i s = (x, s')"
  shows "evolves s s'"
proof -
  let ?s1 = "others_act env 0 s"
  have unpublished: "evolves ?s1 s'" if "remove_unpublished_rdb_only_job env i ?s1 = (x, s')"
    using that by (auto simp: remove_unpublished_rdb_only_job_def dest: evolves_delete_row
        split: sum.splits option.splits bool.splits)
  consider "s' = ?s1" | "remove_unpublished_rdb_only_job env i ?s1 = (x, s')"
    | k r where "cancel_attempts (standalone_backend env) i k r ?s1 = (x, s')"
    using assms(2) by (auto simp: cancel_job_def cancel_job_lifecycle_def split: option.splits if_splits)
  then have "evolves ?s1 s'" by cases (auto intro: unpublished evolves_attempts [OF assms(1)])
  then show ?thesis using evolves_trans [OF evolves_others [OF assms(1)]] by blast
qed

lemma evolves_find:
  assumes "find_job env i s = (x, s')"
  shows "evolves s s'"
proof -
  have "j_id j = Some i" if "job_find i (ap_db s) = Some j" for j
    using that by (auto simp: job_find_def find_row_tx_def job_row_to_proto_def find_Some_iff)
  then show ?thesis
    using assms by (auto simp: find_job_def find_row_def intro!: evolves_after split: option.splits sum.splits)
qed

lemma evolves_purge_each: "purge_each env cfg n ids s = (x, s') \<Longrightarrow> evolves s s'"
proof (induction ids arbitrary: n s)
  case (Cons i "is")
  obtain o1 s1 where o: "is_orphaned env i s = (o1, s1)" by (rule prod.exhaust)
  have s1: "evolves s s1"
    using o by (auto simp: is_orphaned_def dest: evolves_find split: if_splits prod.splits sum.splits)
  have marked: "evolves s (s1\<lparr>ap_db := mark_deleted_by_job_id cfg now i (ap_db s1)\<rparr>)" for now
    by (intro evolves_trans [OF s1 evolves_step] r_into_rtranclp index_step.mark)
  consider "s' = s1" | m where "purge_each env cfg m is s1 = (x, s')"
    | m where "purge_each env cfg m is (s1\<lparr>ap_db := mark_deleted_by_job_id cfg (ae_now env 4) i (ap_db s1)\<rparr>) = (x, s')"
    using Cons.prems o by (auto split: sum.splits bool.splits option.splits)
  then show ?case by cases (auto intro: s1 evolves_trans [OF s1] evolves_trans [OF marked] Cons.IH)
qed simp

lemma evolves_purge:
  assumes "purge_stale_job_processing_status env hours orphaned_only s = (x, s')"
  shows "evolves s s'"
proof -
  have direct: "evolves s (s\<lparr>ap_db := db\<rparr>)" if "purge_stale_records cfg now hours (ap_db s) = Inr (n, db)" for cfg now n db
    using index_step.purge [OF that] by (intro evolves_step r_into_rtranclp)
  show ?thesis
    using assms by (auto simp: purge_stale_job_processing_status_def purge_orphaned_stale_records_def
        dest: direct evolves_purge_each split: option.splits sum.splits prod.splits if_splits)
qed

section \<open>Any sequence of operations\<close>

datatype app_op =
    AppEnqueue worker enqueue_args
  | AppEnqueueTemp worker_data bool enqueue_args
  | AppEnqueueChannel worker enqueue_args
  | AppLoad worker_id "u64 option"
  | AppUpdate job
  | AppComplete i64 job_result_data bool
  | AppStreamTask job_id
  | AppCancel job_id
  | AppFind job_id
  | AppPurge u64 bool

primrec app_run :: "'c app_env \<Rightarrow> app_op \<Rightarrow> 'c app_state \<Rightarrow> 'c app_state" where
  "app_run env (AppEnqueue w a) s = snd (enqueue_job_with_worker env w a s)"
| "app_run env (AppEnqueueTemp w b a) s = snd (enqueue_job_with_temp_worker env w b a s)"
| "app_run env (AppEnqueueChannel w a) s = snd (enqueue_job_with_channel env w a s)"
| "app_run env (AppLoad w t) s = snd (load_worker env w t s)"
| "app_run env (AppUpdate j) s = snd (update_job env j s)"
| "app_run env (AppComplete r d b) s = snd (complete_job env r d b s)"
| "app_run env (AppStreamTask i) s = stream_task env i s"
| "app_run env (AppCancel i) s = snd (cancel_job env i s)"
| "app_run env (AppFind i) s = snd (find_job env i s)"
| "app_run env (AppPurge h b) s = snd (purge_stale_job_processing_status env h b s)"

lemma snd_evolves: "(\<And>r s'. p = (r, s') \<Longrightarrow> evolves s s') \<Longrightarrow> evolves s (snd p)"
  by (cases p) simp

lemma app_run_evolves:
  assumes "env_ok env"
  shows "evolves s (app_run env op s)"
proof (cases op)
  case (AppEnqueue w a)
  then show ?thesis by (auto intro!: snd_evolves elim: evolves_enqueue [OF assms])
next
  case (AppEnqueueTemp w b a)
  then show ?thesis
    by (auto simp: enqueue_job_with_temp_worker_def intro!: snd_evolves elim: evolves_enqueue [OF assms]
        split: sum.splits)
next
  case (AppEnqueueChannel w a)
  then show ?thesis by (auto intro!: snd_evolves elim: evolves_channel [OF assms])
next
  case (AppLoad w t)
  then show ?thesis by (auto intro!: snd_evolves elim: evolves_load [OF assms])
next
  case (AppUpdate j)
  then show ?thesis by (auto intro!: snd_evolves elim: evolves_update)
next
  case (AppComplete r d b)
  then show ?thesis by (auto intro!: snd_evolves elim: evolves_complete)
next
  case (AppStreamTask i)
  then show ?thesis by (simp add: evolves_stream_task)
next
  case (AppCancel i)
  then show ?thesis by (auto intro!: snd_evolves elim: evolves_cancel [OF assms])
next
  case (AppFind i)
  then show ?thesis by (auto intro!: snd_evolves elim: evolves_find)
next
  case (AppPurge h b)
  then show ?thesis by (auto intro!: snd_evolves elim: evolves_purge)
qed

lemma app_runs_evolve: "env_ok env \<Longrightarrow> evolves s (fold (app_run env) ops s)"
  by (induction ops arbitrary: s) (auto intro: evolves_trans app_run_evolves)

text \<open>
  The invariant of the standalone application.  After any sequence of operations, with any
  failures and any well-behaved tasks beside them, the status repository is well-formed, the cache
  holds each job under its own id, the primary keys of the tables are kept, and no row of the
  index has disappeared or gone back to an earlier version.
\<close>

theorem application_keeps_invariant:
  assumes env: "env_ok env" and ok: "app_ok s" "keys_ok (ap_db s)"
  shows "app_ok (fold (app_run env) ops s) \<and> keys_ok (ap_db (fold (app_run env) ops s)) \<and>
     (\<forall>i v. version_of i (ap_db s) = Some v \<longrightarrow>
        (\<exists>v' \<ge> v. version_of i (ap_db (fold (app_run env) ops s)) = Some v'))"
proof -
  let ?s' = "fold (app_run env) ops s"
  have e: "evolves s ?s'" using env by (rule app_runs_evolve)
  then have "advances (ap_db s) (ap_db ?s')" unfolding evolves_def by (intro index_steps_advance) simp
  then show ?thesis using e ok unfolding evolves_def advances_def by simp
qed

theorem application_keeps_invariant_witness:
  "app_ok (fold (app_run example_indexed_env)
     [AppEnqueue (example_registered QtNormal) example_args, AppCancel 70, AppUpdate example_queued, AppPurge 1 True]
     example_indexed_state)"
proof -
  have env: "env_ok example_indexed_env"
    by (simp add: env_ok_def example_indexed_env_def example_app_env_def)
  have ok: "app_ok example_indexed_state"
    using example_app_invar by (simp add: app_ok_def example_indexed_state_def example_app_state_def)
  have keys: "keys_ok (ap_db example_indexed_state)"
    using example_keys(2) by (simp add: example_indexed_state_def)
  from application_keeps_invariant [OF env ok keys] show ?thesis by blast
qed

end
