(* ===== verification/Result_Processor.thy ===== *)
theory Result_Processor
  imports Job_Status Result_Store
begin

text \<open>
  What happens to the result of a run: \<^verbatim>\<open>worker-app/src/worker/result_processor.rs\<close> and
  its \<^verbatim>\<open>stream_outcome.rs\<close>.  The processor reads and writes the status repository, which
  other workers change at the same time, and calls the job, worker and result applications.
  The calls are recorded in the order they are made; each one's answer, and what the other
  workers do to the repository before each access, come from the environment.
\<close>

section \<open>Effects\<close>

datatype rp_effect =
    EfComplete i64 job_result_data bool
  | EfUpdateJob job
  | EfEnqueue job_data "job_id option"
  | EfDeleteTemp worker_id
  | EfStore i64 job_result_data bool
  | EfReplace i64 job_result_data job_result_data

datatype rp_failure = RpError any_error | RpPanic panic

record 's pstate =
  ps_repo :: 's
  ps_log :: "rp_effect list"

type_synonym ('s, 'a) proc = "'s pstate \<Rightarrow> (rp_failure + 'a) \<times> 's pstate"

definition returnP :: "'a \<Rightarrow> ('s, 'a) proc" where
  "returnP x = (\<lambda>s. (Inr x, s))"

definition failP :: "rp_failure \<Rightarrow> ('s, 'a) proc" where
  "failP e = (\<lambda>s. (Inl e, s))"

definition bindP :: "('s, 'a) proc \<Rightarrow> ('a \<Rightarrow> ('s, 'b) proc) \<Rightarrow> ('s, 'b) proc" where
  "bindP m f = (\<lambda>s. case m s of (Inl e, s') \<Rightarrow> (Inl e, s') | (Inr x, s') \<Rightarrow> f x s')"

text \<open>A \<^verbatim>\<open>Result\<close> kept as a value; a panic still unwinds.\<close>

definition attempt :: "('s, 'a) proc \<Rightarrow> ('s, any_error + 'a) proc" where
  "attempt m = (\<lambda>s. case m s of
      (Inl (RpError e), s') \<Rightarrow> (Inr (Inl e), s')
    | (Inl (RpPanic p), s') \<Rightarrow> (Inl (RpPanic p), s')
    | (Inr x, s') \<Rightarrow> (Inr (Inr x), s'))"

definition liftR :: "any_error + 'a \<Rightarrow> ('s, 'a) proc" where
  "liftR r = (case r of Inl e \<Rightarrow> failP (RpError e) | Inr x \<Rightarrow> returnP x)"

definition liftP :: "panic + 'a \<Rightarrow> ('s, 'a) proc" where
  "liftP r = (case r of Inl p \<Rightarrow> failP (RpPanic p) | Inr x \<Rightarrow> returnP x)"

definition call :: "rp_effect \<Rightarrow> any_error + 'a \<Rightarrow> ('s, 'a) proc" where
  "call ef answer = (\<lambda>s. liftR answer (s\<lparr>ps_log := ps_log s @ [ef]\<rparr>))"

text \<open>
  The environment of one processing: the repository, the steps of other workers before the
  first lookup, the second lookup and the compare-and-set, failures of the three accesses,
  and the answers of the services (for \<^verbatim>\<open>complete_job\<close>, whether it hands out a completion
  receiver).
\<close>

record 's rp_env =
  rpe_find :: "'s \<Rightarrow> job_id \<Rightarrow> status_record option"
  rpe_cas :: "'s \<Rightarrow> job_id \<Rightarrow> status_record option \<Rightarrow> status_record option \<Rightarrow>
    status_transition \<times> 's"
  rpe_others :: "nat \<Rightarrow> 's \<Rightarrow> 's"
  rpe_fails :: "nat \<Rightarrow> any_error option"
  rpe_to_string :: json_writer
  rpe_from_str :: json_reader
  rpe_float_ops :: float_ops
  rpe_now :: i64
  rpe_complete :: "any_error + bool \<times> bool"
  rpe_update :: "any_error + unit"
  rpe_enqueue :: "any_error + unit"
  rpe_delete_temp :: "any_error + unit"
  rpe_store :: "any_error + bool"

definition repo_find ::
  "'s rp_env \<Rightarrow> nat \<Rightarrow> job_id \<Rightarrow> ('s, status_record option) proc" where
  "repo_find env k i = (\<lambda>s.
     let repo = rpe_others env k (ps_repo s); s' = s\<lparr>ps_repo := repo\<rparr>
     in case rpe_fails env k of
          Some e \<Rightarrow> (Inl (RpError e), s')
        | None \<Rightarrow> (Inr (rpe_find env repo i), s'))"

definition repo_cas ::
  "'s rp_env \<Rightarrow> nat \<Rightarrow> job_id \<Rightarrow> status_record option \<Rightarrow> status_record option \<Rightarrow>
    ('s, status_transition) proc" where
  "repo_cas env k i expected nxt = (\<lambda>s.
     let repo = rpe_others env k (ps_repo s)
     in case rpe_fails env k of
          Some e \<Rightarrow> (Inl (RpError e), s\<lparr>ps_repo := repo\<rparr>)
        | None \<Rightarrow>
            (case rpe_cas env repo i expected nxt of (t, repo') \<Rightarrow> (Inr t, s\<lparr>ps_repo := repo'\<rparr>)))"

section \<open>Deciding about a retry\<close>

datatype retry_transition_decision =
    Requeue | CompleteCancelled | CompleteWithoutClaim | IgnoreStale

definition retry_attempt_is_current :: "status_record \<Rightarrow> job_result_data \<Rightarrow> bool" where
  "retry_attempt_is_current current d \<longleftrightarrow> sr_retried current = jr_retried d"

definition retry_attempt_ownership_decision ::
  "status_record \<Rightarrow> job_result_data \<Rightarrow> retry_transition_decision option" where
  "retry_attempt_ownership_decision current d =
     (if \<not> retry_attempt_is_current current d then Some IgnoreStale
      else if sr_status current = JpsCancelling then Some CompleteCancelled
      else None)"

definition RETRY_CANCELLED_MESSAGE :: string where
  "RETRY_CANCELLED_MESSAGE = ''Job was cancelled while retrying''"

definition mark_retry_cancelled :: "json_writer \<Rightarrow> job_result_data \<Rightarrow> panic + job_result_data" where
  "mark_retry_cancelled to_string d =
     bindE (cancelled_by_worker to_string RETRY_CANCELLED_MESSAGE) (\<lambda>e.
       Inr (d\<lparr>jr_status := result_status_i32 RsCancelled,
              jr_output := Some RETRY_CANCELLED_MESSAGE,
              jr_error := Some e,
              jr_max_retry := 0\<rparr>))"

definition cancel_retryable_result_if_requested ::
  "'s rp_env \<Rightarrow> job_result_data \<Rightarrow> ('s, job_result_data) proc" where
  "cancel_retryable_result_if_requested env d =
     (if jr_status d \<noteq> result_status_i32 RsErrorAndRetry then returnP d
      else case jr_job_id d of
             None \<Rightarrow> returnP d
           | Some i \<Rightarrow>
               bindP (repo_find env 0 i) (\<lambda>found.
                 case found of
                   Some r \<Rightarrow>
                     if sr_status r = JpsCancelling \<and> sr_retried r = jr_retried d
                     then liftP (mark_retry_cancelled (rpe_to_string env) d)
                     else returnP d
                 | None \<Rightarrow> returnP d))"

text \<open>The last part of the transition: the record is the attempt's own and not cancelled.\<close>

definition claim_for_retry ::
  "'s rp_env \<Rightarrow> job_result_data \<Rightarrow> job_id \<Rightarrow> job_data \<Rightarrow> status_record \<Rightarrow>
    ('s, retry_transition_decision \<times> job_result_data) proc" where
  "claim_for_retry env d i next_data current =
     bindP (repo_cas env 2 i (Some current)
              (Some \<lparr>sr_status = JpsPending, sr_retried = jd_retried next_data\<rparr>))
       (\<lambda>t. case t of
          Applied \<Rightarrow> returnP (Requeue, d)
        | Conflict (Some r) \<Rightarrow>
            if sr_status r = JpsCancelling \<and> sr_retried r = jr_retried d
            then bindP (liftP (mark_retry_cancelled (rpe_to_string env) d))
                   (\<lambda>d'. returnP (CompleteCancelled, d'))
            else returnP (IgnoreStale, d)
        | Conflict None \<Rightarrow> returnP (CompleteWithoutClaim, d))"

definition transition_retry_to_pending_or_cancel ::
  "'s rp_env \<Rightarrow> job_result_data \<Rightarrow> job \<Rightarrow>
    ('s, retry_transition_decision \<times> job_result_data) proc" where
  "transition_retry_to_pending_or_cancel env d retry_job =
     (case jr_job_id d of
        None \<Rightarrow> returnP (Requeue, d)
      | Some i \<Rightarrow>
          (case j_data retry_job of
             None \<Rightarrow> returnP (Requeue, d)
           | Some next_data \<Rightarrow>
               bindP (repo_find env 1 i) (\<lambda>found.
                 case found of
                   None \<Rightarrow> returnP (CompleteWithoutClaim, d)
                 | Some current \<Rightarrow>
                     (case retry_attempt_ownership_decision current d of
                        Some CompleteCancelled \<Rightarrow>
                          bindP (liftP (mark_retry_cancelled (rpe_to_string env) d))
                            (\<lambda>d'. returnP (CompleteCancelled, d'))
                      | Some decision \<Rightarrow> returnP (decision, d)
                      | None \<Rightarrow> claim_for_retry env d i next_data current))))"

section \<open>Completing or retrying\<close>

text \<open>
  The data may be changed before an error is returned, and the caller still stores it, so the
  processing returns the data with a result of its own.
\<close>

definition process_complete_or_retry_condition ::
  "'s rp_env \<Rightarrow> i64 \<Rightarrow> job_result_data \<Rightarrow> bool \<Rightarrow> worker_data \<Rightarrow> metadata \<Rightarrow>
    ('s, (any_error + bool) \<times> job_result_data) proc" where
  "process_complete_or_retry_condition env i d has_stream w md =
     (case build_retry_job (rpe_float_ops env) d w md of
        Some j \<Rightarrow>
          bindP (attempt (transition_retry_to_pending_or_cancel env d j)) (\<lambda>r.
            case r of
              Inl e \<Rightarrow> returnP (Inl e, d)
            | Inr (Requeue, d') \<Rightarrow>
                bindP (attempt (call (EfUpdateJob j) (rpe_update env))) (\<lambda>u.
                  returnP (map_sum id (\<lambda>_. False) u, d'))
            | Inr (IgnoreStale, d') \<Rightarrow> returnP (Inr False, d')
            | Inr (_, d') \<Rightarrow>
                bindP (attempt (call (EfComplete i d' has_stream) (rpe_complete env))) (\<lambda>c.
                  returnP (map_sum id snd c, d')))
      | None \<Rightarrow>
          bindP (attempt (call (EfComplete i d has_stream) (rpe_complete env))) (\<lambda>completed.
          bindP (liftP (build_next_periodic_job (rpe_now env) d w)) (\<lambda>periodic.
          bindP (case periodic of
                   None \<Rightarrow> returnP (Inr ())
                 | Some pj \<Rightarrow> attempt (call (EfEnqueue pj (jr_job_id d)) (rpe_enqueue env)))
            (\<lambda>enqueued. case enqueued of
               Inl e \<Rightarrow> returnP (Inl e, d)
             | Inr _ \<Rightarrow>
                 bindP (if w_use_static w then returnP (Inr ())
                        else case jr_worker_id d of
                               None \<Rightarrow> returnP (Inr ())
                             | Some wid \<Rightarrow>
                                 attempt (call (EfDeleteTemp wid) (rpe_delete_temp env)))
                   (\<lambda>_. returnP (map_sum id snd completed, d))))))"

section \<open>Streams and their End\<close>

definition can_be_settled :: "job_result_data \<Rightarrow> bool" where
  "can_be_settled d \<longleftrightarrow>
     jr_status d = result_status_i32 RsSuccess \<and>
     (jr_store_success d \<or> jr_store_failure d \<or> jr_broadcast_results d)"

text \<open>The probe after the given items have passed: the outcome of the first End.\<close>

fun observe_end :: "json_reader \<Rightarrow> result_output_item list \<Rightarrow> stream_error_outcome option" where
  "observe_end from_str [] = None"
| "observe_end from_str (ItemEnd t # items) = Some (inspect_end from_str t)"
| "observe_end from_str (_ # items) = observe_end from_str items"

definition settled_result :: "job_result_data \<Rightarrow> stream_error \<Rightarrow> job_result_data" where
  "settled_result recorded e =
     recorded\<lparr>jr_status := result_status_i32 (result_status_for (se_code e)),
       jr_output := Some (stream_failure_output e),
       jr_error := Some e\<rparr>"

text \<open>
  \<open>published\<close> are the items the publisher pulled before it ended, all of them or fewer.
\<close>

definition settle_result_after_stream ::
  "json_reader \<Rightarrow> i64 \<Rightarrow> job_result_data \<Rightarrow> result_output_item list \<Rightarrow> rp_effect list" where
  "settle_result_after_stream from_str i recorded published =
     (case observe_end from_str published of
        Some (OutcomeFailed e) \<Rightarrow> [EfReplace i recorded (settled_result recorded e)]
      | _ \<Rightarrow> [])"

text \<open>When the worker may let go of the job: at once, once published, or once settled.\<close>

datatype completion = NoReceiver | WhenPublished | WhenSettled i64 job_result_data

definition process_result_inner ::
  "'s rp_env \<Rightarrow> job_result \<Rightarrow> bool \<Rightarrow> worker_data \<Rightarrow> bool \<Rightarrow>
    ('s, job_result \<times> completion) proc" where
  "process_result_inner env jr has_stream w load_only =
     (case (jres_id jr, jres_data jr) of
        (Some i, Some d0) \<Rightarrow>
          bindP (cancel_retryable_result_if_requested env d0) (\<lambda>d.
            if load_only then
              bindP (call (EfComplete i d has_stream) (rpe_complete env)) (\<lambda>(_, rx).
                returnP (jr\<lparr>jres_data := Some d\<rparr>, if rx then WhenPublished else NoReceiver))
            else
              let probed = can_be_settled d \<and> has_stream
              in bindP (process_complete_or_retry_condition env i d has_stream w (jres_metadata jr))
                   (\<lambda>(complete_or_retry, d').
                     bindP (call (EfStore i d' (jr_broadcast_results d')) (rpe_store env)) (\<lambda>_.
                     bindP (liftR complete_or_retry) (\<lambda>rx.
                       returnP (jr\<lparr>jres_data := Some d'\<rparr>,
                         if \<not> rx then NoReceiver
                         else if probed then WhenSettled i d'
                         else WhenPublished)))))
      | _ \<Rightarrow> failP (RpError (any_of_job_worker_error
               (NotFound ''job result without id or data''))))"

definition process_result ::
  "'s rp_env \<Rightarrow> job_result \<Rightarrow> bool \<Rightarrow> worker_data \<Rightarrow> ('s, job_result \<times> completion) proc" where
  "process_result env jr has_stream w = process_result_inner env jr has_stream w False"

section \<open>Lemmas on the steps\<close>

lemma returnP_apply [simp]: "returnP x s = (Inr x, s)"
  by (simp add: returnP_def)

lemma failP_apply [simp]: "failP e s = (Inl e, s)"
  by (simp add: failP_def)

lemma liftR_apply [simp]:
  "liftR (Inl e) = failP (RpError e)" "liftR (Inr x) = returnP x"
  by (simp_all add: liftR_def)

lemma liftP_apply [simp]:
  "liftP (Inl p) = failP (RpPanic p)" "liftP (Inr y) = returnP y"
  by (simp_all add: liftP_def)

lemma bindP_Inr:
  "bindP m f s = (Inr y, s') \<longleftrightarrow> (\<exists>x s1. m s = (Inr x, s1) \<and> f x s1 = (Inr y, s'))"
  by (auto simp: bindP_def split: prod.splits sum.splits)

lemma attempt_Inr:
  "attempt m s = (Inr r, s') \<longleftrightarrow>
     (case r of Inl e \<Rightarrow> m s = (Inl (RpError e), s') | Inr x \<Rightarrow> m s = (Inr x, s'))"
  by (auto simp: attempt_def split: prod.splits sum.splits rp_failure.splits)

lemma call_Inr:
  "call ef a s = (Inr x, s') \<longleftrightarrow> a = Inr x \<and> s' = s\<lparr>ps_log := ps_log s @ [ef]\<rparr>"
  by (cases a) (auto simp: call_def)

lemma call_attempt:
  "attempt (call ef a) s = (Inr a, s\<lparr>ps_log := ps_log s @ [ef]\<rparr>)"
  by (cases a) (auto simp: call_def attempt_def)

lemma liftP_Inr [simp]: "liftP r s = (Inr x, s') \<longleftrightarrow> r = Inr x \<and> s' = s"
  by (cases r) auto

lemma liftR_Inr [simp]: "liftR r s = (Inr x, s') \<longleftrightarrow> r = Inr x \<and> s' = s"
  by (cases r) auto

lemma repo_log [simp]:
  "ps_log (snd (repo_find env k i s)) = ps_log s"
  "ps_log (snd (repo_cas env k i e n s)) = ps_log s"
  by (auto simp: repo_find_def repo_cas_def Let_def split: option.splits prod.splits)

lemma repo_find_Inr:
  "repo_find env k i s = (Inr r, s') \<longleftrightarrow>
     rpe_fails env k = None \<and> s' = s\<lparr>ps_repo := rpe_others env k (ps_repo s)\<rparr> \<and>
     r = rpe_find env (rpe_others env k (ps_repo s)) i"
  by (auto simp: repo_find_def Let_def split: option.splits)

lemma repo_cas_Inr:
  "repo_cas env k i e n s = (Inr t, s') \<longleftrightarrow>
     rpe_fails env k = None \<and>
     (let c = rpe_cas env (rpe_others env k (ps_repo s)) i e n
      in t = fst c \<and> s' = s\<lparr>ps_repo := snd c\<rparr>)"
  by (auto simp: repo_cas_def Let_def split: option.splits prod.splits)

lemma repo_find_state:
  "snd (repo_find env k i s) = s\<lparr>ps_repo := rpe_others env k (ps_repo s)\<rparr>"
  by (simp add: repo_find_def Let_def split: option.splits)

lemma bind_repo_find:
  "bindP (repo_find env k i) f s =
     (let s1 = s\<lparr>ps_repo := rpe_others env k (ps_repo s)\<rparr> in
      case rpe_fails env k of
        Some e \<Rightarrow> (Inl (RpError e), s1)
      | None \<Rightarrow> f (rpe_find env (ps_repo s1) i) s1)"
  by (simp add: bindP_def repo_find_def Let_def split: option.splits)

text \<open>A requeue is decided only by an applied compare-and-set on the attempt's own record.\<close>

lemma claim_for_retry_requeue:
  assumes "claim_for_retry env d i nd cur s = (Inr (Requeue, d'), s')"
  shows "d' = d \<and> rpe_cas env (rpe_others env 2 (ps_repo s)) i (Some cur)
       (Some \<lparr>sr_status = JpsPending, sr_retried = jd_retried nd\<rparr>) = (Applied, ps_repo s')"
  using assms
  by (auto simp: claim_for_retry_def bindP_Inr repo_cas_Inr Let_def intro!: prod_eqI
      split: status_transition.splits option.splits if_splits)

lemma ownership_not_requeue [simp]:
  "retry_attempt_ownership_decision c d \<noteq> Some Requeue"
  "retry_attempt_ownership_decision c d \<noteq> Some CompleteWithoutClaim"
  by (simp_all add: retry_attempt_ownership_decision_def)

lemma transition_found:
  assumes "jr_job_id d = Some i" and "j_data j = Some nd"
  shows "transition_retry_to_pending_or_cancel env d j s =
    (case rpe_fails env 1 of
       Some e \<Rightarrow> (Inl (RpError e), s\<lparr>ps_repo := rpe_others env 1 (ps_repo s)\<rparr>)
     | None \<Rightarrow>
         (let s1 = s\<lparr>ps_repo := rpe_others env 1 (ps_repo s)\<rparr> in
          case rpe_find env (ps_repo s1) i of
            None \<Rightarrow> (Inr (CompleteWithoutClaim, d), s1)
          | Some cur \<Rightarrow>
              if sr_retried cur \<noteq> jr_retried d then (Inr (IgnoreStale, d), s1)
              else if sr_status cur = JpsCancelling
              then bindP (liftP (mark_retry_cancelled (rpe_to_string env) d))
                     (\<lambda>d'. returnP (CompleteCancelled, d')) s1
              else claim_for_retry env d i nd cur s1))"
  using assms
  by (simp add: transition_retry_to_pending_or_cancel_def bind_repo_find Let_def
      retry_attempt_ownership_decision_def retry_attempt_is_current_def split: option.splits)

lemma transition_requeue:
  assumes "transition_retry_to_pending_or_cancel env d j s = (Inr (Requeue, d'), s')"
    and "jr_job_id d = Some i" and "j_data j = Some nd"
  obtains cur where
    "d' = d" "sr_retried cur = jr_retried d" "sr_status cur \<noteq> JpsCancelling"
    "rpe_cas env (rpe_others env 2 (rpe_others env 1 (ps_repo s))) i (Some cur)
       (Some \<lparr>sr_status = JpsPending, sr_retried = jd_retried nd\<rparr>) = (Applied, ps_repo s')"
  using assms(1) unfolding transition_found [OF assms(2,3)]
  by (auto simp: Let_def bindP_Inr dest!: claim_for_retry_requeue
      split: option.splits if_splits)

lemma transition_log:
  "ps_log (snd (transition_retry_to_pending_or_cancel env d j s)) = ps_log s"
proof -
  have mark: "ps_log (snd (bindP (liftP (mark_retry_cancelled ts d)) (\<lambda>d'. returnP (x, d')) s)) = ps_log s"
    for ts d and x :: retry_transition_decision and s :: "'a pstate"
    by (simp add: bindP_def liftP_def split: sum.splits)
  have claim: "ps_log (snd (claim_for_retry env d i nd cur s)) = ps_log s" for i nd cur s
  proof (cases "repo_cas env 2 i (Some cur)
      (Some \<lparr>sr_status = JpsPending, sr_retried = jd_retried nd\<rparr>) s")
    case (Pair r s1)
    then have "ps_log s1 = ps_log s" by (metis repo_log(2) snd_conv)
    with Pair show ?thesis
      by (auto simp: claim_for_retry_def bindP_def [of "repo_cas _ _ _ _ _"] mark
          split: sum.splits status_transition.splits option.splits)
  qed
  show ?thesis
  proof (cases "jr_job_id d = None \<or> j_data j = None")
    case True
    then show ?thesis
      by (auto simp: transition_retry_to_pending_or_cancel_def split: option.splits)
  next
    case False
    then obtain i nd where "jr_job_id d = Some i" "j_data j = Some nd" by auto
    then show ?thesis
      by (simp add: transition_found Let_def mark claim split: option.splits)
  qed
qed

text \<open>The calls after a completion: the next periodic job, then the temporary worker.\<close>

definition followups :: "'s rp_env \<Rightarrow> job_result_data \<Rightarrow> worker_data \<Rightarrow> job_data option \<Rightarrow> rp_effect list" where
  "followups env d w periodic =
     (let temp = (if w_use_static w then []
                  else case jr_worker_id d of None \<Rightarrow> [] | Some wid \<Rightarrow> [EfDeleteTemp wid])
      in case periodic of
           None \<Rightarrow> temp
         | Some pj \<Rightarrow>
             EfEnqueue pj (jr_job_id d) # (case rpe_enqueue env of Inl _ \<Rightarrow> [] | Inr _ \<Rightarrow> temp))"

lemma followups_calls [simp]:
  "EfUpdateJob j \<notin> set (followups env d w periodic)"
  "EfComplete i d' b \<notin> set (followups env d w periodic)"
  "EfStore i d' b \<notin> set (followups env d w periodic)"
  by (simp_all add: followups_def Let_def split: option.split sum.split)

lemma complete_without_retry:
  assumes none: "build_retry_job (rpe_float_ops env) d w md = None"
    and run: "process_complete_or_retry_condition env i d has_stream w md s = (Inr (cr, d'), s')"
  obtains periodic where
    "d' = d" "build_next_periodic_job (rpe_now env) d w = Inr periodic"
    "s' = s\<lparr>ps_log := ps_log s @ EfComplete i d has_stream # followups env d w periodic\<rparr>"
proof -
  obtain periodic where p: "build_next_periodic_job (rpe_now env) d w = Inr periodic"
    using run none by (auto simp: process_complete_or_retry_condition_def bindP_Inr)
  have "d' = d \<and> s' = s\<lparr>ps_log := ps_log s @ EfComplete i d has_stream # followups env d w periodic\<rparr>"
  proof (cases periodic)
    case None
    with run none p show ?thesis
      by (auto simp: process_complete_or_retry_condition_def bindP_Inr call_attempt followups_def
          split: option.splits if_splits)
  next
    case (Some pj)
    with run none p show ?thesis
      by (cases "rpe_enqueue env")
        (auto simp: process_complete_or_retry_condition_def bindP_Inr call_attempt followups_def
          split: option.splits if_splits)
  qed
  with p show ?thesis by (intro that) auto
qed

lemma transition_state:
  assumes "transition_retry_to_pending_or_cancel env d j s = (r, s1)"
  shows "ps_log s1 = ps_log s"
  using transition_log [of env d j s] assms by simp

lemma complete_with_retry:
  assumes some: "build_retry_job (rpe_float_ops env) d w md = Some j"
    and run: "process_complete_or_retry_condition env i d has_stream w md s = (Inr (cr, d'), s')"
  obtains
    (failed) e s1 where "transition_retry_to_pending_or_cancel env d j s = (Inl (RpError e), s1)"
      "d' = d" "cr = Inl e" "s' = s1"
  | (decided) decision s1 where
      "transition_retry_to_pending_or_cancel env d j s = (Inr (decision, d'), s1)"
      "s' = s1\<lparr>ps_log := ps_log s @ (case decision of
          Requeue \<Rightarrow> [EfUpdateJob j]
        | IgnoreStale \<Rightarrow> []
        | _ \<Rightarrow> [EfComplete i d' has_stream])\<rparr>"
proof -
  obtain r s1 where r: "attempt (transition_retry_to_pending_or_cancel env d j) s = (Inr r, s1)"
    using run some by (auto simp: process_complete_or_retry_condition_def bindP_Inr)
  show ?thesis
  proof (cases r)
    case (Inl e)
    then have "transition_retry_to_pending_or_cancel env d j s = (Inl (RpError e), s1)"
      using r by (simp add: attempt_Inr)
    moreover have "d' = d \<and> cr = Inl e \<and> s' = s1"
      using run some r Inl by (auto simp: process_complete_or_retry_condition_def bindP_Inr)
    ultimately show ?thesis by (intro failed) auto
  next
    case (Inr p)
    obtain decision d1 where p: "p = (decision, d1)" by (cases p)
    with r Inr have t: "transition_retry_to_pending_or_cancel env d j s = (Inr (decision, d1), s1)"
      by (simp add: attempt_Inr)
    have log: "ps_log s1 = ps_log s" using t by (rule transition_state)
    have "d' = d1 \<and> s' = s1\<lparr>ps_log := ps_log s @ (case decision of
          Requeue \<Rightarrow> [EfUpdateJob j]
        | IgnoreStale \<Rightarrow> []
        | _ \<Rightarrow> [EfComplete i d1 has_stream])\<rparr>"
      using run some r Inr p
      by (cases decision)
        (auto simp: process_complete_or_retry_condition_def bindP_Inr call_attempt log [symmetric])
    with t show ?thesis by (intro decided) auto
  qed
qed

lemma cancel_check_log:
  assumes "cancel_retryable_result_if_requested env d s = (r, s')"
  shows "ps_log s' = ps_log s"
proof -
  have "ps_log (snd (cancel_retryable_result_if_requested env d s)) = ps_log s"
    by (auto simp: cancel_retryable_result_if_requested_def bind_repo_find Let_def liftP_def
        split: option.splits sum.splits)
  with assms show ?thesis by simp
qed

lemma process_result_steps:
  assumes "process_result env jr has_stream w s = (Inr (jr', c), s')"
  obtains i d0 d s1 cr d' s2 where
    "jres_id jr = Some i" "jres_data jr = Some d0"
    "cancel_retryable_result_if_requested env d0 s = (Inr d, s1)"
    "process_complete_or_retry_condition env i d has_stream w (jres_metadata jr) s1 =
       (Inr (cr, d'), s2)"
    "jr' = jr\<lparr>jres_data := Some d'\<rparr>"
    "s' = s2\<lparr>ps_log := ps_log s2 @ [EfStore i d' (jr_broadcast_results d')]\<rparr>"
proof -
  obtain i d0 where id: "jres_id jr = Some i" "jres_data jr = Some d0"
    using assms by (auto simp: process_result_def process_result_inner_def split: option.splits)
  with assms obtain d s1 where d: "cancel_retryable_result_if_requested env d0 s = (Inr d, s1)"
    by (auto simp: process_result_def process_result_inner_def bindP_Inr)
  with assms id obtain cr d' s2 where
    "process_complete_or_retry_condition env i d has_stream w (jres_metadata jr) s1 =
       (Inr (cr, d'), s2)"
    "jr' = jr\<lparr>jres_data := Some d'\<rparr>"
    "s' = s2\<lparr>ps_log := ps_log s2 @ [EfStore i d' (jr_broadcast_results d')]\<rparr>"
    by (auto simp: process_result_def process_result_inner_def bindP_Inr Let_def call_Inr)
  with id d show ?thesis by (rule that)
qed

section \<open>The repository decides who retries\<close>

text \<open>
  The processor as a client of the status repository: \<open>uses_repo\<close> says that the environment
  accesses this repository and that the other workers keep its invariant.
\<close>

definition uses_repo ::
  "('s \<Rightarrow> job_id \<Rightarrow> status_record option) \<Rightarrow>
   ('s \<Rightarrow> job_id \<Rightarrow> status_record option \<Rightarrow> status_record option \<Rightarrow> status_transition \<times> 's) \<Rightarrow>
   ('s \<Rightarrow> bool) \<Rightarrow> 's rp_env \<Rightarrow> bool" where
  "uses_repo find_record cas_record invar env \<longleftrightarrow>
     rpe_find env = find_record \<and> rpe_cas env = cas_record \<and>
     (\<forall>k s. invar s \<longrightarrow> invar (rpe_others env k s))"

lemma cancel_check_retryable:
  assumes run: "cancel_retryable_result_if_requested env d0 s = (Inr d, s1)"
    and st: "jr_status d = result_status_i32 RsErrorAndRetry" and i: "jr_job_id d0 = Some i"
  shows "d = d0" "s1 = s\<lparr>ps_repo := rpe_others env 0 (ps_repo s)\<rparr>"
    "jr_status d0 = result_status_i32 RsErrorAndRetry"
proof -
  have "jr_status m \<noteq> result_status_i32 RsErrorAndRetry"
    if "mark_retry_cancelled (rpe_to_string env) d0 = Inr m" for m
    using that by (auto simp: mark_retry_cancelled_def bindE_eq_Inr)
  with run st i have "d = d0 \<and> s1 = s\<lparr>ps_repo := rpe_others env 0 (ps_repo s)\<rparr> \<and>
      jr_status d0 = result_status_i32 RsErrorAndRetry"
    by (auto simp: cancel_retryable_result_if_requested_def bind_repo_find Let_def
        simp del: result_status_i32.simps split: if_splits option.splits)
  then show "d = d0" "s1 = s\<lparr>ps_repo := rpe_others env 0 (ps_repo s)\<rparr>"
      "jr_status d0 = result_status_i32 RsErrorAndRetry" by blast+
qed

lemma build_retry_job_retryable:
  assumes "build_retry_job fo d w md = Some j"
  obtains nd where "jr_status d = result_status_i32 RsErrorAndRetry"
    "j_data j = Some nd" "jd_retried nd = jr_retried d + 1"
  using assms by (rule build_retry_job_Some) blast

context status_repository
begin

lemma transition_claims:
  assumes env: "uses_repo find cas invar env" and inv: "invar (ps_repo s)"
    and run: "transition_retry_to_pending_or_cancel env d j s = (Inr (Requeue, d'), s')"
    and ids: "jr_job_id d = Some i" "j_data j = Some nd"
  obtains cur where
    "find (rpe_others env 2 (rpe_others env 1 (ps_repo s))) i = Some cur"
    "sr_retried cur = jr_retried d" "sr_status cur \<noteq> JpsCancelling"
    "find (ps_repo s') i = Some \<lparr>sr_status = JpsPending, sr_retried = jd_retried nd\<rparr>"
    "invar (ps_repo s')"
proof -
  let ?repo = "rpe_others env 2 (rpe_others env 1 (ps_repo s))"
  have repo: "invar ?repo" using env inv by (simp add: uses_repo_def)
  obtain cur where cur: "sr_retried cur = jr_retried d" "sr_status cur \<noteq> JpsCancelling"
    and cas: "rpe_cas env ?repo i (Some cur)
       (Some \<lparr>sr_status = JpsPending, sr_retried = jd_retried nd\<rparr>) = (Applied, ps_repo s')"
    using run ids by (rule transition_requeue)
  then have applied: "fst (cas ?repo i (Some cur)
       (Some \<lparr>sr_status = JpsPending, sr_retried = jd_retried nd\<rparr>)) = Applied"
    and s': "ps_repo s' = snd (cas ?repo i (Some cur)
       (Some \<lparr>sr_status = JpsPending, sr_retried = jd_retried nd\<rparr>))"
    using env by (simp_all add: uses_repo_def)
  have found: "find ?repo i = Some cur" using applied cas_Applied_iff [OF repo] by blast
  show ?thesis
    using that [OF found cur] found s' find_cas [OF repo] invar_cas [OF repo] by simp
qed

lemma transition_stale:
  assumes env: "uses_repo find cas invar env" and ids: "jr_job_id d = Some i" "j_data j = Some nd"
    and ok: "rpe_fails env 1 = None"
    and newer: "find (rpe_others env 1 (ps_repo s)) i = Some cur" "sr_retried cur \<noteq> jr_retried d"
  shows "transition_retry_to_pending_or_cancel env d j s =
     (Inr (IgnoreStale, d), s\<lparr>ps_repo := rpe_others env 1 (ps_repo s)\<rparr>)"
  using assms by (simp add: transition_found uses_repo_def Let_def)

lemma processing_claims:
  assumes env: "uses_repo find cas invar env" and inv: "invar (ps_repo s)" and log: "ps_log s = []"
    and run: "process_result env jr has_stream w s = (Inr (jr', c), s')"
    and upd: "EfUpdateJob j \<in> set (ps_log s')"
    and d0: "jres_data jr = Some d0" "jr_job_id d0 = Some i"
  shows "\<exists>cur nd. find (rpe_others env 2 (rpe_others env 1 (rpe_others env 0 (ps_repo s)))) i = Some cur \<and>
     sr_retried cur = jr_retried d0 \<and> sr_status cur \<noteq> JpsCancelling \<and>
     j_data j = Some nd \<and> jd_retried nd = jr_retried d0 + 1 \<and>
     find (ps_repo s') i = Some \<lparr>sr_status = JpsPending, sr_retried = jr_retried d0 + 1\<rparr> \<and>
     invar (ps_repo s') \<and> (\<exists>k d'. ps_log s' = [EfUpdateJob j, EfStore k d' (jr_broadcast_results d')])"
proof -
  obtain k d00 d s1 cr d' s2 where "jres_data jr = Some d00"
    and "cancel_retryable_result_if_requested env d00 s = (Inr d, s1)"
    and proc: "process_complete_or_retry_condition env k d has_stream w (jres_metadata jr) s1 =
       (Inr (cr, d'), s2)"
    and s': "s' = s2\<lparr>ps_log := ps_log s2 @ [EfStore k d' (jr_broadcast_results d')]\<rparr>"
    using run by (rule process_result_steps)
  with d0(1) have cancel: "cancel_retryable_result_if_requested env d0 s = (Inr d, s1)" by simp
  have log1: "ps_log s1 = []" using cancel_check_log [OF cancel] log by simp
  have "build_retry_job (rpe_float_ops env) d w (jres_metadata jr) \<noteq> None"
  proof
    assume "build_retry_job (rpe_float_ops env) d w (jres_metadata jr) = None"
    then obtain periodic where
      "s2 = s1\<lparr>ps_log := ps_log s1 @ EfComplete k d has_stream # followups env d w periodic\<rparr>"
      using proc by (rule complete_without_retry)
    with upd s' log1 show False by simp
  qed
  then obtain jb where jb: "build_retry_job (rpe_float_ops env) d w (jres_metadata jr) = Some jb"
    by blast
  then obtain nd where st: "jr_status d = result_status_i32 RsErrorAndRetry"
    and nd: "j_data jb = Some nd" "jd_retried nd = jr_retried d + 1"
    by (rule build_retry_job_retryable)
  note same = cancel_check_retryable [OF cancel st d0(2)]
  from jb proc show ?thesis
  proof (cases rule: complete_with_retry)
    case (failed e s1')
    then show ?thesis using transition_state [OF failed(1)] upd s' log1 by simp
  next
    case (decided decision s1')
    have "EfUpdateJob j \<in> set (case decision of Requeue \<Rightarrow> [EfUpdateJob jb] | IgnoreStale \<Rightarrow> []
        | _ \<Rightarrow> [EfComplete k d' has_stream])"
      using decided(2) upd s' log1 by simp
    then have dec: "decision = Requeue" "j = jb" by (cases decision; simp)+
    have inv1: "invar (ps_repo s1)" using env inv same(2) by (simp add: uses_repo_def)
    obtain cur where
      "find (rpe_others env 2 (rpe_others env 1 (ps_repo s1))) i = Some cur"
      "sr_retried cur = jr_retried d" "sr_status cur \<noteq> JpsCancelling"
      "find (ps_repo s1') i = Some \<lparr>sr_status = JpsPending, sr_retried = jd_retried nd\<rparr>"
      "invar (ps_repo s1')"
      using env inv1 decided(1) [unfolded dec(1)] d0(2) [folded same(1)] nd(1)
      by (rule transition_claims)
    then have "find (rpe_others env 2 (rpe_others env 1 (rpe_others env 0 (ps_repo s)))) i = Some cur"
      "sr_retried cur = jr_retried d0" "sr_status cur \<noteq> JpsCancelling"
      "find (ps_repo s') i = Some \<lparr>sr_status = JpsPending, sr_retried = jr_retried d0 + 1\<rparr>"
      "invar (ps_repo s')" "ps_log s' = [EfUpdateJob j, EfStore k d' (jr_broadcast_results d')]"
      using same(1,2) nd(2) dec decided(2) s' log1 by simp_all
    with nd same(1) dec(2) show ?thesis by blast
  qed
qed

lemma undisturbed_retry:
  assumes env: "uses_repo find cas invar env" and inv: "invar (ps_repo s)"
    and quiet: "rpe_others env = (\<lambda>_ r. r)" "rpe_fails env = (\<lambda>_. None)"
      "rpe_update env = Inr ()" "rpe_store env = Inr b"
    and jr: "jres_id jr = Some k" "jres_data jr = Some d" "jr_job_id d = Some i"
    and own: "find (ps_repo s) i = Some cur" "sr_retried cur = jr_retried d"
      "sr_status cur \<noteq> JpsCancelling"
    and retry: "build_retry_job (rpe_float_ops env) d w (jres_metadata jr) = Some j"
  shows "\<exists>s'. process_result env jr has_stream w s = (Inr (jr, NoReceiver), s') \<and>
     ps_log s' = ps_log s @ [EfUpdateJob j, EfStore k d (jr_broadcast_results d)]"
proof -
  obtain nd where st: "jr_status d = result_status_i32 RsErrorAndRetry" and nd: "j_data j = Some nd"
    using retry by (rule build_retry_job_retryable)
  have check: "cancel_retryable_result_if_requested env d s = (Inr d, s)"
    using quiet jr own st env
    by (simp add: cancel_retryable_result_if_requested_def bind_repo_find uses_repo_def)
  let ?next = "Some \<lparr>sr_status = JpsPending, sr_retried = jd_retried nd\<rparr>"
  obtain repo' where cas: "cas (ps_repo s) i (Some cur) ?next = (Applied, repo')"
    using cas_match [OF inv own(1), of ?next] by (cases "cas (ps_repo s) i (Some cur) ?next") simp
  have "transition_retry_to_pending_or_cancel env d j s = (Inr (Requeue, d), s\<lparr>ps_repo := repo'\<rparr>)"
    using quiet own env cas
    by (simp add: transition_found [OF jr(3) nd] uses_repo_def claim_for_retry_def bindP_def
        repo_cas_def)
  then have "process_complete_or_retry_condition env k d has_stream w (jres_metadata jr) s =
      (Inr (Inr False, d), s\<lparr>ps_repo := repo', ps_log := ps_log s @ [EfUpdateJob j]\<rparr>)"
    using retry quiet by (simp add: process_complete_or_retry_condition_def bindP_def
        call_attempt attempt_def [of "transition_retry_to_pending_or_cancel env d j"])
  with check jr quiet show ?thesis
    by (simp add: process_result_def process_result_inner_def bindP_def call_def Let_def)
qed

lemma stale_discarded:
  assumes env: "uses_repo find cas invar env"
    and quiet: "rpe_others env = (\<lambda>_ r. r)" "rpe_fails env = (\<lambda>_. None)" "rpe_store env = Inr b"
    and jr: "jres_id jr = Some k" "jres_data jr = Some d" "jr_job_id d = Some i"
    and newer: "find (ps_repo s) i = Some cur" "sr_retried cur \<noteq> jr_retried d"
    and retry: "build_retry_job (rpe_float_ops env) d w (jres_metadata jr) = Some j"
  shows "process_result env jr has_stream w s =
     (Inr (jr, NoReceiver), s\<lparr>ps_log := ps_log s @ [EfStore k d (jr_broadcast_results d)]\<rparr>)"
proof -
  obtain nd where st: "jr_status d = result_status_i32 RsErrorAndRetry" and nd: "j_data j = Some nd"
    using retry by (rule build_retry_job_retryable)
  have "cancel_retryable_result_if_requested env d s = (Inr d, s)"
    using quiet jr newer st env
    by (simp add: cancel_retryable_result_if_requested_def bind_repo_find uses_repo_def)
  moreover have "transition_retry_to_pending_or_cancel env d j s = (Inr (IgnoreStale, d), s)"
    using transition_stale [OF env jr(3) nd, of s cur] quiet newer by simp
  then have "process_complete_or_retry_condition env k d has_stream w (jres_metadata jr) s =
      (Inr (Inr False, d), s)"
    using retry by (simp add: process_complete_or_retry_condition_def bindP_def attempt_def)
  ultimately show ?thesis
    using jr quiet
    by (simp add: process_result_def process_result_inner_def bindP_def call_def Let_def)
qed

end

text \<open>
  C10: a retry is enqueued only by the worker that owns the attempt.  With any interference of
  other workers at every access to the shared (Redis) repository, if processing a result
  enqueues a retry, then at the moment of the claim the repository recorded exactly this
  attempt and no cancellation; the retry counts one attempt more; afterwards the record is
  pending with that count; and the job is not completed.
\<close>

theorem retry_enqueued_only_by_owner:
  assumes "uses_repo redis_find_status_record redis_compare_and_set_status redis_invar env"
    and "redis_invar (ps_repo s)" and "ps_log s = []"
    and "process_result env jr has_stream w s = (Inr (jr', c), s')"
    and "EfUpdateJob j \<in> set (ps_log s')"
    and "jres_data jr = Some d0" "jr_job_id d0 = Some i"
  shows "\<exists>cur nd k d'.
     redis_find_status_record
       (rpe_others env 2 (rpe_others env 1 (rpe_others env 0 (ps_repo s)))) i = Some cur \<and>
     sr_retried cur = jr_retried d0 \<and> sr_status cur \<noteq> JpsCancelling \<and>
     j_data j = Some nd \<and> jd_retried nd = jr_retried d0 + 1 \<and>
     redis_find_status_record (ps_repo s') i =
       Some \<lparr>sr_status = JpsPending, sr_retried = jr_retried d0 + 1\<rparr> \<and>
     ps_log s' = [EfUpdateJob j, EfStore k d' (jr_broadcast_results d')]"
  using redis.processing_claims [OF assms] by blast

text \<open>The processor of an undisturbed worker on either repository, for the examples.\<close>

definition quiet_env ::
  "('s \<Rightarrow> job_id \<Rightarrow> status_record option) \<Rightarrow>
   ('s \<Rightarrow> job_id \<Rightarrow> status_record option \<Rightarrow> status_record option \<Rightarrow> status_transition \<times> 's) \<Rightarrow>
   's rp_env" where
  "quiet_env find_record cas_record =
     \<lparr>rpe_find = find_record, rpe_cas = cas_record, rpe_others = (\<lambda>_ r. r), rpe_fails = (\<lambda>_. None),
      rpe_to_string = ref_writer, rpe_from_str = ref_reader, rpe_float_ops = exact_float_ops,
      rpe_now = 0, rpe_complete = Inr (True, True), rpe_update = Inr (), rpe_enqueue = Inr (),
      rpe_delete_temp = Inr (), rpe_store = Inr True\<rparr>"

definition example_job_result :: job_result where
  "example_job_result =
     \<lparr>jres_id = Some 70, jres_data = Some example_result, jres_metadata = Map.empty\<rparr>"

lemma quiet_env_uses: "uses_repo f c ok (quiet_env f c)"
  by (simp add: uses_repo_def quiet_env_def)

lemma quiet_env_simps [simp]:
  "rpe_find (quiet_env f c) = f" "rpe_cas (quiet_env f c) = c"
  "rpe_others (quiet_env f c) = (\<lambda>_ r. r)" "rpe_fails (quiet_env f c) = (\<lambda>_. None)"
  "rpe_update (quiet_env f c) = Inr ()" "rpe_store (quiet_env f c) = Inr True"
  "rpe_to_string (quiet_env f c) = ref_writer" "rpe_float_ops (quiet_env f c) = exact_float_ops"
  "rpe_complete (quiet_env f c) = Inr (True, True)" "rpe_enqueue (quiet_env f c) = Inr ()"
  "rpe_delete_temp (quiet_env f c) = Inr ()" "rpe_now (quiet_env f c) = 0"
  by (simp_all add: quiet_env_def)

lemma example_result_retried:
  obtains j where "build_retry_job exact_float_ops example_result example_worker Map.empty = Some j"
proof -
  have "jr_status example_result = result_status_i32 RsErrorAndRetry"
    "jr_resolved_retry_policy example_result = w_retry_policy example_worker"
    "jr_retried example_result = 0"
    by (simp_all add: example_result_def)
  then have "build_retry_job exact_float_ops example_result example_worker Map.empty \<noteq> None"
    by (simp add: build_retry_job_def option_or_def example_worker_def)
  then show ?thesis using that by blast
qed

lemma example_result_fields [simp]:
  "jr_job_id example_result = Some 7" "jr_retried example_result = 0"
  by (simp_all add: example_result_def)

definition example_redis :: redis_hash where
  "example_redis = snd (redis_compare_and_set_status [] 7 None
     (Some \<lparr>sr_status = JpsRunning, sr_retried = 0\<rparr>))"

lemma example_redis_record:
  "redis_invar example_redis"
  "redis_find_status_record example_redis 7 = Some \<lparr>sr_status = JpsRunning, sr_retried = 0\<rparr>"
proof -
  have empty: "redis_invar []" "redis_find_status_record [] 7 = None"
    by (simp_all add: redis_invar_def redis_find_status_record_def hget_def)
  show "redis_invar example_redis"
    unfolding example_redis_def by (rule redis.invar_cas [OF empty(1)])
  show "redis_find_status_record example_redis 7 = Some \<lparr>sr_status = JpsRunning, sr_retried = 0\<rparr>"
    using redis.cas_match [OF empty] by (simp add: example_redis_def)
qed

theorem retry_enqueued_only_by_owner_witness:
  "\<exists>s' j. process_result (quiet_env redis_find_status_record redis_compare_and_set_status)
       example_job_result False example_worker \<lparr>ps_repo = example_redis, ps_log = []\<rparr> =
       (Inr (example_job_result, NoReceiver), s') \<and>
     EfUpdateJob j \<in> set (ps_log s') \<and>
     redis_find_status_record (ps_repo s') 7 = Some \<lparr>sr_status = JpsPending, sr_retried = 1\<rparr>"
proof -
  let ?env = "quiet_env redis_find_status_record redis_compare_and_set_status"
  let ?s = "\<lparr>ps_repo = example_redis, ps_log = []\<rparr>"
  obtain j where j: "build_retry_job exact_float_ops example_result example_worker Map.empty = Some j"
    by (rule example_result_retried)
  obtain s' where run: "process_result ?env example_job_result False example_worker ?s =
      (Inr (example_job_result, NoReceiver), s')" and upd: "EfUpdateJob j \<in> set (ps_log s')"
    using redis.undisturbed_retry [OF quiet_env_uses, of ?s True example_job_result 70 example_result
        7 "\<lparr>sr_status = JpsRunning, sr_retried = 0\<rparr>" example_worker j False]
      example_redis_record j
    by (auto simp: example_job_result_def)
  have "redis_invar (ps_repo ?s)" "ps_log ?s = []" using example_redis_record by simp_all
  from retry_enqueued_only_by_owner [OF quiet_env_uses this run upd, of example_result 7] run upd
  show ?thesis by (auto simp: example_job_result_def)
qed


definition example_memory :: memory_store where
  "example_memory = [(7, \<lparr>sr_status = JpsRunning, sr_retried = 0\<rparr>)]"



lemma completes_without_retry:
  assumes none: "build_retry_job (rpe_float_ops env) d w md = None"
    and periodic: "build_next_periodic_job (rpe_now env) d w = Inr periodic"
    and ok: "rpe_complete env = Inr (b, rx)" "rpe_enqueue env = Inr ()"
  shows "process_complete_or_retry_condition env i d has_stream w md s =
     (Inr (Inr rx, d), s\<lparr>ps_log := ps_log s @ EfComplete i d has_stream # followups env d w periodic\<rparr>)"
  using assms
  by (auto simp: process_complete_or_retry_condition_def bindP_def call_attempt followups_def
      split: option.splits)


text \<open>
  A load-only request never starts the job lifecycle: at most its result is published.
  No retry and no periodic job is enqueued, nothing is stored, no temporary worker is
  deleted, whether the processing succeeds, fails or panics.
\<close>

theorem load_only_publishes_at_most:
  "\<exists>es. ps_log (snd (process_result_inner env jr has_stream w True s)) = ps_log s @ es \<and>
     (es = [] \<or> (\<exists>i d. es = [EfComplete i d has_stream]))"
proof (cases "\<exists>i d. jres_id jr = Some i \<and> jres_data jr = Some d")
  case True
  then obtain i d where jr: "jres_id jr = Some i" "jres_data jr = Some d" by blast
  obtain r s1 where cancel: "cancel_retryable_result_if_requested env d s = (r, s1)" by fastforce
  then have log: "ps_log s1 = ps_log s" by (rule cancel_check_log)
  show ?thesis
  proof (cases r)
    case (Inl e)
    with jr cancel log show ?thesis by (simp add: process_result_inner_def bindP_def)
  next
    case (Inr d')
    with jr cancel log show ?thesis
      by (cases "rpe_complete env") (auto simp: process_result_inner_def bindP_def call_def)
  qed
next
  case False
  then show ?thesis by (auto simp: process_result_inner_def split: option.splits)
qed



text \<open>
  The stream's End settles the stored result.  If the recorded success of a streaming job
  was stored under a fresh id and the first End that reached the publisher is a failure, the
  one call made replaces the record, and the table then has for this id what storing the
  failed result directly would have put there; the settled status is neither a success nor a
  retry.
\<close>

theorem failed_end_settles_stored_result:
  assumes fresh: "i \<notin> jrr_id ` set (db_results db)"
    and recorded: "create_job_result_if_necessary oc i d db = Inr (b, db1)"
    and ids: "jr_job_id d \<noteq> None" "jr_worker_id d \<noteq> None"
    and failed: "observe_end from_str published = Some (OutcomeFailed e)"
  shows "\<exists>d' db2 b' db'. settle_result_after_stream from_str i d published = [EfReplace i d d'] \<and>
     replace_stored_result oc i d d' db1 = Inr db2 \<and>
     create_job_result_if_necessary oc i d' db = Inr (b', db') \<and>
     db_results db2 = db_results db' \<and>
     jr_error d' = Some e \<and> jr_output d' = Some (stream_failure_output e) \<and>
     jr_status d' \<notin> {result_status_i32 RsSuccess, result_status_i32 RsErrorAndRetry}"
proof -
  let ?d = "settled_result d e"
  have "jr_job_id ?d \<noteq> None" "jr_worker_id ?d \<noteq> None" using ids by (simp_all add: settled_result_def)
  then obtain db2 b' db' where "replace_stored_result oc i d ?d db1 = Inr db2"
      "create_job_result_if_necessary oc i ?d db = Inr (b', db')" "db_results db2 = db_results db'"
    using replace_matches_record [OF fresh recorded, of ?d] by blast
  moreover have "jr_status ?d \<notin> {result_status_i32 RsSuccess, result_status_i32 RsErrorAndRetry}"
    by (simp add: settled_result_def del: result_status_i32.simps)
  ultimately show ?thesis
    using failed by (auto simp: settle_result_after_stream_def settled_result_def
        simp del: result_status_i32.simps)
qed

theorem failed_end_settles_stored_result_witness:
  "\<exists>db1 d' db2. create_job_result_if_necessary example_codec 70
        (example_result\<lparr>jr_status := result_status_i32 RsSuccess\<rparr>) example_db = Inr (True, db1) \<and>
      settle_result_after_stream ref_reader 70
        (example_result\<lparr>jr_status := result_status_i32 RsSuccess\<rparr>)
        [ItemData ''x'', ItemEnd \<lparr>tr_metadata = Map.empty, tr_error = Some
           (unbounded_error SecTimeout ''slow'' ''PLUGIN'')\<rparr>] =
        [EfReplace 70 (example_result\<lparr>jr_status := result_status_i32 RsSuccess\<rparr>) d'] \<and>
      replace_stored_result example_codec 70
        (example_result\<lparr>jr_status := result_status_i32 RsSuccess\<rparr>) d' db1 = Inr db2"
proof -
  let ?d = "example_result\<lparr>jr_status := result_status_i32 RsSuccess\<rparr>"
  let ?e = "unbounded_error SecTimeout ''slow'' ''PLUGIN''"
  let ?items = "[ItemData ''x'', ItemEnd \<lparr>tr_metadata = Map.empty, tr_error = Some ?e\<rparr>]"
  have "should_store ?d" by (simp add: should_store_def example_result_def)
  then obtain db1 where rec: "create_job_result_if_necessary example_codec 70 ?d example_db = Inr (True, db1)"
    by (simp add: create_job_result_if_necessary_def result_create_def bindE_def
        row_of_def example_result_def example_db_def)
  have "70 \<notin> jrr_id ` set (db_results example_db)" "jr_job_id ?d \<noteq> None" "jr_worker_id ?d \<noteq> None"
    "observe_end ref_reader ?items = Some (OutcomeFailed ?e)"
    by (simp_all add: example_db_def example_result_def inspect_end_def)
  with failed_end_settles_stored_result [of 70 example_db example_codec ?d True db1 ref_reader ?items ?e]
    rec show ?thesis by blast
qed

end
