(* ===== verification/Stream_Guard.thy ===== *)
theory Stream_Guard
  imports Job_Runner
begin

text \<open>
  The stream wrappers of \<^verbatim>\<open>worker-app/src/worker/runner/stream_guard.rs\<close> as poll state
  machines, and \<^verbatim>\<open>run_job\<close> of \<^verbatim>\<open>worker-app/src/worker/runner.rs\<close>, which puts them
  around a result stream and decides what becomes of a pooled runner.  One poll takes what
  the environment answers (the inner stream, the clock, the timeout callback) and returns
  what the caller sees.
\<close>

section \<open>Idle timeout\<close>

datatype 'a poll = Ready 'a | Pending

datatype idle_state = Running | FiringTimeout | Done

record 'a idle_timeout_stream =
  its_stream :: bool
  its_on_timeout :: bool
  its_timeout_future :: bool
  its_drop_inner_on_timeout :: bool
  its_on_timeout_item :: "'a option"
  its_idle_window :: nat
  its_sleep :: nat
  its_state :: idle_state
  its_chunks_observed :: u64

text \<open>What one poll finds: the time, the inner stream's answer, the callback's progress.\<close>

record 'a poll_env =
  pe_now :: nat
  pe_inner :: "'a option poll"
  pe_callback_ready :: bool

definition with_timeout_callback ::
  "nat \<Rightarrow> nat \<Rightarrow> 'a option \<Rightarrow> bool \<Rightarrow> 'a idle_timeout_stream" where
  "with_timeout_callback now window item drop_inner =
     \<lparr>its_stream = True, its_on_timeout = True, its_timeout_future = False,
      its_drop_inner_on_timeout = drop_inner, its_on_timeout_item = item,
      its_idle_window = window, its_sleep = now + window, its_state = Running,
      its_chunks_observed = 0\<rparr>"

definition with_timeout_item :: "nat \<Rightarrow> nat \<Rightarrow> 'a option \<Rightarrow> 'a idle_timeout_stream" where
  "with_timeout_item now window item = with_timeout_callback now window item False"

definition with_async_timeout_item :: "nat \<Rightarrow> nat \<Rightarrow> 'a option \<Rightarrow> 'a idle_timeout_stream" where
  "with_async_timeout_item now window item = with_timeout_callback now window item True"

definition u64_saturating_inc :: "u64 \<Rightarrow> u64" where
  "u64_saturating_inc n = (if n = - 1 then n else n + 1)"

definition poll_timeout ::
  "'a poll_env \<Rightarrow> 'a idle_timeout_stream \<Rightarrow> 'a option poll \<times> 'a idle_timeout_stream" where
  "poll_timeout pe s =
     (if its_timeout_future s \<and> \<not> pe_callback_ready pe then (Pending, s)
      else (Ready (its_on_timeout_item s),
            s\<lparr>its_timeout_future := False,
              its_stream := (if its_drop_inner_on_timeout s then False else its_stream s),
              its_state := Done, its_on_timeout_item := None\<rparr>))"

definition idle_poll_next ::
  "'a poll_env \<Rightarrow> 'a idle_timeout_stream \<Rightarrow> 'a option poll \<times> 'a idle_timeout_stream" where
  "idle_poll_next pe s =
     (case its_state s of
        Done \<Rightarrow> (Ready None, s)
      | FiringTimeout \<Rightarrow> poll_timeout pe s
      | Running \<Rightarrow>
          (case (if its_stream s then pe_inner pe else Ready None) of
             Ready (Some item) \<Rightarrow>
               (Ready (Some item),
                s\<lparr>its_sleep := pe_now pe + its_idle_window s,
                  its_chunks_observed := u64_saturating_inc (its_chunks_observed s)\<rparr>)
           | Ready None \<Rightarrow> (Ready None, s\<lparr>its_on_timeout := False, its_state := Done\<rparr>)
           | Pending \<Rightarrow>
               (if its_sleep s \<le> pe_now pe
                then poll_timeout pe
                       (s\<lparr>its_state := FiringTimeout,
                          its_timeout_future := its_on_timeout s \<or> its_timeout_future s,
                          its_on_timeout := False\<rparr>)
                else (Pending, s))))"

fun idle_run ::
  "'a poll_env list \<Rightarrow> 'a idle_timeout_stream \<Rightarrow> 'a option poll list \<times> 'a idle_timeout_stream" where
  "idle_run [] s = ([], s)"
| "idle_run (pe # pes) s =
     (let (r, s') = idle_poll_next pe s; (rs, s'') = idle_run pes s' in (r # rs, s''))"

text \<open>The items a consumer has received.\<close>

fun items_of :: "'a option poll list \<Rightarrow> 'a list" where
  "items_of [] = []"
| "items_of (Ready (Some x) # rs) = x # items_of rs"
| "items_of (_ # rs) = items_of rs"

text \<open>
  The reference: deliver what the inner stream yields until it ends or a poll finds it silent
  for a whole window; then the sentinel, once the callback is done.
\<close>

fun idle_spec :: "nat \<Rightarrow> 'a option \<Rightarrow> nat \<Rightarrow> 'a poll_env list \<Rightarrow> 'a list" where
  "idle_spec window item deadline [] = []"
| "idle_spec window item deadline (pe # pes) =
     (case pe_inner pe of
        Ready (Some x) \<Rightarrow> x # idle_spec window item (pe_now pe + window) pes
      | Ready None \<Rightarrow> []
      | Pending \<Rightarrow>
          if deadline \<le> pe_now pe
          then (if \<exists>e \<in> set (pe # pes). pe_callback_ready e
                then (case item of None \<Rightarrow> [] | Some x \<Rightarrow> [x]) else [])
          else idle_spec window item deadline pes)"

section \<open>Guards that release a resource with the stream\<close>

datatype guard_effect = ReleasePool | RunOnComplete | ReleaseCancelHelper | Unregister

record pool_guard =
  pg_pool_guard :: bool
  pg_on_complete :: bool

definition pool_guard_poll :: "bool \<Rightarrow> pool_guard \<Rightarrow> guard_effect list \<times> pool_guard" where
  "pool_guard_poll ended g =
     (if ended
      then ((if pg_pool_guard g then [ReleasePool] else []) @
            (if pg_on_complete g then [RunOnComplete] else []),
            \<lparr>pg_pool_guard = False, pg_on_complete = False\<rparr>)
      else ([], g))"

definition pool_guard_drop :: "pool_guard \<Rightarrow> guard_effect list" where
  "pool_guard_drop g =
     (if pg_on_complete g then [RunOnComplete] else []) @
     (if pg_pool_guard g then [ReleasePool] else [])"

definition cancel_guard_poll :: "bool \<Rightarrow> bool \<Rightarrow> guard_effect list \<times> bool" where
  "cancel_guard_poll ended g =
     (if ended \<and> g then ([ReleaseCancelHelper], False) else ([], g))"

definition cancel_guard_drop :: "bool \<Rightarrow> guard_effect list" where
  "cancel_guard_drop g = (if g then [ReleaseCancelHelper] else [])"

text \<open>\<^verbatim>\<open>FeedSenderGuard::drop\<close> and the stream that owns one.\<close>

definition feed_sender_guard_drop :: "bool \<Rightarrow> guard_effect list" where
  "feed_sender_guard_drop on_unregister = (if on_unregister then [Unregister] else [])"

definition feed_guard_poll :: "bool \<Rightarrow> bool \<Rightarrow> guard_effect list \<times> bool" where
  "feed_guard_poll ended g =
     (if ended \<and> g then (feed_sender_guard_drop True, False) else ([], g))"

definition feed_guard_drop :: "bool \<Rightarrow> guard_effect list" where
  "feed_guard_drop g = (if g then feed_sender_guard_drop True else [])"

text \<open>The life of a guarded stream: polls that find it ended or not, then the drop.\<close>

fun guard_run ::
  "(bool \<Rightarrow> 'g \<Rightarrow> guard_effect list \<times> 'g) \<Rightarrow> ('g \<Rightarrow> guard_effect list) \<Rightarrow> bool list \<Rightarrow> 'g \<Rightarrow>
    guard_effect list" where
  "guard_run poll_guard drop_guard [] g = drop_guard g"
| "guard_run poll_guard drop_guard (ended # es) g =
     (case poll_guard ended g of (fx, g') \<Rightarrow> fx @ guard_run poll_guard drop_guard es g')"

text \<open>
  The contract the guards share: an effect happens at most once, at the first end of the
  stream or else when the wrapper is dropped.
\<close>

locale release_guard =
  fixes eff :: guard_effect
    and armed :: "'g \<Rightarrow> bool"
    and poll_guard :: "bool \<Rightarrow> 'g \<Rightarrow> guard_effect list \<times> 'g"
    and drop_guard :: "'g \<Rightarrow> guard_effect list"
  assumes poll_live: "poll_guard False g = ([], g)"
    and poll_end: "count_list (fst (poll_guard True g)) eff = of_bool (armed g)"
    and poll_end_disarms: "\<not> armed (snd (poll_guard True g))"
    and drop_releases: "count_list (drop_guard g) eff = of_bool (armed g)"
begin

lemma disarmed_stays: "\<not> armed g \<Longrightarrow> count_list (guard_run poll_guard drop_guard es g) eff = 0"
proof (induction es arbitrary: g)
  case (Cons e es)
  then show ?case
    using poll_live [of g] poll_end [of g] poll_end_disarms [of g]
    by (cases e) (auto simp: case_prod_beta)
qed (simp add: drop_releases)

lemma released_once: "armed g \<Longrightarrow> count_list (guard_run poll_guard drop_guard es g) eff = 1"
proof (induction es arbitrary: g)
  case (Cons e es)
  then show ?case
    using poll_live [of g] poll_end [of g] disarmed_stays [OF poll_end_disarms [of g], of es]
    by (cases e) (auto simp: case_prod_beta)
qed (simp add: drop_releases)

lemma kept_until_end:
  "\<not> List.member es True \<Longrightarrow> guard_run poll_guard drop_guard es g = drop_guard g"
  by (induction es) (auto simp: poll_live List.member_iff)

end

interpretation pool_slot: release_guard ReleasePool pg_pool_guard pool_guard_poll pool_guard_drop
  by unfold_locales (simp_all add: pool_guard_poll_def pool_guard_drop_def)

interpretation pool_callback:
  release_guard RunOnComplete pg_on_complete pool_guard_poll pool_guard_drop
  by unfold_locales (simp_all add: pool_guard_poll_def pool_guard_drop_def)

interpretation cancel_helper:
  release_guard ReleaseCancelHelper "\<lambda>g. g" cancel_guard_poll cancel_guard_drop
  by unfold_locales (simp_all add: cancel_guard_poll_def cancel_guard_drop_def)

interpretation feed_sender:
  release_guard Unregister "\<lambda>g. g" feed_guard_poll feed_guard_drop
  by unfold_locales
    (simp_all add: feed_guard_poll_def feed_guard_drop_def feed_sender_guard_drop_def)

section \<open>Running a job with a runner from the pool\<close>

text \<open>What the worker asks of a runner object.\<close>

record runner_iface =
  ri_name :: string
  ri_is_sandbox :: bool
  ri_supports_client_stream :: "string option \<Rightarrow> bool"
  ri_setup_client_stream_channel :: "string option \<Rightarrow> bool"
  ri_should_detach_on_timeout :: bool
  ri_cancel_helper :: bool

definition set_sandbox_job_context :: "runner_iface \<Rightarrow> job_id option \<Rightarrow> any_error + unit" where
  "set_sandbox_job_context r jid =
     (if ri_is_sandbox r \<and> jid = None
      then Inl (any_of_message ''SANDBOX execution requires a trusted job ID'') else Inr ())"

definition register_client_feed_sender ::
  "runner_iface \<Rightarrow> string option \<Rightarrow> job_id option \<Rightarrow> i64 option" where
  "register_client_feed_sender r using' jid =
     (if \<not> ri_supports_client_stream r using' then None
      else case jid of
             None \<Rightarrow> None
           | Some i \<Rightarrow> if ri_setup_client_stream_channel r using' then Some i else None)"

definition should_skip_idle_timeout :: "bool \<Rightarrow> string option \<Rightarrow> bool" where
  "should_skip_idle_timeout is_sandbox using' \<longleftrightarrow> is_sandbox \<and> using' = Some ''run_with_client''"

definition sandbox_idle_timeout_item :: "json_writer \<Rightarrow> u64 \<Rightarrow> panic + result_output_item" where
  "sandbox_idle_timeout_item to_string window =
     error_end_item to_string Map.empty SecTimeout
       (''Sandbox command was idle until its Worker timeout ('' @ show_nat (unat window) @ ''ms)'')
       ''SANDBOX''"

definition idle_window_from :: "job_data option \<Rightarrow> u64 option" where
  "idle_window_from d =
     (case d of None \<Rightarrow> None | Some d \<Rightarrow> if jd_timeout d > 0 then Some (jd_timeout d) else None)"

text \<open>How a stream is wrapped: not at all, or with a window and the sentinel of a timeout.\<close>

datatype idle_wrap =
    Unwrapped
  | WrapSandbox u64 result_output_item
  | WrapToken u64 result_output_item

definition maybe_idle_timeout_wrap ::
  "json_writer \<Rightarrow> u64 option \<Rightarrow> string \<Rightarrow> bool \<Rightarrow> bool \<Rightarrow> panic + idle_wrap" where
  "maybe_idle_timeout_wrap to_string idle_window runner_name has_token sandbox_runner =
     (case idle_window of
        None \<Rightarrow> Inr Unwrapped
      | Some window \<Rightarrow>
          if sandbox_runner
          then bindE (sandbox_idle_timeout_item to_string window) (\<lambda>i. Inr (WrapSandbox window i))
          else if \<not> has_token then Inr Unwrapped
          else bindE
                 (error_end_item_with_legacy_key to_string Map.empty SecTimeout
                    (''stream idle timeout: no chunk emitted within '' @ show_nat (unat window)
                     @ ''ms'')
                    runner_name)
                 (\<lambda>i. Inr (WrapToken window i)))"

definition maybe_wrap_stream_idle_timeout ::
  "json_writer \<Rightarrow> bool \<Rightarrow> u64 option \<Rightarrow> string \<Rightarrow> bool \<Rightarrow> bool \<Rightarrow> panic + idle_wrap" where
  "maybe_wrap_stream_idle_timeout to_string skip_idle_timeout idle_window runner_name has_token
     sandbox_runner =
     (if skip_idle_timeout then Inr Unwrapped
      else maybe_idle_timeout_wrap to_string idle_window runner_name has_token sandbox_runner)"

text \<open>
  What becomes of the pooled runner, and of the client feed sender: with the stream that is
  handed out, or at once.
\<close>

datatype slot_use = NoSlot | SlotReturned | SlotDetached | SlotHeldByStream

datatype feed_use = NoFeed | FeedHeldByStream i64 | FeedUnregistered i64

record run_job_output =
  ro_result :: job_result
  ro_stream :: "(result_output_item list \<times> idle_wrap) option"
  ro_slot :: slot_use
  ro_feed :: feed_use

definition detach_runner_if :: "bool \<Rightarrow> slot_use" where
  "detach_runner_if detach = (if detach then SlotDetached else SlotReturned)"

definition failed_job :: "run_env \<Rightarrow> worker_data \<Rightarrow> job \<Rightarrow> any_error option \<Rightarrow> slot_use \<Rightarrow>
    panic + run_job_output" where
  "failed_job env w j err slot =
     bindE (handle_error_option (env_to_string env) (env_gen_id env) (env_end env) w j err)
       (\<lambda>r. Inr \<lparr>ro_result = r, ro_stream = None, ro_slot = slot, ro_feed = NoFeed\<rparr>)"

definition is_streaming :: "job \<Rightarrow> bool" where
  "is_streaming j = (case j_data j of None \<Rightarrow> False | Some d \<Rightarrow> jd_streaming_type d \<noteq> 0)"

definition job_using :: "job \<Rightarrow> string option" where
  "job_using j = Option.bind (j_data j) jd_using"

text \<open>
  The body both the pooled and the unpooled runner share once it is loaded; \<open>pooled\<close> says
  whether the runner came from the static pool.
\<close>

definition run_with_runner ::
  "run_env \<Rightarrow> worker_data \<Rightarrow> job \<Rightarrow> runner_iface \<Rightarrow> bool \<Rightarrow> (panic + run_job_output) option" where
  "run_with_runner env w j r pooled =
     (let free = (if pooled then SlotReturned else NoSlot);
          env = env\<lparr>env_name := ri_name r\<rparr>
      in case set_sandbox_job_context r (j_id j) of
           Inl e \<Rightarrow> Some (failed_job env w j (Some e) free)
         | Inr _ \<Rightarrow>
             let registered = (if is_streaming j
                   then register_client_feed_sender r (job_using j) (j_id j) else None);
                 skip = should_skip_idle_timeout (ri_is_sandbox r) (job_using j);
                 released = (case registered of None \<Rightarrow> NoFeed | Some i \<Rightarrow> FeedUnregistered i);
                 held = (case registered of None \<Rightarrow> NoFeed | Some i \<Rightarrow> FeedHeldByStream i)
             in map_option (\<lambda>run. bindE run (\<lambda>(res, stream, outcome).
                  let detach = outcome = OutTimedOut \<and> ri_should_detach_on_timeout r;
                      freed = (if pooled then detach_runner_if detach else NoSlot)
                  in case stream of
                       None \<Rightarrow> Inr \<lparr>ro_result = res, ro_stream = None, ro_slot = freed,
                                     ro_feed = released\<rparr>
                     | Some items \<Rightarrow>
                         if is_streaming j
                         then bindE (maybe_wrap_stream_idle_timeout (env_to_string env) skip
                                       (idle_window_from (j_data j)) (ri_name r)
                                       (ri_cancel_helper r) (ri_is_sandbox r \<and> \<not> skip))
                                (\<lambda>wrap. Inr \<lparr>ro_result = res, ro_stream = Some (items, wrap),
                                   ro_slot = (if pooled then SlotHeldByStream else NoSlot),
                                   ro_feed = held\<rparr>)
                         else Inr \<lparr>ro_result = res, ro_stream = Some (items, Unwrapped),
                                    ro_slot = freed, ro_feed = NoFeed\<rparr>))
                  (run_job_inner env w j))"

text \<open>The pool's answer: an error, no runner (static only), or a loaded runner.\<close>

definition run_job ::
  "run_env \<Rightarrow> (any_error + runner_iface option) \<Rightarrow> (any_error + runner_iface) \<Rightarrow> worker_data \<Rightarrow>
    job \<Rightarrow> (panic + run_job_output) option" where
  "run_job env static_runner non_static_runner w j =
     (if w_use_static w
      then (case static_runner of
              Inr (Some r) \<Rightarrow> run_with_runner env w j r True
            | Inr None \<Rightarrow> Some (failed_job env w j None NoSlot)
            | Inl e \<Rightarrow> Some (failed_job env w j (Some e) NoSlot))
      else (case non_static_runner of
              Inr r \<Rightarrow> run_with_runner env w j r False
            | Inl e \<Rightarrow> Some (failed_job env w j (Some e) NoSlot)))"

definition preload_runner ::
  "run_env \<Rightarrow> (any_error + unit) \<Rightarrow> worker_data \<Rightarrow> job \<Rightarrow> panic + job_result" where
  "preload_runner env load_result w j =
     (case load_result of
        Inr _ \<Rightarrow>
          Inr (job_result_data_for (env_gen_id env) j w RsSuccess
                 (result_output (RoNormal (Inr []) Map.empty)) (env_now env) (env_end env)
                 (Some (j_metadata j)) None)
      | Inl e \<Rightarrow>
          handle_error_option (env_to_string env) (env_gen_id env) (env_end env) w j (Some e))"

section \<open>The idle timeout implements its reference\<close>

lemma idle_run_done: "its_state s = Done \<Longrightarrow> idle_run pes s = (map (\<lambda>_. Ready None) pes, s)"
  by (induction pes) (simp_all add: idle_poll_next_def)

lemma items_of_done [simp]: "items_of (map (\<lambda>_. Ready None) pes) = []"
  by (induction pes) simp_all

lemma idle_run_firing:
  assumes "its_state s = FiringTimeout" "its_timeout_future s"
  shows "items_of (fst (idle_run pes s)) =
     (if \<exists>e \<in> set pes. pe_callback_ready e
      then (case its_on_timeout_item s of None \<Rightarrow> [] | Some x \<Rightarrow> [x]) else [])"
  using assms
proof (induction pes)
  case (Cons pe pes)
  then show ?case
    by (auto simp: idle_poll_next_def poll_timeout_def idle_run_done case_prod_beta
        split: option.splits)
qed simp

lemma idle_run_running:
  assumes "its_state s = Running" "its_stream s" "its_on_timeout s" "its_idle_window s = window"
    "its_on_timeout_item s = item" "its_sleep s = deadline"
  shows "items_of (fst (idle_run pes s)) = idle_spec window item deadline pes"
  using assms
proof (induction pes arbitrary: s deadline)
  case (Cons pe pes)
  show ?case
  proof (cases "pe_inner pe")
    case (Ready r)
    then show ?thesis
      using Cons by (cases r) (simp_all add: idle_poll_next_def idle_run_done case_prod_beta)
  next
    case Pending
    show ?thesis
    proof (cases "deadline \<le> pe_now pe")
      case True
      let ?f = "s\<lparr>its_state := FiringTimeout, its_timeout_future := True, its_on_timeout := False\<rparr>"
      have "idle_poll_next pe s = idle_poll_next pe ?f"
        using True Pending Cons.prems by (simp add: idle_poll_next_def)
      then have "idle_run (pe # pes) s = idle_run (pe # pes) ?f" by simp
      then show ?thesis
        using idle_run_firing [of ?f "pe # pes"] True Pending Cons.prems
        by (simp del: idle_run.simps)
    next
      case False
      then show ?thesis
        using Cons Pending by (simp add: idle_poll_next_def case_prod_beta)
    qed
  qed
qed simp

text \<open>
  C33: the idle-timeout wrapper delivers exactly what its reference delivers, for every
  schedule of polls: each chunk of the inner stream in order, also one that arrives together
  with the deadline; nothing after the end; and once a poll finds a whole window without a
  chunk, only the sentinel, once, when the timeout callback has completed.
\<close>

theorem idle_timeout_implements_reference:
  "items_of (fst (idle_run pes (with_timeout_callback now window item drop_inner))) =
     idle_spec window item (now + window) pes"
  by (rule idle_run_running) (simp_all add: with_timeout_callback_def)

text \<open>
  The resources tied to a result stream are released exactly once, whatever the sequence
  of polls before the stream is dropped: the pooled runner, the completion callback, the
  cancellation helper and the client feed sender.
\<close>

theorem stream_resources_released_once:
  "count_list (guard_run pool_guard_poll pool_guard_drop es
       \<lparr>pg_pool_guard = True, pg_on_complete = True\<rparr>) ReleasePool = 1 \<and>
   count_list (guard_run pool_guard_poll pool_guard_drop es
       \<lparr>pg_pool_guard = True, pg_on_complete = True\<rparr>) RunOnComplete = 1 \<and>
   count_list (guard_run cancel_guard_poll cancel_guard_drop es True) ReleaseCancelHelper = 1 \<and>
   count_list (guard_run feed_guard_poll feed_guard_drop es True) Unregister = 1"
  by (intro conjI pool_slot.released_once pool_callback.released_once cancel_helper.released_once
      feed_sender.released_once) simp_all

lemma error_end_item_failed:
  assumes laws: "serde_v1_laws to_string from_str" and ascii: "is_ascii msg" "valid_utf8 org"
  obtains t e where
    "error_end_item to_string md code msg org = Inr (ItemEnd t)"
    "inspect_end from_str t = OutcomeFailed e" "se_code e = stream_error_code_i32 code"
    "tr_error t = Some e"
proof -
  obtain e json where
    "error_trailer to_string md code msg org =
       Inr \<lparr>tr_metadata = (strip_reserved_keys md)(STREAM_ERROR_METADATA_KEY \<mapsto> json),
            tr_error = Some e\<rparr>" "se_code e = stream_error_code_i32 code"
    using laws valid_utf8_ascii [OF ascii(1)] ascii(2) by (rule error_trailer_built)
  then show ?thesis
    by (intro that) (auto simp: error_end_item_def end_item_def bindE_def inspect_end_def)
qed

lemma error_end_item_with_legacy_key_failed:
  assumes laws: "serde_v1_laws to_string from_str" and ascii: "is_ascii msg" "valid_utf8 org"
  obtains t e where
    "error_end_item_with_legacy_key to_string md code msg org = Inr (ItemEnd t)"
    "inspect_end from_str t = OutcomeFailed e" "se_code e = stream_error_code_i32 code"
proof -
  obtain e json where
    "error_trailer to_string md code msg org =
       Inr \<lparr>tr_metadata = (strip_reserved_keys md)(STREAM_ERROR_METADATA_KEY \<mapsto> json),
            tr_error = Some e\<rparr>" "se_code e = stream_error_code_i32 code"
    using laws valid_utf8_ascii [OF ascii(1)] ascii(2) by (rule error_trailer_built)
  then show ?thesis
    by (intro that) (auto simp: error_end_item_with_legacy_key_def error_trailer_with_legacy_key_def
        end_item_def bindE_def inspect_end_def)
qed

fun wrap_sentinel :: "idle_wrap \<Rightarrow> (u64 \<times> result_output_item) option" where
  "wrap_sentinel Unwrapped = None"
| "wrap_sentinel (WrapSandbox w i) = Some (w, i)"
| "wrap_sentinel (WrapToken w i) = Some (w, i)"

text \<open>
  A stalled stream is never taken for a success.  For a job with a timeout, unless the
  runner is a client-fed sandbox or has no cancellation helper, the stream handed out is
  wrapped with the timeout as its window, and the sentinel that ends a stalled stream is an
  End every reader takes as a failure with code \<open>TIMEOUT\<close>.
\<close>

theorem stalled_stream_reported_as_timeout:
  assumes laws: "serde_v1_laws to_string from_str" and name: "valid_utf8 (ri_name r)"
    and timeout: "jd_timeout d > 0"
    and skip: "\<not> should_skip_idle_timeout (ri_is_sandbox r) using'"
    and helper: "ri_is_sandbox r \<or> ri_cancel_helper r"
  shows "\<exists>wrap t e.
     maybe_wrap_stream_idle_timeout to_string (should_skip_idle_timeout (ri_is_sandbox r) using')
       (idle_window_from (Some d)) (ri_name r) (ri_cancel_helper r) (ri_is_sandbox r) = Inr wrap \<and>
     wrap_sentinel wrap = Some (jd_timeout d, ItemEnd t) \<and>
     inspect_end from_str t = OutcomeFailed e \<and> se_code e = stream_error_code_i32 SecTimeout \<and>
     result_status_for (se_code e) \<noteq> RsSuccess"
proof (cases "ri_is_sandbox r")
  case True
  have "is_ascii (''Sandbox command was idle until its Worker timeout ('' @
      show_nat (unat (jd_timeout d)) @ ''ms)'')" "valid_utf8 ''SANDBOX''"
    by (simp_all add: utf8_width_def)
  with laws obtain t e where
    "sandbox_idle_timeout_item to_string (jd_timeout d) = Inr (ItemEnd t)"
    "inspect_end from_str t = OutcomeFailed e" "se_code e = stream_error_code_i32 SecTimeout"
    unfolding sandbox_idle_timeout_item_def by (rule error_end_item_failed)
  then show ?thesis
    using True timeout skip by (simp add: maybe_wrap_stream_idle_timeout_def
        maybe_idle_timeout_wrap_def idle_window_from_def bindE_def)
next
  case False
  have "is_ascii (''stream idle timeout: no chunk emitted within '' @
      show_nat (unat (jd_timeout d)) @ ''ms'')" by simp
  with laws obtain t e where
    "error_end_item_with_legacy_key to_string Map.empty SecTimeout
       (''stream idle timeout: no chunk emitted within '' @ show_nat (unat (jd_timeout d)) @ ''ms'')
       (ri_name r) = Inr (ItemEnd t)"
    "inspect_end from_str t = OutcomeFailed e" "se_code e = stream_error_code_i32 SecTimeout"
    using name by (rule error_end_item_with_legacy_key_failed)
  then show ?thesis
    using False timeout skip helper by (simp add: maybe_wrap_stream_idle_timeout_def
        maybe_idle_timeout_wrap_def idle_window_from_def bindE_def)
qed

theorem stalled_stream_reported_as_timeout_witness:
  "\<exists>wrap t e.
     maybe_wrap_stream_idle_timeout ref_writer False (Some 300) ''PLUGIN'' True False = Inr wrap \<and>
     wrap_sentinel wrap = Some (300, ItemEnd t) \<and> inspect_end ref_reader t = OutcomeFailed e \<and>
     se_code e = stream_error_code_i32 SecTimeout"
proof -
  define r where "r = \<lparr>ri_name = ''PLUGIN'', ri_is_sandbox = False,
    ri_supports_client_stream = (\<lambda>_. False), ri_setup_client_stream_channel = (\<lambda>_. False),
    ri_should_detach_on_timeout = True, ri_cancel_helper = True\<rparr>"
  define d where "d = default_job_data\<lparr>jd_timeout := 300\<rparr>"
  have "valid_utf8 (ri_name r)" "jd_timeout d > 0"
    "\<not> should_skip_idle_timeout (ri_is_sandbox r) None" "ri_is_sandbox r \<or> ri_cancel_helper r"
    by (simp_all add: r_def d_def utf8_width_def should_skip_idle_timeout_def)
  from stalled_stream_reported_as_timeout [OF ref_codec_laws this] show ?thesis
    by (auto simp: r_def d_def should_skip_idle_timeout_def idle_window_from_def)
qed

section \<open>Accounting of pooled runners\<close>

lemma job_result_status_keeps_kind:
  assumes "job_result_status to_string org policy d res = Inr (st, mes, err)"
    and "output_stream mes = Some items"
  shows "\<exists>s. res = Inr (RoStream s)"
  using assms
  by (auto simp: job_result_status_def Let_def bindE_eq_Inr output_stream_def
      split: sum.splits result_output_enum.splits)

lemma run_job_inner_streams:
  assumes "run_job_inner env w j = Some (Inr (r, Some items, out))"
  shows "is_streaming j"
proof (rule ccontr)
  assume not: "\<not> is_streaming j"
  obtain d where d: "j_data j = Some d"
    using assms by (auto simp: run_job_inner_def split: option.splits)
  with not have "jd_streaming_type d = 0" by (simp add: is_streaming_def)
  with assms d obtain res where
    "finish_run env w j d (resolve_job_params w (jd_overrides d))
       (map_sum id (\<lambda>(a, b). RoNormal a b) res) = Inr (r, Some items, out)"
    by (auto simp: run_job_inner_def Let_def bindE_eq_Inr split: option.splits)
  then show False
    by (auto elim!: finish_run_Inr dest!: job_result_status_keeps_kind dest: sym
        simp: map_sum_def split: sum.splits)
qed

lemma failed_job_Inr:
  "failed_job env w j err slot = Inr out \<Longrightarrow>
     ro_stream out = None \<and> ro_slot out = slot \<and> ro_feed out = NoFeed"
  by (auto simp: failed_job_def bindE_eq_Inr)

lemma run_with_runner_slot:
  assumes run: "run_with_runner env w j r pooled = Some (Inr out)"
  shows "ro_slot out \<in>
      (if \<not> pooled then {NoSlot}
       else if ro_stream out \<noteq> None then {SlotHeldByStream} else {SlotDetached, SlotReturned}) \<and>
    (ro_slot out = SlotDetached \<longrightarrow> ri_should_detach_on_timeout r) \<and>
    (ro_stream out = None \<longrightarrow> ro_feed out \<noteq> FeedHeldByStream i) \<and>
    (ro_stream out \<noteq> None \<longrightarrow> ro_feed out \<noteq> FeedUnregistered i)"
proof (cases "set_sandbox_job_context r (j_id j)")
  case (Inl e)
  then have "failed_job (env\<lparr>env_name := ri_name r\<rparr>) w j (Some e)
      (if pooled then SlotReturned else NoSlot) = Inr out"
    using run by (simp add: run_with_runner_def)
  from failed_job_Inr [OF this] show ?thesis by simp
next
  case (Inr u)
  let ?env = "env\<lparr>env_name := ri_name r\<rparr>"
  obtain res stream outcome where inner: "run_job_inner ?env w j = Some (Inr (res, stream, outcome))"
    using run Inr by (auto simp: run_with_runner_def Let_def bindE_eq_Inr)
  show ?thesis
  proof (cases stream)
    case None
    with run Inr inner show ?thesis
      by (auto simp: run_with_runner_def Let_def bindE_def detach_runner_if_def
          split: option.splits if_splits)
  next
    case (Some items)
    with inner have "is_streaming j" by (auto dest: run_job_inner_streams)
    with run Inr inner Some show ?thesis
      by (auto simp: run_with_runner_def Let_def bindE_def split: option.splits sum.splits)
  qed
qed

text \<open>
  Pooled runners are accounted for.  A runner taken from the static pool goes back to it
  at once, goes with the stream that is handed out, or is discarded, the last only when the
  runner asks for that on a timeout and no stream is handed out; without a pooled runner no
  slot is touched.  A registered client feed sender stays with the stream and is unregistered
  when there is none.
\<close>

theorem run_job_accounts_for_slot:
  assumes "run_job env static_runner non_static_runner w j = Some (Inr out)"
  shows "(ro_slot out = NoSlot \<longleftrightarrow>
       \<not> (w_use_static w \<and> (\<exists>r. static_runner = Inr (Some r)))) \<and>
     (w_use_static w \<longrightarrow> (ro_slot out = SlotHeldByStream \<longleftrightarrow> ro_stream out \<noteq> None)) \<and>
     (ro_slot out = SlotDetached \<longrightarrow> ro_stream out = None \<and>
       (\<exists>r. static_runner = Inr (Some r) \<and> ri_should_detach_on_timeout r)) \<and>
     (ro_feed out = FeedHeldByStream i \<longrightarrow> ro_stream out \<noteq> None) \<and>
     (ro_feed out = FeedUnregistered i \<longrightarrow> ro_stream out = None)"
proof -
  consider (pooled) r where "run_with_runner env w j r True = Some (Inr out)"
      "w_use_static w" "static_runner = Inr (Some r)"
    | (unpooled) r where "run_with_runner env w j r False = Some (Inr out)" "\<not> w_use_static w"
    | (failed) err where "failed_job env w j err NoSlot = Inr out"
      "\<not> (w_use_static w \<and> (\<exists>r. static_runner = Inr (Some r)))"
    using assms by (auto simp: run_job_def split: sum.splits option.splits if_splits)
  then show ?thesis
  proof cases
    case pooled
    with run_with_runner_slot [OF pooled(1), of i] show ?thesis
      by (cases "ro_stream out") auto
  next
    case unpooled
    with run_with_runner_slot [OF unpooled(1), of i] show ?thesis
      by (cases "ro_stream out") auto
  next
    case failed
    from failed_job_Inr [OF failed(1)] failed(2) show ?thesis by simp
  qed
qed

definition example_runner :: runner_iface where
  "example_runner =
     \<lparr>ri_name = ''COMMAND'', ri_is_sandbox = False, ri_supports_client_stream = (\<lambda>_. True),
      ri_setup_client_stream_channel = (\<lambda>_. True), ri_should_detach_on_timeout = True,
      ri_cancel_helper = True\<rparr>"

lemma example_runner_ready:
  "example_env\<lparr>env_name := ri_name example_runner\<rparr> = example_env"
  "set_sandbox_job_context example_runner jid = Inr ()"
  "\<not> is_streaming example_job" "w_use_static example_worker"
  by (simp_all add: example_runner_def example_env_def set_sandbox_job_context_def
      example_job_def is_streaming_def default_job_data_def example_worker_def)

theorem run_job_accounts_for_slot_witness:
  "\<exists>out. run_job example_env (Inr (Some example_runner)) (Inl example_failure) example_worker
        example_job = Some (Inr out) \<and> ro_slot out \<noteq> NoSlot"
proof -
  obtain r where run:
    "run_job_inner example_env example_worker example_job = Some (Inr (r, None, OutNormal))"
    by (rule example_run)
  have "run_job example_env (Inr (Some example_runner)) (Inl example_failure) example_worker
        example_job = run_with_runner example_env example_worker example_job example_runner True"
    by (simp add: run_job_def example_runner_ready(4))
  moreover obtain out where "run_with_runner example_env example_worker example_job
      example_runner True = Some (Inr out)"
    unfolding run_with_runner_def Let_def example_runner_ready(1,2) run
    by (simp add: bindE_def)
  ultimately have out: "run_job example_env (Inr (Some example_runner)) (Inl example_failure)
      example_worker example_job = Some (Inr out)" by simp
  with run_job_accounts_for_slot [OF out, of 0] example_runner_ready(4) show ?thesis by blast
qed

end
