(* ===== verification/Worker_Instances.thy ===== *)
theory Worker_Instances
  imports Proto_Data "HOL-Library.AList"
begin

text \<open>
  The registry of worker instances: \<^verbatim>\<open>infra/src/infra/worker_instance.rs\<close>, \<^verbatim>\<open>memory.rs\<close> and
  \<^verbatim>\<open>redis.rs\<close>.  The Lua scripts are atomic functions on the registry hash, the heartbeat hash
  and the recovery locks; a lock is a key with an expiry, which counts as absent once the
  clock of the server has reached it.  The protobuf codec of an instance is a parameter.
\<close>

section \<open>Instances\<close>

record channel_config =
  cc_name :: string
  cc_concurrency :: u32

record worker_instance_data =
  wid_ip_address :: string
  wid_hostname :: "string option"
  wid_channels :: "channel_config list"
  wid_registered_at :: i64
  wid_last_heartbeat :: i64
  wid_recovery_version :: u32

record worker_instance =
  wi_id :: "i64 option"
  wi_data :: "worker_instance_data option"

record channel_aggregation =
  ca_total_concurrency :: u32
  ca_active_instances :: nat

definition add_channel ::
  "(string \<rightharpoonup> channel_aggregation) \<Rightarrow> channel_config \<Rightarrow> (string \<rightharpoonup> channel_aggregation)" where
  "add_channel m c =
     (let e = unwrap_or (m (cc_name c)) \<lparr>ca_total_concurrency = 0, ca_active_instances = 0\<rparr>
      in m(cc_name c \<mapsto> \<lparr>ca_total_concurrency = ca_total_concurrency e + cc_concurrency c,
                          ca_active_instances = ca_active_instances e + 1\<rparr>))"

definition aggregate_instance_channels ::
  "worker_instance list \<Rightarrow> (string \<rightharpoonup> channel_aggregation)" where
  "aggregate_instance_channels insts =
     foldl (\<lambda>m inst. case wi_data inst of
               None \<Rightarrow> m
             | Some d \<Rightarrow> foldl add_channel m (wid_channels d)) Map.empty insts"

section \<open>The memory registry\<close>

type_synonym memory_registry = "(i64 \<times> worker_instance) list"

definition mreg_upsert ::
  "i64 \<Rightarrow> worker_instance_data \<Rightarrow> memory_registry \<Rightarrow> bool \<times> memory_registry" where
  "mreg_upsert i d s =
     (map_of s i \<noteq> None, AList.update i \<lparr>wi_id = Some i, wi_data = Some d\<rparr> s)"

definition mreg_update_heartbeat :: "i64 \<Rightarrow> i64 \<Rightarrow> memory_registry \<Rightarrow> bool \<times> memory_registry" where
  "mreg_update_heartbeat now i s =
     (case map_of s i of
        None \<Rightarrow> (False, s)
      | Some inst \<Rightarrow> (True, AList.update i
          (inst\<lparr>wi_data := map_option (\<lambda>d. d\<lparr>wid_last_heartbeat := now\<rparr>) (wi_data inst)\<rparr>) s))"

definition mreg_delete :: "i64 \<Rightarrow> memory_registry \<Rightarrow> bool \<times> memory_registry" where
  "mreg_delete i s = (map_of s i \<noteq> None, AList.delete i s)"

definition mreg_find :: "i64 \<Rightarrow> memory_registry \<Rightarrow> worker_instance option" where
  "mreg_find i s = map_of s i"

definition mreg_find_all :: "memory_registry \<Rightarrow> worker_instance list" where
  "mreg_find_all s = map snd s"

definition mreg_find_all_active :: "i64 \<Rightarrow> memory_registry \<Rightarrow> worker_instance list" where
  "mreg_find_all_active timeout s = mreg_find_all s"

definition mreg_delete_expired :: "i64 \<Rightarrow> memory_registry \<Rightarrow> nat \<times> memory_registry" where
  "mreg_delete_expired timeout s = (0, s)"

section \<open>The Redis registry\<close>

record wi_codec =
  wc_encode :: "worker_instance \<Rightarrow> bytes"
  wc_decode :: "bytes \<Rightarrow> worker_instance option"

definition wi_codec_laws :: "wi_codec \<Rightarrow> bool" where
  "wi_codec_laws c \<longleftrightarrow> (\<forall>inst. wc_decode c (wc_encode c inst) = Some inst)"

record registry =
  rg_registry :: "(i64 \<times> bytes) list"
  rg_heartbeat :: "i64 \<rightharpoonup> i64"
  rg_locks :: "i64 \<rightharpoonup> string \<times> i64"

datatype registry_error = ProtectedByLock i64 | DecodeError | NoId | BadTtl

definition lock_owner :: "i64 \<Rightarrow> i64 \<Rightarrow> registry \<Rightarrow> string option" where
  "lock_owner now i s =
     (case rg_locks s i of
        None \<Rightarrow> None
      | Some (owner, expiry) \<Rightarrow> if now < expiry then Some owner else None)"

definition rreg_upsert ::
  "wi_codec \<Rightarrow> i64 \<Rightarrow> i64 \<Rightarrow> worker_instance_data \<Rightarrow> registry \<Rightarrow> (registry_error + bool) \<times> registry" where
  "rreg_upsert c now i d s =
     (if map_of (rg_registry s) i \<noteq> None then (Inr True, s)
      else if lock_owner now i s \<noteq> None then (Inl (ProtectedByLock i), s)
      else (Inr False,
            s\<lparr>rg_registry := AList.update i (wc_encode c \<lparr>wi_id = Some i, wi_data = Some d\<rparr>) (rg_registry s),
              rg_heartbeat := (rg_heartbeat s)(i \<mapsto> now)\<rparr>))"

definition rreg_update_heartbeat :: "i64 \<Rightarrow> i64 \<Rightarrow> registry \<Rightarrow> bool \<times> registry" where
  "rreg_update_heartbeat now i s =
     (if map_of (rg_registry s) i = None \<or> rg_heartbeat s i = None \<or> lock_owner now i s \<noteq> None
      then (False, s)
      else (True, s\<lparr>rg_heartbeat := (rg_heartbeat s)(i \<mapsto> now)\<rparr>))"

definition remove_instance :: "i64 \<Rightarrow> registry \<Rightarrow> registry" where
  "remove_instance i s =
     s\<lparr>rg_registry := AList.delete i (rg_registry s), rg_heartbeat := (rg_heartbeat s)(i := None)\<rparr>"

definition rreg_delete :: "i64 \<Rightarrow> registry \<Rightarrow> bool \<times> registry" where
  "rreg_delete i s =
     (if map_of (rg_registry s) i = None then (False, s) else (True, remove_instance i s))"

definition with_heartbeat :: "worker_instance \<Rightarrow> i64 option \<Rightarrow> worker_instance" where
  "with_heartbeat inst hb =
     (case (wi_data inst, hb) of
        (Some d, Some h) \<Rightarrow> inst\<lparr>wi_data := Some (d\<lparr>wid_last_heartbeat := h\<rparr>)\<rparr>
      | _ \<Rightarrow> inst)"

definition rreg_find :: "wi_codec \<Rightarrow> i64 \<Rightarrow> registry \<Rightarrow> registry_error + worker_instance option" where
  "rreg_find c i s =
     (case map_of (rg_registry s) i of
        None \<Rightarrow> Inr None
      | Some buf \<Rightarrow> (case wc_decode c buf of
                       None \<Rightarrow> Inl DecodeError
                     | Some inst \<Rightarrow> Inr (Some (with_heartbeat inst (rg_heartbeat s i)))))"

primrec decode_all ::
  "wi_codec \<Rightarrow> (i64 \<rightharpoonup> i64) \<Rightarrow> (i64 \<times> bytes) list \<Rightarrow> registry_error + worker_instance list" where
  "decode_all c hbs [] = Inr []"
| "decode_all c hbs (e # es) =
     (case wc_decode c (snd e) of
        None \<Rightarrow> Inl DecodeError
      | Some inst \<Rightarrow> bindE (decode_all c hbs es) (\<lambda>rest. Inr (with_heartbeat inst (hbs (fst e)) # rest)))"

text \<open>\<^verbatim>\<open>HGETALL\<close> into a \<^verbatim>\<open>BTreeMap\<close>: the entries in the order of their keys.\<close>

definition rreg_find_all :: "wi_codec \<Rightarrow> registry \<Rightarrow> registry_error + worker_instance list" where
  "rreg_find_all c s = decode_all c (rg_heartbeat s) (sort_key fst (rg_registry s))"

definition rreg_find_all_active ::
  "wi_codec \<Rightarrow> i64 \<Rightarrow> i64 \<Rightarrow> registry \<Rightarrow> registry_error + worker_instance list" where
  "rreg_find_all_active c now timeout s =
     (let cutoff = i64_wrap (now - timeout)
      in bindE (rreg_find_all c s) (\<lambda>all. Inr (filter (\<lambda>inst.
           case wi_data inst of None \<Rightarrow> False | Some d \<Rightarrow> wid_last_heartbeat d \<ge> cutoff) all)))"

definition expired_ids :: "i64 \<Rightarrow> worker_instance list \<Rightarrow> i64 list" where
  "expired_ids cutoff all =
     List.map_filter wi_id (filter (\<lambda>inst.
       case wi_data inst of None \<Rightarrow> True | Some d \<Rightarrow> wid_last_heartbeat d < cutoff) all)"

definition rreg_delete_expired ::
  "wi_codec \<Rightarrow> i64 \<Rightarrow> i64 \<Rightarrow> registry \<Rightarrow> (registry_error + nat) \<times> registry" where
  "rreg_delete_expired c now timeout s =
     (case rreg_find_all c s of
        Inl e \<Rightarrow> (Inl e, s)
      | Inr all \<Rightarrow>
          let (n, s') = foldl (\<lambda>(n, s) i. let (b, s') = rreg_delete i s in (if b then n + 1 else n, s'))
                (0, s) (expired_ids (i64_wrap (now - timeout)) all)
          in (Inr n, s'))"

section \<open>Recovery of expired instances\<close>

record expired_worker_instance =
  ex_instance :: worker_instance
  ex_observed_heartbeat_millis :: i64
  ex_registry_value :: bytes

primrec collect_expired ::
  "wi_codec \<Rightarrow> (i64 \<times> bytes \<times> i64) list \<Rightarrow> registry_error + expired_worker_instance list" where
  "collect_expired c [] = Inr []"
| "collect_expired c (e # es) =
     (case e of (i, buf, hb) \<Rightarrow>
        (case wc_decode c buf of
           None \<Rightarrow> Inl DecodeError
         | Some inst \<Rightarrow> bindE (collect_expired c es) (\<lambda>rest.
             Inr (\<lparr>ex_instance = with_heartbeat inst (Some hb), ex_observed_heartbeat_millis = hb,
                   ex_registry_value = buf\<rparr> # rest))))"

definition find_expired_for_recovery ::
  "wi_codec \<Rightarrow> i64 \<Rightarrow> i64 \<Rightarrow> registry \<Rightarrow> registry_error + expired_worker_instance list" where
  "find_expired_for_recovery c now timeout s =
     (let cutoff = i64_wrap (now - timeout)
      in collect_expired c (List.map_filter
           (\<lambda>(i, buf). case rg_heartbeat s i of
                None \<Rightarrow> None
              | Some hb \<Rightarrow> if hb < cutoff then Some (i, buf, hb) else None)
           (sort_key fst (rg_registry s))))"

text \<open>The check of the scripts that the observed entry is still there, unchanged and expired.\<close>

definition still_expired :: "i64 \<Rightarrow> i64 \<Rightarrow> i64 \<Rightarrow> expired_worker_instance \<Rightarrow> registry \<Rightarrow> bool" where
  "still_expired now timeout i e s \<longleftrightarrow>
     map_of (rg_registry s) i = Some (ex_registry_value e) \<and>
     rg_heartbeat s i = Some (ex_observed_heartbeat_millis e) \<and>
     \<not> now - ex_observed_heartbeat_millis e < timeout"

definition delete_expired_observed ::
  "i64 \<Rightarrow> expired_worker_instance \<Rightarrow> i64 \<Rightarrow> registry \<Rightarrow> (registry_error + bool) \<times> registry" where
  "delete_expired_observed now e timeout s =
     (case wi_id (ex_instance e) of
        None \<Rightarrow> (Inl NoId, s)
      | Some i \<Rightarrow> if still_expired now timeout i e s then (Inr True, remove_instance i s)
                  else (Inr False, s))"

definition try_lock_expired ::
  "i64 \<Rightarrow> expired_worker_instance \<Rightarrow> i64 \<Rightarrow> string \<Rightarrow> i64 \<Rightarrow> registry \<Rightarrow>
     (registry_error + bool) \<times> registry" where
  "try_lock_expired now e timeout recovery_id ttl s =
     (case wi_id (ex_instance e) of
        None \<Rightarrow> (Inl NoId, s)
      | Some i \<Rightarrow>
          if \<not> still_expired now timeout i e s then (Inr False, s)
          else if ttl \<le> 0 then (Inl BadTtl, s)
          else if lock_owner now i s \<noteq> None then (Inr False, s)
          else (Inr True, s\<lparr>rg_locks := (rg_locks s)(i \<mapsto> (recovery_id, now + ttl))\<rparr>))"

definition refresh_recovery_lock ::
  "i64 \<Rightarrow> i64 \<Rightarrow> string \<Rightarrow> i64 \<Rightarrow> registry \<Rightarrow> bool \<times> registry" where
  "refresh_recovery_lock now i recovery_id ttl s =
     (if lock_owner now i s \<noteq> Some recovery_id then (False, s)
      else (True, s\<lparr>rg_locks := (rg_locks s)(i \<mapsto> (recovery_id, now + ttl))\<rparr>))"

definition release_recovery_lock :: "i64 \<Rightarrow> i64 \<Rightarrow> string \<Rightarrow> registry \<Rightarrow> bool \<times> registry" where
  "release_recovery_lock now i recovery_id s =
     (if lock_owner now i s \<noteq> Some recovery_id then (False, s)
      else (True, s\<lparr>rg_locks := (rg_locks s)(i := None)\<rparr>))"

definition delete_expired_owned ::
  "i64 \<Rightarrow> expired_worker_instance \<Rightarrow> i64 \<Rightarrow> string \<Rightarrow> registry \<Rightarrow>
     (registry_error + bool) \<times> registry" where
  "delete_expired_owned now e timeout recovery_id s =
     (case wi_id (ex_instance e) of
        None \<Rightarrow> (Inl NoId, s)
      | Some i \<Rightarrow>
          if lock_owner now i s \<noteq> Some recovery_id \<or> \<not> still_expired now timeout i e s
          then (Inr False, s)
          else (Inr True, (remove_instance i s)\<lparr>rg_locks := (rg_locks s)(i := None)\<rparr>))"

section \<open>What other processes can do to a locked instance\<close>

text \<open>
  A step of any process but the recovery \<open>me\<close>: the clock moves on, or one of the operations
  runs at the current time.
\<close>

inductive other_step :: "string \<Rightarrow> i64 \<times> registry \<Rightarrow> i64 \<times> registry \<Rightarrow> bool" for me where
  tick: "t \<le> t' \<Longrightarrow> other_step me (t, s) (t', s)"
| register: "other_step me (t, s) (t, snd (rreg_upsert c t i d s))"
| heartbeat: "other_step me (t, s) (t, snd (rreg_update_heartbeat t i s))"
| unregister: "other_step me (t, s) (t, snd (rreg_delete i s))"
| delete_expired: "other_step me (t, s) (t, snd (rreg_delete_expired c t timeout s))"
| delete_observed: "other_step me (t, s) (t, snd (delete_expired_observed t e timeout s))"
| lock: "r \<noteq> me \<Longrightarrow> other_step me (t, s) (t, snd (try_lock_expired t e timeout r ttl s))"
| refresh: "r \<noteq> me \<Longrightarrow> other_step me (t, s) (t, snd (refresh_recovery_lock t i r ttl s))"
| release: "r \<noteq> me \<Longrightarrow> other_step me (t, s) (t, snd (release_recovery_lock t i r s))"
| delete_owned: "r \<noteq> me \<Longrightarrow> other_step me (t, s) (t, snd (delete_expired_owned t e timeout r s))"

definition held :: "i64 \<Rightarrow> string \<Rightarrow> i64 \<Rightarrow> registry \<Rightarrow> bool" where
  "held i me expiry s \<longleftrightarrow> rg_locks s i = Some (me, expiry)"

lemma held_owner: "held i me expiry s \<Longrightarrow> t < expiry \<Longrightarrow> lock_owner t i s = Some me"
  by (simp add: held_def lock_owner_def)

lemma locks_remove_instance [simp]: "rg_locks (remove_instance i s) = rg_locks s"
  by (simp add: remove_instance_def)

lemma locks_rreg_delete [simp]: "rg_locks (snd (rreg_delete i s)) = rg_locks s"
  by (simp add: rreg_delete_def)

lemma heartbeat_rreg_delete: "rg_heartbeat (snd (rreg_delete j s)) i \<in> {rg_heartbeat s i, None}"
  by (simp add: rreg_delete_def remove_instance_def)

lemma delete_fold:
  "rg_locks (snd (foldl (\<lambda>(n :: nat, s) i. let (b, s') = rreg_delete i s in (if b then n + 1 else n, s')) (n, s) is)) =
     rg_locks s \<and>
   rg_heartbeat (snd (foldl (\<lambda>(n :: nat, s) i. let (b, s') = rreg_delete i s in (if b then n + 1 else n, s')) (n, s) is)) i
     \<in> {rg_heartbeat s i, None}"
proof (induction "is" arbitrary: n s)
  case (Cons j js)
  obtain b s' where r: "rreg_delete j s = (b, s')" by (rule prod.exhaust)
  then have "rg_locks s' = rg_locks s" "rg_heartbeat s' i \<in> {rg_heartbeat s i, None}"
    using locks_rreg_delete [of j s] heartbeat_rreg_delete [of j s i] by simp_all
  with Cons.IH [of "if b then n + 1 else n" s'] r show ?case by auto
qed simp

lemma delete_expired_effect:
  "rg_locks (snd (rreg_delete_expired c t timeout s)) = rg_locks s"
  "rg_heartbeat (snd (rreg_delete_expired c t timeout s)) i \<in> {rg_heartbeat s i, None}"
  using delete_fold [of 0 s _ i]
  by (simp_all add: rreg_delete_expired_def case_prod_beta Let_def split: sum.split)

text \<open>Under a running lock an entry can only be removed, and the lock stays.\<close>

lemma other_step_held:
  assumes "other_step me (t, s) (t', s')" "held i me expiry s" "t' < expiry"
  shows "t \<le> t' \<and> held i me expiry s' \<and> rg_heartbeat s' i \<in> {rg_heartbeat s i, None}"
proof -
  have owner: "t' = t \<Longrightarrow> lock_owner t i s = Some me" using assms(2,3) by (simp add: held_owner)
  from assms(1) show ?thesis
  proof cases
    case (register c j d)
    then show ?thesis using assms(2) owner by (auto simp: rreg_upsert_def held_def)
  next
    case (heartbeat j)
    then show ?thesis using assms(2) owner by (auto simp: rreg_update_heartbeat_def held_def)
  next
    case (unregister j)
    then show ?thesis using assms(2) heartbeat_rreg_delete [of j s i] by (simp add: held_def)
  next
    case (delete_expired c timeout)
    then show ?thesis using assms(2) delete_expired_effect [of c t timeout s] by (simp add: held_def)
  next
    case (delete_observed e timeout)
    then show ?thesis using assms(2)
      by (auto simp: delete_expired_observed_def held_def remove_instance_def split: option.split)
  next
    case (lock r e timeout ttl)
    then show ?thesis using assms(2) owner
      by (auto simp: try_lock_expired_def held_def split: option.split)
  next
    case (refresh r j ttl)
    then show ?thesis using assms(2) owner by (auto simp: refresh_recovery_lock_def held_def)
  next
    case (release r j)
    then show ?thesis using assms(2) owner by (auto simp: release_recovery_lock_def held_def)
  next
    case (delete_owned r e timeout)
    then show ?thesis using assms(2) owner
      by (auto simp: delete_expired_owned_def held_def remove_instance_def split: option.split)
  qed (use assms(2) in simp)
qed

lemma other_steps_held:
  assumes "(other_step me)\<^sup>*\<^sup>* (t, s) (t', s')" "held i me expiry s" "t' < expiry"
  shows "t \<le> t' \<and> held i me expiry s' \<and> rg_heartbeat s' i \<in> {rg_heartbeat s i, None}"
  using assms
proof (induction "(t, s)" arbitrary: t s rule: converse_rtranclp_induct)
  case base
  then show ?case by simp
next
  case (step z)
  obtain t1 s1 where z: "z = (t1, s1)" by (rule prod.exhaust)
  have "t1 \<le> t'" using step.hyps(2) unfolding z
    by (induction "(t1, s1)" arbitrary: t1 s1 rule: converse_rtranclp_induct)
      (auto elim!: other_step.cases intro: order_trans)
  then have "held i me expiry s1 \<and> t \<le> t1 \<and> rg_heartbeat s1 i \<in> {rg_heartbeat s i, None}"
    using other_step_held [of me t s t1 s1 i expiry] step.hyps(1) step.prems unfolding z by simp
  with step.hyps(3) [OF z] step.prems show ?case by auto
qed

lemma wi_id_with_heartbeat [simp]: "wi_id (with_heartbeat inst hb) = wi_id inst"
  by (simp add: with_heartbeat_def split: option.split)

lemma collect_expired_elem:
  assumes "collect_expired c xs = Inr es" "e \<in> set es"
  shows "\<exists>i buf hb inst. (i, buf, hb) \<in> set xs \<and> wc_decode c buf = Some inst \<and>
    e = \<lparr>ex_instance = with_heartbeat inst (Some hb), ex_observed_heartbeat_millis = hb, ex_registry_value = buf\<rparr>"
  using assms
proof (induction xs arbitrary: es)
  case (Cons x xs)
  obtain i buf hb where x: "x = (i, buf, hb)" by (rule prod_cases3)
  obtain inst rest where "wc_decode c buf = Some inst" "collect_expired c xs = Inr rest"
      "es = \<lparr>ex_instance = with_heartbeat inst (Some hb), ex_observed_heartbeat_millis = hb,
        ex_registry_value = buf\<rparr> # rest"
    using Cons.prems(1) x by (auto simp: bindE_eq_Inr split: option.splits)
  with Cons.IH [of rest] Cons.prems(2) x show ?case by (metis list.set_intros set_ConsD)
qed simp

lemma find_expired_elem:
  assumes "find_expired_for_recovery c now timeout s = Inr es" "e \<in> set es"
    and "in_i64 (now - timeout)"
  obtains i buf hb inst where "(i, buf) \<in> set (rg_registry s)" "rg_heartbeat s i = Some hb"
    "hb < now - timeout" "wc_decode c buf = Some inst"
    "e = \<lparr>ex_instance = with_heartbeat inst (Some hb), ex_observed_heartbeat_millis = hb, ex_registry_value = buf\<rparr>"
proof -
  let ?f = "\<lambda>(i, buf). case rg_heartbeat s i of None \<Rightarrow> None
      | Some hb \<Rightarrow> if hb < i64_wrap (now - timeout) then Some (i, buf, hb) else None"
  have "collect_expired c (List.map_filter ?f (sort_key fst (rg_registry s))) = Inr es"
    using assms(1) by (simp add: find_expired_for_recovery_def)
  then obtain i buf hb inst where x: "(i, buf, hb) \<in> set (List.map_filter ?f (sort_key fst (rg_registry s)))"
      "wc_decode c buf = Some inst"
      "e = \<lparr>ex_instance = with_heartbeat inst (Some hb), ex_observed_heartbeat_millis = hb, ex_registry_value = buf\<rparr>"
    using collect_expired_elem [OF _ assms(2)] by blast
  then have "(i, buf) \<in> set (rg_registry s) \<and> rg_heartbeat s i = Some hb \<and> hb < i64_wrap (now - timeout)"
    by (auto simp: List.map_filter_def split: option.splits if_splits)
  then show thesis using x(2,3) assms(3) by (intro that [of i buf hb inst]) (simp_all add: rust_simps)
qed

section \<open>Properties\<close>

text \<open>
  C23: a recovery lock protects its instance.  Whatever other processes do before the lock
  expires, it still belongs to the recovery that took it: no other recovery gets it, the
  instance cannot send a heartbeat or register anew, and its recorded heartbeat does not
  change.
\<close>

theorem recovery_lock_protects:
  assumes lock: "try_lock_expired t e timeout me ttl s0 = (Inr True, s)"
    and i: "wi_id (ex_instance e) = Some i"
    and steps: "(other_step me)\<^sup>*\<^sup>* (t, s) (t', s')" and alive: "t' < t + ttl"
  shows "lock_owner t' i s' = Some me \<and>
     (\<forall>e' timeout' r ttl'. wi_id (ex_instance e') = Some i \<longrightarrow>
        fst (try_lock_expired t' e' timeout' r ttl' s') \<noteq> Inr True) \<and>
     rreg_update_heartbeat t' i s' = (False, s') \<and>
     (map_of (rg_registry s') i = None \<longrightarrow> rreg_upsert c t' i d s' = (Inl (ProtectedByLock i), s')) \<and>
     rg_heartbeat s' i \<in> {Some (ex_observed_heartbeat_millis e), None}"
proof -
  have s: "held i me (t + ttl) s" "rg_heartbeat s i = Some (ex_observed_heartbeat_millis e)"
    using lock i by (auto simp: try_lock_expired_def held_def still_expired_def split: if_splits)
  from other_steps_held [OF steps s(1) alive] s(2)
  have h: "held i me (t + ttl) s'" "rg_heartbeat s' i \<in> {Some (ex_observed_heartbeat_millis e), None}"
    by simp_all
  then have owner: "lock_owner t' i s' = Some me" using alive by (simp add: held_owner)
  then show ?thesis
    using h(2) by (simp add: try_lock_expired_def rreg_update_heartbeat_def rreg_upsert_def)
qed

text \<open>
  An instance that is found expired can be recovered: when nothing changed since it was
  observed and no recovery holds its lock, the lock is granted, and its owner can then delete
  exactly this instance and its lock.
\<close>

theorem expired_instance_recoverable:
  assumes "find_expired_for_recovery c now timeout s = Inr es" "e \<in> set es"
    and own: "\<forall>(i, buf) \<in> set (rg_registry s). map_option wi_id (wc_decode c buf) = Some (Some i)"
    and keys: "distinct (map fst (rg_registry s))" and range: "in_i64 (now - timeout)"
    and free: "\<And>i. lock_owner now i s = None" and ttl: "0 < ttl"
  shows "\<exists>i s1 s2. wi_id (ex_instance e) = Some i \<and> try_lock_expired now e timeout me ttl s = (Inr True, s1) \<and>
     delete_expired_owned now e timeout me s1 = (Inr True, s2) \<and>
     map_of (rg_registry s2) i = None \<and> rg_heartbeat s2 i = None \<and> lock_owner now i s2 = None \<and>
     (\<forall>j. j \<noteq> i \<longrightarrow> map_of (rg_registry s2) j = map_of (rg_registry s) j \<and> rg_heartbeat s2 j = rg_heartbeat s j)"
proof -
  obtain i buf hb inst where x: "(i, buf) \<in> set (rg_registry s)" "rg_heartbeat s i = Some hb"
      "hb < now - timeout" "wc_decode c buf = Some inst"
      "e = \<lparr>ex_instance = with_heartbeat inst (Some hb), ex_observed_heartbeat_millis = hb, ex_registry_value = buf\<rparr>"
    by (rule find_expired_elem [OF assms(1,2) range])
  have id: "wi_id (ex_instance e) = Some i" using own x by auto
  have still: "still_expired now timeout i e s"
    using x keys by (simp add: still_expired_def)
  let ?s1 = "s\<lparr>rg_locks := (rg_locks s)(i \<mapsto> (me, now + ttl))\<rparr>"
  have lock: "try_lock_expired now e timeout me ttl s = (Inr True, ?s1)"
    using id still free ttl by (simp add: try_lock_expired_def)
  have "lock_owner now i ?s1 = Some me" "still_expired now timeout i e ?s1"
    using ttl still by (simp_all add: lock_owner_def still_expired_def)
  then have del: "delete_expired_owned now e timeout me ?s1 =
      (Inr True, (remove_instance i ?s1)\<lparr>rg_locks := (rg_locks ?s1)(i := None)\<rparr>)"
    using id by (simp add: delete_expired_owned_def)
  show ?thesis
    by (intro exI conjI, rule id, rule lock, rule del)
      (auto simp: remove_instance_def lock_owner_def delete_conv)
qed

section \<open>A concrete registry\<close>

definition example_instance :: worker_instance where
  "example_instance = \<lparr>wi_id = Some 3, wi_data = None\<rparr>"

definition example_wi_codec :: wi_codec where
  "example_wi_codec = \<lparr>wc_encode = (\<lambda>_. []), wc_decode = (\<lambda>_. Some example_instance)\<rparr>"

definition example_registry :: registry where
  "example_registry = \<lparr>rg_registry = [(3, [])], rg_heartbeat = [3 \<mapsto> 1000], rg_locks = Map.empty\<rparr>"

definition example_expired :: expired_worker_instance where
  "example_expired = \<lparr>ex_instance = example_instance, ex_observed_heartbeat_millis = 1000, ex_registry_value = []\<rparr>"

theorem expired_instance_recoverable_witness:
  "\<exists>s1 s2. find_expired_for_recovery example_wi_codec 9000 5000 example_registry = Inr [example_expired] \<and>
     try_lock_expired 9000 example_expired 5000 ''r'' 100 example_registry = (Inr True, s1) \<and>
     delete_expired_owned 9000 example_expired 5000 ''r'' s1 = (Inr True, s2)"
proof -
  have f: "find_expired_for_recovery example_wi_codec 9000 5000 example_registry = Inr [example_expired]"
    by (simp add: find_expired_for_recovery_def example_registry_def example_wi_codec_def example_expired_def
        List.map_filter_def with_heartbeat_def example_instance_def i64_wrap_def bindE_def)
  have "\<exists>i s1 s2. wi_id (ex_instance example_expired) = Some i \<and>
     try_lock_expired 9000 example_expired 5000 ''r'' 100 example_registry = (Inr True, s1) \<and>
     delete_expired_owned 9000 example_expired 5000 ''r'' s1 = (Inr True, s2) \<and>
     map_of (rg_registry s2) i = None \<and> rg_heartbeat s2 i = None \<and> lock_owner 9000 i s2 = None \<and>
     (\<forall>j. j \<noteq> i \<longrightarrow> map_of (rg_registry s2) j = map_of (rg_registry example_registry) j \<and>
        rg_heartbeat s2 j = rg_heartbeat example_registry j)"
    by (rule expired_instance_recoverable [OF f])
      (simp_all add: example_registry_def example_wi_codec_def example_instance_def in_i64_def i64_min_def
        i64_max_def lock_owner_def)
  with f show ?thesis by blast
qed

theorem recovery_lock_protects_witness:
  "\<exists>s. try_lock_expired 9000 example_expired 5000 ''r'' 100 example_registry = (Inr True, s) \<and>
     lock_owner 9050 3 s = Some ''r'' \<and> rreg_update_heartbeat 9050 3 s = (False, s)"
proof -
  obtain s where l: "try_lock_expired 9000 example_expired 5000 ''r'' 100 example_registry = (Inr True, s)"
    by (simp add: try_lock_expired_def example_expired_def example_instance_def still_expired_def
        example_registry_def lock_owner_def)
  have i: "wi_id (ex_instance example_expired) = Some 3"
    by (simp add: example_expired_def example_instance_def)
  have "(other_step ''r'')\<^sup>*\<^sup>* (9000, s) (9050, s)" by (intro r_into_rtranclp other_step.tick) simp
  with recovery_lock_protects [OF l i this] l show ?thesis by auto
qed

end
