(* ===== verification/Recovery.thy ===== *)
theory Recovery
  imports Status_Claims Worker_Instances
begin

text \<open>
  The recovery of jobs whose worker instance was lost:
  \<^verbatim>\<open>app/src/app/worker_instance/recovery.rs\<close>.  The coordinator works on the tables of
  \<^verbatim>\<open>Status_Claims\<close> and the registry of \<^verbatim>\<open>Worker_Instances\<close>; the answers of the job, worker and
  result applications, of the clock and of the id generator are its environment, a function
  of the job id because every question is asked at most once per candidate.
\<close>

section \<open>Decisions\<close>

definition RECOVERY_BATCH_SIZE :: i64 where
  "RECOVERY_BATCH_SIZE = 1000"

definition RDB_STATUS_RECOVERY_PROTOCOL_VERSION :: u32 where
  "RDB_STATUS_RECOVERY_PROTOCOL_VERSION = 1"

definition is_safe_to_recover ::
  "running_status_candidate \<Rightarrow> u64 \<Rightarrow> u64 \<Rightarrow> i64 \<Rightarrow> i64 \<Rightarrow> bool" where
  "is_safe_to_recover c job_timeout reserve unbounded_after now =
     (if job_timeout = 0 then now \<ge> unbounded_after
      else case rc_start_time c of
             None \<Rightarrow> False
           | Some start \<Rightarrow>
               (case i64_try_from_u64 job_timeout of
                  None \<Rightarrow> False
                | Some t \<Rightarrow>
                    (case i64_try_from_u64 reserve of
                       None \<Rightarrow> False
                     | Some r \<Rightarrow> now \<ge> i64_saturating_add (i64_saturating_add start t) r)))"

definition set_retry_grab_lease :: "job \<Rightarrow> i64 \<Rightarrow> string + job" where
  "set_retry_grab_lease j lease =
     (case j_data j of
        None \<Rightarrow> Inl ''recovery retry job has no data''
      | Some d \<Rightarrow> Inr (j\<lparr>j_data := Some (d\<lparr>jd_grabbed_until_time := Some lease\<rparr>)\<rparr>))"

definition is_recovery_participant :: "worker_instance \<Rightarrow> bool" where
  "is_recovery_participant inst =
     (case wi_data inst of
        None \<Rightarrow> False
      | Some d \<Rightarrow> wid_recovery_version d \<ge> RDB_STATUS_RECOVERY_PROTOCOL_VERSION)"

definition retry_job_id :: "job \<Rightarrow> string + i64" where
  "retry_job_id j = ok_or (j_id j) ''recovery retry job has no ID''"

definition next_recovery_cursor :: "i64 \<Rightarrow> i64 \<Rightarrow> i64" where
  "next_recovery_cursor cursor job_id = max cursor job_id"

definition has_recovery_failure_result :: "job_result list \<Rightarrow> job_result_data \<Rightarrow> bool" where
  "has_recovery_failure_result results d =
     list_ex (\<lambda>r. case jres_data r of
          None \<Rightarrow> False
        | Some x \<Rightarrow> jr_status x = result_status_i32 RsErrorAndRetry \<and>
            jr_worker_id x = jr_worker_id d \<and> jr_start_time x = jr_start_time d) results"

definition lost_result_data ::
  "running_status_candidate \<Rightarrow> job_data \<Rightarrow> worker_data \<Rightarrow> i64 \<Rightarrow> job_result_data" where
  "lost_result_data c jd w now =
     (let resolved = resolve_job_params w (jd_overrides jd)
      in \<lparr>jr_job_id = Some (rc_job_id c), jr_worker_id = Some (rc_worker_id c), jr_worker_name = w_name w,
          jr_args = jd_args jd, jr_uniq_key = jd_uniq_key jd,
          jr_status = result_status_i32 RsErrorAndRetry,
          jr_output = Some ''worker instance was lost before job completion'',
          jr_retried = jd_retried jd,
          jr_max_retry = unwrap_or (map_option rp_max_retry (rj_retry_policy resolved)) 0,
          jr_priority = jd_priority jd, jr_timeout = jd_timeout jd,
          jr_streaming_type = jd_streaming_type jd, jr_enqueue_time = jd_enqueue_time jd,
          jr_run_after_time = jd_run_after_time jd,
          jr_start_time = unwrap_or (rc_start_time c) now, jr_end_time = now,
          jr_response_type = rj_response_type resolved, jr_store_success = rj_store_success resolved,
          jr_store_failure = rj_store_failure resolved, jr_using = jd_using jd,
          jr_broadcast_results = rj_broadcast_results resolved,
          jr_resolved_retry_policy = rj_retry_policy resolved, jr_error = None\<rparr>)"

section \<open>The environment\<close>

text \<open>Statements on the database; the environment says which of them fail.\<close>

datatype db_call = DbClaim | DbRestore | DbUpsert | DbGrab | DbReset | DbRestorePending

datatype rv_effect =
    StoreResult i64 job_result_data
  | PublishRetry job
  | CompleteJob i64 job_result_data

record rv_state =
  rs_db :: rdb
  rs_log :: "rv_effect list"

record rv_env =
  rv_floats :: float_ops
  rv_now :: "i64 \<Rightarrow> nat \<Rightarrow> i64"
  rv_refresh :: "i64 \<Rightarrow> string + bool"
  rv_find_job :: "i64 \<Rightarrow> string + job option"
  rv_find_worker :: "i64 \<Rightarrow> string + worker_data option"
  rv_results :: "i64 \<Rightarrow> string + job_result list"
  rv_id :: "i64 \<Rightarrow> string + i64"
  rv_create_result :: "i64 \<Rightarrow> string + unit"
  rv_update_job :: "i64 \<Rightarrow> string + unit"
  rv_complete_job :: "i64 \<Rightarrow> string + unit"
  rv_rdb_module :: bool
  rv_db :: "db_call \<Rightarrow> i64 \<Rightarrow> string option"
  rv_search :: "i64 \<Rightarrow> string option"
  rv_reserve_sec :: u64
  rv_unbounded_sec :: u64
  rv_lock_ttl_sec :: u64
  rv_final_refresh :: "i64 \<Rightarrow> string + bool"
  rv_recovery_id :: "i64 \<Rightarrow> string"
  rv_registry_time :: "i64 \<Rightarrow> nat \<Rightarrow> i64"

type_synonym 'a rv_result = "(string + 'a) \<times> rv_state"

abbreviation emit :: "rv_effect \<Rightarrow> rv_state \<Rightarrow> rv_state" where
  "emit ef s \<equiv> s\<lparr>rs_log := rs_log s @ [ef]\<rparr>"

section \<open>One candidate\<close>

definition lost_lock :: "i64 \<Rightarrow> string" where
  "lost_lock instance_id = ''lost recovery lock for worker instance '' @ show_int instance_id"

primrec db_failure_text :: "db_failure \<Rightarrow> string" where
  "db_failure_text UniqueViolation = ''unique constraint violated''"
| "db_failure_text UnwrapNone = ''called `Option::unwrap()` on a `None` value''"
| "db_failure_text (Refused m) = m"

text \<open>\<^verbatim>\<open>let _ = self.status.restore_running(&claim).await\<close>: a failure is ignored.\<close>

definition try_restore :: "rv_env \<Rightarrow> recovery_claim \<Rightarrow> rv_state \<Rightarrow> rv_state" where
  "try_restore env cl s =
     (let i = rc_job_id (cl_candidate cl)
      in case rv_db env DbRestore i of
           Some _ \<Rightarrow> s
         | None \<Rightarrow> s\<lparr>rs_db := snd (restore_running (rv_now env i 2) cl (rs_db s))\<rparr>)"

definition rdb_only_retry :: "worker_data \<Rightarrow> job_data \<Rightarrow> bool" where
  "rdb_only_retry w d \<longleftrightarrow>
     jd_run_after_time d > 0 \<or> w_periodic_interval w > 0 \<or> w_queue_type w = queue_type_i32 QtDbOnly"

definition publish_to_queue ::
  "rv_env \<Rightarrow> recovery_claim \<Rightarrow> job \<Rightarrow> rv_state \<Rightarrow> unit rv_result" where
  "publish_to_queue env cl rj s =
     (let i = rc_job_id (cl_candidate cl)
      in case rv_db env DbReset i of
           Some e \<Rightarrow> (Inl e, s)
         | None \<Rightarrow>
             (case reset_claim_to_pending (rv_now env i 3) cl (rs_db s) of
                (Conflict, db) \<Rightarrow>
                  (Inl ''lost recovery status claim before retry publication'', s\<lparr>rs_db := db\<rparr>)
              | (Claimed, db) \<Rightarrow>
                  let s' = emit (PublishRetry rj) (s\<lparr>rs_db := db\<rparr>)
                  in case rv_update_job env i of
                       Inr _ \<Rightarrow> (Inr (), s')
                     | Inl e \<Rightarrow>
                         (case rv_db env DbRestorePending i of
                            Some _ \<Rightarrow> (Inl e, s')
                          | None \<Rightarrow> (Inl e, s'\<lparr>rs_db :=
                              snd (restore_pending_claim_to_running (rv_now env i 4) cl (rs_db s'))\<rparr>))))"

definition publish_retry ::
  "rv_env \<Rightarrow> recovery_claim \<Rightarrow> job_data \<Rightarrow> worker_data \<Rightarrow> job \<Rightarrow> rv_state \<Rightarrow> unit rv_result" where
  "publish_retry env cl jd w rj s =
     (let i = rc_job_id (cl_candidate cl)
      in case retry_job_id rj of
           Inl e \<Rightarrow> (Inl e, s)
         | Inr rid \<Rightarrow>
      case j_data rj of
        None \<Rightarrow> (Inl ''recovery retry job has no data'', s)
      | Some rd \<Rightarrow>
          if rdb_only_retry w rd then
            (if \<not> rv_rdb_module env then (Inl ''RDB repository is unavailable for recovery retry'', s)
             else case rv_db env DbUpsert i of
                    Some e \<Rightarrow> (Inl e, try_restore env cl s)
                  | None \<Rightarrow>
                      (case upsert_with_recovery_claim_reset (rv_now env i 3) cl rid rd (rs_db s) of
                         Inl f \<Rightarrow> (Inl (db_failure_text f), try_restore env cl s)
                       | Inr (_, db) \<Rightarrow> (Inr (), emit (PublishRetry rj) (s\<lparr>rs_db := db\<rparr>))))
          else if w_queue_type w = queue_type_i32 QtWithBackup then
            (if \<not> rv_rdb_module env then
               (Inl ''RDB repository is unavailable for WithBackup recovery retry'', s)
             else case rv_db env DbGrab i of
                    Some e \<Rightarrow> (Inl e, s)
                  | None \<Rightarrow>
                      (case grab_job_with_lease (rv_now env i 5) i (Some (jd_timeout jd))
                              (unwrap_or (jd_grabbed_until_time jd) 0) (rs_db s) of
                         (None, db) \<Rightarrow>
                           (Inl (''lost WithBackup job lease before retry publication: '' @ show_int i),
                            try_restore env cl (s\<lparr>rs_db := db\<rparr>))
                       | (Some lease, db) \<Rightarrow>
                           (case set_retry_grab_lease rj lease of
                              Inl e \<Rightarrow> (Inl e, s\<lparr>rs_db := db\<rparr>)
                            | Inr rj' \<Rightarrow> publish_to_queue env cl rj' (s\<lparr>rs_db := db\<rparr>))))
          else publish_to_queue env cl rj s)"

definition finish_claim ::
  "rv_env \<Rightarrow> running_status_candidate \<Rightarrow> recovery_claim \<Rightarrow> job \<Rightarrow> job_data \<Rightarrow> worker_data \<Rightarrow> rv_state \<Rightarrow>
     unit rv_result" where
  "finish_claim env c cl job jd w s =
     (let i = rc_job_id c;
          d = lost_result_data c jd w (rv_now env i 1);
          retry = build_retry_job (rv_floats env) d w (j_metadata job)
      in case (if retry = None then Inr False
               else case rv_results env i of
                      Inl e \<Rightarrow> Inl e
                    | Inr rs \<Rightarrow> Inr (has_recovery_failure_result rs d)) of
           Inl e \<Rightarrow> (Inl e, try_restore env cl s)
         | Inr saved \<Rightarrow>
      case rv_id env i of
        Inl e \<Rightarrow> (Inl e, s)
      | Inr rid \<Rightarrow>
          let s1 = (if saved then s else emit (StoreResult rid d) s)
          in case (if saved then Inr () else rv_create_result env i) of
               Inl e \<Rightarrow> (Inl e, try_restore env cl s1)
             | Inr _ \<Rightarrow>
                 (case retry of
                    Some rj \<Rightarrow> publish_retry env cl jd w rj s1
                  | None \<Rightarrow>
                      let s2 = emit (CompleteJob rid d) s1
                      in case rv_complete_job env i of
                           Inl e \<Rightarrow> (Inl e, try_restore env cl s2)
                         | Inr _ \<Rightarrow> (Inr (), s2)))"

definition recover_candidate ::
  "rv_env \<Rightarrow> i64 \<Rightarrow> running_status_candidate \<Rightarrow> rv_state \<Rightarrow> unit rv_result" where
  "recover_candidate env unbounded_after c s =
     (let i = rc_job_id c
      in case rv_refresh env i of
           Inl e \<Rightarrow> (Inl e, s)
         | Inr False \<Rightarrow> (Inl (lost_lock (rc_worker_instance_id c)), s)
         | Inr True \<Rightarrow>
      case rv_find_job env i of
        Inl e \<Rightarrow> (Inl e, s)
      | Inr None \<Rightarrow> (Inr (), s)
      | Inr (Some job) \<Rightarrow>
      case j_data job of
        None \<Rightarrow> (Inr (), s)
      | Some jd \<Rightarrow>
          if \<not> is_safe_to_recover c (jd_timeout jd) (u64_saturating_mul (rv_reserve_sec env) 1000)
                 unbounded_after (rv_now env i 0)
          then (Inr (), s)
          else case rv_find_worker env (rc_worker_id c) of
            Inl e \<Rightarrow> (Inl e, s)
          | Inr None \<Rightarrow> (Inr (), s)
          | Inr (Some w) \<Rightarrow>
          case rv_db env DbClaim i of
            Some e \<Rightarrow> (Inl e, s)
          | None \<Rightarrow>
              (case claim_running (rv_now env i 6) c (rs_db s) of
                 (None, db) \<Rightarrow> (Inr (), s\<lparr>rs_db := db\<rparr>)
               | (Some cl, db) \<Rightarrow> finish_claim env c cl job jd w (s\<lparr>rs_db := db\<rparr>)))"

section \<open>The coordinator\<close>

fun recover_batch ::
  "rv_env \<Rightarrow> i64 \<Rightarrow> i64 \<Rightarrow> running_status_candidate list \<Rightarrow> rv_state \<Rightarrow> i64 rv_result" where
  "recover_batch env unbounded_after cursor [] s = (Inr cursor, s)"
| "recover_batch env unbounded_after cursor (c # cs) s =
     (case recover_candidate env unbounded_after c s of
        (Inl e, s') \<Rightarrow> (Inl e, s')
      | (Inr _, s') \<Rightarrow>
          recover_batch env unbounded_after (next_recovery_cursor cursor (rc_job_id c)) cs s')"

partial_function (option) recover_loop ::
  "rv_env \<Rightarrow> i64 \<Rightarrow> i64 \<Rightarrow> i64 \<Rightarrow> rv_state \<Rightarrow> unit rv_result option" where
  "recover_loop env unbounded_after instance_id cursor s =
     (case rv_search env cursor of
        Some e \<Rightarrow> Some (Inl e, s)
      | None \<Rightarrow>
          let candidates = find_running_by_instance instance_id cursor RECOVERY_BATCH_SIZE (rs_db s)
          in if candidates = [] then Some (Inr (), s)
             else case recover_batch env unbounded_after cursor candidates s of
                    (Inl e, s') \<Rightarrow> Some (Inl e, s')
                  | (Inr cursor', s') \<Rightarrow> recover_loop env unbounded_after instance_id cursor' s')"

definition recover_locked ::
  "rv_env \<Rightarrow> expired_worker_instance \<Rightarrow> i64 \<Rightarrow> rv_state \<Rightarrow> bool rv_result option" where
  "recover_locked env expired instance_timeout s =
     (case wi_id (ex_instance expired) of
        None \<Rightarrow> Some (Inl ''expired worker instance has no ID'', s)
      | Some instance_id \<Rightarrow>
     case i64_try_from_u64 (u64_saturating_mul (rv_unbounded_sec env) 1000) of
       None \<Rightarrow> Some (Inl ''out of range integral type conversion attempted'', s)
     | Some unbounded \<Rightarrow>
         let unbounded_after = i64_saturating_add
               (i64_saturating_add (ex_observed_heartbeat_millis expired) instance_timeout) unbounded
         in case recover_loop env unbounded_after instance_id 0 s of
              None \<Rightarrow> None
            | Some (Inl e, s') \<Rightarrow> Some (Inl e, s')
            | Some (Inr _, s') \<Rightarrow>
                (case rv_final_refresh env instance_id of
                   Inl e \<Rightarrow> Some (Inl e, s')
                 | Inr False \<Rightarrow> Some (Inl (lost_lock instance_id), s')
                 | Inr True \<Rightarrow>
                     (case rv_search env 0 of
                        Some e \<Rightarrow> Some (Inl e, s')
                      | None \<Rightarrow>
                          Some (Inr (find_running_by_instance instance_id 0 1 (rs_db s') = []), s'))))"

primrec registry_error_text :: "registry_error \<Rightarrow> string" where
  "registry_error_text (ProtectedByLock i) = ''worker instance is protected by a recovery lock: '' @ show_int i"
| "registry_error_text DecodeError = ''decode error''"
| "registry_error_text NoId = ''expired worker instance has no ID''"
| "registry_error_text BadTtl = ''invalid expire time''"

definition recover_instance ::
  "rv_env \<Rightarrow> expired_worker_instance \<Rightarrow> i64 \<Rightarrow> registry \<times> rv_state \<Rightarrow>
     ((string + unit) \<times> registry \<times> rv_state) option" where
  "recover_instance env expired timeout = (\<lambda>(rg, s).
     (case wi_id (ex_instance expired) of
        None \<Rightarrow> Some (Inl ''expired worker instance has no ID'', rg, s)
      | Some i \<Rightarrow>
     case i64_try_from_u64 (u64_saturating_mul (rv_lock_ttl_sec env) 1000) of
       None \<Rightarrow> Some (Inl ''out of range integral type conversion attempted'', rg, s)
     | Some ttl \<Rightarrow>
     case try_lock_expired (rv_registry_time env i 0) expired timeout (rv_recovery_id env i) ttl rg of
       (Inl e, rg1) \<Rightarrow> Some (Inl (registry_error_text e), rg1, s)
     | (Inr False, rg1) \<Rightarrow> Some (Inr (), rg1, s)
     | (Inr True, rg1) \<Rightarrow>
         (case recover_locked env expired timeout s of
            None \<Rightarrow> None
          | Some (Inr True, s1) \<Rightarrow>
              (case delete_expired_owned (rv_registry_time env i 1) expired timeout (rv_recovery_id env i) rg1 of
                 (Inl e, rg2) \<Rightarrow> Some (Inl (registry_error_text e), rg2, s1)
               | (Inr _, rg2) \<Rightarrow> Some (Inr (), rg2, s1))
          | Some (Inr False, s1) \<Rightarrow>
              Some (Inr (), snd (release_recovery_lock (rv_registry_time env i 1) i (rv_recovery_id env i) rg1), s1)
          | Some (Inl e, s1) \<Rightarrow>
              Some (Inl e, snd (release_recovery_lock (rv_registry_time env i 1) i (rv_recovery_id env i) rg1), s1))))"

fun recover_each ::
  "rv_env \<Rightarrow> i64 \<Rightarrow> expired_worker_instance list \<Rightarrow> registry \<times> rv_state \<Rightarrow>
     ((string + unit) \<times> registry \<times> rv_state) option" where
  "recover_each env timeout [] w = Some (Inr (), w)"
| "recover_each env timeout (e # es) w =
     (if is_recovery_participant (ex_instance e) then
        (case recover_instance env e timeout w of
           None \<Rightarrow> None
         | Some (Inl err, w') \<Rightarrow> Some (Inl err, w')
         | Some (Inr _, w') \<Rightarrow> recover_each env timeout es w')
      else case delete_expired_observed
                  (rv_registry_time env (unwrap_or (wi_id (ex_instance e)) 0) 0) e timeout (fst w) of
             (Inl err, rg) \<Rightarrow> Some (Inl (registry_error_text err), rg, snd w)
           | (Inr _, rg) \<Rightarrow> recover_each env timeout es (rg, snd w))"

definition recover_expired_instances ::
  "rv_env \<Rightarrow> wi_codec \<Rightarrow> i64 \<Rightarrow> i64 \<Rightarrow> registry \<times> rv_state \<Rightarrow>
     ((string + unit) \<times> registry \<times> rv_state) option" where
  "recover_expired_instances env c now timeout w =
     (case find_expired_for_recovery c now timeout (fst w) of
        Inl e \<Rightarrow> Some (Inl (registry_error_text e), w)
      | Inr es \<Rightarrow> recover_each env timeout es w)"

section \<open>Termination\<close>

text \<open>No step of the recovery adds or removes a status row.\<close>

definition row_ids :: "rv_state \<Rightarrow> i64 list" where
  "row_ids s = map sw_job_id (db_status (rs_db s))"

lemma row_ids_update_status:
  assumes "keeps_id f"
  shows "map sw_job_id (db_status (snd (update_status p f db))) = map sw_job_id (db_status db)"
proof -
  have "sw_job_id \<circ> (\<lambda>r. if p r then f r else r) = sw_job_id"
    using assms by (auto simp: keeps_id_def)
  then show ?thesis by (simp add: update_status_def sql_update_def)
qed

lemma row_ids_claims:
  "map sw_job_id (db_status (snd (restore_running now cl db))) = map sw_job_id (db_status db)"
  "map sw_job_id (db_status (snd (reset_claim_to_pending_tx now cl db))) = map sw_job_id (db_status db)"
  "map sw_job_id (db_status (snd (restore_pending_claim_to_running now cl db))) = map sw_job_id (db_status db)"
  "map sw_job_id (db_status (snd (claim_running now c db))) = map sw_job_id (db_status db)"
  "db_status (snd (grab_job_with_lease now i t original db)) = db_status db"
  unfolding restore_running_def reset_claim_to_pending_tx_def restore_pending_claim_to_running_def
    claim_running_def Let_def case_prod_beta grab_job_with_lease_def
  by (auto simp: row_ids_update_status keeps_idI)

lemma row_ids_upsert:
  assumes "upsert_with_recovery_claim_reset now cl i d db = Inr (b, db')"
  shows "map sw_job_id (db_status db') = map sw_job_id (db_status db)"
proof -
  obtain b1 db1 where u: "job_upsert i d db = Inr (b1, db1)"
    and k: "(case reset_claim_to_pending_tx now cl db1 of (Claimed, db'') \<Rightarrow> Inr (b1, db'')
       | (Conflict, _) \<Rightarrow> Inl (Refused ''recovery claim no longer owns the job status row'')) = Inr (b, db')"
    using assms by (auto simp: upsert_with_recovery_claim_reset_def bindE_eq_Inr)
  then have "db' = snd (reset_claim_to_pending_tx now cl db1)"
    by (cases "reset_claim_to_pending_tx now cl db1"; cases "fst (reset_claim_to_pending_tx now cl db1)") auto
  moreover have "db_status db1 = db_status db" using u by (rule job_upsert_tables)
  ultimately show ?thesis by (simp add: row_ids_claims(2))
qed

lemma row_ids_restore [simp]: "row_ids (try_restore env cl s) = row_ids s"
  by (simp add: try_restore_def row_ids_def Let_def row_ids_claims(1) split: option.split)

lemma row_ids_fields [simp]:
  "row_ids (s\<lparr>rs_log := l\<rparr>) = row_ids s"
  "row_ids (s\<lparr>rs_db := db\<rparr>) = map sw_job_id (db_status db)"
  "row_ids (s\<lparr>rs_db := db, rs_log := l\<rparr>) = map sw_job_id (db_status db)"
  by (simp_all add: row_ids_def)

lemma row_ids_publish_to_queue:
  assumes "publish_to_queue env cl rj s = (r, s')"
  shows "row_ids s' = row_ids s"
proof -
  obtain oc db where q: "reset_claim_to_pending (rv_now env (rc_job_id (cl_candidate cl)) 3) cl (rs_db s) = (oc, db)"
    by (rule prod.exhaust)
  then have "map sw_job_id (db_status db) = row_ids s"
    using row_ids_claims(2) [of "rv_now env (rc_job_id (cl_candidate cl)) 3" cl "rs_db s"]
    by (simp add: reset_claim_to_pending_def row_ids_def)
  then show ?thesis
    using assms q
    by (cases oc) (auto simp: publish_to_queue_def Let_def row_ids_def row_ids_claims(3)
        split: option.splits sum.splits)
qed

lemma row_ids_publish_retry:
  assumes "publish_retry env cl jd w rj s = (r, s')"
  shows "row_ids s' = row_ids s"
proof -
  let ?i = "rc_job_id (cl_candidate cl)"
  obtain lease db where g: "grab_job_with_lease (rv_now env ?i 5) ?i (Some (jd_timeout jd))
      (unwrap_or (jd_grabbed_until_time jd) 0) (rs_db s) = (lease, db)" by (rule prod.exhaust)
  then have grab: "map sw_job_id (db_status db) = row_ids s"
    using row_ids_claims(5) [of "rv_now env ?i 5" ?i "Some (jd_timeout jd)"
        "unwrap_or (jd_grabbed_until_time jd) 0" "rs_db s"] by (simp add: row_ids_def)
  have queue: "row_ids s' = row_ids s0" if "publish_to_queue env cl rj' s0 = (r, s')" for rj' s0
    using that by (rule row_ids_publish_to_queue)
  have upsert: "map sw_job_id (db_status db2) = row_ids s"
    if "upsert_with_recovery_claim_reset (rv_now env ?i 3) cl rid rd (rs_db s) = Inr (b, db2)" for rid rd b db2
    using row_ids_upsert [OF that] by (simp add: row_ids_def)
  show ?thesis
    using assms g
    by (auto simp: publish_retry_def Let_def grab upsert dest!: queue
        split: sum.splits option.splits if_splits prod.splits)
qed

lemma row_ids_finish_claim:
  assumes "finish_claim env c cl job jd w s = (r, s')"
  shows "row_ids s' = row_ids s"
  using assms unfolding finish_claim_def Let_def
  by (auto dest!: row_ids_publish_retry split: sum.splits option.splits if_splits)

lemma row_ids_recover_candidate:
  assumes "recover_candidate env ua c s = (r, s')"
  shows "row_ids s' = row_ids s"
proof -
  obtain cl db where k: "claim_running (rv_now env (rc_job_id c) 6) c (rs_db s) = (cl, db)"
    by (rule prod.exhaust)
  then have "map sw_job_id (db_status db) = row_ids s"
    using row_ids_claims(4) [of "rv_now env (rc_job_id c) 6" c "rs_db s"] by (simp add: row_ids_def)
  then show ?thesis
    using assms k unfolding recover_candidate_def Let_def
    by (auto dest!: row_ids_finish_claim split: sum.splits option.splits if_splits bool.splits)
qed

lemma recover_batch_cursor:
  assumes "recover_batch env ua cursor cs s = (Inr cursor', s')"
  shows "row_ids s' = row_ids s \<and> cursor' = foldl max cursor (map rc_job_id cs)"
  using assms
proof (induction cs arbitrary: cursor s)
  case (Cons c cs)
  obtain r s1 where r: "recover_candidate env ua c s = (r, s1)" by (rule prod.exhaust)
  with Cons.prems obtain u where "r = Inr u" by (cases r) auto
  with r Cons show ?case by (auto simp: next_recovery_cursor_def dest: row_ids_recover_candidate)
qed simp

lemma foldl_max: "foldl max (a :: i64) xs \<in> insert a (set xs)" "a \<le> foldl max a xs"
  "x \<in> set xs \<Longrightarrow> x \<le> foldl max a xs"
  by (induction xs arbitrary: a) (auto simp: max_def intro: order_trans; metis order_trans nle_le)+

lemma candidates_above:
  assumes "c \<in> set (find_running_by_instance i cursor cap (rs_db s))"
  shows "rc_job_id c > cursor \<and> rc_job_id c \<in> set (row_ids s)"
  using assms subsetD [OF sql_limit_subset]
  by (fastforce simp: find_running_by_instance_def candidate_of_def row_ids_def)

lemma recover_loop_returns: "\<exists>res. recover_loop env ua i cursor s = Some res"
proof (induction "card {x \<in> set (row_ids s). x > cursor}" arbitrary: cursor s rule: less_induct)
  case less
  let ?cs = "find_running_by_instance i cursor RECOVERY_BATCH_SIZE (rs_db s)"
  show ?case
  proof (cases "rv_search env cursor = None \<and> ?cs \<noteq> []")
    case True
    obtain r s1 where r: "recover_batch env ua cursor ?cs s = (r, s1)" by (rule prod.exhaust)
    show ?thesis
    proof (cases r)
      case (Inl e)
      with r True show ?thesis by (subst recover_loop.simps) (simp add: Let_def)
    next
      case (Inr cursor')
      have ids: "row_ids s1 = row_ids s" and cur: "cursor' = foldl max cursor (map rc_job_id ?cs)"
        using recover_batch_cursor r Inr by blast+
      obtain c where "c \<in> set ?cs" using True by (cases ?cs) auto
      with candidates_above have "cursor < rc_job_id c" "rc_job_id c \<in> set (map rc_job_id ?cs)" by auto
      then have above: "cursor < cursor'" using foldl_max(3) [of "rc_job_id c" "map rc_job_id ?cs" cursor] cur by linarith
      then have "cursor' \<in> set (map rc_job_id ?cs)" using foldl_max(1) [of cursor "map rc_job_id ?cs"] cur by auto
      then have "cursor' \<in> set (row_ids s)" using candidates_above by fastforce
      with above have "{x \<in> set (row_ids s1). x > cursor'} \<subset> {x \<in> set (row_ids s). x > cursor}"
        using ids by auto
      then have "\<exists>res. recover_loop env ua i cursor' s1 = Some res"
        by (intro less psubset_card_mono) simp_all
      with r True Inr show ?thesis by (subst recover_loop.simps) (simp add: Let_def)
    qed
  qed (subst recover_loop.simps, auto simp: Let_def split: option.split)
qed

lemma recover_locked_returns: "\<exists>res. recover_locked env e timeout s = Some res"
proof -
  have [simp]: "(recover_loop env ua i cursor s = None) = False" for ua i cursor
    using recover_loop_returns [of env ua i cursor s] by auto
  show ?thesis
    by (auto simp: recover_locked_def Let_def split: option.split sum.split bool.split)
qed

lemma recover_instance_returns: "\<exists>res. recover_instance env e timeout w = Some res"
proof (cases w)
  case (Pair rg s)
  obtain res where "recover_locked env e timeout s = Some res" using recover_locked_returns by blast
  with Pair show ?thesis
    by (auto simp: recover_instance_def split: option.split sum.split bool.split prod.split)
qed

lemma recover_each_returns: "\<exists>res. recover_each env timeout es w = Some res"
proof (induction es arbitrary: w)
  case (Cons e es)
  obtain r w' where "recover_instance env e timeout w = Some (r, w')"
    using recover_instance_returns [of env e timeout w] by auto
  with Cons show ?case by (auto split: sum.split prod.split)
qed simp

section \<open>Claimed rows\<close>

text \<open>The row is claimed, or visible as a running row of the instance.\<close>

definition claimed :: "recovery_claim \<Rightarrow> rv_state \<Rightarrow> bool" where
  "claimed cl s \<longleftrightarrow> keys_ok (rs_db s) \<and>
     (\<exists>r. status_row_of (rc_job_id (cl_candidate cl)) (rs_db s) = Some r \<and> owned_by_claim cl r \<and> sw_status r = 2)"

definition visible :: "running_status_candidate \<Rightarrow> rv_state \<Rightarrow> bool" where
  "visible c s \<longleftrightarrow>
     (\<exists>r. status_row_of (rc_job_id c) (rs_db s) = Some r \<and> sw_status r = 2 \<and> live r \<and>
        sw_worker_instance_id r = Some (rc_worker_instance_id c))"

definition database_up :: "rv_env \<Rightarrow> i64 \<Rightarrow> bool" where
  "database_up env i \<longleftrightarrow> (\<forall>k. rv_db env k i = None) \<and> rv_rdb_module env"

lemma claimed_log [simp]: "claimed cl (s\<lparr>rs_log := l\<rparr>) = claimed cl s"
  by (simp add: claimed_def)

lemma visible_log [simp]: "visible c (s\<lparr>rs_log := l\<rparr>) = visible c s"
  by (simp add: visible_def)

lemma status_row_id: "status_row_of i db = Some r \<Longrightarrow> sw_job_id r = i"
  by (auto simp: status_row_of_def find_Some_iff)

lemma restored_visible:
  assumes "claimed cl s" "database_up env (rc_job_id (cl_candidate cl))"
  shows "visible (cl_candidate cl) (try_restore env cl s)"
proof -
  let ?i = "rc_job_id (cl_candidate cl)" and ?f = "\<lambda>r. (bump (rv_now env (rc_job_id (cl_candidate cl)) 2) r)\<lparr>sw_deleted_at := None\<rparr>"
  obtain r where r: "status_row_of ?i (rs_db s) = Some r" "owned_by_claim cl r" "sw_status r = 2"
    using assms(1) by (auto simp: claimed_def)
  have "keeps_id ?f" by auto
  then have "status_row_of ?i (snd (update_status (owned_by_claim cl) ?f (rs_db s))) = Some (?f r)"
    using r(1,2) by (simp add: status_row_of_update)
  moreover have "rs_db (try_restore env cl s) = snd (update_status (owned_by_claim cl) ?f (rs_db s))"
    using assms(2) by (simp add: try_restore_def database_up_def restore_running_def Let_def case_prod_beta)
  ultimately show ?thesis using r(2,3) by (simp add: visible_def owned_by_claim_def)
qed

lemma claimed_after_claim:
  assumes "keys_ok (rs_db s)" "claim_running now c (rs_db s) = (Some cl, db)"
  shows "claimed cl (s\<lparr>rs_db := db\<rparr>) \<and> cl_candidate cl = c"
proof -
  let ?P = "\<lambda>r. sw_worker_instance_id r = Some (rc_worker_instance_id c) \<and>
      sw_version r = rc_version c \<and> sw_status r = 2 \<and> live r"
  let ?f = "\<lambda>r. (bump now r)\<lparr>sw_deleted_at := Some now\<rparr>"
  obtain n db1 where u: "update_status (\<lambda>r. sw_job_id r = rc_job_id c \<and> ?P r) ?f (rs_db s) = (n, db1)"
    by (rule prod.exhaust)
  then have n: "n \<noteq> 0" "db = db1" "cl = \<lparr>cl_candidate = c, cl_claimed_version = rc_version c + 1, cl_deleted_at = now\<rparr>"
    using assms(2) by (auto simp: claim_running_def split: if_splits)
  have keep: "keeps_id ?f" by auto
  obtain r where r: "status_row_of (rc_job_id c) (rs_db s) = Some r" "?P r"
    using update_status_count [OF assms(1), of "rc_job_id c" ?P ?f] n(1) u by (auto split: option.splits if_splits)
  then have "status_row_of (rc_job_id c) db = Some (?f r)"
    using status_row_of_update [OF keep, of "rc_job_id c" "\<lambda>r. sw_job_id r = rc_job_id c \<and> ?P r" "rs_db s"] u n(2)
      status_row_id [OF r(1)] by simp
  moreover have "keys_ok db"
    using keys_ok_update [OF keep, of "\<lambda>r. sw_job_id r = rc_job_id c \<and> ?P r" "rs_db s"] u n(2) assms(1) by simp
  ultimately show ?thesis
    using n(3) r(2) status_row_id [OF r(1)] by (simp add: claimed_def owned_by_claim_def)
qed

lemma publish_failure_visible:
  assumes "claimed cl s" "database_up env (rc_job_id (cl_candidate cl))"
    and "publish_to_queue env cl rj s = (Inl e, s')"
  shows "visible (cl_candidate cl) s'"
proof -
  let ?i = "rc_job_id (cl_candidate cl)"
  let ?t = "rv_now env ?i 3" and ?u = "rv_now env ?i 4"
  obtain r where r: "status_row_of ?i (rs_db s) = Some r" "owned_by_claim cl r" "sw_status r = 2"
    and keys: "keys_ok (rs_db s)"
    using assms(1) by (auto simp: claimed_def)
  define P :: "status_row \<Rightarrow> bool" where "P = (\<lambda>r. sw_worker_instance_id r = Some (rc_worker_instance_id (cl_candidate cl)) \<and>
      sw_version r = cl_claimed_version cl \<and> sw_deleted_at r = Some (cl_deleted_at cl))"
  have owned: "owned_by_claim cl = (\<lambda>r. sw_job_id r = ?i \<and> P r)"
    by (auto simp: owned_by_claim_def P_def)
  obtain n db where u: "update_status (\<lambda>r. sw_job_id r = ?i \<and> P r) (to_pending ?t) (rs_db s) = (n, db)"
    by (rule prod.exhaust)
  have keep: "keeps_id (to_pending ?t)" by auto
  have n: "n = 1" using update_status_count [OF keys, of ?i P "to_pending ?t"] r owned u by simp
  have row: "status_row_of ?i db = Some (to_pending ?t r)"
    using status_row_of_update [OF keep, of ?i "\<lambda>r. sw_job_id r = ?i \<and> P r" "rs_db s"] r owned u by simp
  have reset: "reset_claim_to_pending ?t cl (rs_db s) = (Claimed, db)"
    using u n by (simp add: reset_claim_to_pending_def reset_claim_to_pending_tx_def owned outcome_def)
  let ?Q = "\<lambda>r. sw_job_id r = ?i \<and> sw_status r = 1 \<and> sw_worker_instance_id r = None \<and>
      sw_version r = cl_claimed_version cl + 1 \<and> live r"
  let ?f = "\<lambda>r. (bump ?u r)\<lparr>sw_status := 2,
      sw_worker_instance_id := Some (rc_worker_instance_id (cl_candidate cl)),
      sw_start_time := rc_start_time (cl_candidate cl)\<rparr>"
  have "rs_db s' = snd (update_status ?Q ?f db)"
    using assms(2,3) reset
    by (auto simp: publish_to_queue_def database_up_def Let_def restore_pending_claim_to_running_def
        case_prod_beta split: sum.splits)
  moreover have "keeps_id ?f" by auto
  then have "status_row_of ?i (snd (update_status ?Q ?f db)) = Some (?f (to_pending ?t r))"
    using row r(2) by (simp add: status_row_of_update owned_by_claim_def)
  ultimately show ?thesis using r(2) by (simp add: visible_def)
qed

lemma claimed_after_grab:
  assumes "claimed cl s" "grab_job_with_lease now i t original (rs_db s) = (lease, db)"
  shows "claimed cl (s\<lparr>rs_db := db\<rparr>)"
proof -
  have "index_step (rs_db s) db" using index_step.grab [of "rs_db s" now i t original] assms(2) by simp
  then have "keys_ok db" using index_step_advances assms(1) by (auto simp: advances_def claimed_def)
  moreover have "db_status db = db_status (rs_db s)"
    using row_ids_claims(5) [of now i t original "rs_db s"] assms(2) by simp
  ultimately show ?thesis using assms(1) by (simp add: claimed_def status_row_of_def)
qed

lemma retry_failure_visible:
  assumes "claimed cl s" "database_up env (rc_job_id (cl_candidate cl))"
    and "publish_retry env cl jd w rj s = (Inl e, s')" "j_id rj \<noteq> None" "j_data rj \<noteq> None"
  shows "visible (cl_candidate cl) s'"
proof -
  let ?i = "rc_job_id (cl_candidate cl)"
  obtain lease db where g: "grab_job_with_lease (rv_now env ?i 5) ?i (Some (jd_timeout jd))
      (unwrap_or (jd_grabbed_until_time jd) 0) (rs_db s) = (lease, db)" by (rule prod.exhaust)
  note grabbed = claimed_after_grab [OF assms(1) g]
  have up: "rv_db env k ?i = None" "rv_rdb_module env" for k using assms(2) by (simp_all add: database_up_def)
  obtain rid rd where rj: "retry_job_id rj = Inr rid" "j_data rj = Some rd"
    using assms(4,5) by (auto simp: retry_job_id_def ok_or_def split: option.splits)
  note pub = assms(3) [unfolded publish_retry_def Let_def rj sum.case option.case up]
  show ?thesis
  proof (cases "rdb_only_retry w rd")
    case True
    with pub have "s' = try_restore env cl s" by (auto simp: up split: sum.splits)
    with restored_visible [OF assms(1,2)] show ?thesis by simp
  next
    case False
    note queue = publish_failure_visible [OF _ assms(2)]
    show ?thesis
    proof (cases "w_queue_type w = queue_type_i32 QtWithBackup")
      case True
      show ?thesis
      proof (cases lease)
        case None
        with pub False True g have "s' = try_restore env cl (s\<lparr>rs_db := db\<rparr>)" by (simp add: up)
        with restored_visible [OF grabbed assms(2)] show ?thesis by simp
      next
        case (Some l)
        with pub False True g rj(2) obtain rj' where "publish_to_queue env cl rj' (s\<lparr>rs_db := db\<rparr>) = (Inl e, s')"
          by (auto simp: up set_retry_grab_lease_def)
        then show ?thesis by (rule queue [OF grabbed])
      qed
    next
      case other: False
      with pub False have "publish_to_queue env cl rj s = (Inl e, s')" by simp
      then show ?thesis by (rule queue [OF assms(1)])
    qed
  qed
qed

lemma build_retry_job_parts:
  assumes "build_retry_job fo (lost_result_data c jd w now) w md = Some rj"
  shows "j_id rj = Some (rc_job_id c)" "\<exists>rd. j_data rj = Some rd \<and> jd_retried rd = jd_retried jd + 1"
  using assms
  by (auto simp: build_retry_job_def lost_result_data_def Let_def split: option.splits if_splits)

lemma finish_failure_visible:
  assumes "claimed cl s" "cl_candidate cl = c" "database_up env (rc_job_id c)" "rv_id env (rc_job_id c) = Inr rid"
    and "finish_claim env c cl job jd w s = (Inl e, s')"
  shows "visible c s'"
proof -
  let ?i = "rc_job_id c"
  let ?d = "lost_result_data c jd w (rv_now env ?i 1)"
  let ?retry = "build_retry_job (rv_floats env) ?d w (j_metadata job)"
  have restore: "visible c (try_restore env cl s0)" if "claimed cl s0" for s0
    using restored_visible [OF that] assms(2,3) by simp
  have retry: "visible c s'" if "publish_retry env cl jd w rj s0 = (Inl e, s')" "claimed cl s0" "?retry = Some rj" for rj s0
    using retry_failure_visible [of cl s0 env jd w rj e s'] that assms(2,3) build_retry_job_parts [OF that(3)] by auto
  show ?thesis
    using assms(1,5) unfolding finish_claim_def Let_def assms(4) sum.case
    by (auto split: sum.splits option.splits if_splits intro: restore retry)
qed

section \<open>The log\<close>

lemma log_restore [simp]: "rs_log (try_restore env cl s) = rs_log s"
  by (simp add: try_restore_def Let_def split: option.split)

lemma publish_to_queue_log:
  assumes "publish_to_queue env cl rj s = (r, s')"
  shows "rs_log s' \<in> {rs_log s, rs_log s @ [PublishRetry rj]}"
  using assms
  by (auto simp: publish_to_queue_def Let_def split: option.splits sum.splits prod.splits claim_outcome.splits)

definition same_retry :: "job \<Rightarrow> job \<Rightarrow> bool" where
  "same_retry a b \<longleftrightarrow> j_id a = j_id b \<and> map_option jd_retried (j_data a) = map_option jd_retried (j_data b)"

lemma publish_retry_log:
  assumes "publish_retry env cl jd w rj s = (r, s')"
  shows "rs_log s' = rs_log s \<or> (\<exists>rj'. rs_log s' = rs_log s @ [PublishRetry rj'] \<and> same_retry rj' rj)"
proof -
  have queue: "rs_log s' = rs_log s0 \<or> rs_log s' = rs_log s0 @ [PublishRetry rj']"
    if "publish_to_queue env cl rj' s0 = (r, s')" for rj' s0
    using publish_to_queue_log [OF that] by auto
  have lease: "same_retry rj' rj" if "set_retry_grab_lease rj l = Inr rj'" for l rj'
    using that by (auto simp: set_retry_grab_lease_def same_retry_def split: option.splits)
  have refl: "same_retry rj rj" by (simp add: same_retry_def)
  show ?thesis
    using assms
    by (auto simp: publish_retry_def Let_def dest!: queue lease intro: refl
        split: sum.splits option.splits if_splits prod.splits)
qed

lemma finish_claim_log:
  assumes "finish_claim env c cl job jd w s = (r, s')"
  shows "\<exists>l. rs_log s' = rs_log s @ l \<and>
     (l = [] \<or> (\<exists>rid d. l = [StoreResult rid d] \<or> l = [StoreResult rid d, CompleteJob rid d]) \<or>
      (\<exists>rj rd. j_id rj = Some (rc_job_id c) \<and> j_data rj = Some rd \<and> jd_retried rd = jd_retried jd + 1 \<and>
        ((\<exists>rid d. l = [StoreResult rid d, PublishRetry rj] \<and> rv_create_result env (rc_job_id c) = Inr ()) \<or>
         (\<exists>rs d. l = [PublishRetry rj] \<and> rv_results env (rc_job_id c) = Inr rs \<and>
            has_recovery_failure_result rs d))))"
proof -
  let ?i = "rc_job_id c"
  let ?d = "lost_result_data c jd w (rv_now env ?i 1)"
  let ?retry = "build_retry_job (rv_floats env) ?d w (j_metadata job)"
  have retry: "rs_log s' = rs_log s0 \<or> (\<exists>rj' rd. rs_log s' = rs_log s0 @ [PublishRetry rj'] \<and>
      j_id rj' = Some ?i \<and> j_data rj' = Some rd \<and> jd_retried rd = jd_retried jd + 1)"
    if "publish_retry env cl jd w rj s0 = (r, s')" "?retry = Some rj" for rj s0
    using publish_retry_log [OF that(1)] build_retry_job_parts [OF that(2)]
    by (auto simp: same_retry_def)
  show ?thesis
  proof (cases ?retry)
    case None
    then show ?thesis
      using assms unfolding finish_claim_def Let_def
      by (auto split: sum.splits if_splits)
  next
    case (Some rj)
    show ?thesis
    proof (cases "rv_results env ?i")
      case (Inl e)
      with Some assms show ?thesis by (auto simp: finish_claim_def Let_def)
    next
      case (Inr rs)
      note step = assms [unfolded finish_claim_def Let_def Some Inr, simplified]
      show ?thesis
      proof (cases "has_recovery_failure_result rs ?d")
        case True
        then have "s' = s \<or> publish_retry env cl jd w rj s = (r, s')"
          using step by (auto split: sum.splits)
        then show ?thesis using retry [OF _ Some, of s] Inr True by fastforce
      next
        case False
        then have "s' = s \<or> (\<exists>rid. rs_log s' = rs_log s @ [StoreResult rid ?d]) \<or>
            (\<exists>rid. rv_create_result env ?i = Inr () \<and>
               publish_retry env cl jd w rj (emit (StoreResult rid ?d) s) = (r, s'))"
          using step by (auto split: sum.splits)
        then show ?thesis using retry [OF _ Some] by fastforce
      qed
    qed
  qed
qed

section \<open>Properties\<close>

text \<open>
  C31: the recovery of expired instances always returns: every batch moves the cursor beyond
  the rows it has seen and no step of the recovery adds a status row.
\<close>

theorem recovery_terminates:
  "\<exists>res. recover_expired_instances env c now timeout w = Some res"
  using recover_each_returns [of env timeout] by (simp add: recover_expired_instances_def split: sum.split)

text \<open>
  C24: no failure of the applications hides a lost job.  While the database and the id
  generator work, a recovery of a candidate that ends with an error leaves its row visible as
  running for the lost instance, so that a later recovery finds it again.
\<close>

theorem failed_recovery_keeps_job_visible:
  assumes up: "database_up env (rc_job_id c)" "rv_id env (rc_job_id c) = Inr rid"
    and row: "keys_ok (rs_db s)" "visible c s"
    and failed: "recover_candidate env unbounded_after c s = (Inl e, s')"
  shows "visible c s'"
proof -
  obtain cl db where k: "claim_running (rv_now env (rc_job_id c) 6) c (rs_db s) = (cl, db)"
    by (rule prod.exhaust)
  show ?thesis
  proof (cases "s' = s")
    case False
    then obtain clm job jd w where "cl = Some clm" "finish_claim env c clm job jd w (s\<lparr>rs_db := db\<rparr>) = (Inl e, s')"
      using failed k unfolding recover_candidate_def Let_def
      by (auto split: sum.splits option.splits if_splits bool.splits)
    with finish_failure_visible [OF _ _ up] claimed_after_claim [OF row(1)] k show ?thesis by blast
  qed (use row in simp)
qed

lemma recovery_deadline:
  assumes changed: "recover_candidate env unbounded_after c s = (res, s')" "s' \<noteq> s"
    and start: "\<And>t. rc_start_time c = Some t \<Longrightarrow> in_i64 t"
  shows "\<exists>job jd. rv_find_job env (rc_job_id c) = Inr (Some job) \<and> j_data job = Some jd \<and>
     (if jd_timeout jd = 0 then unbounded_after \<le> rv_now env (rc_job_id c) 0
      else \<exists>t. rc_start_time c = Some t \<and>
        min i64_max (t + uint (jd_timeout jd) + uint (u64_saturating_mul (rv_reserve_sec env) 1000))
          \<le> rv_now env (rc_job_id c) 0)"
proof -
  obtain job jd where j: "rv_find_job env (rc_job_id c) = Inr (Some job)" "j_data job = Some jd"
    and safe: "is_safe_to_recover c (jd_timeout jd) (u64_saturating_mul (rv_reserve_sec env) 1000)
        unbounded_after (rv_now env (rc_job_id c) 0)"
    using changed unfolding recover_candidate_def Let_def
    by (auto split: sum.splits option.splits if_splits bool.splits)
  have sat: "i64_saturating_add (i64_saturating_add t a) b = min i64_max (t + a + b)"
    if "in_i64 t" "0 \<le> a" "0 \<le> b" for t a b
    using that by (auto simp: i64_saturating_add_def in_i64_def i64_min_def i64_max_def)
  show ?thesis
    using safe start j by (auto simp: is_safe_to_recover_def sat i64_try_from_u64_def split: option.splits if_splits)
qed

text \<open>
  A job is recovered only when its old execution can no longer run: the tables or the
  log change only if the job has no timeout and the deadline for such jobs has passed, or the
  job has a timeout and its start, its timeout and the reserve together lie in the past.
\<close>

theorem recovered_only_when_lost:
  assumes changed: "recover_candidate env unbounded_after c s = (res, s')" "s' \<noteq> s"
    and start: "\<And>t. rc_start_time c = Some t \<Longrightarrow> in_i64 t"
  shows "\<exists>job jd. rv_find_job env (rc_job_id c) = Inr (Some job) \<and> j_data job = Some jd \<and>
     (if jd_timeout jd = 0 then unbounded_after \<le> rv_now env (rc_job_id c) 0
      else \<exists>t. rc_start_time c = Some t \<and>
        min i64_max (t + uint (jd_timeout jd) + uint (u64_saturating_mul (rv_reserve_sec env) 1000))
          \<le> rv_now env (rc_job_id c) 0)"
  using recovery_deadline [OF changed start] .

text \<open>
  An error of the id generator hides the lost job: when no id can be generated for the
  failure result, the recovery returns without restoring the claim, the row stays logically
  deleted, and a later recovery of the instance does not find the job.
\<close>

theorem failed_id_hides_lost_job:
  assumes claim: "keys_ok (rs_db s)" "recover_candidate env unbounded_after c s = (Inl e, s')" "s' \<noteq> s"
    and no_id: "rv_id env (rc_job_id c) = Inl e'" and results: "rv_results env (rc_job_id c) = Inr rs"
  shows "\<not> visible c s' \<and>
     rc_job_id c \<notin> rc_job_id ` set (find_running_by_instance (rc_worker_instance_id c) cursor cap (rs_db s'))"
proof -
  obtain cl db where k: "claim_running (rv_now env (rc_job_id c) 6) c (rs_db s) = (cl, db)"
    by (rule prod.exhaust)
  then obtain clm job jd w where cl: "cl = Some clm" "finish_claim env c clm job jd w (s\<lparr>rs_db := db\<rparr>) = (Inl e, s')"
    using claim(2,3) unfolding recover_candidate_def Let_def
    by (auto split: sum.splits option.splits if_splits bool.splits)
  then have s': "s' = s\<lparr>rs_db := db\<rparr>"
    unfolding finish_claim_def Let_def no_id results by (auto split: if_splits)
  then have "claimed clm s'" "cl_candidate clm = c"
    using claimed_after_claim [OF claim(1)] k cl(1) by auto
  then obtain r where r: "status_row_of (rc_job_id c) (rs_db s') = Some r" "\<not> live r" "keys_ok (rs_db s')"
    by (auto simp: claimed_def owned_by_claim_def)
  have "\<not> live x" if "x \<in> set (db_status (rs_db s'))" "sw_job_id x = rc_job_id c" for x
    using that r find_key_iff [of sw_job_id "db_status (rs_db s')" "rc_job_id c" x]
    by (simp add: keys_ok_def status_row_of_def)
  then have "rc_job_id c \<notin> rc_job_id ` set (find_running_by_instance (rc_worker_instance_id c) cursor cap (rs_db s'))"
    using subsetD [OF sql_limit_subset] by (fastforce simp: find_running_by_instance_def candidate_of_def)
  with r show ?thesis by (simp add: visible_def)
qed


section \<open>A concrete recovery\<close>

definition example_lost_job :: job where
  "example_lost_job = \<lparr>j_id = Some 7,
     j_data = Some (default_job_data\<lparr>jd_worker_id := Some 1, jd_timeout := 1000,
       jd_grabbed_until_time := Some 17000\<rparr>), j_metadata = Map.empty\<rparr>"

definition example_rv_env :: rv_env where
  "example_rv_env =
     \<lparr>rv_floats = exact_float_ops, rv_now = (\<lambda>_ _. 9000), rv_refresh = (\<lambda>_. Inr True),
      rv_find_job = (\<lambda>_. Inr (Some example_lost_job)), rv_find_worker = (\<lambda>_. Inr (Some example_worker)),
      rv_results = (\<lambda>_. Inr []), rv_id = (\<lambda>_. Inr 70), rv_create_result = (\<lambda>_. Inr ()),
      rv_update_job = (\<lambda>_. Inr ()), rv_complete_job = (\<lambda>_. Inr ()), rv_rdb_module = True,
      rv_db = (\<lambda>_ _. None), rv_search = (\<lambda>_. None), rv_reserve_sec = 1, rv_unbounded_sec = 10,
      rv_lock_ttl_sec = 30, rv_final_refresh = (\<lambda>_. Inr True), rv_recovery_id = (\<lambda>_. ''r''),
      rv_registry_time = (\<lambda>_ _. 9000)\<rparr>"

definition example_rv_state :: rv_state where
  "example_rv_state = \<lparr>rs_db = example_running, rs_log = []\<rparr>"

lemma example_candidate_fields [simp]:
  "rc_job_id example_candidate = 7" "rc_worker_id example_candidate = 1"
  "rc_start_time example_candidate = Some 6000" "rc_worker_instance_id example_candidate = 3"
  by (simp_all add: example_run_defs)

text \<open>The candidate reaches its claim, whatever the environment answers afterwards.\<close>

lemma example_reaches_claim:
  assumes "rv_refresh env 7 = Inr True" "rv_find_job env 7 = Inr (Some example_lost_job)"
    "rv_find_worker env 1 = Inr (Some example_worker)" "rv_db env DbClaim 7 = None"
    "rv_now env 7 0 = 9000" "rv_now env 7 6 = 9000" "rv_reserve_sec env = 1"
  shows "recover_candidate env ua example_candidate example_rv_state =
     finish_claim env example_candidate example_claim example_lost_job (the (j_data example_lost_job))
       example_worker (example_rv_state\<lparr>rs_db := example_claimed\<rparr>)"
proof -
  have "rs_db example_rv_state = example_running" by (simp add: example_rv_state_def)
  moreover have "is_safe_to_recover example_candidate 1000 (u64_saturating_mul 1 1000) ua 9000"
    by (simp add: is_safe_to_recover_def u64_saturating_mul_def i64_try_from_u64_def i64_max_def
        i64_saturating_add_def i64_min_def)
  ultimately show ?thesis
    using assms example_claim_taken by (simp add: recover_candidate_def example_lost_job_def Let_def)
qed

lemma example_visible: "keys_ok (rs_db example_rv_state)" "visible example_candidate example_rv_state"
  using example_keys(2)
  by (simp_all add: example_rv_state_def visible_def example_run_defs status_row_of_def)

lemma example_no_id:
  "recover_candidate (example_rv_env\<lparr>rv_id := \<lambda>_. Inl ''clock''\<rparr>) 0 example_candidate example_rv_state =
     (Inl ''clock'', example_rv_state\<lparr>rs_db := example_claimed\<rparr>)"
  "example_rv_state\<lparr>rs_db := example_claimed\<rparr> \<noteq> example_rv_state"
proof -
  show "recover_candidate (example_rv_env\<lparr>rv_id := \<lambda>_. Inl ''clock''\<rparr>) 0 example_candidate example_rv_state =
     (Inl ''clock'', example_rv_state\<lparr>rs_db := example_claimed\<rparr>)"
    by (subst example_reaches_claim)
      (simp_all add: example_rv_env_def finish_claim_def Let_def)
  have "db_status example_claimed \<noteq> db_status example_running"
    by (simp add: example_run_defs claim_running_def update_status_def sql_update_def bump_def)
  then show "example_rv_state\<lparr>rs_db := example_claimed\<rparr> \<noteq> example_rv_state"
    by (auto simp: example_rv_state_def)
qed

theorem failed_recovery_keeps_job_visible_witness:
  "\<exists>s'. recover_candidate (example_rv_env\<lparr>rv_create_result := \<lambda>_. Inl ''down''\<rparr>) 0 example_candidate
        example_rv_state = (Inl ''down'', s') \<and> visible example_candidate s'"
proof -
  let ?env = "example_rv_env\<lparr>rv_create_result := \<lambda>_. Inl ''down''\<rparr>"
  have "fst (recover_candidate ?env 0 example_candidate example_rv_state) = Inl ''down''"
    by (subst example_reaches_claim)
      (simp_all add: example_rv_env_def finish_claim_def Let_def has_recovery_failure_result_def)
  then obtain s' where r: "recover_candidate ?env 0 example_candidate example_rv_state = (Inl ''down'', s')"
    by (metis prod.collapse)
  have "database_up ?env (rc_job_id example_candidate)" "rv_id ?env (rc_job_id example_candidate) = Inr 70"
    by (simp_all add: database_up_def example_rv_env_def)
  from failed_recovery_keeps_job_visible [OF this example_visible r] r show ?thesis by blast
qed

theorem failed_id_hides_lost_job_witness:
  "\<exists>s'. recover_candidate (example_rv_env\<lparr>rv_id := \<lambda>_. Inl ''clock''\<rparr>) 0 example_candidate
        example_rv_state = (Inl ''clock'', s') \<and> \<not> visible example_candidate s'"
proof -
  let ?env = "example_rv_env\<lparr>rv_id := \<lambda>_. Inl ''clock''\<rparr>"
  note r = example_no_id(1) and ne = example_no_id(2)
  have "rv_id ?env (rc_job_id example_candidate) = Inl ''clock''"
      "rv_results ?env (rc_job_id example_candidate) = Inr []"
    by (simp_all add: example_rv_env_def)
  from failed_id_hides_lost_job [OF example_visible(1) r ne this] r show ?thesis by blast
qed

theorem recovered_only_when_lost_witness:
  "\<exists>s'. recover_candidate (example_rv_env\<lparr>rv_id := \<lambda>_. Inl ''clock''\<rparr>) 0 example_candidate
        example_rv_state = (Inl ''clock'', s') \<and> s' \<noteq> example_rv_state \<and>
     min i64_max (6000 + uint (1000 :: u64) + uint (u64_saturating_mul 1 1000)) \<le> 9000"
proof -
  let ?env = "example_rv_env\<lparr>rv_id := \<lambda>_. Inl ''clock''\<rparr>"
  note r = example_no_id(1) and ne = example_no_id(2)
  have "in_i64 t" if "rc_start_time example_candidate = Some t" for t
    using that by (auto simp: in_i64_def i64_min_def i64_max_def)
  from recovered_only_when_lost [OF r ne this] r ne show ?thesis
    by (auto simp: example_rv_env_def example_lost_job_def)
qed


end
