(* ===== verification/Worker_Session.thy ===== *)
theory Worker_Session
  imports Recovery
begin

text \<open>
  The worker's side of the recovery protocol: the settings of
  \<^verbatim>\<open>base/src/worker_instance_config.rs\<close>, the session with its start permits
  (\<^verbatim>\<open>worker-app/src/worker/instance_session.rs\<close>) and the registrar with its heartbeat loop
  (\<^verbatim>\<open>instance_registrar.rs\<close>), over the Redis registry.  Instants and durations are milliseconds;
  the mutex of the session makes each of its operations one step.
\<close>

section \<open>Settings\<close>

record rdb_status_recovery_config =
  rsr_enabled :: bool
  rsr_lock_ttl_sec :: u64
  rsr_execution_completion_reserve_sec :: u64
  rsr_unbounded_execution_recovery_timeout_sec :: u64
  rsr_start_permit_timeout_sec :: u64
  rsr_heartbeat_request_timeout_sec :: u64
  rsr_heartbeat_failure_threshold :: u32
  rsr_heartbeat_failure_timeout_sec :: u64
  rsr_isolation_check_interval_sec :: u64

record worker_instance_config =
  wic_enabled :: bool
  wic_heartbeat_interval_sec :: u64
  wic_timeout_sec :: u64
  wic_cleanup_interval_sec :: u64
  wic_recovery :: rdb_status_recovery_config

definition default_recovery_config :: rdb_status_recovery_config where
  "default_recovery_config =
     \<lparr>rsr_enabled = False, rsr_lock_ttl_sec = 300, rsr_execution_completion_reserve_sec = 5,
      rsr_unbounded_execution_recovery_timeout_sec = 86400, rsr_start_permit_timeout_sec = 10,
      rsr_heartbeat_request_timeout_sec = 10, rsr_heartbeat_failure_threshold = 2,
      rsr_heartbeat_failure_timeout_sec = 30, rsr_isolation_check_interval_sec = 5\<rparr>"

definition default_instance_config :: worker_instance_config where
  "default_instance_config =
     \<lparr>wic_enabled = True, wic_heartbeat_interval_sec = 30, wic_timeout_sec = 90,
      wic_cleanup_interval_sec = 300, wic_recovery = default_recovery_config\<rparr>"

definition timeout_millis :: "worker_instance_config \<Rightarrow> i64" where
  "timeout_millis cfg = min (uint (u64_saturating_mul (wic_timeout_sec cfg) 1000)) i64_max"

definition validate_rdb_status_recovery :: "worker_instance_config \<Rightarrow> string + unit" where
  "validate_rdb_status_recovery cfg =
     (let r = wic_recovery cfg
      in if \<not> rsr_enabled r then Inr ()
         else if wic_heartbeat_interval_sec cfg = 0 \<or> wic_cleanup_interval_sec cfg = 0 then
           Inl ''heartbeat and cleanup intervals must be non-zero''
         else if rsr_start_permit_timeout_sec r = 0 \<or> rsr_start_permit_timeout_sec r \<ge> wic_timeout_sec cfg then
           Inl ''start permit timeout must be non-zero and below instance timeout''
         else if rsr_heartbeat_request_timeout_sec r = 0 \<or>
             rsr_heartbeat_request_timeout_sec r \<ge> wic_timeout_sec cfg \<or>
             rsr_heartbeat_failure_threshold r = 0 \<or>
             rsr_heartbeat_failure_timeout_sec r = 0 \<or>
             rsr_heartbeat_failure_timeout_sec r \<ge> wic_timeout_sec cfg \<or>
             rsr_isolation_check_interval_sec r = 0 then
           Inl ''invalid heartbeat isolation configuration''
         else if rsr_lock_ttl_sec r = 0 \<or> rsr_execution_completion_reserve_sec r = 0 \<or>
             rsr_unbounded_execution_recovery_timeout_sec r = 0 then
           Inl ''invalid recovery timeout''
         else Inr ())"

section \<open>The session\<close>

datatype session_state = SsActive | SsIsolating | SsIsolated

record session =
  ss_state :: session_state
  ss_instance_id :: i64
  ss_generation :: u64
  ss_last_heartbeat_success :: nat
  ss_active_permits :: nat
  ss_instance_timeout :: nat
  ss_start_timeout :: nat

record start_permit =
  pm_instance_id :: i64
  pm_generation :: u64
  pm_deadline :: nat
  pm_released :: bool

definition new_session :: "nat \<Rightarrow> i64 \<Rightarrow> nat \<Rightarrow> nat \<Rightarrow> session" where
  "new_session now i instance_timeout start_timeout =
     \<lparr>ss_state = SsActive, ss_instance_id = i, ss_generation = 0, ss_last_heartbeat_success = now,
      ss_active_permits = 0, ss_instance_timeout = instance_timeout, ss_start_timeout = start_timeout\<rparr>"

definition record_heartbeat_success :: "nat \<Rightarrow> session \<Rightarrow> session" where
  "record_heartbeat_success now s =
     (if ss_state s = SsActive then s\<lparr>ss_last_heartbeat_success := now\<rparr> else s)"

text \<open>\<^verbatim>\<open>Instant::elapsed\<close> does not go below zero.\<close>

definition heartbeat_fresh :: "nat \<Rightarrow> session \<Rightarrow> bool" where
  "heartbeat_fresh now s \<longleftrightarrow> now - ss_last_heartbeat_success s < ss_instance_timeout s"

definition accepts_new_starts :: "nat \<Rightarrow> session \<Rightarrow> bool" where
  "accepts_new_starts now s \<longleftrightarrow> ss_state s = SsActive \<and> heartbeat_fresh now s"

definition acquire_start_permit :: "nat \<Rightarrow> session \<Rightarrow> start_permit option \<times> session" where
  "acquire_start_permit now s =
     (if ss_state s \<noteq> SsActive \<or> \<not> heartbeat_fresh now s then (None, s\<lparr>ss_state := SsIsolating\<rparr>)
      else (Some \<lparr>pm_instance_id = ss_instance_id s, pm_generation = ss_generation s,
                  pm_deadline = now + ss_start_timeout s, pm_released = False\<rparr>,
            s\<lparr>ss_active_permits := ss_active_permits s + 1\<rparr>))"

definition begin_isolation :: "session \<Rightarrow> session" where
  "begin_isolation s = (if ss_state s = SsActive then s\<lparr>ss_state := SsIsolating\<rparr> else s)"

text \<open>One round of \<^verbatim>\<open>wait_until_isolated\<close>: whether it returns.\<close>

definition isolation_poll :: "session \<Rightarrow> bool \<times> session" where
  "isolation_poll s =
     (if ss_active_permits s = 0 then (True, s\<lparr>ss_state := SsIsolated\<rparr>) else (False, s))"

definition confirm_start :: "nat \<Rightarrow> start_permit \<Rightarrow> session \<Rightarrow> bool" where
  "confirm_start now p s \<longleftrightarrow>
     ss_state s = SsActive \<and> ss_generation s = pm_generation p \<and> heartbeat_fresh now s \<and>
     now < pm_deadline p"

definition drop_permit :: "start_permit \<Rightarrow> session \<Rightarrow> start_permit \<times> session" where
  "drop_permit p s =
     (if pm_released p then (p, s)
      else (p\<lparr>pm_released := True\<rparr>, s\<lparr>ss_active_permits := ss_active_permits s - 1\<rparr>))"

section \<open>The registrar\<close>

record registrar =
  re_instance_id :: i64
  re_data :: worker_instance_data
  re_config :: worker_instance_config

definition new_registrar ::
  "i64 \<Rightarrow> i64 \<Rightarrow> string \<Rightarrow> string option \<Rightarrow> (string \<times> u32) list \<Rightarrow> worker_instance_config \<Rightarrow> registrar" where
  "new_registrar now i ip host channels cfg =
     \<lparr>re_instance_id = i,
      re_data = \<lparr>wid_ip_address = ip, wid_hostname = host,
        wid_channels = map (\<lambda>(n, c). \<lparr>cc_name = n, cc_concurrency = c\<rparr>) channels,
        wid_registered_at = now, wid_last_heartbeat = now, wid_recovery_version = 0\<rparr>,
      re_config = cfg\<rparr>"

definition with_rdb_status_recovery_protocol :: "registrar \<Rightarrow> registrar" where
  "with_rdb_status_recovery_protocol r = r\<lparr>re_data := (re_data r)\<lparr>wid_recovery_version := 1\<rparr>\<rparr>"

datatype register_error = RegistryFailed registry_error | IdCollision i64

text \<open>The clock of the registry comes first, the local instant second.\<close>

definition register ::
  "wi_codec \<Rightarrow> registrar \<Rightarrow> i64 \<Rightarrow> nat \<Rightarrow> session option \<times> registry \<Rightarrow>
     (register_error + unit) \<times> session option \<times> registry" where
  "register c r t now = (\<lambda>(session, reg).
     if \<not> wic_enabled (re_config r) then (Inr (), session, reg)
     else case rreg_upsert c t (re_instance_id r) (re_data r) reg of
            (Inl e, reg') \<Rightarrow> (Inl (RegistryFailed e), session, reg')
          | (Inr existed, reg') \<Rightarrow>
              if existed \<and> session \<noteq> None then (Inl (IdCollision (re_instance_id r)), session, reg')
              else (Inr (), map_option (record_heartbeat_success now) session, reg'))"

definition unregister :: "registrar \<Rightarrow> registry \<Rightarrow> registry" where
  "unregister r reg =
     (if wic_enabled (re_config r) then snd (rreg_delete (re_instance_id r) reg) else reg)"

definition should_stop_heartbeat_loop :: "bool \<Rightarrow> bool \<Rightarrow> bool" where
  "should_stop_heartbeat_loop threshold_reached has_session \<longleftrightarrow> threshold_reached \<and> has_session"

definition should_timeout_heartbeat_request :: "bool \<Rightarrow> bool" where
  "should_timeout_heartbeat_request has_session \<longleftrightarrow> has_session"

text \<open>
  How a heartbeat request fares: it is answered, it fails, or it takes longer than its timeout,
  which only a registrar with a session has.  A request that was not answered may or may not
  have reached the registry.
\<close>

datatype link = Answered | Failed bool | TimedOut bool

record heartbeat_loop =
  hb_failures :: u32
  hb_first_failure_at :: "nat option"
  hb_running :: bool

definition start_heartbeat_loop :: "registrar \<Rightarrow> heartbeat_loop" where
  "start_heartbeat_loop r =
     \<lparr>hb_failures = 0, hb_first_failure_at = None, hb_running = wic_enabled (re_config r)\<rparr>"

definition heartbeat_failure ::
  "registrar \<Rightarrow> nat \<Rightarrow> heartbeat_loop \<times> session option \<Rightarrow> heartbeat_loop \<times> session option" where
  "heartbeat_failure r now = (\<lambda>(l, session).
     let rc = wic_recovery (re_config r);
         failures = hb_failures l + 1;
         started = unwrap_or (hb_first_failure_at l) now;
         should_isolate = (failures \<ge> rsr_heartbeat_failure_threshold rc \<or>
           now - started \<ge> unat (rsr_heartbeat_failure_timeout_sec rc) * 1000);
         l' = l\<lparr>hb_failures := failures, hb_first_failure_at := Some started\<rparr>
     in if should_stop_heartbeat_loop should_isolate (session \<noteq> None)
        then (l'\<lparr>hb_running := False\<rparr>, map_option begin_isolation session)
        else (l', session))"

text \<open>One tick of the loop.\<close>

definition heartbeat_tick ::
  "wi_codec \<Rightarrow> registrar \<Rightarrow> link \<Rightarrow> i64 \<Rightarrow> nat \<Rightarrow> heartbeat_loop \<times> session option \<times> registry \<Rightarrow>
     heartbeat_loop \<times> session option \<times> registry" where
  "heartbeat_tick c r lk t now = (\<lambda>(l, session, reg).
     case lk of
       Answered \<Rightarrow>
         (case rreg_update_heartbeat t (re_instance_id r) reg of
            (True, reg') \<Rightarrow>
              (l\<lparr>hb_failures := 0, hb_first_failure_at := None\<rparr>,
               map_option (record_heartbeat_success now) session, reg')
          | (False, reg') \<Rightarrow>
              (case session of
                 Some s \<Rightarrow> (l\<lparr>hb_running := False\<rparr>, Some (begin_isolation s), reg')
               | None \<Rightarrow> (l, snd (register c r t now (None, reg')))))
     | Failed reached \<Rightarrow>
         (case heartbeat_failure r now (l, session) of
            (l', session') \<Rightarrow>
              (l', session', if reached then snd (rreg_update_heartbeat t (re_instance_id r) reg) else reg))
     | TimedOut reached \<Rightarrow>
         (case (if should_timeout_heartbeat_request (session \<noteq> None) then heartbeat_failure r now (l, session)
                else (l, session)) of
            (l', session') \<Rightarrow>
              (l', session', if reached then snd (rreg_update_heartbeat t (re_instance_id r) reg) else reg)))"

section \<open>Starts under a session\<close>

text \<open>
  The tasks of a worker process: what they hold, and each start with the instant, its permit and
  the last heartbeat known then.  A permit is dropped once.
\<close>

record session_world =
  sn_now :: nat
  sn_session :: session
  sn_held :: "start_permit list"
  sn_starts :: "(nat \<times> start_permit \<times> nat) list"

inductive session_step :: "session_world \<Rightarrow> session_world \<Rightarrow> bool" where
  pass: "sn_now w \<le> t \<Longrightarrow> session_step w (w\<lparr>sn_now := t\<rparr>)"
| heartbeat: "session_step w (w\<lparr>sn_session := record_heartbeat_success (sn_now w) (sn_session w)\<rparr>)"
| isolate: "session_step w (w\<lparr>sn_session := begin_isolation (sn_session w)\<rparr>)"
| waited: "session_step w (w\<lparr>sn_session := snd (isolation_poll (sn_session w))\<rparr>)"
| refused: "acquire_start_permit (sn_now w) (sn_session w) = (None, s) \<Longrightarrow>
     session_step w (w\<lparr>sn_session := s\<rparr>)"
| acquired: "acquire_start_permit (sn_now w) (sn_session w) = (Some p, s) \<Longrightarrow>
     session_step w (w\<lparr>sn_session := s, sn_held := sn_held w @ [p]\<rparr>)"
| started: "p \<in> set (sn_held w) \<Longrightarrow> confirm_start (sn_now w) p (sn_session w) \<Longrightarrow>
     session_step w (w\<lparr>sn_starts := sn_starts w @
       [(sn_now w, p, ss_last_heartbeat_success (sn_session w))]\<rparr>)"
| dropped: "sn_held w = ps @ p # qs \<Longrightarrow>
     session_step w (w\<lparr>sn_session := snd (drop_permit p (sn_session w)), sn_held := ps @ qs\<rparr>)"

inductive_cases session_stepE: "session_step w w'"

lemmas session_ops = record_heartbeat_success_def begin_isolation_def isolation_poll_def
  acquire_start_permit_def confirm_start_def drop_permit_def

definition session_ok :: "session_world \<Rightarrow> bool" where
  "session_ok w \<longleftrightarrow>
     ss_active_permits (sn_session w) = length (sn_held w) \<and>
     (\<forall>p \<in> set (sn_held w). \<not> pm_released p \<and> pm_deadline p \<le> sn_now w + ss_start_timeout (sn_session w)) \<and>
     ss_last_heartbeat_success (sn_session w) \<le> sn_now w \<and>
     (\<forall>(t, p, h) \<in> set (sn_starts w). t \<le> sn_now w \<and> t < pm_deadline p \<and>
        pm_deadline p \<le> t + ss_start_timeout (sn_session w) \<and> t < h + ss_instance_timeout (sn_session w))"

lemma session_step_timeouts:
  assumes "session_step w w'"
  shows "ss_instance_timeout (sn_session w') = ss_instance_timeout (sn_session w)"
    and "ss_start_timeout (sn_session w') = ss_start_timeout (sn_session w)"
  using assms by (auto elim!: session_stepE simp: session_ops split: if_splits)

lemma session_step_ok:
  assumes step: "session_step w w'" and ok: "session_ok w"
  shows "session_ok w'"
  using step
proof cases
  case (pass t)
  with ok show ?thesis by (fastforce simp: session_ok_def)
next
  case heartbeat
  with ok show ?thesis by (simp add: session_ok_def session_ops)
next
  case isolate
  with ok show ?thesis by (simp add: session_ok_def session_ops)
next
  case waited
  with ok show ?thesis by (simp add: session_ok_def session_ops)
next
  case (refused s)
  with ok show ?thesis by (auto simp: session_ok_def session_ops split: if_splits)
next
  case (acquired p s)
  with ok show ?thesis by (auto simp: session_ok_def session_ops split: if_splits)
next
  case (started p)
  with ok show ?thesis by (auto simp: session_ok_def session_ops heartbeat_fresh_def)
next
  case (dropped ps p qs)
  with ok show ?thesis by (simp add: session_ok_def session_ops)
qed

lemma session_steps_ok: "session_step\<^sup>*\<^sup>* w w' \<Longrightarrow> session_ok w \<Longrightarrow> session_ok w'"
  by (induction rule: rtranclp_induct) (auto intro: session_step_ok)

lemma isolated_step:
  assumes "session_step w w'" "ss_state (sn_session w) \<noteq> SsActive"
  shows "ss_state (sn_session w') \<noteq> SsActive \<and> sn_starts w' = sn_starts w \<and> set (sn_held w') \<subseteq> set (sn_held w)"
  using assms by (auto elim!: session_stepE simp: session_ops split: if_splits)

lemma isolated_steps:
  assumes "session_step\<^sup>*\<^sup>* w w'" "ss_state (sn_session w) \<noteq> SsActive"
  shows "ss_state (sn_session w') \<noteq> SsActive \<and> sn_starts w' = sn_starts w \<and> set (sn_held w') \<subseteq> set (sn_held w)"
  using assms by (induction rule: rtranclp_induct) (auto dest!: isolated_step)

text \<open>
  C5: isolation is final.  Once a session is no longer active, whatever its tasks do and however
  many permits they still hold, no runner is started any more and no permit is granted; once the
  wait for isolation has returned, no permit is held by anyone.
\<close>

theorem isolation_is_final:
  assumes ok: "session_ok w" and off: "ss_state (sn_session w) \<noteq> SsActive" and steps: "session_step\<^sup>*\<^sup>* w w'"
  shows "sn_starts w' = sn_starts w \<and> set (sn_held w') \<subseteq> set (sn_held w) \<and>
     fst (acquire_start_permit (sn_now w') (sn_session w')) = None \<and>
     (\<forall>p. \<not> confirm_start (sn_now w') p (sn_session w')) \<and>
     (fst (isolation_poll (sn_session w')) \<longrightarrow> sn_held w' = [])"
proof -
  have "session_ok w'" using steps ok by (rule session_steps_ok)
  moreover note isolated_steps [OF steps off]
  ultimately show ?thesis by (auto simp: session_ok_def session_ops)
qed

text \<open>
  C35: starts are timely.  Whatever the tasks of a worker do, every runner was started before the
  deadline of a permit that was granted at most the start timeout earlier, and less than the
  instance timeout after the last heartbeat that the registry had accepted.
\<close>

theorem starts_are_timely:
  assumes "session_step\<^sup>*\<^sup>* \<lparr>sn_now = t0, sn_session = new_session t0 i it st, sn_held = [], sn_starts = []\<rparr> w"
    and "(t, p, h) \<in> set (sn_starts w)"
  shows "t < pm_deadline p \<and> pm_deadline p \<le> t + st \<and> t < h + it"
proof -
  let ?w = "\<lparr>sn_now = t0, sn_session = new_session t0 i it st, sn_held = [], sn_starts = []\<rparr>"
  have "session_ok ?w" by (simp add: session_ok_def new_session_def)
  with assms(1) have ok: "session_ok w" by (rule session_steps_ok)
  have "ss_instance_timeout (sn_session w) = it \<and> ss_start_timeout (sn_session w) = st"
    using assms(1) by (induction rule: rtranclp_induct) (auto simp: new_session_def session_step_timeouts)
  with ok assms(2) show ?thesis by (auto simp: session_ok_def)
qed

section \<open>The registrar and the session\<close>

lemma heartbeat_failure_session:
  assumes "heartbeat_failure r now (l, Some s) = (l', s')"
  shows "(\<not> hb_running l' \<and> s' = Some (begin_isolation s)) \<or>
     (s' = Some s \<and> hb_running l' = hb_running l \<and> hb_failures l' = hb_failures l + 1 \<and>
      hb_failures l' < rsr_heartbeat_failure_threshold (wic_recovery (re_config r)))"
  using assms by (auto simp: heartbeat_failure_def Let_def should_stop_heartbeat_loop_def split: if_splits)

lemma begin_isolation_state [simp]: "ss_state (begin_isolation s) \<noteq> SsActive"
  by (simp add: begin_isolation_def)

lemma unanswered_registry:
  assumes "lk \<noteq> Answered" "heartbeat_tick c r lk t now (l, Some s, reg) = (l', s', reg')"
  shows "reg' = reg \<or> reg' = snd (rreg_update_heartbeat t (re_instance_id r) reg)"
proof -
  obtain l1 s1 where f: "heartbeat_failure r now (l, Some s) = (l1, s1)" by (rule prod.exhaust)
  show ?thesis
    using assms f by (cases lk) (auto simp: heartbeat_tick_def should_timeout_heartbeat_request_def)
qed


text \<open>The ticks of the loop until it ends.\<close>

definition heartbeat_run ::
  "wi_codec \<Rightarrow> registrar \<Rightarrow> (link \<times> i64 \<times> nat) list \<Rightarrow> heartbeat_loop \<times> session option \<times> registry \<Rightarrow>
     heartbeat_loop \<times> session option \<times> registry" where
  "heartbeat_run c r ticks st =
     foldl (\<lambda>st (lk, t, now). if hb_running (fst st) then heartbeat_tick c r lk t now st else st) st ticks"

definition isolated :: "heartbeat_loop \<times> session option \<times> registry \<Rightarrow> bool" where
  "isolated st \<longleftrightarrow> \<not> hb_running (fst st) \<and> (\<forall>s. fst (snd st) = Some s \<longrightarrow> ss_state s \<noteq> SsActive)"

lemma unanswered_tick:
  assumes "lk \<noteq> Answered" "heartbeat_tick c r lk t now (l, Some s, reg) = (l', s', reg')"
  shows "isolated (l', s', reg') \<or>
     (s' = Some s \<and> hb_running l' = hb_running l \<and> hb_failures l' = hb_failures l + 1 \<and>
      hb_failures l' < rsr_heartbeat_failure_threshold (wic_recovery (re_config r)))"
proof -
  obtain l1 s1 where f: "heartbeat_failure r now (l, Some s) = (l1, s1)" by (rule prod.exhaust)
  have "l' = l1 \<and> s' = s1"
    using assms f by (cases lk) (auto simp: heartbeat_tick_def should_timeout_heartbeat_request_def)
  with heartbeat_failure_session [OF f] show ?thesis by (auto simp: isolated_def)
qed

lemma stopped_run: "\<not> hb_running (fst st) \<Longrightarrow> heartbeat_run c r ticks st = st"
  by (induction ticks) (auto simp: heartbeat_run_def)

lemma unanswered_run:
  assumes "\<forall>k \<in> set ticks. fst k \<noteq> Answered" "hb_running l"
    and "unat (hb_failures l) < unat (rsr_heartbeat_failure_threshold (wic_recovery (re_config r)))"
  shows "isolated (heartbeat_run c r ticks (l, Some s, reg)) \<or>
     unat (hb_failures l) + length ticks < unat (rsr_heartbeat_failure_threshold (wic_recovery (re_config r)))"
  using assms
proof (induction ticks arbitrary: l reg)
  case (Cons k ticks)
  obtain lk t now where k: "k = (lk, t, now)" by (rule prod_cases3)
  obtain l' s' reg' where tick: "heartbeat_tick c r lk t now (l, Some s, reg) = (l', s', reg')"
    by (rule prod_cases3)
  have run: "heartbeat_run c r (k # ticks) (l, Some s, reg) = heartbeat_run c r ticks (l', s', reg')"
    using Cons.prems(2) tick by (simp add: heartbeat_run_def k)
  have "lk \<noteq> Answered" using Cons.prems(1) by (simp add: k)
  from unanswered_tick [OF this tick] consider (iso) "isolated (l', s', reg')"
    | (more) "s' = Some s" "hb_running l' = hb_running l" "hb_failures l' = hb_failures l + 1"
      "hb_failures l' < rsr_heartbeat_failure_threshold (wic_recovery (re_config r))" by blast
  then show ?case
  proof cases
    case iso
    then have "heartbeat_run c r ticks (l', s', reg') = (l', s', reg')" by (intro stopped_run) (simp add: isolated_def)
    with iso run show ?thesis by simp
  next
    case more
    have "hb_failures l < rsr_heartbeat_failure_threshold (wic_recovery (re_config r))"
      using Cons.prems(3) by (simp add: word_less_nat_alt)
    then have "hb_failures l \<noteq> - 1" using word_order.extremum_strict by auto
    then have "1 + hb_failures l \<noteq> 0" by (metis add.commute eq_neg_iff_add_eq_0)
    from unatSuc [OF this] have inc: "unat (hb_failures l') = unat (hb_failures l) + 1"
      unfolding more(3) by (simp add: add.commute)
    have "unat (hb_failures l') < unat (rsr_heartbeat_failure_threshold (wic_recovery (re_config r)))"
      using more(4) by (simp add: word_less_nat_alt)
    moreover have "\<forall>k \<in> set ticks. fst k \<noteq> Answered" "hb_running l'"
      using Cons.prems(1,2) more(2) by simp_all
    ultimately have "isolated (heartbeat_run c r ticks (l', Some s, reg')) \<or>
        unat (hb_failures l') + length ticks < unat (rsr_heartbeat_failure_threshold (wic_recovery (re_config r)))"
      by (intro Cons.IH)
    then show ?thesis unfolding run more(1) inc by simp
  qed
qed simp


section \<open>Recovery after the last execution\<close>

lemma upserted_start:
  assumes "r \<in> set (db_status (upsert_running_row new db))" "sw_job_id r = sw_job_id new"
  shows "sw_start_time r = sw_start_time new"
  using assms by (auto simp: upsert_running_row_def image_iff split: if_splits)


section \<open>Examples\<close>

definition example_registrar :: registrar where
  "example_registrar = new_registrar 0 3 ''10.0.0.1'' None [(''q'', 2)]
     (default_instance_config\<lparr>wic_recovery := default_recovery_config\<lparr>rsr_enabled := True\<rparr>\<rparr>)"

definition example_world :: session_world where
  "example_world = \<lparr>sn_now = 5, sn_session = begin_isolation (snd (acquire_start_permit 5 (new_session 0 7 90000 10000))),
     sn_held = [the (fst (acquire_start_permit 5 (new_session 0 7 90000 10000)))], sn_starts = []\<rparr>"

lemmas example_session_defs = example_world_def new_session_def begin_isolation_def acquire_start_permit_def
  heartbeat_fresh_def

theorem isolation_is_final_witness:
  "sn_held example_world \<noteq> [] \<and> (\<forall>p. \<not> confirm_start 6 p (sn_session example_world))"
proof -
  have ok: "session_ok example_world" "ss_state (sn_session example_world) \<noteq> SsActive"
    by (simp_all add: session_ok_def example_session_defs)
  have "session_step\<^sup>*\<^sup>* example_world (example_world\<lparr>sn_now := 6\<rparr>)"
    by (intro r_into_rtranclp session_step.pass) (simp add: example_world_def)
  from isolation_is_final [OF ok this] show ?thesis by (simp add: example_world_def)
qed

theorem starts_are_timely_witness:
  "\<exists>w t p h. session_step\<^sup>*\<^sup>* \<lparr>sn_now = 0, sn_session = new_session 0 7 90000 10000, sn_held = [], sn_starts = []\<rparr> w \<and>
     (t, p, h) \<in> set (sn_starts w) \<and> t < pm_deadline p"
proof -
  let ?w0 = "\<lparr>sn_now = 0, sn_session = new_session 0 7 90000 10000, sn_held = [], sn_starts = []\<rparr>"
  let ?p = "\<lparr>pm_instance_id = 7, pm_generation = 0, pm_deadline = 10000, pm_released = False\<rparr>"
  let ?w1 = "?w0\<lparr>sn_session := (new_session 0 7 90000 10000)\<lparr>ss_active_permits := 1\<rparr>, sn_held := [?p]\<rparr>"
  let ?w2 = "?w1\<lparr>sn_starts := [(0, ?p, 0)]\<rparr>"
  have 1: "session_step ?w0 ?w1"
    using session_step.acquired [of ?w0 ?p] by (simp add: acquire_start_permit_def new_session_def heartbeat_fresh_def)
  have 2: "session_step ?w1 ?w2"
    using session_step.started [of ?p ?w1] by (simp add: confirm_start_def new_session_def heartbeat_fresh_def)
  have steps: "session_step\<^sup>*\<^sup>* ?w0 ?w2" using 1 2 by (meson converse_rtranclp_into_rtranclp r_into_rtranclp)
  have start: "(0, ?p, 0) \<in> set (sn_starts ?w2)" by simp
  from starts_are_timely [OF steps start] steps start show ?thesis by blast
qed




end
