(* ===== verification/Dispatcher.thy ===== *)
theory Dispatcher
  imports Job_Invariant Result_Processor Stream_Guard Worker_Session
begin

text \<open>
  The dispatchers of the standalone build: \<^verbatim>\<open>worker-app/src/worker/dispatcher.rs\<close> (what they share),
  \<^verbatim>\<open>dispatcher/chan.rs\<close> and \<^verbatim>\<open>dispatcher/rdb.rs\<close>.  A dispatcher takes a job from its queue, claims
  the attempt in the status repository, runs it (\<^verbatim>\<open>run_job\<close>) and hands the result to the result
  processor, whose calls are carried out by the job application.  What other tasks do
  to the statuses before each access is the environment's, and so is what they do to the whole
  state while the runner runs.
\<close>

section \<open>The environment\<close>

datatype disp_failure = DpError any_error | DpPanic panic | DpNeverReturns

text \<open>
  \<open>dp_load\<close> is the answer of a pre-load, \<open>dp_during\<close> what happens while the runner runs,
  \<open>dp_starting\<close> and \<open>dp_session_during\<close> what happens to the state and what the heartbeat loop
  does to the session until a start is confirmed, \<open>dp_session_returning\<close> what it does after that,
  \<open>dp_published\<close> the items of a result stream that were published.  The answers of the
  applications to the result processor are part of it; what they do is computed.
\<close>

record 'c disp_env =
  dp_app :: "'c app_env"
  dp_find_runner :: "i64 \<Rightarrow> job_worker_error + string option option"
  dp_id :: "job_worker_error + i64"
  dp_run_env :: "job \<Rightarrow> run_env"
  dp_static_runner :: "any_error + runner_iface option"
  dp_runner :: "any_error + runner_iface"
  dp_load :: "any_error + unit"
  dp_workers :: "job_worker_error + worker list"
  dp_during :: "'c app_state \<Rightarrow> 'c app_state"
  dp_starting :: "'c app_state \<Rightarrow> 'c app_state"
  dp_session_during :: "session \<Rightarrow> session"
  dp_session_returning :: "session \<Rightarrow> session"
  dp_instant :: "nat \<Rightarrow> nat"
  dp_published :: "result_output_item list"
  dp_from_str :: json_reader
  dp_float_ops :: float_ops
  dp_output_codec :: output_codec
  dp_complete :: "any_error + bool \<times> bool"
  dp_update :: "any_error + unit"
  dp_enqueue :: "any_error + unit"
  dp_delete_temp :: "any_error + unit"
  dp_store :: "any_error + bool"

type_synonym ('c, 'a) disp_result = "(disp_failure + 'a) \<times> 'c app_state"

abbreviation disp_error :: "job_worker_error \<Rightarrow> disp_failure" where
  "disp_error e \<equiv> DpError (any_of_job_worker_error e)"

section \<open>Processing a result\<close>

definition standalone_rp_env :: "'c disp_env \<Rightarrow> memory_store rp_env" where
  "standalone_rp_env env =
     \<lparr>rpe_find = mem_find_status_record, rpe_cas = mem_compare_and_set_status,
      rpe_others = (\<lambda>k. ae_others (dp_app env) (k + 10)), rpe_fails = (\<lambda>_. None),
      rpe_to_string = ae_to_string (dp_app env), rpe_from_str = dp_from_str env,
      rpe_float_ops = dp_float_ops env, rpe_now = ae_now (dp_app env) 6,
      rpe_complete = dp_complete env, rpe_update = dp_update env, rpe_enqueue = dp_enqueue env,
      rpe_delete_temp = dp_delete_temp env, rpe_store = dp_store env\<rparr>"

definition streaming_type_try_from :: "i32 \<Rightarrow> streaming_type option" where
  "streaming_type_try_from n = List.find (\<lambda>t. streaming_type_i32 t = n) [StNone, StResponse, StInternal]"

text \<open>The request for the next run of a periodic job.\<close>

definition periodic_args :: "metadata \<Rightarrow> job_data \<Rightarrow> job_id option \<Rightarrow> enqueue_args" where
  "periodic_args md pj i =
     \<lparr>ea_metadata = md, ea_args = jd_args pj, ea_uniq_key = jd_uniq_key pj,
      ea_run_after_time = jd_run_after_time pj, ea_priority = jd_priority pj, ea_timeout = jd_timeout pj,
      ea_reserved_job_id = i,
      ea_streaming_type = unwrap_or (streaming_type_try_from (jd_streaming_type pj)) StNone,
      ea_using = jd_using pj, ea_overrides = jd_overrides pj\<rparr>"

definition on_tables :: "(rdb \<Rightarrow> db_failure + rdb) \<Rightarrow> 'c app_state \<Rightarrow> 'c app_state" where
  "on_tables f s = (case f (ap_db s) of Inl _ \<Rightarrow> s | Inr db \<Rightarrow> s\<lparr>ap_db := db\<rparr>)"

text \<open>
  A call of the result processor, carried out by the application.  Temporary workers are not part
  of the state.
\<close>

definition run_effect :: "'c disp_env \<Rightarrow> metadata \<Rightarrow> rp_effect \<Rightarrow> 'c app_state \<Rightarrow> 'c app_state" where
  "run_effect env md ef s =
     (case ef of
        EfComplete rid d has_stream \<Rightarrow> snd (complete_job (dp_app env) rid d has_stream s)
      | EfUpdateJob j \<Rightarrow> snd (update_job (dp_app env) j s)
      | EfEnqueue pj i \<Rightarrow> snd (app_enqueue_job (dp_app env) (jd_worker_id pj) None (periodic_args md pj i) s)
      | EfDeleteTemp _ \<Rightarrow> s
      | EfStore rid d _ \<Rightarrow>
          on_tables (\<lambda>db. map_sum id snd (create_job_result_if_necessary (dp_output_codec env) rid d db)) s
      | EfReplace rid recorded d \<Rightarrow>
          on_tables (replace_stored_result (dp_output_codec env) rid recorded d) s)"

definition disp_failure_of :: "rp_failure \<Rightarrow> disp_failure" where
  "disp_failure_of f = (case f of RpError e \<Rightarrow> DpError e | RpPanic p \<Rightarrow> DpPanic p)"

text \<open>
  The processor reads the repository before its first call only, so its calls can be carried out
  after it.
\<close>

definition process_result_on ::
  "'c disp_env \<Rightarrow> job_result \<Rightarrow> bool \<Rightarrow> worker_data \<Rightarrow> bool \<Rightarrow> 'c app_state \<Rightarrow>
     ('c, job_result \<times> completion) disp_result" where
  "process_result_on env jr has_stream w load_only s =
     (case process_result_inner (standalone_rp_env env) jr has_stream w load_only
             \<lparr>ps_repo = ap_status s, ps_log = []\<rparr> of
        (r, ps) \<Rightarrow>
          (map_sum disp_failure_of id r,
           fold (run_effect env (jres_metadata jr)) (ps_log ps) (s\<lparr>ap_status := ps_repo ps\<rparr>)))"

text \<open>The dispatcher waits until the stream of the result was published, and settled.\<close>

definition await_completion ::
  "'c disp_env \<Rightarrow> metadata \<Rightarrow> job_id \<Rightarrow> bool \<Rightarrow> completion \<Rightarrow> 'c app_state \<Rightarrow> 'c app_state" where
  "await_completion env md i has_stream c s =
     (if c = NoReceiver \<or> \<not> has_stream then s
      else let s1 = stream_task (dp_app env) i s
           in case c of
                WhenSettled rid d \<Rightarrow>
                  fold (run_effect env md) (settle_result_after_stream (dp_from_str env) rid d (dp_published env)) s1
              | _ \<Rightarrow> s1)"

definition process_and_wait ::
  "'c disp_env \<Rightarrow> job_id \<Rightarrow> job_result \<Rightarrow> bool \<Rightarrow> worker_data \<Rightarrow> bool \<Rightarrow> 'c app_state \<Rightarrow>
     ('c, job_result) disp_result" where
  "process_and_wait env i jr has_stream w load_only s =
     (case process_result_on env jr has_stream w load_only s of
        (Inl e, s1) \<Rightarrow> (Inl e, s1)
      | (Inr (jr', c), s1) \<Rightarrow> (Inr jr', await_completion env (jres_metadata jr) i has_stream c s1))"

section \<open>What the dispatchers share\<close>

datatype dispatch_eligibility = DeExecute | DeCancelled job_result | DeSkip

datatype dispatch_preflight = PfExecute | PfSkip | PfCompleted job_result

definition ensure_job_result_id :: "'c disp_env \<Rightarrow> job_result \<Rightarrow> job_worker_error + job_result" where
  "ensure_job_result_id env r =
     (case jres_id r of
        Some _ \<Rightarrow> Inr r
      | None \<Rightarrow> bindE (dp_id env) (\<lambda>i. Inr (r\<lparr>jres_id := Some i\<rparr>)))"

definition should_cleanup_status_on_error :: "any_error \<Rightarrow> bool" where
  "should_cleanup_status_on_error e =
     (case ae_job_worker e of Some x \<Rightarrow> should_delete_job_status x | None \<Rightarrow> False)"

definition cleanup_failed_job_status :: "'c disp_env \<Rightarrow> job_id \<Rightarrow> 'c app_state \<Rightarrow> 'c app_state" where
  "cleanup_failed_job_status env i s = mark_index_deleted (dp_app env) i (clear_status i s)"

definition CANCELLED_BEFORE_EXECUTION :: string where
  "CANCELLED_BEFORE_EXECUTION = ''Job was cancelled before execution''"

definition cancelled_dispatch_result ::
  "'c disp_env \<Rightarrow> job_id \<Rightarrow> worker_id \<Rightarrow> worker_data \<Rightarrow> metadata \<Rightarrow> job_data \<Rightarrow> i64 \<Rightarrow> stream_error \<Rightarrow> job_result" where
  "cancelled_dispatch_result env i wid w md d rid e =
     (let resolved = resolve_job_params w (jd_overrides d)
      in \<lparr>jres_id = Some rid,
          jres_data = Some
            \<lparr>jr_job_id = Some i, jr_worker_id = Some wid, jr_worker_name = w_name w, jr_args = jd_args d,
             jr_uniq_key = jd_uniq_key d, jr_status = result_status_i32 RsCancelled,
             jr_output = Some CANCELLED_BEFORE_EXECUTION, jr_retried = jd_retried d, jr_max_retry = 0,
             jr_priority = jd_priority d, jr_timeout = jd_timeout d, jr_streaming_type = jd_streaming_type d,
             jr_enqueue_time = jd_enqueue_time d, jr_run_after_time = jd_run_after_time d,
             jr_start_time = ae_now (dp_app env) 5, jr_end_time = ae_now (dp_app env) 6,
             jr_response_type = rj_response_type resolved, jr_store_success = rj_store_success resolved,
             jr_store_failure = rj_store_failure resolved, jr_using = jd_using d,
             jr_broadcast_results = rj_broadcast_results resolved,
             jr_resolved_retry_policy = rj_retry_policy resolved, jr_error = Some e\<rparr>,
          jres_metadata = md\<rparr>)"

definition cancelled_dispatch_eligibility ::
  "'c disp_env \<Rightarrow> job_id \<Rightarrow> worker_id \<Rightarrow> worker_data \<Rightarrow> metadata \<Rightarrow> job_data \<Rightarrow> disp_failure + dispatch_eligibility" where
  "cancelled_dispatch_eligibility env i wid w md d =
     (case cancelled_by_worker (ae_to_string (dp_app env)) CANCELLED_BEFORE_EXECUTION of
        Inl p \<Rightarrow> Inl (DpPanic p)
      | Inr e \<Rightarrow>
          (case dp_id env of
             Inl err \<Rightarrow> Inl (disp_error err)
           | Inr rid \<Rightarrow> Inr (DeCancelled (cancelled_dispatch_result env i wid w md d rid e))))"

text \<open>Claims a pending attempt, or makes a stale or cancelled delivery inert.\<close>

definition check_cancellation_status_with_missing_status ::
  "'c disp_env \<Rightarrow> job_id \<Rightarrow> worker_id \<Rightarrow> worker_data \<Rightarrow> metadata \<Rightarrow> job_data \<Rightarrow> bool \<Rightarrow> 'c app_state \<Rightarrow>
     ('c, dispatch_eligibility) disp_result" where
  "check_cancellation_status_with_missing_status env i wid w md d execute_when_missing s =
     (let s1 = others_act (dp_app env) 5 s
      in case mem_find_status_record (ap_status s1) i of
           None \<Rightarrow> (Inr (if execute_when_missing then DeExecute else DeSkip), s1)
         | Some r \<Rightarrow>
             if sr_retried r \<noteq> jd_retried d then (Inr DeSkip, s1)
             else if sr_status r = JpsPending then
               (let s2 = others_act (dp_app env) 6 s1
                in case mem_compare_and_set_status (ap_status s2) i (Some r)
                          (Some \<lparr>sr_status = JpsRunning, sr_retried = jd_retried d\<rparr>) of
                     (Applied, st) \<Rightarrow> (Inr DeExecute, s2\<lparr>ap_status := st\<rparr>)
                   | (status_transition.Conflict c, st) \<Rightarrow>
                       (if (case c of None \<Rightarrow> False
                            | Some r' \<Rightarrow> sr_status r' = JpsCancelling \<and> sr_retried r' = jd_retried d)
                        then cancelled_dispatch_eligibility env i wid w md d else Inr DeSkip,
                        s2\<lparr>ap_status := st\<rparr>))
             else if sr_status r = JpsCancelling then (cancelled_dispatch_eligibility env i wid w md d, s1)
             else (Inr DeSkip, s1))"

definition check_cancellation_status ::
  "'c disp_env \<Rightarrow> job_id \<Rightarrow> worker_id \<Rightarrow> worker_data \<Rightarrow> metadata \<Rightarrow> job_data \<Rightarrow> 'c app_state \<Rightarrow>
     ('c, dispatch_eligibility) disp_result" where
  "check_cancellation_status env i wid w md d s =
     check_cancellation_status_with_missing_status env i wid w md d False s"

definition check_rdb_cancellation_status ::
  "'c disp_env \<Rightarrow> job_id \<Rightarrow> worker_id \<Rightarrow> worker_data \<Rightarrow> metadata \<Rightarrow> job_data \<Rightarrow> 'c app_state \<Rightarrow>
     ('c, dispatch_eligibility) disp_result" where
  "check_rdb_cancellation_status env i wid w md d s =
     check_cancellation_status_with_missing_status env i wid w md d True s"

definition process_cancelled_dispatch_result ::
  "'c disp_env \<Rightarrow> job_result \<Rightarrow> worker_data \<Rightarrow> job_id \<Rightarrow> 'c app_state \<Rightarrow> ('c, job_result) disp_result" where
  "process_cancelled_dispatch_result env r w i s = process_and_wait env i r False w False s"

definition resolve_dispatch_preflight ::
  "'c disp_env \<Rightarrow> dispatch_eligibility \<Rightarrow> worker_data \<Rightarrow> job_id \<Rightarrow> 'c app_state \<Rightarrow>
     ('c, dispatch_preflight) disp_result" where
  "resolve_dispatch_preflight env el w i s =
     (case el of
        DeExecute \<Rightarrow> (Inr PfExecute, s)
      | DeSkip \<Rightarrow> (Inr PfSkip, s)
      | DeCancelled r \<Rightarrow>
          (case process_cancelled_dispatch_result env r w i s of
             (Inl e, s1) \<Rightarrow> (Inl e, s1)
           | (Inr r', s1) \<Rightarrow> (Inr (PfCompleted r'), s1)))"

definition find_by_opt :: "'c disp_env \<Rightarrow> worker_id option \<Rightarrow> job_worker_error + worker option" where
  "find_by_opt env wid = (case wid of None \<Rightarrow> Inr None | Some i \<Rightarrow> ae_find_worker (dp_app env) i)"

text \<open>The worker of a job and the data of its runner; both dispatchers look them up alike.\<close>

definition lookup_runner ::
  "'c disp_env \<Rightarrow> job_data \<Rightarrow> disp_failure + worker_id \<times> worker_data \<times> string" where
  "lookup_runner env d =
     (case find_by_opt env (jd_worker_id d) of
        Inl e \<Rightarrow> Inl (disp_error e)
      | Inr found \<Rightarrow>
          (case (Option.bind found wk_id, Option.bind found wk_data) of
             (Some wid, Some w) \<Rightarrow>
               (case w_runner_id w of
                  None \<Rightarrow> Inl (disp_error (NotFound ''runner_id is not found.''))
                | Some rid \<Rightarrow>
                    (case dp_find_runner env rid of
                       Inl e \<Rightarrow> Inl (disp_error e)
                     | Inr (Some (Some r)) \<Rightarrow> Inr (wid, w, r)
                     | Inr _ \<Rightarrow> Inl (disp_error (NotFound ''runner data is not found.''))))
           | _ \<Rightarrow> Inl (disp_error (NotFound ''worker is not found.''))))"

text \<open>One run: the runner, then the identifier of its result.\<close>

definition run_and_identify ::
  "'c disp_env \<Rightarrow> worker_data \<Rightarrow> job \<Rightarrow> job_id \<Rightarrow> job_data \<Rightarrow> 'c app_state \<Rightarrow>
     ('c, job_result \<times> bool) disp_result" where
  "run_and_identify env w j i d s =
     (let s1 = dp_during env (app_emit (RunnerStarted i (jd_retried d)) s)
      in case run_job (dp_run_env env j) (dp_static_runner env) (dp_runner env) w j of
           None \<Rightarrow> (Inl DpNeverReturns, s1)
         | Some (Inl p) \<Rightarrow> (Inl (DpPanic p), s1)
         | Some (Inr out) \<Rightarrow>
             (case ensure_job_result_id env (ro_result out) of
                Inl e \<Rightarrow> (Inl (disp_error e), s1)
              | Inr r \<Rightarrow> (Inr (r, ro_stream out \<noteq> None), s1)))"

definition index_dispatched ::
  "'c disp_env \<Rightarrow> job_processing_status \<Rightarrow> job_id \<Rightarrow> worker_id \<Rightarrow> worker_data \<Rightarrow> job_data \<Rightarrow> 'c app_state \<Rightarrow>
     'c app_state" where
  "index_dispatched env st i wid w d s =
     (case (ae_index (dp_app env), ae_fails (dp_app env) AcIndexStatus) of
        (Some cfg, None) \<Rightarrow>
          on_tables (index_status cfg (ae_now (dp_app env) 7) i st wid (w_channel w) (jd_priority d)
            (jd_enqueue_time d) (jd_streaming_type d \<noteq> 0)
            (rj_broadcast_results (resolve_job_params w (jd_overrides d)))) s
      | _ \<Rightarrow> s)"

definition grab_row :: "'c disp_env \<Rightarrow> job_id \<Rightarrow> job_data \<Rightarrow> 'c app_state \<Rightarrow> ('c, bool) disp_result" where
  "grab_row env i d s =
     (case ae_fails (dp_app env) AcGrab of
        Some e \<Rightarrow> (Inl (disp_error e), s)
      | None \<Rightarrow>
          (case grab_job (ae_now (dp_app env) 7) i (Some (jd_timeout d))
                  (unwrap_or (jd_grabbed_until_time d) 0) (ap_db s) of
             (b, db) \<Rightarrow> (Inr b, s\<lparr>ap_db := db\<rparr>)))"

section \<open>The channel dispatcher\<close>

text \<open>A result that says nothing: the delivery was skipped.\<close>

definition no_result :: job_result where
  "no_result = \<lparr>jres_id = None, jres_data = None, jres_metadata = Map.empty\<rparr>"

definition claim_backup ::
  "'c disp_env \<Rightarrow> job_id \<Rightarrow> worker_data \<Rightarrow> job_data \<Rightarrow> 'c app_state \<Rightarrow> ('c, unit) disp_result" where
  "claim_backup env i w d s =
     (if rj_response_type (resolve_job_params w (jd_overrides d)) \<noteq> response_type_i32 Direct \<and>
         w_queue_type w = queue_type_i32 QtWithBackup
      then (case grab_row env i d s of
              (Inl e, s1) \<Rightarrow> (Inl e, s1)
            | (Inr True, s1) \<Rightarrow> (Inr (), s1)
            | (Inr False, s1) \<Rightarrow> (Inl (disp_error (AlreadyExists ''already grabbed'')), s1))
      else (Inr (), s))"

definition mark_wait_result ::
  "'c disp_env \<Rightarrow> job_id \<Rightarrow> worker_id \<Rightarrow> worker_data \<Rightarrow> job_data \<Rightarrow> 'c app_state \<Rightarrow> 'c app_state" where
  "mark_wait_result env i wid w d s =
     (if rj_response_type (resolve_job_params w (jd_overrides d)) = response_type_i32 Direct then s
      else let s1 = others_act (dp_app env) 8 s;
               st = snd (mem_compare_and_set_status (ap_status s1) i
                 (Some \<lparr>sr_status = JpsRunning, sr_retried = jd_retried d\<rparr>)
                 (Some \<lparr>sr_status = JpsWaitResult, sr_retried = jd_retried d\<rparr>))
           in index_dispatched env JpsWaitResult i wid w d (s1\<lparr>ap_status := st\<rparr>))"

definition execute_on_channel ::
  "'c disp_env \<Rightarrow> job \<Rightarrow> job_id \<Rightarrow> job_data \<Rightarrow> worker_id \<Rightarrow> worker_data \<Rightarrow> 'c app_state \<Rightarrow> ('c, job_result) disp_result" where
  "execute_on_channel env j i d wid w s =
     (case claim_backup env i w d s of
        (Inl e, s1) \<Rightarrow> (Inl e, s1)
      | (Inr _, s1) \<Rightarrow>
          (case run_and_identify env w j i d (index_dispatched env JpsRunning i wid w d s1) of
             (Inl e, s2) \<Rightarrow> (Inl e, s2)
           | (Inr (r, has_stream), s2) \<Rightarrow>
               process_and_wait env i r has_stream w False (mark_wait_result env i wid w d s2)))"

definition process_job :: "'c disp_env \<Rightarrow> job \<Rightarrow> bool \<Rightarrow> 'c app_state \<Rightarrow> ('c, job_result) disp_result" where
  "process_job env j load_only s =
     (case (j_id j, j_data j) of
        (Some i, Some d) \<Rightarrow>
          (case lookup_runner env d of
             Inl (DpError e) \<Rightarrow>
               (if jd_worker_id d = None then Inl (DpPanic unwrap_none) else Inl (DpError e), s)
           | Inl f \<Rightarrow> (Inl f, s)
           | Inr (wid, w, _) \<Rightarrow>
               if load_only then
                 (case preload_runner (dp_run_env env j) (dp_load env) w j of
                    Inl p \<Rightarrow> (Inl (DpPanic p), s)
                  | Inr r \<Rightarrow> process_and_wait env i r False w True s)
               else
                 (case check_cancellation_status env i wid w (j_metadata j) d s of
                    (Inl e, s1) \<Rightarrow> (Inl e, s1)
                  | (Inr el, s1) \<Rightarrow>
                      (case resolve_dispatch_preflight env el w i s1 of
                         (Inl e, s2) \<Rightarrow> (Inl e, s2)
                       | (Inr PfSkip, s2) \<Rightarrow> (Inr no_result, s2)
                       | (Inr (PfCompleted r), s2) \<Rightarrow> (Inr r, s2)
                       | (Inr PfExecute, s2) \<Rightarrow> execute_on_channel env j i d wid w s2)))
      | _ \<Rightarrow> (Inl (disp_error (InvalidParameter ''job is incomplete data.'')), s))"

definition process_deque_job ::
  "'c disp_env \<Rightarrow> job_worker_error + job \<times> bool \<Rightarrow> 'c app_state \<Rightarrow> ('c, job_result) disp_result" where
  "process_deque_job env val s =
     (case val of
        Inl e \<Rightarrow> (Inl (disp_error (ChanError (job_worker_error_display e))), s)
      | Inr (j, load_only) \<Rightarrow>
          (case process_job env j load_only s of
             (Inl (DpError e), s1) \<Rightarrow>
               (Inl (DpError e),
                case j_id j of
                  Some i \<Rightarrow> if should_cleanup_status_on_error e then cleanup_failed_job_status env i s1 else s1
                | None \<Rightarrow> s1)
           | r \<Rightarrow> r))"

text \<open>One round of the loop of a channel.\<close>

definition chan_pop_and_execute ::
  "'c disp_env \<Rightarrow> string \<Rightarrow> 'c app_state \<Rightarrow> ('c, job_result) disp_result" where
  "chan_pop_and_execute env channel s =
     (case receive_job_from_channels (ae_ops (dp_app env)) (ae_codec (dp_app env))
             (map (\<lambda>p. queue_channel_name channel (Some (priority_i32 p)))
               [PriorityHigh, PriorityMedium, PriorityLow]) (ap_queue s) of
        (val, q) \<Rightarrow> process_deque_job env val (s\<lparr>ap_queue := q\<rparr>))"

section \<open>The database dispatcher\<close>

datatype unstarted_restore = Restored | CancellationWon | OwnershipLost

definition restore_pending_after_unstarted_rdb_dispatch ::
  "'c disp_env \<Rightarrow> job_id \<Rightarrow> u32 \<Rightarrow> 'c app_state \<Rightarrow> unstarted_restore \<times> 'c app_state" where
  "restore_pending_after_unstarted_rdb_dispatch env i n s =
     (let s1 = others_act (dp_app env) 9 s
      in case mem_compare_and_set_status (ap_status s1) i
                (Some \<lparr>sr_status = JpsRunning, sr_retried = n\<rparr>)
                (Some \<lparr>sr_status = JpsPending, sr_retried = n\<rparr>) of
           (Applied, st) \<Rightarrow> (Restored, s1\<lparr>ap_status := st\<rparr>)
         | (status_transition.Conflict c, st) \<Rightarrow>
             (if (case c of None \<Rightarrow> False
                  | Some r \<Rightarrow> sr_status r = JpsCancelling \<and> sr_retried r = n)
              then CancellationWon else OwnershipLost, s1\<lparr>ap_status := st\<rparr>))"

definition restore_or_finalize_unstarted_rdb_dispatch ::
  "'c disp_env \<Rightarrow> job_id \<Rightarrow> worker_id \<Rightarrow> worker_data \<Rightarrow> metadata \<Rightarrow> job_data \<Rightarrow> 'c app_state \<Rightarrow>
     ('c, job_result option) disp_result" where
  "restore_or_finalize_unstarted_rdb_dispatch env i wid w md d s =
     (case restore_pending_after_unstarted_rdb_dispatch env i (jd_retried d) s of
        (CancellationWon, s1) \<Rightarrow>
          (case check_rdb_cancellation_status env i wid w md d s1 of
             (Inl e, s2) \<Rightarrow> (Inl e, s2)
           | (Inr (DeCancelled r), s2) \<Rightarrow>
               (case process_cancelled_dispatch_result env r w i s2 of
                  (Inl e, s3) \<Rightarrow> (Inl e, s3)
                | (Inr r', s3) \<Rightarrow> (Inr (Some r'), s3))
           | (Inr DeSkip, s2) \<Rightarrow> (Inr None, s2)
           | (Inr DeExecute, s2) \<Rightarrow>
               (Inl (disp_error (RuntimeError (''job '' @ show_int i @
                  '' unexpectedly became executable while restoring an unstarted RDB dispatch''))), s2))
      | (_, s1) \<Rightarrow> (Inr None, s1))"

definition refuse_unstarted ::
  "'c disp_env \<Rightarrow> string \<Rightarrow> job \<Rightarrow> job_id \<Rightarrow> job_data \<Rightarrow> worker_id \<Rightarrow> worker_data \<Rightarrow> 'c app_state \<Rightarrow>
     ('c, job_result option) disp_result" where
  "refuse_unstarted env reason j i d wid w s =
     (case restore_or_finalize_unstarted_rdb_dispatch env i wid w (j_metadata j) d s of
        (Inr None, s1) \<Rightarrow> (Inl (disp_error (RuntimeError reason)), s1)
      | r \<Rightarrow> r)"

definition run_rdb_job ::
  "'c disp_env \<Rightarrow> job \<Rightarrow> job_id \<Rightarrow> job_data \<Rightarrow> worker_data \<Rightarrow> 'c app_state \<Rightarrow> ('c, job_result option) disp_result" where
  "run_rdb_job env j i d w s =
     (case run_and_identify env w j i d s of
        (Inl e, s1) \<Rightarrow> (Inl e, s1)
      | (Inr (r, has_stream), s1) \<Rightarrow>
          (case process_and_wait env i r has_stream w False s1 of
             (Inl e, s2) \<Rightarrow> (Inl e, s2)
           | (Inr r', s2) \<Rightarrow> (Inr (Some r'), s2)))"

text \<open>Without a session the row is grabbed and nothing is recorded of the execution.\<close>

definition execute_unrecorded ::
  "'c disp_env \<Rightarrow> job \<Rightarrow> job_id \<Rightarrow> job_data \<Rightarrow> worker_data \<Rightarrow> 'c app_state \<Rightarrow> ('c, job_result option) disp_result" where
  "execute_unrecorded env j i d w s =
     (case grab_row env i d s of
        (Inl e, s1) \<Rightarrow> (Inl e, s1)
      | (Inr False, s1) \<Rightarrow> (Inr None, s1)
      | (Inr True, s1) \<Rightarrow> run_rdb_job env j i d w s1)"

definition dispatch_start :: "start_permit \<Rightarrow> job_id \<Rightarrow> worker_id \<Rightarrow> worker_data \<Rightarrow> job_data \<Rightarrow> rdb_dispatch_start" where
  "dispatch_start permit i wid w d =
     \<lparr>ds_job_id = i, ds_worker_id = wid, ds_worker_instance_id = pm_instance_id permit,
      ds_channel = w_channel w, ds_priority = jd_priority d, ds_enqueue_time = jd_enqueue_time d,
      ds_is_streamable = (jd_streaming_type d \<noteq> 0),
      ds_broadcast_results = rj_broadcast_results (resolve_job_params w (jd_overrides d)),
      ds_timeout = Some (jd_timeout d),
      ds_original_grabbed_until_time = unwrap_or (jd_grabbed_until_time d) 0\<rparr>"

text \<open>The texts of the two errors that are not the database's own.\<close>

definition dispatch_failure_error :: "dispatch_failure \<Rightarrow> any_error" where
  "dispatch_failure_error e =
     any_of_message (case e of
         TimeoutOutOfRange \<Rightarrow> ''out of range integral type conversion attempted''
       | RowNotFound \<Rightarrow> ''no rows returned by a query that expected to return at least one row'')"

text \<open>With a session the grab and the record of the execution are one transaction.\<close>

definition grab_recorded ::
  "'c disp_env \<Rightarrow> start_permit \<Rightarrow> job_id \<Rightarrow> worker_id \<Rightarrow> worker_data \<Rightarrow> job_data \<Rightarrow> 'c app_state \<Rightarrow>
     ('c, rdb_dispatch_execution option) disp_result" where
  "grab_recorded env permit i wid w d s =
     (case ae_fails (dp_app env) AcDispatch of
        Some e \<Rightarrow> (Inl (disp_error e), s)
      | None \<Rightarrow>
          (case grab_and_mark_running (ae_now (dp_app env) 7) (dispatch_start permit i wid w d) (ap_db s) of
             (r, db) \<Rightarrow> (map_sum (DpError \<circ> dispatch_failure_error) id r, s\<lparr>ap_db := db\<rparr>)))"

definition release_isolated ::
  "'c disp_env \<Rightarrow> rdb_dispatch_execution \<Rightarrow> job \<Rightarrow> job_id \<Rightarrow> job_data \<Rightarrow> worker_id \<Rightarrow> worker_data \<Rightarrow> 'c app_state \<Rightarrow>
     ('c, job_result option) disp_result" where
  "release_isolated env x j i d wid w s =
     (case ae_fails (dp_app env) AcRelease of
        Some e \<Rightarrow> (Inl (disp_error e), s)
      | None \<Rightarrow>
          (case release_unstarted_dispatch (ae_now (dp_app env) 8) x (ap_db s) of
             (claim_outcome.Conflict, db) \<Rightarrow>
               (Inl (DpError (any_of_message
                  (''lost RDB execution before releasing isolated job: '' @ show_int i))), s\<lparr>ap_db := db\<rparr>)
           | (Claimed, db) \<Rightarrow>
               refuse_unstarted env
                 ''worker instance was isolated before RDB runner start; RDB job was requeued''
                 j i d wid w (s\<lparr>ap_db := db\<rparr>)))"

definition execute_recorded ::
  "'c disp_env \<Rightarrow> start_permit \<Rightarrow> session \<Rightarrow> job \<Rightarrow> job_id \<Rightarrow> job_data \<Rightarrow> worker_id \<Rightarrow> worker_data \<Rightarrow>
     'c app_state \<Rightarrow> ('c, job_result option) disp_result" where
  "execute_recorded env permit session j i d wid w s =
     (case grab_recorded env permit i wid w d s of
        (Inl e, s1) \<Rightarrow> (Inl e, s1)
      | (Inr None, s1) \<Rightarrow> (Inr None, s1)
      | (Inr (Some x), s1) \<Rightarrow>
          let s2 = dp_starting env s1
          in if confirm_start (dp_instant env 1) permit (dp_session_during env session)
             then run_rdb_job env j i d w s2
             else release_isolated env x j i d wid w s2)"

text \<open>The permit is dropped when the function returns, whatever it returns.\<close>

definition execute_from_rdb ::
  "'c disp_env \<Rightarrow> job \<Rightarrow> job_id \<Rightarrow> job_data \<Rightarrow> worker_id \<Rightarrow> worker_data \<Rightarrow> session option \<Rightarrow> 'c app_state \<Rightarrow>
     ('c, job_result option) disp_result \<times> session option" where
  "execute_from_rdb env j i d wid w session s =
     (case session of
        None \<Rightarrow> (execute_unrecorded env j i d w s, None)
      | Some ss \<Rightarrow>
          (case acquire_start_permit (dp_instant env 0) ss of
             (None, ss1) \<Rightarrow>
               (refuse_unstarted env ''worker instance is isolated; RDB job remains pending'' j i d wid w s,
                Some ss1)
           | (Some permit, ss1) \<Rightarrow>
               (execute_recorded env permit ss1 j i d wid w s,
                Some (snd (drop_permit permit (dp_session_returning env (dp_session_during env ss1)))))))"

definition rdb_process_job ::
  "'c disp_env \<Rightarrow> job \<Rightarrow> session option \<Rightarrow> 'c app_state \<Rightarrow>
     ('c, job_result option) disp_result \<times> session option" where
  "rdb_process_job env j session s =
     (case (j_id j, j_data j) of
        (Some i, Some d) \<Rightarrow>
          (case lookup_runner env d of
             Inl f \<Rightarrow> ((Inl f, s), session)
           | Inr (wid, w, _) \<Rightarrow>
               (case check_rdb_cancellation_status env i wid w (j_metadata j) d s of
                  (Inl e, s1) \<Rightarrow> ((Inl e, s1), session)
                | (Inr el, s1) \<Rightarrow>
                    (case resolve_dispatch_preflight env el w i s1 of
                       (Inl e, s2) \<Rightarrow> ((Inl e, s2), session)
                     | (Inr PfSkip, s2) \<Rightarrow> ((Inr None, s2), session)
                     | (Inr (PfCompleted r), s2) \<Rightarrow> ((Inr (Some r), s2), session)
                     | (Inr PfExecute, s2) \<Rightarrow> execute_from_rdb env j i d wid w session s2)))
      | _ \<Rightarrow> ((Inl (disp_error (InvalidParameter ''job data is strange: '')), s), session))"

definition find_worker_ids_by_channel :: "'c disp_env \<Rightarrow> string \<Rightarrow> job_worker_error + worker_id list" where
  "find_worker_ids_by_channel env channel =
     map_sum id
       (\<lambda>ws. List.map_filter wk_id
         (filter (\<lambda>w. case wk_data w of None \<Rightarrow> False
            | Some d \<Rightarrow> unwrap_or (w_channel d) DEFAULT_CHANNEL_NAME = channel) ws)) (dp_workers env)"

text \<open>
  One tick for a channel.  Its jobs are processed one after the other here; the tasks of the
  dispatcher interleave them, which for each of them is the interference of the environment.
\<close>

definition rdb_pop_and_execute ::
  "'c disp_env \<Rightarrow> u32 \<Rightarrow> string \<times> u32 \<Rightarrow> session option \<Rightarrow> 'c app_state \<Rightarrow> 'c app_state \<times> session option" where
  "rdb_pop_and_execute env fetch_interval pair session s =
     (case find_worker_ids_by_channel env (fst pair) of
        Inl _ \<Rightarrow> (s, session)
      | Inr [] \<Rightarrow> (s, session)
      | Inr ids \<Rightarrow>
          fold (\<lambda>j (s, session). case rdb_process_job env j session s of ((_, s1), session1) \<Rightarrow> (s1, session1))
            (fetch_jobs_to_process (ae_now (dp_app env) 4) 0 (snd pair) ids fetch_interval True (ap_db s))
            (s, session))"

end
