(* ===== verification/Dispatch_Safety.thy ===== *)
theory Dispatch_Safety
  imports Dispatcher
begin

text \<open>
  Safety of the dispatchers: an attempt of a job is started at most once however often it is
  delivered, a cancelled job is not started, and dispatching keeps the invariant of the
  application.
\<close>

section \<open>What the processing of a result does\<close>

text \<open>
  A relation between the states before and after a processing, for any outcome.
\<close>

definition moves :: "('s pstate \<Rightarrow> 's pstate \<Rightarrow> bool) \<Rightarrow> ('s, 'a) proc \<Rightarrow> bool" where
  "moves R m \<longleftrightarrow> (\<forall>s. R s (snd (m s)))"

named_theorems moves_rules \<open>how the combinators of the processor move\<close>

lemma moves_bindP:
  assumes "transp R" "moves R m" "\<And>x s s1. m s = (Inr x, s1) \<Longrightarrow> moves R (f x)"
  shows "moves R (bindP m f)"
  unfolding moves_def
proof
  fix s
  obtain r s1 where m: "m s = (r, s1)" by (rule prod.exhaust)
  have "R s s1" using assms(2) m unfolding moves_def by (metis snd_conv)
  moreover have "R s1 (snd (f x s1))" if "r = Inr x" for x
    using assms(3) m that unfolding moves_def by blast
  ultimately show "R s (snd (bindP m f s))"
    using assms(1) m by (cases r) (auto simp: bindP_def dest: transpD)
qed

lemma moves_pure [moves_rules]:
  assumes "reflp R"
  shows "moves R (returnP x)" "moves R (failP e)" "moves R (liftR r)" "moves R (liftP p)"
  using assms by (auto simp: moves_def liftR_def liftP_def reflpD split: sum.split)

lemma moves_attempt: "moves R m \<Longrightarrow> moves R (attempt m)"
  by (auto simp: moves_def attempt_def split: prod.split sum.split rp_failure.split) (metis snd_conv)+

lemma moves_call: "(\<And>s. R s (s\<lparr>ps_log := ps_log s @ [ef]\<rparr>)) \<Longrightarrow> moves R (call ef a)"
  by (cases a) (auto simp: moves_def call_def)

lemma moves_find: "(\<And>s. R s (s\<lparr>ps_repo := rpe_others env k (ps_repo s)\<rparr>)) \<Longrightarrow> moves R (repo_find env k i)"
  by (auto simp: moves_def repo_find_def Let_def split: option.split)

lemma moves_cas:
  assumes "\<And>s. R s (s\<lparr>ps_repo := rpe_others env k (ps_repo s)\<rparr>)"
    "\<And>s. R s (s\<lparr>ps_repo := snd (rpe_cas env (rpe_others env k (ps_repo s)) i x y)\<rparr>)"
  shows "moves R (repo_cas env k i x y)"
  using assms by (auto simp: moves_def repo_cas_def Let_def split: option.split prod.split) (metis snd_conv)

text \<open>The calls that the result \<open>d\<close> of a run under \<open>w\<close> can lead to.\<close>

definition follows :: "job_result_data \<Rightarrow> worker_data \<Rightarrow> rp_effect \<Rightarrow> bool" where
  "follows d w ef =
     (case ef of
        EfComplete _ d' _ \<Rightarrow> jr_job_id d' = jr_job_id d
      | EfUpdateJob j \<Rightarrow> j_id j = jr_job_id d \<and> map_option jd_retried (j_data j) = Some (jr_retried d + 1)
      | EfEnqueue _ _ \<Rightarrow> w_periodic_interval w \<noteq> 0
      | EfDeleteTemp _ \<Rightarrow> True
      | EfStore _ _ _ \<Rightarrow> True
      | EfReplace _ _ _ \<Rightarrow> False)"

text \<open>
  What the accesses of the processing do to the repository is within \<open>R\<close>; its only write is the
  compare-and-set that publishes the next attempt.
\<close>

definition allows :: "('s \<Rightarrow> 's \<Rightarrow> bool) \<Rightarrow> 's rp_env \<Rightarrow> job_result_data \<Rightarrow> bool" where
  "allows R env d \<longleftrightarrow> reflp R \<and> transp R \<and> (\<forall>k st. R st (rpe_others env k st)) \<and>
     (\<forall>i cur st. jr_job_id d = Some i \<longrightarrow> sr_retried cur = jr_retried d \<longrightarrow>
        R st (snd (rpe_cas env st i (Some cur) (Some \<lparr>sr_status = JpsPending, sr_retried = jr_retried d + 1\<rparr>))))"

definition advance :: "('s \<Rightarrow> 's \<Rightarrow> bool) \<Rightarrow> job_result_data \<Rightarrow> worker_data \<Rightarrow> 's pstate \<Rightarrow> 's pstate \<Rightarrow> bool" where
  "advance R d w s s' \<longleftrightarrow>
     R (ps_repo s) (ps_repo s') \<and> (\<exists>es. ps_log s' = ps_log s @ es \<and> list_all (follows d w) es)"

lemma advance_refl: "reflp R \<Longrightarrow> reflp (advance R d w)"
  by (auto simp: advance_def reflp_def)

lemma advance_trans: "transp R \<Longrightarrow> transp (advance R d w)"
  by (fastforce simp: advance_def transp_def)

lemma allows_rules:
  assumes "allows R env d"
  shows "moves (advance R d w) (returnP x)" "moves (advance R d w) (failP e)"
    "moves (advance R d w) (liftR r)" "moves (advance R d w) (liftP p)"
    "moves (advance R d w) (repo_find env k i)"
    "follows d w ef \<Longrightarrow> moves (advance R d w) (call ef a)"
    "moves (advance R d w) m \<Longrightarrow> (\<And>x s s1. m s = (Inr x, s1) \<Longrightarrow> moves (advance R d w) (f x)) \<Longrightarrow>
      moves (advance R d w) (bindP m f)"
proof -
  have R: "reflp R" "transp R" "\<And>k st. R st (rpe_others env k st)" using assms by (auto simp: allows_def)
  show "moves (advance R d w) (returnP x)" "moves (advance R d w) (failP e)"
    "moves (advance R d w) (liftR r)" "moves (advance R d w) (liftP p)"
    by (rule moves_pure [OF advance_refl [OF R(1)]])+
  show "moves (advance R d w) (repo_find env k i)" using R by (intro moves_find) (simp add: advance_def)
  show "follows d w ef \<Longrightarrow> moves (advance R d w) (call ef a)"
    using R by (intro moves_call) (simp add: advance_def reflpD)
  show "moves (advance R d w) m \<Longrightarrow> (\<And>x s s1. m s = (Inr x, s1) \<Longrightarrow> moves (advance R d w) (f x)) \<Longrightarrow>
      moves (advance R d w) (bindP m f)"
    by (rule moves_bindP [OF advance_trans [OF R(2)]])
qed

text \<open>The data that is processed keeps the job and the attempt of the result.\<close>

definition same_attempt :: "job_result_data \<Rightarrow> job_result_data \<Rightarrow> bool" where
  "same_attempt d d' \<longleftrightarrow> jr_job_id d' = jr_job_id d \<and> jr_retried d' = jr_retried d"

lemma same_marked: "mark_retry_cancelled ts d' = Inr d'' \<Longrightarrow> same_attempt d d' \<Longrightarrow> same_attempt d d''"
  by (auto simp: mark_retry_cancelled_def bindE_eq_Inr same_attempt_def)

lemma move_cancel:
  "allows R env d \<Longrightarrow> moves (advance R d w) (cancel_retryable_result_if_requested env d')"
  unfolding cancel_retryable_result_if_requested_def
  by (auto intro!: allows_rules split: option.split)

lemma cancel_same:
  "cancel_retryable_result_if_requested env d' s = (Inr d'', s') \<Longrightarrow> same_attempt d d' \<Longrightarrow> same_attempt d d''"
  by (auto simp: cancel_retryable_result_if_requested_def bindP_Inr same_marked split: if_splits option.splits)

lemma move_claim:
  assumes R: "allows R env d" and "same_attempt d d'" "jr_job_id d' = Some i" "jd_retried nd = jr_retried d' + 1"
    "sr_retried cur = jr_retried d'"
  shows "moves (advance R d w) (claim_for_retry env d' i nd cur)"
proof -
  have "R st (snd (rpe_cas env (rpe_others env 2 st) i (Some cur)
      (Some \<lparr>sr_status = JpsPending, sr_retried = jd_retried nd\<rparr>)))" for st
    using assms unfolding allows_def same_attempt_def by (metis transpD)
  then have "moves (advance R d w) (repo_cas env 2 i (Some cur)
      (Some \<lparr>sr_status = JpsPending, sr_retried = jd_retried nd\<rparr>))"
    using R by (intro moves_cas) (simp_all add: advance_def allows_def)
  then show ?thesis
    unfolding claim_for_retry_def
    by (auto intro!: allows_rules [OF R] split: status_transition.split option.split)
qed

lemma move_transition:
  assumes R: "allows R env d" and "same_attempt d d'" "map_option jd_retried (j_data j) = Some (jr_retried d' + 1)"
  shows "moves (advance R d w) (transition_retry_to_pending_or_cancel env d' j)"
proof -
  have "moves (advance R d w) (claim_for_retry env d' i nd cur)"
    if "jr_job_id d' = Some i" "j_data j = Some nd" "retry_attempt_ownership_decision cur d' = None" for i nd cur
    using that assms by (intro move_claim)
      (auto simp: retry_attempt_ownership_decision_def retry_attempt_is_current_def split: if_splits)
  then show ?thesis
    unfolding transition_retry_to_pending_or_cancel_def
    by (auto intro!: allows_rules [OF R] split: option.split retry_transition_decision.split)
qed

text \<open>What a processing returns.\<close>

definition yields :: "('a \<Rightarrow> bool) \<Rightarrow> ('s, 'a) proc \<Rightarrow> bool" where
  "yields P m \<longleftrightarrow> (\<forall>s x s'. m s = (Inr x, s') \<longrightarrow> P x)"

lemma yields_rules:
  "P x \<Longrightarrow> yields P (returnP x)" "(\<And>x. yields P (f x)) \<Longrightarrow> yields P (bindP m f)"
  "(\<And>x. r = Inr x \<Longrightarrow> yields P (f x)) \<Longrightarrow> yields P (bindP (liftP r) f)"
  by (fastforce simp: yields_def bindP_Inr)+

lemma transition_yields:
  assumes "same_attempt d d'"
  shows "yields (\<lambda>(_, d''). same_attempt d d'') (transition_retry_to_pending_or_cancel env d' j)"
proof -
  have mark: "yields (\<lambda>(_, d''). same_attempt d d'') (bindP (liftP (mark_retry_cancelled ts d')) (\<lambda>d''. returnP (x, d'')))"
    for ts and x :: retry_transition_decision
    using assms by (intro yields_rules) (auto dest: same_marked)
  then show ?thesis
    using assms unfolding transition_retry_to_pending_or_cancel_def claim_for_retry_def
    by (auto intro!: mark yields_rules(1,2) split: option.split retry_transition_decision.split status_transition.split)
qed

lemma transition_same:
  "transition_retry_to_pending_or_cancel env d' j s = (Inr (x, d''), s') \<Longrightarrow> same_attempt d d' \<Longrightarrow>
     same_attempt d d''"
  using transition_yields unfolding yields_def by fastforce

lemma move_processing:
  assumes R: "allows R env d" and same: "same_attempt d d'"
  shows "moves (advance R d w) (process_complete_or_retry_condition env i d' has_stream w md)"
proof (cases "build_retry_job (rpe_float_ops env) d' w md")
  case (Some j)
  have j: "j_id j = jr_job_id d'" "map_option jd_retried (j_data j) = Some (jr_retried d' + 1)"
    using Some by (auto elim!: build_retry_job_Some)
  have done_ok: "follows d w (EfComplete i d'' has_stream)"
    if "attempt (transition_retry_to_pending_or_cancel env d' j) s = (Inr (Inr (x, d'')), s')" for x d'' s s'
    using that same by (auto simp: attempt_Inr follows_def same_attempt_def dest!: transition_same)
  show ?thesis
    unfolding process_complete_or_retry_condition_def Some option.case
    using j same done_ok
    by (auto intro!: allows_rules [OF R] moves_attempt move_transition [OF R]
        simp: follows_def same_attempt_def split: sum.split retry_transition_decision.split)
next
  case None
  have periodic: "follows d w (EfEnqueue pj x)" if "build_next_periodic_job (rpe_now env) d' w = Inr (Some pj)" for pj x
    using that by (auto simp: follows_def build_next_periodic_job_def)
  show ?thesis
    unfolding process_complete_or_retry_condition_def None option.case
    using same periodic
    by (auto intro!: allows_rules [OF R] moves_attempt simp: follows_def same_attempt_def liftP_def
        split: sum.split sum.splits option.split)
qed

lemma move_result:
  assumes "allows R env d" "jres_data jr = Some d"
  shows "moves (advance R d w) (process_result_inner env jr has_stream w load_only)"
proof -
  have "same_attempt d d" by (simp add: same_attempt_def)
  then have "same_attempt d d'" if "cancel_retryable_result_if_requested env d s = (Inr d', s')" for d' s s'
    using that by (auto dest: cancel_same)
  then show ?thesis
    using assms(2) unfolding process_result_inner_def
    by (auto intro!: allows_rules [OF assms(1)] move_cancel [OF assms(1)] move_processing [OF assms(1)]
        simp: Let_def follows_def same_attempt_def split: option.split)
qed

section \<open>Starts of an attempt\<close>

text \<open>
  The starts of attempt \<open>n\<close> of job \<open>i\<close>, and whether it can still be claimed.  Their sum never grows:
  a claim takes away what the start adds.
\<close>

definition starts :: "job_id \<Rightarrow> u32 \<Rightarrow> 'c app_state \<Rightarrow> nat" where
  "starts i n s = length (filter (\<lambda>ef. ef = RunnerStarted i n) (ap_log s))"

definition claimable :: "job_id \<Rightarrow> u32 \<Rightarrow> memory_store \<Rightarrow> bool" where
  "claimable i n st \<longleftrightarrow> mem_find_status_record st i = Some \<lparr>sr_status = JpsPending, sr_retried = n\<rparr>"

definition budget :: "job_id \<Rightarrow> u32 \<Rightarrow> 'c app_state \<Rightarrow> nat" where
  "budget i n s = starts i n s + (if claimable i n (ap_status s) then 1 else 0)"

lemma budget_same:
  "ap_status s' = ap_status s \<Longrightarrow> ap_log s' = ap_log s \<Longrightarrow> budget i n s' = budget i n s"
  by (simp add: budget_def starts_def)

lemma mem_find_cas:
  "mem_find_status_record (snd (mem_compare_and_set_status st k e x)) =
     (if mem_find_status_record st k = e then (mem_find_status_record st)(k := x) else mem_find_status_record st)"
  by (auto simp: mem_find_status_record_def mem_compare_and_set_status_def update_conv' delete_conv' fun_eq_iff
      split: option.split)

lemma mem_find_delete: "mem_find_status_record (snd (mem_delete_status st k)) = (mem_find_status_record st)(k := None)"
  by (auto simp: mem_find_status_record_def mem_delete_status_def delete_conv' fun_eq_iff)

lemma mem_cas_result:
  "fst (mem_compare_and_set_status st k e x) =
     (if mem_find_status_record st k = e then Applied else status_transition.Conflict (mem_find_status_record st k))"
  by (auto simp: mem_find_status_record_def mem_compare_and_set_status_def split: option.split)

lemma budget_clear: "budget i n (clear_status k s) \<le> budget i n s"
  by (auto simp: budget_def starts_def claimable_def clear_status_def mem_find_delete)

lemma budget_emit:
  "RunnerStarted i n \<notin> set l \<Longrightarrow> budget i n (s\<lparr>ap_log := ap_log s @ l\<rparr>) = budget i n s"
  by (auto simp: budget_def starts_def filter_empty_conv)

lemma budget_tables: "budget i n (on_tables f s) = budget i n s"
  by (rule budget_same) (auto simp: on_tables_def split: sum.split)

lemma update_job_fields:
  "ap_status (snd (update_job env j s)) = ap_status s" "ap_log (snd (update_job env j s)) = ap_log s"
proof -
  have retry: "ap_status (snd (enqueue_job_sync_enqueue_only env j w False RetryPublication s)) = ap_status s"
    "ap_log (snd (enqueue_job_sync_enqueue_only env j w False RetryPublication s)) = ap_log s" for w s
    by (auto simp: enqueue_job_sync_enqueue_only_def creates_status_def Let_def split: option.split sum.split prod.split)
  have "ap_status (snd (update_job env j s)) = ap_status s \<and> ap_log (snd (update_job env j s)) = ap_log s"
  proof (cases "\<exists>i d w. j_id j = Some i \<and> j_data j = Some d \<and> find_data_by_opt env (jd_worker_id d) = Inr (Some w)")
    case True
    then obtain i d w where j: "j_id j = Some i" "j_data j = Some d"
      "find_data_by_opt env (jd_worker_id d) = Inr (Some w)" by blast
    obtain r1 s1 where s1: "(if uses_rdb_queue (runs_later env d) w
          then on_db env AcUpsert (upsert_with_pending_status_reset (ae_index env) (ae_now env 3) i d) s
          else (Inr False, reset_index_to_pending_for_retry env i s)) = (r1, s1)"
      by (rule prod.exhaust)
    obtain r2 s2 where s2: "(if uses_chan_queue (runs_later env d) w
          then enqueue_job_sync_enqueue_only env j w False RetryPublication s1 else (Inr i, s1)) = (r2, s2)"
      by (rule prod.exhaust)
    have "ap_status s1 = ap_status s \<and> ap_log s1 = ap_log s"
      using s1 on_db_fields(3,4) by (auto split: if_splits)
    moreover have "ap_status s2 = ap_status s1 \<and> ap_log s2 = ap_log s1"
      using s2 retry [of w s1] by (auto split: if_splits)
    ultimately show ?thesis
      unfolding update_job_eq [OF j s1 s2] by (auto split: sum.split)
  next
    case False
    then show ?thesis by (auto simp: update_job_def Let_def split: option.split sum.split)
  qed
  then show "ap_status (snd (update_job env j s)) = ap_status s" "ap_log (snd (update_job env j s)) = ap_log s"
    by simp_all
qed

lemma budget_cleanup: "budget i n (snd (cleanup_job env k s)) \<le> budget i n s"
proof -
  have "ap_status (snd (delete_row env k x)) = ap_status x" "ap_log (snd (delete_row env k x)) = ap_log x" for x
    using delete_row_outcome(3,4) by (metis prod.collapse)+
  then show ?thesis
    unfolding cleanup_job_def snd_conv
    by (intro order_trans [OF budget_clear] eq_refl budget_same) simp_all
qed

lemma budget_complete: "budget i n (snd (complete_job env rid d has_stream s)) \<le> budget i n s"
proof -
  have "budget i n (snd (finish_response env rid d k b has_stream s)) \<le> budget i n s" for k b
  proof (cases has_stream)
    case True
    then show ?thesis by (simp add: finish_response_def Let_def budget_emit)
  next
    case False
    obtain r s2 where m: "spawn_end_marker_if_needed env d k (app_emit (PublishedResult rid d b) s) = (r, s2)"
      by (rule prod.exhaust)
    then have "budget i n s2 = budget i n s"
      by (auto simp: spawn_end_marker_if_needed_def budget_emit split: if_splits sum.splits panic.splits)
    then show ?thesis
      using False m budget_cleanup [of i n env k s2] by (cases r) (simp_all add: finish_response_def Let_def)
  qed
  then show ?thesis
    by (auto simp: complete_job_def budget_cleanup split: option.split response_type.split)
qed

lemma budget_update: "budget i n (snd (update_job env j s)) = budget i n s"
  by (rule budget_same) (simp_all add: update_job_fields)

lemma budget_effect:
  assumes "follows d w ef \<or> (\<exists>rid x y. ef = EfReplace rid x y)" "w_periodic_interval w = 0"
  shows "budget i n (run_effect env md ef s) \<le> budget i n s"
  using assms by (cases ef) (simp_all add: run_effect_def follows_def budget_complete budget_update budget_tables)

lemma budget_effects:
  assumes "\<forall>ef \<in> set efs. follows d w ef \<or> (\<exists>rid x y. ef = EfReplace rid x y)" "w_periodic_interval w = 0"
  shows "budget i n (fold (run_effect env md) efs s) \<le> budget i n s"
  using assms(1)
proof (induction efs arbitrary: s)
  case (Cons ef efs)
  then have "budget i n (fold (run_effect env md) efs (run_effect env md ef s)) \<le> budget i n (run_effect env md ef s)"
    by simp
  also have "\<dots> \<le> budget i n s" using Cons.prems assms(2) by (intro budget_effect) auto
  finally show ?case by simp
qed simp

text \<open>
  Nobody else makes the attempt claimable again, and the result is not one of the attempt before
  it.
\<close>

definition undisturbed :: "job_id \<Rightarrow> u32 \<Rightarrow> 'c disp_env \<Rightarrow> bool" where
  "undisturbed i n env \<longleftrightarrow> (\<forall>k st. claimable i n (ae_others (dp_app env) k st) \<longrightarrow> claimable i n st)"

definition not_preceding :: "job_id \<Rightarrow> u32 \<Rightarrow> job_result \<Rightarrow> bool" where
  "not_preceding i n jr \<longleftrightarrow>
     (\<forall>d. jres_data jr = Some d \<longrightarrow> jr_job_id d = Some i \<longrightarrow> jr_retried d + 1 \<noteq> n)"

lemma budget_process_on:
  assumes others: "undisturbed i n env" and own: "not_preceding i n jr" and once: "w_periodic_interval w = 0"
  shows "budget i n (snd (process_result_on env jr has_stream w load_only s)) \<le> budget i n s"
proof -
  let ?env = "standalone_rp_env env" and ?ps = "\<lparr>ps_repo = ap_status s, ps_log = []\<rparr>"
  obtain r ps where run: "process_result_inner ?env jr has_stream w load_only ?ps = (r, ps)"
    by (rule prod.exhaust)
  show ?thesis
  proof (cases "jres_data jr")
    case None
    then have "ps = ?ps" using run by (auto simp: process_result_inner_def split: option.splits)
    with run show ?thesis by (simp add: process_result_on_def)
  next
    case (Some d)
    let ?R = "\<lambda>st st'. claimable i n st' \<longrightarrow> claimable i n st"
    have "allows ?R ?env d"
      using others own Some
      by (auto simp: undisturbed_def not_preceding_def allows_def reflp_def transp_def standalone_rp_env_def claimable_def mem_find_cas split: if_splits)
    from move_result [OF this Some, where w = w and has_stream = has_stream and load_only = load_only]
    have "advance ?R d w ?ps ps" using run unfolding moves_def by (metis snd_conv)
    then have repo: "claimable i n (ps_repo ps) \<Longrightarrow> claimable i n (ap_status s)"
      and log: "\<forall>ef \<in> set (ps_log ps). follows d w ef" by (auto simp: advance_def list_all_iff)
    have "budget i n (snd (process_result_on env jr has_stream w load_only s)) \<le>
        budget i n (s\<lparr>ap_status := ps_repo ps\<rparr>)"
      using log once by (auto simp: process_result_on_def run intro!: budget_effects)
    also have "\<dots> \<le> budget i n s" using repo by (auto simp: budget_def starts_def)
    finally show ?thesis .
  qed
qed

lemma budget_process:
  assumes "undisturbed i n env" "not_preceding i n jr" and once: "w_periodic_interval w = 0"
  shows "budget i n (snd (process_and_wait env k jr has_stream w load_only s)) \<le> budget i n s"
proof -
  obtain r s1 where run: "process_result_on env jr has_stream w load_only s = (r, s1)" by (rule prod.exhaust)
  have s1: "budget i n s1 \<le> budget i n s"
    using budget_process_on [OF assms, of has_stream load_only s] run by simp
  have task: "budget i n (stream_task (dp_app env) k s1) \<le> budget i n s1"
    unfolding stream_task_def by (rule order_trans [OF budget_cleanup]) (simp add: budget_emit)
  have "budget i n (await_completion env md k has_stream c s1) \<le> budget i n s1" for md c
  proof (cases "c = NoReceiver \<or> \<not> has_stream")
    case False
    have settle: "budget i n (fold (run_effect env md) (settle_result_after_stream fs rid d items) x) \<le> budget i n x"
      for fs rid d items x
      using once by (intro budget_effects [where w = w and d = d])
        (auto simp: settle_result_after_stream_def split: option.splits stream_error_outcome.splits)
    with task False show ?thesis
      by (auto simp: await_completion_def Let_def split: completion.split intro: order_trans [OF settle task])
  qed (simp add: await_completion_def)
  then show ?thesis using s1 run
    by (auto simp: process_and_wait_def split: sum.split intro: order_trans)
qed

text \<open>The result of a run is one of the attempt that was run.\<close>

lemma run_job_attempt:
  assumes run: "run_job renv sr nr w j = Some (Inr out)"
    and live: "setup_cancellation_monitoring_if_supported renv = None"
    and d: "j_data j = Some d" and rd: "jres_data (ro_result out) = Some rd"
  shows "jr_retried rd = jd_retried d \<and> jr_job_id rd = j_id j"
proof -
  have failed: ?thesis if "failed_job e w j err slot = Inr out" for e err slot
    using that d rd by (auto simp: failed_job_def handle_error_option_def job_result_data_for_def
        build_job_result_def bindE_eq_Inr unwrap_or_def Let_def)
  have ran: ?thesis if r: "run_with_runner renv w j r pooled = Some (Inr out)" for r pooled
  proof (cases "set_sandbox_job_context r (j_id j)")
    case (Inl e)
    with r show ?thesis by (intro failed) (simp add: run_with_runner_def Let_def)
  next
    case (Inr u)
    have live': "setup_cancellation_monitoring_if_supported (renv\<lparr>env_name := ri_name r\<rparr>) = None"
      using live by (simp add: setup_cancellation_monitoring_if_supported_def)
    obtain st outc where inner: "run_job_inner (renv\<lparr>env_name := ri_name r\<rparr>) w j = Some (Inr (ro_result out, st, outc))"
      using r Inr by (auto simp: run_with_runner_def Let_def bindE_eq_Inr split: option.splits if_splits)
    show ?thesis using run_job_inner_fields(1,2) [OF inner live' d rd] by simp
  qed
  show ?thesis
    using run by (auto simp: run_job_def dest!: failed ran split: if_splits sum.splits option.splits)
qed

section \<open>Deliveries of one attempt\<close>

lemma budget_others:
  "undisturbed i n env \<Longrightarrow> budget i n (others_act (dp_app env) k s) \<le> budget i n s"
  by (auto simp: budget_def starts_def undisturbed_def)

lemma cancelled_eligibility:
  assumes "cancelled_dispatch_eligibility env i wid w md d = Inr el"
  shows "\<exists>rid e. el = DeCancelled (cancelled_dispatch_result env i wid w md d rid e)"
  using assms by (auto simp: cancelled_dispatch_eligibility_def split: sum.splits)

lemma check_outcome:
  assumes run: "check_cancellation_status env i wid w md d s = (r, s')" and free: "undisturbed i (jd_retried d) env"
  shows "budget i (jd_retried d) s' \<le> budget i (jd_retried d) s"
    and "r = Inr DeExecute \<Longrightarrow> starts i (jd_retried d) s' < budget i (jd_retried d) s \<and>
      \<not> claimable i (jd_retried d) (ap_status s')"
    and "r = Inr (DeCancelled res) \<Longrightarrow> \<exists>rid e. res = cancelled_dispatch_result env i wid w md d rid e"
proof -
  let ?n = "jd_retried d" and ?s1 = "others_act (dp_app env) 5 s"
  let ?s2 = "others_act (dp_app env) 6 ?s1"
  let ?run = "Some \<lparr>sr_status = JpsRunning, sr_retried = ?n\<rparr>"
  have le: "budget i ?n ?s1 \<le> budget i ?n s" "budget i ?n ?s2 \<le> budget i ?n s"
    using budget_others [OF free] by (auto intro: order_trans)
  have "budget i ?n s' \<le> budget i ?n s \<and>
      (r = Inr DeExecute \<longrightarrow> starts i ?n s' < budget i ?n s \<and> \<not> claimable i ?n (ap_status s')) \<and>
      (r = Inr (DeCancelled res) \<longrightarrow> (\<exists>rid e. res = cancelled_dispatch_result env i wid w md d rid e))"
  proof (cases "\<exists>c. status_of i ?s1 = Some c \<and> sr_retried c = ?n \<and> sr_status c = JpsPending")
    case True
    then obtain c where c: "status_of i ?s1 = Some c" "sr_retried c = ?n" "sr_status c = JpsPending" by blast
    obtain t st where cas: "mem_compare_and_set_status (ap_status ?s2) i (Some c) ?run = (t, st)" by (rule prod.exhaust)
    have find: "mem_find_status_record st i = (if status_of i ?s2 = Some c then ?run else status_of i ?s2)"
      and t: "t = (if status_of i ?s2 = Some c then Applied else status_transition.Conflict (status_of i ?s2))"
      using mem_find_cas [of "ap_status ?s2" i "Some c" ?run] mem_cas_result [of "ap_status ?s2" i "Some c" ?run] cas
      by simp_all
    have s': "s' = ?s2\<lparr>ap_status := st\<rparr>"
      using run c cas by (auto simp: check_cancellation_status_def check_cancellation_status_with_missing_status_def
          Let_def split: status_transition.splits)
    have "budget i ?n s' \<le> budget i ?n ?s2"
      using find by (auto simp: s' budget_def starts_def claimable_def split: if_splits)
    moreover have "starts i ?n s' < budget i ?n ?s2 \<and> \<not> claimable i ?n (ap_status s')" if "r = Inr DeExecute"
    proof -
      have "t = Applied"
        using that run c cas by (auto simp: check_cancellation_status_def
            check_cancellation_status_with_missing_status_def Let_def split: status_transition.splits if_splits
            dest!: cancelled_eligibility)
      then show ?thesis using t find c by (auto simp: s' budget_def starts_def claimable_def split: if_splits)
    qed
    moreover have "\<exists>rid e. res = cancelled_dispatch_result env i wid w md d rid e" if "r = Inr (DeCancelled res)"
      using that run c cas by (auto simp: check_cancellation_status_def
          check_cancellation_status_with_missing_status_def Let_def split: status_transition.splits if_splits
          dest!: cancelled_eligibility)
    ultimately show ?thesis using le(2) by auto
  next
    case False
    then have "s' = ?s1 \<and> r \<noteq> Inr DeExecute" using run
      by (auto simp: check_cancellation_status_def check_cancellation_status_with_missing_status_def Let_def
          dest!: cancelled_eligibility split: option.splits if_splits)
    moreover have "\<exists>rid e. res = cancelled_dispatch_result env i wid w md d rid e" if "r = Inr (DeCancelled res)"
      using that run False by (auto simp: check_cancellation_status_def
          check_cancellation_status_with_missing_status_def Let_def split: option.splits if_splits
          dest!: cancelled_eligibility)
    ultimately show ?thesis using le(1) by auto
  qed
  then show "budget i ?n s' \<le> budget i ?n s"
    and "r = Inr DeExecute \<Longrightarrow> starts i ?n s' < budget i ?n s \<and> \<not> claimable i ?n (ap_status s')"
    and "r = Inr (DeCancelled res) \<Longrightarrow> \<exists>rid e. res = cancelled_dispatch_result env i wid w md d rid e"
    by blast+
qed

text \<open>
  A delivery of the attempt under an environment that does not put the attempt back, for a worker
  without a period (a periodic job is enqueued again under its own id), and with no cancellation
  result prepared by the monitor of the runner.
\<close>

definition harmless :: "job_id \<Rightarrow> u32 \<Rightarrow> 'c disp_env \<Rightarrow> job \<Rightarrow> bool" where
  "harmless i n env j \<longleftrightarrow> undisturbed i n env \<and> (\<forall>s. budget i n (dp_during env s) \<le> budget i n s) \<and>
     setup_cancellation_monitoring_if_supported (dp_run_env env j) = None \<and>
     (\<forall>d wid w r. j_data j = Some d \<longrightarrow> lookup_runner env d = Inr (wid, w, r) \<longrightarrow> w_periodic_interval w = 0)"

lemma budget_index: "budget i n (index_dispatched env st k wid w d s) = budget i n s"
  by (auto simp: index_dispatched_def budget_tables split: option.split)

lemma claim_backup_fields:
  assumes "claim_backup env i w d s = (r, s')"
  shows "ap_status s' = ap_status s" "ap_log s' = ap_log s"
  using assms
  by (auto simp: claim_backup_def grab_row_def split: if_splits option.splits prod.splits sum.splits bool.splits)

lemma budget_wait_result:
  assumes "undisturbed i n env"
  shows "budget i n (mark_wait_result env k wid w d s) \<le> budget i n s"
proof -
  let ?s1 = "others_act (dp_app env) 8 s"
  have "budget i n (?s1\<lparr>ap_status := snd (mem_compare_and_set_status (ap_status ?s1) k
      (Some \<lparr>sr_status = JpsRunning, sr_retried = jd_retried d\<rparr>)
      (Some \<lparr>sr_status = JpsWaitResult, sr_retried = jd_retried d\<rparr>))\<rparr>) \<le> budget i n ?s1"
    by (auto simp: budget_def starts_def claimable_def mem_find_cas)
  also have "\<dots> \<le> budget i n s" using assms by (rule budget_others)
  finally show ?thesis by (simp add: mark_wait_result_def Let_def budget_index)
qed

lemma run_outcome:
  assumes env: "harmless i (jd_retried d) env j" and j: "j_data j = Some d"
    and run: "run_and_identify env w j i d s = (r, s')" and taken: "\<not> claimable i (jd_retried d) (ap_status s)"
  shows "budget i (jd_retried d) s' \<le> starts i (jd_retried d) s + 1"
    and "r = Inr (res, b) \<Longrightarrow> not_preceding i (jd_retried d) res"
proof -
  let ?n = "jd_retried d" and ?e = "app_emit (RunnerStarted i (jd_retried d)) s"
  have s': "s' = dp_during env ?e"
    using run by (auto simp: run_and_identify_def Let_def split: option.splits sum.splits)
  have "budget i ?n (dp_during env ?e) \<le> budget i ?n ?e" using env unfolding harmless_def by blast
  also have "\<dots> = starts i ?n s + 1" using taken by (simp add: budget_def starts_def)
  finally show "budget i ?n s' \<le> starts i ?n s + 1" by (simp add: s')
  assume "r = Inr (res, b)"
  then obtain out where out: "run_job (dp_run_env env j) (dp_static_runner env) (dp_runner env) w j = Some (Inr out)"
    and res: "jres_data res = jres_data (ro_result out)"
    using run by (auto simp: run_and_identify_def Let_def ensure_job_result_id_def bindE_eq_Inr
        split: option.splits sum.splits)
  have live: "setup_cancellation_monitoring_if_supported (dp_run_env env j) = None"
    using env by (simp add: harmless_def)
  show "not_preceding i ?n res"
    using run_job_attempt [OF out live j] res by (auto simp: not_preceding_def)
qed

lemma execute_outcome:
  assumes env: "harmless i (jd_retried d) env j" and j: "j_data j = Some d" and once: "w_periodic_interval w = 0"
    and taken: "\<not> claimable i (jd_retried d) (ap_status s)"
  shows "budget i (jd_retried d) (snd (execute_on_channel env j i d wid w s)) \<le> starts i (jd_retried d) s + 1"
proof -
  let ?n = "jd_retried d"
  have free: "undisturbed i ?n env" using env by (simp add: harmless_def)
  obtain r1 s1 where b: "claim_backup env i w d s = (r1, s1)" by (rule prod.exhaust)
  let ?s1 = "index_dispatched env JpsRunning i wid w d s1"
  have same: "ap_status ?s1 = ap_status s" "ap_log ?s1 = ap_log s"
    using claim_backup_fields [OF b] by (auto simp: index_dispatched_def on_tables_def split: option.split sum.split)
  obtain r2 s2 where run: "run_and_identify env w j i d ?s1 = (r2, s2)" by (rule prod.exhaust)
  have "\<not> claimable i ?n (ap_status ?s1)" using taken same by simp
  note out = run_outcome [OF env j run this]
  have s2: "budget i ?n s2 \<le> starts i ?n s + 1" using out(1) same by (simp add: starts_def)
  have "budget i ?n (snd (process_and_wait env i res b w False (mark_wait_result env i wid w d s2))) \<le> budget i ?n s2"
    if "r2 = Inr (res, b)" for res b
    by (rule order_trans [OF budget_process [OF free out(2) [OF that] once] budget_wait_result [OF free]])
  moreover have "budget i ?n s1 \<le> starts i ?n s + 1"
    using claim_backup_fields [OF b] taken by (simp add: budget_def starts_def)
  ultimately show ?thesis
    using s2 by (auto simp: execute_on_channel_def b run split: sum.split intro: order_trans)
qed

lemma preload_attempt:
  assumes "preload_runner renv l w j = Inr r" "j_data j = Some d"
  shows "not_preceding i (jd_retried d) r"
  using assms by (auto simp: preload_runner_def handle_error_option_def job_result_data_for_def build_job_result_def
      bindE_eq_Inr unwrap_or_def Let_def not_preceding_def split: sum.splits)

lemma preflight_outcome:
  assumes free: "undisturbed i n env" and once: "w_periodic_interval w = 0"
    and own: "\<forall>res. el = DeCancelled res \<longrightarrow> not_preceding i n res"
    and run: "resolve_dispatch_preflight env el w i s = (r, s')"
  shows "budget i n s' \<le> budget i n s" "r = Inr PfExecute \<Longrightarrow> el = DeExecute \<and> s' = s"
proof -
  have "budget i n (snd (process_and_wait env i res False w False s)) \<le> budget i n s" if "el = DeCancelled res" for res
    using free own that once by (intro budget_process) auto
  then show "budget i n s' \<le> budget i n s" and "r = Inr PfExecute \<Longrightarrow> el = DeExecute \<and> s' = s"
    using run by (fastforce simp: resolve_dispatch_preflight_def process_cancelled_dispatch_result_def
        split: dispatch_eligibility.splits prod.splits sum.splits)+
qed

lemma delivery_outcome:
  assumes env: "harmless i (jd_retried d) env j" and j: "j_id j = Some i" "j_data j = Some d"
  shows "budget i (jd_retried d) (snd (process_job env j load_only s)) \<le> budget i (jd_retried d) s"
proof (cases "lookup_runner env d")
  case (Inl f)
  then show ?thesis using j by (auto simp: process_job_def split: disp_failure.split)
next
  case (Inr found)
  let ?n = "jd_retried d"
  obtain wid w rd where found: "found = (wid, w, rd)" by (rule prod_cases3)
  have once: "w_periodic_interval w = 0" and free: "undisturbed i ?n env"
    using env j Inr found by (auto simp: harmless_def)
  show ?thesis
  proof (cases load_only)
    case True
    then show ?thesis
      using budget_process [OF free preload_attempt [OF _ j(2)] once] j Inr found
      by (auto simp: process_job_def split: sum.split)
  next
    case False
    obtain r1 s1 where c: "check_cancellation_status env i wid w (j_metadata j) d s = (r1, s1)" by (rule prod.exhaust)
    note check = check_outcome [OF c free]
    show ?thesis
    proof (cases r1)
      case (Inl e)
      then show ?thesis using False c check(1) j Inr found by (simp add: process_job_def)
    next
      case el: (Inr el)
      have own: "\<forall>res. el = DeCancelled res \<longrightarrow> not_preceding i ?n res"
        using check(3) el by (auto simp: not_preceding_def cancelled_dispatch_result_def Let_def)
      obtain r2 s2 where p: "resolve_dispatch_preflight env el w i s1 = (r2, s2)" by (rule prod.exhaust)
      note pre = preflight_outcome [OF free once own p]
      have s2: "budget i ?n s2 \<le> budget i ?n s" using pre(1) check(1) by (rule order_trans)
      have "budget i ?n (snd (execute_on_channel env j i d wid w s2)) \<le> budget i ?n s" if "r2 = Inr PfExecute"
      proof -
        have "starts i ?n s2 < budget i ?n s \<and> \<not> claimable i ?n (ap_status s2)"
          using pre(2) [OF that] check(2) el by simp
        then show ?thesis using execute_outcome [OF env j(2) once, of s2 wid] by simp
      qed
      then show ?thesis
        using False c el p s2 j Inr found
        by (auto simp: process_job_def split: sum.split dispatch_preflight.split)
    qed
  qed
qed

text \<open>
  C1: an attempt is started at most once.  However often attempt \<open>n\<close> of job \<open>i\<close> is delivered to
  the channel dispatchers, with any other tasks running between and beside the deliveries that do
  not put this attempt back to pending, its runner is started at most once, and not at all
  if the attempt could not be claimed to begin with.
\<close>

theorem attempt_runs_once:
  assumes "\<forall>p \<in> set deliveries. harmless i n (fst p) (snd p) \<and> j_id (snd p) = Some i \<and>
      map_option jd_retried (j_data (snd p)) = Some n"
  shows "starts i n (fold (\<lambda>p s. snd (process_deque_job (fst p) (Inr (snd p, load_only)) s)) deliveries s) \<le>
     starts i n s + (if claimable i n (ap_status s) then 1 else 0)"
proof -
  have one: "budget i n (snd (process_deque_job env (Inr (j, load_only)) x)) \<le> budget i n x"
    if "harmless i n env j" "j_id j = Some i" "map_option jd_retried (j_data j) = Some n" for env j x
  proof -
    from that(3) obtain d where d: "j_data j = Some d" "jd_retried d = n" by auto
    obtain r x1 where run: "process_job env j load_only x = (r, x1)" by (rule prod.exhaust)
    have "budget i n x1 \<le> budget i n x" using delivery_outcome [of i d env j load_only x] that d run by simp
    moreover have "budget i n (cleanup_failed_job_status env i x1) \<le> budget i n x1"
      unfolding cleanup_failed_job_status_def
      by (rule order_trans [OF eq_refl [OF budget_same] budget_clear]) simp_all
    ultimately show ?thesis
      using that(2) by (auto simp: process_deque_job_def run split: sum.split disp_failure.split)
  qed
  have "budget i n (fold (\<lambda>p s. snd (process_deque_job (fst p) (Inr (snd p, load_only)) s)) deliveries s) \<le> budget i n s"
    using assms
  proof (induction deliveries arbitrary: s)
    case (Cons p ps)
    then have "budget i n (fold (\<lambda>p s. snd (process_deque_job (fst p) (Inr (snd p, load_only)) s)) ps
        (snd (process_deque_job (fst p) (Inr (snd p, load_only)) s))) \<le>
        budget i n (snd (process_deque_job (fst p) (Inr (snd p, load_only)) s))" by simp
    also have "\<dots> \<le> budget i n s" using Cons.prems by (intro one) auto
    finally show ?case by simp
  qed simp
  then show ?thesis by (simp add: budget_def)
qed

section \<open>The invariant of the application\<close>

text \<open>The tables only advance, and the rest of the state stays within the invariant.\<close>

definition progresses :: "'c app_state \<Rightarrow> 'c app_state \<Rightarrow> bool" where
  "progresses s s' \<longleftrightarrow> advances (ap_db s) (ap_db s') \<and> (app_ok s \<longrightarrow> app_ok s')"

lemma progresses_refl [simp]: "progresses s s"
  by (simp add: progresses_def)

lemma progresses_trans [trans]: "progresses a b \<Longrightarrow> progresses b c \<Longrightarrow> progresses a c"
  unfolding progresses_def using advances_trans by blast

lemma evolves_progresses: "evolves s s' \<Longrightarrow> progresses s s'"
  by (simp add: evolves_def progresses_def index_steps_advance)

lemma progresses_step: "index_step (ap_db s) db \<Longrightarrow> progresses s (s\<lparr>ap_db := db\<rparr>)"
  by (intro evolves_progresses evolves_step r_into_rtranclp)

lemma progresses_status:
  "(mem_invar (ap_status s) \<Longrightarrow> mem_invar st) \<Longrightarrow> progresses s (s\<lparr>ap_status := st\<rparr>)"
  by (simp add: progresses_def app_ok_def)

text \<open>Other tasks keep it too.\<close>

definition disp_env_ok :: "'c disp_env \<Rightarrow> bool" where
  "disp_env_ok env \<longleftrightarrow> env_ok (dp_app env) \<and> (\<forall>s. progresses s (dp_during env s)) \<and>
     (\<forall>s. progresses s (dp_starting env s))"

lemma progresses_others: "disp_env_ok env \<Longrightarrow> progresses s (others_act (dp_app env) k s)"
  unfolding disp_env_ok_def by (auto intro: evolves_progresses evolves_others)

lemma progresses_results:
  assumes "\<And>db db'. f db = Inr db' \<Longrightarrow> db_jobs db' = db_jobs db \<and> db_status db' = db_status db"
  shows "progresses s (on_tables f s)"
proof -
  have "advances db db'" if "f db = Inr db'" for db db'
    using assms [OF that] by (auto simp: advances_def keys_ok_def status_row_of_def)
  then show ?thesis
    by (auto simp: on_tables_def progresses_def app_ok_def split: sum.split)
qed

lemma map_sum_Inr: "map_sum f g x = Inr y \<longleftrightarrow> (\<exists>z. x = Inr z \<and> y = g z)"
  by (cases x) auto

lemma progresses_effect:
  assumes "disp_env_ok env"
  shows "progresses s (run_effect env md ef s)"
proof (cases ef)
  case (EfComplete rid d b)
  then show ?thesis by (auto simp: run_effect_def intro!: evolves_progresses snd_evolves elim: evolves_complete)
next
  case (EfUpdateJob j)
  then show ?thesis by (auto simp: run_effect_def intro!: evolves_progresses snd_evolves elim: evolves_update)
next
  case (EfEnqueue pj i)
  have "env_ok (dp_app env)" using assms by (simp add: disp_env_ok_def)
  then show ?thesis using EfEnqueue
    by (auto simp: run_effect_def app_enqueue_job_def intro!: evolves_progresses snd_evolves elim: evolves_enqueue
        split: sum.splits option.splits)
next
  case (EfStore rid d b)
  then show ?thesis
    by (auto simp: run_effect_def create_job_result_if_necessary_def result_create_def bindE_eq_Inr map_sum_Inr Let_def
        intro!: progresses_results split: if_splits)
next
  case (EfReplace rid d d')
  then show ?thesis
    by (auto simp: run_effect_def replace_stored_result_def result_create_def result_update_def result_delete_def
        result_delete_tx_def bindE_eq_Inr Let_def intro!: progresses_results split: if_splits option.split)
qed (simp add: run_effect_def)

lemma progresses_effects: "disp_env_ok env \<Longrightarrow> progresses s (fold (run_effect env md) efs s)"
  by (induction efs arbitrary: s) (auto intro: progresses_trans progresses_effect)

lemma progresses_process_on:
  assumes ok: "disp_env_ok env"
  shows "progresses s (snd (process_result_on env jr has_stream w load_only s))"
proof -
  let ?env = "standalone_rp_env env" and ?ps = "\<lparr>ps_repo = ap_status s, ps_log = []\<rparr>"
  let ?R = "\<lambda>st st'. mem_invar st \<longrightarrow> mem_invar st'"
  obtain r ps where run: "process_result_inner ?env jr has_stream w load_only ?ps = (r, ps)"
    by (rule prod.exhaust)
  have "mem_invar (ps_repo ps)" if "mem_invar (ap_status s)"
  proof (cases "jres_data jr")
    case None
    then show ?thesis using run that by (auto simp: process_result_inner_def split: option.splits)
  next
    case (Some d)
    have "allows ?R ?env d"
      using ok mem.invar_cas
      by (auto simp: allows_def reflp_def transp_def standalone_rp_env_def disp_env_ok_def env_ok_def)
    from move_result [OF this Some, where w = w and has_stream = has_stream and load_only = load_only]
    have "advance ?R d w ?ps ps" using run unfolding moves_def by (metis snd_conv)
    then show ?thesis using that by (simp add: advance_def)
  qed
  then show ?thesis
    using progresses_trans [OF progresses_status progresses_effects [OF ok]] run by (simp add: process_result_on_def)
qed

lemma progresses_process:
  assumes ok: "disp_env_ok env"
  shows "progresses s (snd (process_and_wait env k jr has_stream w load_only s))"
proof -
  have task: "progresses x (stream_task (dp_app env) k x)" for x
    by (intro evolves_progresses evolves_stream_task)
  have "progresses x (await_completion env md k has_stream c x)" for md c x
    using progresses_trans [OF task progresses_effects [OF ok]] task
    by (auto simp: await_completion_def Let_def split: completion.split)
  then show ?thesis
    using progresses_process_on [OF ok, of s jr has_stream w load_only]
    by (auto simp: process_and_wait_def split: prod.split sum.split intro: progresses_trans)
qed

text \<open>A step that has been taken from \<open>s\<close> on.\<close>

lemma progresses_after:
  assumes "disp_env_ok env"
  shows "progresses s a \<Longrightarrow> progresses s (others_act (dp_app env) n a)"
    "progresses s a \<Longrightarrow> progresses s (a\<lparr>ap_status := snd (mem_compare_and_set_status (ap_status a) i x y)\<rparr>)"
    "progresses s a \<Longrightarrow> progresses s (index_dispatched env st i wid w d a)"
    "progresses s a \<Longrightarrow> progresses s (app_emit ef a)"
    "progresses s a \<Longrightarrow> progresses s (dp_during env a)"
    "progresses s a \<Longrightarrow> progresses s (dp_starting env a)"
proof -
  have "progresses a (others_act (dp_app env) n a)" by (rule progresses_others [OF assms])
  then show "progresses s a \<Longrightarrow> progresses s (others_act (dp_app env) n a)" by (metis progresses_trans)
  have "progresses a (a\<lparr>ap_status := snd (mem_compare_and_set_status (ap_status a) i x y)\<rparr>)"
    by (intro progresses_status mem.invar_cas)
  then show "progresses s a \<Longrightarrow> progresses s (a\<lparr>ap_status := snd (mem_compare_and_set_status (ap_status a) i x y)\<rparr>)"
    by (metis progresses_trans)
  have "progresses a (index_dispatched env st i wid w d a)"
    by (auto simp: index_dispatched_def on_tables_def index_status_def intro!: progresses_step index_step.index
        split: option.split sum.splits)
  then show "progresses s a \<Longrightarrow> progresses s (index_dispatched env st i wid w d a)" by (metis progresses_trans)
  have "progresses a (app_emit ef a)" by (intro evolves_progresses evolves_parts)
  then show "progresses s a \<Longrightarrow> progresses s (app_emit ef a)" by (metis progresses_trans)
  have "progresses a (dp_during env a)" "progresses a (dp_starting env a)" using assms by (auto simp: disp_env_ok_def)
  then show "progresses s a \<Longrightarrow> progresses s (dp_during env a)" "progresses s a \<Longrightarrow> progresses s (dp_starting env a)"
    by (metis progresses_trans)+
qed

text \<open>A step that may fail, and what is done with its answer.\<close>

lemma progresses_then:
  assumes "progresses s (snd p)" "\<And>x a. progresses s a \<Longrightarrow> progresses s (snd (f x a))"
  shows "progresses s (snd (case p of (Inl e, a) \<Rightarrow> (Inl e, a) | (Inr x, a) \<Rightarrow> f x a))"
  using assms by (cases p) (auto split: sum.split)

lemma progresses_check:
  assumes "disp_env_ok env"
  shows "progresses s (snd (check_cancellation_status_with_missing_status env i wid w md d b s))"
proof -
  let ?s1 = "others_act (dp_app env) 5 s"
  let ?s2 = "others_act (dp_app env) 6 ?s1"
  have s1: "progresses s ?s1" by (rule progresses_others [OF assms])
  then have s2: "progresses s ?s2" by (rule progresses_after(1) [OF assms])
  have cas: "progresses s (?s2\<lparr>ap_status := st\<rparr>)"
    if "mem_compare_and_set_status (ap_status ?s2) i x y = (t, st)" for x y t st
    using progresses_after(2) [OF assms s2, of i x y] that by simp
  show ?thesis
    using s1 cas by (auto simp: check_cancellation_status_with_missing_status_def Let_def
        split: option.split prod.split status_transition.split)
qed

lemma progresses_preflight:
  assumes "disp_env_ok env"
  shows "progresses s (snd (resolve_dispatch_preflight env el w i s))"
proof (cases el)
  case (DeCancelled r)
  show ?thesis
    unfolding resolve_dispatch_preflight_def DeCancelled dispatch_eligibility.case process_cancelled_dispatch_result_def
    by (rule progresses_then) (simp_all add: progresses_process [OF assms])
qed (simp_all add: resolve_dispatch_preflight_def)

lemma progresses_grab: "progresses s (snd (grab_row env i d s))"
proof -
  have "index_step (ap_db s) db" if "grab_job now k t orig (ap_db s) = (b, db)" for now k t orig b db
    using that index_step.grab [of "ap_db s" now k t orig] by (auto simp: grab_job_def Let_def split: prod.splits)
  then show ?thesis
    by (auto simp: grab_row_def split: option.split prod.split intro!: progresses_step)
qed

lemma progresses_run:
  assumes "disp_env_ok env"
  shows "progresses s (snd (run_and_identify env w j i d s))"
proof -
  have "progresses s (dp_during env (app_emit (RunnerStarted i (jd_retried d)) s))"
    by (intro progresses_after(4,5) [OF assms] progresses_refl)
  then show ?thesis by (auto simp: run_and_identify_def Let_def split: option.split sum.split)
qed

lemma progresses_chan_execute:
  assumes ok: "disp_env_ok env"
  shows "progresses s (snd (execute_on_channel env j i d wid w s))"
proof -
  obtain r1 s1 where b: "claim_backup env i w d s = (r1, s1)" by (rule prod.exhaust)
  have s1: "progresses s s1"
    using b progresses_grab [of s env i d]
    by (auto simp: claim_backup_def split: if_splits prod.splits sum.splits bool.splits)
  let ?s1 = "index_dispatched env JpsRunning i wid w d s1"
  obtain r2 s2 where run: "run_and_identify env w j i d ?s1 = (r2, s2)" by (rule prod.exhaust)
  have s2: "progresses s s2"
    using progresses_trans [OF progresses_after(3) [OF ok s1] progresses_run [OF ok]] run by (metis snd_conv)
  have wait: "progresses s (mark_wait_result env i wid w d s2)"
    unfolding mark_wait_result_def Let_def using s2 by (simp add: progresses_after(1,2,3) [OF ok] del: others_act_fields)
  have "progresses s (snd (process_and_wait env i res b w False (mark_wait_result env i wid w d s2)))" for res b
    by (rule progresses_trans [OF wait progresses_process [OF ok]])
  then show ?thesis using s1 s2 by (auto simp: execute_on_channel_def b run split: sum.split)
qed

lemma progresses_process_job:
  assumes ok: "disp_env_ok env"
  shows "progresses s (snd (process_job env j load_only s))"
proof (cases "\<exists>i d wid w r. j_id j = Some i \<and> j_data j = Some d \<and> lookup_runner env d = Inr (wid, w, r) \<and> \<not> load_only")
  case True
  then obtain i d wid w rd where j: "j_id j = Some i" "j_data j = Some d" "lookup_runner env d = Inr (wid, w, rd)"
    "\<not> load_only" by blast
  have check: "progresses s (snd (check_cancellation_status env i wid w (j_metadata j) d s))"
    unfolding check_cancellation_status_def by (rule progresses_check [OF ok])
  have "progresses s (snd (resolve_dispatch_preflight env el w i a))" if "progresses s a" for el a
    using that progresses_preflight [OF ok] by (rule progresses_trans)
  moreover have "progresses s (snd (execute_on_channel env j i d wid w a))" if "progresses s a" for a
    using that progresses_chan_execute [OF ok] by (rule progresses_trans)
  ultimately show ?thesis
    using j check by (auto simp: process_job_def intro!: progresses_then split: dispatch_preflight.split)
next
  case False
  then show ?thesis
    using progresses_process [OF ok]
    by (auto simp: process_job_def split: option.split sum.split disp_failure.split)
qed

lemma progresses_deque: "disp_env_ok env \<Longrightarrow> progresses s (snd (process_deque_job env val s))"
proof (cases val)
  case (Inr p)
  assume ok: "disp_env_ok env"
  obtain j lo where p: "p = (j, lo)" by (rule prod.exhaust)
  obtain r s1 where run: "process_job env j lo s = (r, s1)" by (rule prod.exhaust)
  have s1: "progresses s s1" using progresses_process_job [OF ok, of s j lo] run by simp
  have "evolves s1 (cleanup_failed_job_status env i s1)" for i
    unfolding cleanup_failed_job_status_def by (intro evolves_after evolves_refl)
  then have "progresses s (cleanup_failed_job_status env i s1)" for i
    using s1 by (metis evolves_progresses progresses_trans)
  then show ?thesis
    using s1 by (auto simp: process_deque_job_def Inr p run split: sum.split option.split disp_failure.split)
qed (simp add: process_deque_job_def)

lemma progresses_channel:
  assumes ok: "disp_env_ok env"
  shows "progresses s (snd (chan_pop_and_execute env channel s))"
proof -
  have "progresses s (snd (process_deque_job env val (s\<lparr>ap_queue := q\<rparr>)))" for val q
    by (rule progresses_trans [OF evolves_progresses [OF evolves_parts(5)] progresses_deque [OF ok]])
  then show ?thesis by (auto simp: chan_pop_and_execute_def split: prod.split)
qed

lemma progresses_restore:
  assumes ok: "disp_env_ok env"
  shows "progresses s (snd (restore_or_finalize_unstarted_rdb_dispatch env i wid w md d s))"
proof -
  let ?s1 = "others_act (dp_app env) 9 s"
  obtain o' s2 where r: "restore_pending_after_unstarted_rdb_dispatch env i (jd_retried d) s = (o', s2)"
    by (rule prod.exhaust)
  have "progresses s (?s1\<lparr>ap_status := snd (mem_compare_and_set_status (ap_status ?s1) i x y)\<rparr>)" for x y
    by (rule progresses_after(2) [OF ok progresses_others [OF ok]])
  then have "progresses s (?s1\<lparr>ap_status := st\<rparr>)"
    if "mem_compare_and_set_status (ap_status ?s1) i x y = (t, st)" for x y t st using that by (metis snd_conv)
  then have s2: "progresses s s2"
    using r by (auto simp: restore_pending_after_unstarted_rdb_dispatch_def Let_def
        split: prod.splits status_transition.splits)
  have check: "progresses s (snd (check_rdb_cancellation_status env i wid w md d s2))"
    unfolding check_rdb_cancellation_status_def by (rule progresses_trans [OF s2 progresses_check [OF ok]])
  have fin: "progresses s (snd (process_cancelled_dispatch_result env res w i a))" if "progresses s a" for res a
    unfolding process_cancelled_dispatch_result_def by (rule progresses_trans [OF that progresses_process [OF ok]])
  show ?thesis
    unfolding restore_or_finalize_unstarted_rdb_dispatch_def r prod.case
    using s2 check fin
    by (auto intro!: progresses_then split: unstarted_restore.split dispatch_eligibility.split)
qed

lemma progresses_refuse:
  assumes ok: "disp_env_ok env"
  shows "progresses s (snd (refuse_unstarted env reason j i d wid w s))"
  using progresses_restore [OF ok, of s i wid w "j_metadata j" d]
  by (cases "restore_or_finalize_unstarted_rdb_dispatch env i wid w (j_metadata j) d s")
    (auto simp: refuse_unstarted_def split: sum.split option.split)

lemma progresses_rdb_run:
  assumes ok: "disp_env_ok env" and s: "progresses s a"
  shows "progresses s (snd (run_rdb_job env j i d w a))"
proof -
  have run: "progresses s (snd (run_and_identify env w j i d a))"
    by (rule progresses_trans [OF s progresses_run [OF ok]])
  have proc: "progresses s (snd (process_and_wait env i r b w False x))" if "progresses s x" for r b x
    by (rule progresses_trans [OF that progresses_process [OF ok]])
  show ?thesis unfolding run_rdb_job_def
    by (rule progresses_then [OF run], rename_tac p x, case_tac p) (auto intro!: progresses_then proc)
qed

lemma progresses_recorded:
  assumes ok: "disp_env_ok env"
  shows "progresses s (snd (execute_recorded env permit ss j i d wid w s))"
proof -
  have "index_step (ap_db s) db" if "grab_and_mark_running now x (ap_db s) = (r, db)" for now x r db
    using index_step.dispatch [of "ap_db s" now x] that by simp
  then have grab: "progresses s (snd (grab_recorded env permit i wid w d s))"
    by (auto simp: grab_recorded_def split: option.split prod.split intro!: progresses_step)
  have release: "progresses s (snd (release_isolated env x j i d wid w a))" if a: "progresses s a" for x a
  proof -
    have "index_step (ap_db a) db" if "release_unstarted_dispatch now x (ap_db a) = (r, db)" for now r db
      using index_step.release [of "ap_db a" now x] that by simp
    then have db: "progresses s (a\<lparr>ap_db := db\<rparr>)" if "release_unstarted_dispatch now x (ap_db a) = (r, db)" for now r db
      using that progresses_trans [OF a progresses_step] by blast
    then have "progresses s (snd (refuse_unstarted env reason j i d wid w (a\<lparr>ap_db := db\<rparr>)))"
      if "release_unstarted_dispatch now x (ap_db a) = (r, db)" for reason now r db
      using progresses_trans [OF db [OF that] progresses_refuse [OF ok]] by blast
    with a db show ?thesis
      by (auto simp: release_isolated_def split: option.split prod.split claim_outcome.split)
  qed
  show ?thesis unfolding execute_recorded_def Let_def
    by (rule progresses_then [OF grab])
      (auto split: option.split intro!: progresses_rdb_run [OF ok] release progresses_after [OF ok])
qed

lemma progresses_rdb_job:
  assumes ok: "disp_env_ok env"
  shows "progresses s (snd (fst (rdb_process_job env j session s)))"
proof (cases "\<exists>i d wid w r. j_id j = Some i \<and> j_data j = Some d \<and> lookup_runner env d = Inr (wid, w, r)")
  case True
  then obtain i d wid w rd where j: "j_id j = Some i" "j_data j = Some d" "lookup_runner env d = Inr (wid, w, rd)"
    by blast
  have unrecorded: "progresses x (snd (execute_unrecorded env j i d w x))" for x
    unfolding execute_unrecorded_def
    by (rule progresses_then [OF progresses_grab]) (auto split: bool.split intro: progresses_rdb_run [OF ok])
  have execute: "progresses x (snd (fst (execute_from_rdb env j i d wid w session x)))" for x
    using unrecorded progresses_refuse [OF ok] progresses_recorded [OF ok]
    by (auto simp: execute_from_rdb_def split: option.split prod.split)
  obtain r1 s1 where c: "check_rdb_cancellation_status env i wid w (j_metadata j) d s = (r1, s1)" by (rule prod.exhaust)
  have s1: "progresses s s1"
    using progresses_check [OF ok, of s i wid w "j_metadata j" d True] c
    by (simp add: check_rdb_cancellation_status_def)
  show ?thesis
  proof (cases r1)
    case (Inr el)
    obtain r2 s2 where p: "resolve_dispatch_preflight env el w i s1 = (r2, s2)" by (rule prod.exhaust)
    have s2: "progresses s s2" using progresses_trans [OF s1 progresses_preflight [OF ok, of s1 el w i]] p by simp
    have "progresses s (snd (fst (execute_from_rdb env j i d wid w session s2)))"
      by (rule progresses_trans [OF s2 execute])
    then show ?thesis
      using s2 j c p Inr by (auto simp: rdb_process_job_def split: sum.split dispatch_preflight.split)
  qed (use s1 c j in \<open>simp add: rdb_process_job_def\<close>)
next
  case False
  then show ?thesis by (auto simp: rdb_process_job_def split: option.split sum.split)
qed

lemma progresses_tick:
  assumes ok: "disp_env_ok env"
  shows "progresses s (fst (rdb_pop_and_execute env interval pair session s))"
proof -
  let ?step = "\<lambda>j (s, session). case rdb_process_job env j session s of ((_, s1), session1) \<Rightarrow> (s1, session1)"
  have step: "progresses (fst p) (fst (?step j p))" for j p
    using progresses_rdb_job [OF ok, of "fst p" j "snd p"] by (auto split: prod.splits)
  have "progresses (fst p) (fst (fold ?step js p))" for js p
  proof (induction js arbitrary: p)
    case (Cons j js)
    then show ?case using progresses_trans [OF step Cons.IH] by simp
  qed simp
  from this [of "(s, session)"] show ?thesis
    by (auto simp: rdb_pop_and_execute_def split: sum.split list.split)
qed

text \<open>The steps of the standalone process, each under its own environment.\<close>

datatype sys_op = SysApp app_op | SysDeliver string | SysTick u32 "string \<times> u32"

fun sys_run :: "'c disp_env \<times> sys_op \<Rightarrow> 'c app_state \<times> session option \<Rightarrow> 'c app_state \<times> session option" where
  "sys_run (env, SysApp op) (s, ss) = (app_run (dp_app env) op s, ss)"
| "sys_run (env, SysDeliver channel) (s, ss) = (snd (chan_pop_and_execute env channel s), ss)"
| "sys_run (env, SysTick interval pair) (s, ss) = rdb_pop_and_execute env interval pair ss s"

lemma progresses_sys:
  assumes "disp_env_ok (fst op)"
  shows "progresses (fst p) (fst (sys_run op p))"
proof (cases "(op, p)" rule: sys_run.cases)
  case (1 env op' s ss)
  have "env_ok (dp_app env)" using assms 1 by (simp add: disp_env_ok_def)
  then show ?thesis using 1 by (auto intro: evolves_progresses app_run_evolves)
next
  case (2 env channel s ss)
  then show ?thesis using assms by (simp add: progresses_channel)
next
  case (3 env interval pair s ss)
  then show ?thesis using assms by (simp add: progresses_tick)
qed

lemma progresses_system:
  "\<forall>op \<in> set ops. disp_env_ok (fst op) \<Longrightarrow> progresses (fst p) (fst (fold sys_run ops p))"
proof (induction ops arbitrary: p)
  case (Cons op ops)
  then show ?case using progresses_trans [OF progresses_sys [of op p] Cons.IH [of "sys_run op p"]] by simp
qed simp


section \<open>Examples\<close>

text \<open>Job 5 is pending for its second attempt; its runner fails for good.\<close>

definition example_disp_env :: "(string \<Rightarrow> bytes list) disp_env" where
  "example_disp_env =
     \<lparr>dp_app = example_app_env, dp_find_runner = (\<lambda>_. Inr (Some (Some ''COMMAND''))), dp_id = Inr 900,
      dp_run_env = (\<lambda>_. example_env), dp_static_runner = Inr (Some example_runner), dp_runner = Inr example_runner,
      dp_load = Inr (), dp_workers = Inr [], dp_during = id, dp_starting = id, dp_session_during = id,
      dp_session_returning = id, dp_instant = (\<lambda>_. 0), dp_published = [], dp_from_str = ref_reader,
      dp_float_ops = exact_float_ops, dp_output_codec = example_codec, dp_complete = Inr (True, False),
      dp_update = Inr (), dp_enqueue = Inr (), dp_delete_temp = Inr (), dp_store = Inr True\<rparr>"

definition example_attempt :: job where
  "example_attempt =
     \<lparr>j_id = Some 5, j_data = Some (default_job_data\<lparr>jd_worker_id := Some 1, jd_retried := 1\<rparr>),
      j_metadata = Map.empty\<rparr>"

definition example_pending_state :: "(string \<Rightarrow> bytes list) app_state" where
  "example_pending_state = example_app_state\<lparr>ap_status := [(5, \<lparr>sr_status = JpsPending, sr_retried = 1\<rparr>)]\<rparr>"

lemma example_harmless: "harmless 5 1 example_disp_env example_attempt"
  by (auto simp: harmless_def undisturbed_def example_disp_env_def example_app_env_def example_app_worker_def
      setup_cancellation_monitoring_if_supported_def example_env_def lookup_runner_def find_by_opt_def
      split: option.splits sum.splits)

theorem attempt_runs_once_witness:
  "claimable 5 1 (ap_status example_pending_state) \<and> starts 5 1 (fold
     (\<lambda>p s. snd (process_deque_job (fst p) (Inr (snd p, False)) s))
     [(example_disp_env, example_attempt), (example_disp_env, example_attempt)] example_pending_state) \<le> 1"
proof -
  have c: "claimable 5 1 (ap_status example_pending_state)" "starts 5 1 example_pending_state = 0"
    by (simp_all add: claimable_def starts_def example_pending_state_def example_app_state_def mem_find_status_record_def)
  have "\<forall>p \<in> set [(example_disp_env, example_attempt), (example_disp_env, example_attempt)].
      harmless 5 1 (fst p) (snd p) \<and> j_id (snd p) = Some 5 \<and> map_option jd_retried (j_data (snd p)) = Some 1"
    using example_harmless by (simp add: example_attempt_def)
  from attempt_runs_once [OF this, of False example_pending_state] c show ?thesis by simp
qed


end
