(* ===== verification/Dispatch_Outcome.thy ===== *)
theory Dispatch_Outcome
  imports Dispatch_Safety
begin

text \<open>
  What becomes of a delivered job when nobody interferes and the services answer: a cancelled job
  is completed without having been started, an attempt that was run is completed or handed on
  to the next attempt, a start that the session refuses is undone.  Two outcomes that are
  not intended are proved as well: jobs without a live status are never retried, and a failing
  grab leaves its job behind.
\<close>

section \<open>Processing undisturbed\<close>

text \<open>Nobody interferes and nothing fails, while a job runs either.\<close>

definition calm :: "'c disp_env \<Rightarrow> bool" where
  "calm env \<longleftrightarrow> quiet (dp_app env) \<and> dp_during env = id \<and> dp_starting env = id \<and>
     (\<exists>b. dp_complete env = Inr (b, False)) \<and> dp_update env = Inr () \<and>
     dp_enqueue env = Inr () \<and> (\<exists>b. dp_store env = Inr b)"

lemma calmD:
  assumes "calm env"
  shows "quiet (dp_app env)" "dp_during env s = s" "dp_starting env s = s" "dp_update env = Inr ()"
    "dp_enqueue env = Inr ()" "ae_others (dp_app env) k st = st" "others_act (dp_app env) k s = s" "ae_fails (dp_app env) c = None"
  using assms quietD [of "dp_app env"] by (simp_all add: calm_def)

lemma calm_answers:
  assumes "calm env"
  obtains b b' where "dp_complete env = Inr (b, False)" "dp_store env = Inr b'"
  using assms by (auto simp: calm_def)

definition store_result :: "'c disp_env \<Rightarrow> i64 \<Rightarrow> job_result_data \<Rightarrow> 'c app_state \<Rightarrow> 'c app_state" where
  "store_result env rid d s =
     on_tables (\<lambda>db. map_sum id snd (create_job_result_if_necessary (dp_output_codec env) rid d db)) s"

lemma store_result_fields [simp]:
  "ap_status (store_result env rid d s) = ap_status s" "ap_cache (store_result env rid d s) = ap_cache s"
  "ap_queue (store_result env rid d s) = ap_queue s" "ap_log (store_result env rid d s) = ap_log s"
  "db_jobs (ap_db (store_result env rid d s)) = db_jobs (ap_db s)"
  "db_status (ap_db (store_result env rid d s)) = db_status (ap_db s)"
  by (auto simp: store_result_def on_tables_def create_job_result_if_necessary_def result_create_def map_sum_Inr
      bindE_eq_Inr split: sum.splits if_splits)

lemma gone_store: "gone app i (store_result env rid d s) = gone app i s"
  by (simp add: gone_def find_row_tx_jobs [of "ap_db (store_result env rid d s)" "ap_db s"])

lemma standalone_answers [simp]:
  "rpe_complete (standalone_rp_env env) = dp_complete env" "rpe_store (standalone_rp_env env) = dp_store env"
  "rpe_update (standalone_rp_env env) = dp_update env" "rpe_enqueue (standalone_rp_env env) = dp_enqueue env"
  "rpe_float_ops (standalone_rp_env env) = dp_float_ops env"
  "rpe_find (standalone_rp_env env) = mem_find_status_record"
  "rpe_cas (standalone_rp_env env) = mem_compare_and_set_status" "rpe_fails (standalone_rp_env env) k = None"
  "rpe_others (standalone_rp_env env) k = ae_others (dp_app env) (k + 10)"
  by (simp_all add: standalone_rp_env_def)

text \<open>The cancellation that a result which is to be retried looks for.\<close>

definition cancel_seen :: "job_result_data \<Rightarrow> 'c app_state \<Rightarrow> bool" where
  "cancel_seen d s \<longleftrightarrow> jr_status d = result_status_i32 RsErrorAndRetry \<and>
     (\<exists>i. jr_job_id d = Some i \<and> status_of i s = Some \<lparr>sr_status = JpsCancelling, sr_retried = jr_retried d\<rparr>)"

lemma cancel_check_quiet:
  assumes "calm env" "\<not> cancel_seen d s"
  shows "cancel_retryable_result_if_requested (standalone_rp_env env) d \<lparr>ps_repo = ap_status s, ps_log = l\<rparr> =
     (Inr d, \<lparr>ps_repo = ap_status s, ps_log = l\<rparr>)"
  using assms(2)
  by (auto simp: cancel_retryable_result_if_requested_def bind_repo_find standalone_rp_env_def calmD [OF assms(1)]
      cancel_seen_def split: option.splits)

lemma process_completes:
  assumes c: "calm env" and r: "jres_id jr = Some rid" "jres_data jr = Some d"
    and none: "build_retry_job (dp_float_ops env) d w (jres_metadata jr) = None" and live: "\<not> cancel_seen d s"
    and once: "w_periodic_interval w = 0"
  shows "process_and_wait env i jr has_stream w False s =
     (Inr jr, store_result env rid d (snd (complete_job (dp_app env) rid d has_stream s)))"
proof -
  obtain b b' where ans: "dp_complete env = Inr (b, False)" "dp_store env = Inr b'"
    using calm_answers [OF c] .
  have periodic: "build_next_periodic_job (rpe_now (standalone_rp_env env)) d w = Inr None"
    using once by (simp add: build_next_periodic_job_def)
  have jr: "jr\<lparr>jres_data := Some d\<rparr> = jr" using r(2) by simp
  have temp: "fold (run_effect env md) (followups re d w None) x = x" for re :: "memory_store rp_env" and x md
    by (simp add: followups_def run_effect_def split: option.split)
  have "process_complete_or_retry_condition (standalone_rp_env env) rid d has_stream w (jres_metadata jr)
      \<lparr>ps_repo = ap_status s, ps_log = []\<rparr> = (Inr (Inr False, d), \<lparr>ps_repo = ap_status s,
        ps_log = EfComplete rid d has_stream # followups (standalone_rp_env env) d w None\<rparr>)"
    using completes_without_retry [OF _ periodic, of "jres_metadata jr" b False rid has_stream] none ans calmD(5) [OF c]
    by simp
  then show ?thesis
    using r ans jr cancel_check_quiet [OF c live, of "[]"]
    by (simp add: process_and_wait_def process_result_on_def process_result_inner_def bindP_def call_def
        Let_def temp run_effect_def store_result_def await_completion_def)
qed

lemma process_retries:
  assumes c: "calm env" and r: "jres_id jr = Some rid" "jres_data jr = Some d"
    and job: "jr_job_id d = Some i" "status_of i s = Some cur" "sr_retried cur = jr_retried d"
      "sr_status cur \<noteq> JpsCancelling"
    and some: "build_retry_job (dp_float_ops env) d w (jres_metadata jr) = Some j'"
  shows "\<exists>st. process_and_wait env i jr has_stream w False s =
     (Inr jr, store_result env rid d (snd (update_job (dp_app env) j' (s\<lparr>ap_status := st\<rparr>)))) \<and>
     mem_find_status_record st = (mem_find_status_record (ap_status s))
       (i \<mapsto> \<lparr>sr_status = JpsPending, sr_retried = jr_retried d + 1\<rparr>)"
proof -
  obtain b b' where ans: "dp_complete env = Inr (b, False)" "dp_store env = Inr b'"
    using calm_answers [OF c] .
  obtain nd where nd: "j_data j' = Some nd" "jd_retried nd = jr_retried d + 1"
    using some by (auto elim!: build_retry_job_Some)
  let ?new = "Some \<lparr>sr_status = JpsPending, sr_retried = jr_retried d + 1\<rparr>"
  let ?ps = "\<lparr>ps_repo = ap_status s, ps_log = []\<rparr>"
  obtain t st where cas: "mem_compare_and_set_status (ap_status s) i (Some cur) ?new = (t, st)" by (rule prod.exhaust)
  have t: "t = Applied" "mem_find_status_record st = (mem_find_status_record (ap_status s))(i := ?new)"
    using mem_find_cas [of "ap_status s" i "Some cur" ?new] mem_cas_result [of "ap_status s" i "Some cur" ?new] cas job
    by simp_all
  have jr: "jr\<lparr>jres_data := Some d\<rparr> = jr" using r(2) by simp
  have live: "\<not> cancel_seen d s" using job by (auto simp: cancel_seen_def)
  have trans: "transition_retry_to_pending_or_cancel (standalone_rp_env env) d j' ?ps =
      (Inr (Requeue, d), \<lparr>ps_repo = st, ps_log = []\<rparr>)"
    using job nd cas t(1)
    by (simp add: transition_found calmD [OF c] claim_for_retry_def bindP_def repo_cas_def Let_def)
  have "process_complete_or_retry_condition (standalone_rp_env env) rid d has_stream w (jres_metadata jr) ?ps =
      (Inr (Inr False, d), \<lparr>ps_repo = st, ps_log = [EfUpdateJob j']\<rparr>)"
    using some trans by (simp add: process_complete_or_retry_condition_def bindP_def attempt_def call_def calmD [OF c])
  then have "process_and_wait env i jr has_stream w False s =
     (Inr jr, store_result env rid d (snd (update_job (dp_app env) j' (s\<lparr>ap_status := st\<rparr>))))"
    using r ans jr cancel_check_quiet [OF c live, of "[]"]
    by (simp add: process_and_wait_def process_result_on_def process_result_inner_def bindP_def call_def
        Let_def run_effect_def store_result_def await_completion_def)
  with t(2) show ?thesis by blast
qed

section \<open>Cancelled before it was delivered\<close>

text \<open>Completing a job starts nothing.\<close>

lemma complete_log: "starts k m (snd (complete_job app rid d has_stream s)) = starts k m s"
proof -
  have clean: "starts k m (snd (cleanup_job app i x)) = starts k m x" for i x
    using delete_row_outcome(3) [OF surjective_pairing, of app i "mark_index_deleted app i x"]
    by (simp add: cleanup_job_def starts_def)
  have "starts k m x = starts k m s"
    if "spawn_end_marker_if_needed app d i (app_emit (PublishedResult rid d b) s) = (r, x)" for i b r x
    using that by (auto simp: spawn_end_marker_if_needed_def starts_def split: if_splits sum.splits panic.splits)
  then show ?thesis
    using clean by (auto simp: complete_job_def finish_response_def Let_def starts_def
        split: option.split response_type.split prod.split sum.split)
qed

lemma cancelled_error_built:
  assumes laws: "serde_v1_laws to_string from_str"
  obtains e where "cancelled_by_worker to_string CANCELLED_BEFORE_EXECUTION = Inr e"
    "valid_utf8 (se_message e)" "valid_utf8 (se_origin e)"
proof -
  let ?e = "unbounded_error SecCancelled CANCELLED_BEFORE_EXECUTION WORKER_ORIGIN"
  have utf8: "valid_utf8 CANCELLED_BEFORE_EXECUTION" "valid_utf8 WORKER_ORIGIN"
    by (rule valid_utf8_ascii, simp add: CANCELLED_BEFORE_EXECUTION_def stream_consts)+
  note shape = normalize_origin_shape(3) [OF utf8(2)]
  have valid: "valid_utf8 (se_message ?e)" "valid_utf8 (se_origin ?e)"
    using utf8 shape by (simp_all add: unbounded_error_def)
  obtain m x where m: "Stream_Error.normalize to_string ?e =
      Inr (?e\<lparr>se_origin := normalize_origin (se_origin ?e), se_message := m,
        se_problem := map_option bound_detail (se_problem ?e)\<rparr>, x)" "valid_utf8 m"
    using normalize_spec [OF laws valid] by metis
  then have e: "cancelled_by_worker to_string CANCELLED_BEFORE_EXECUTION = Inr (?e\<lparr>se_origin := normalize_origin (se_origin ?e),
      se_message := m, se_problem := map_option bound_detail (se_problem ?e)\<rparr>)"
    by (simp add: cancelled_by_worker_def classified_error_def bindE_def)
  show thesis
    by (rule that [OF e]) (simp_all add: m(2) normalize_origin_shape(3) [OF valid(2)])
qed

lemma cancelled_job_completes:
  assumes c: "calm env" and inv: "mem_invar (ap_status s)"
    and seen: "status_of i s = Some \<lparr>sr_status = JpsCancelling, sr_retried = n\<rparr>"
    and j: "j_id j = Some i" "j_data j = Some d" "jd_retried d = n" and l: "lookup_runner env d = Inr (wid, w, rd)"
    and once: "w_periodic_interval w = 0" and rid: "dp_id env = Inr rid"
    and rt: "response_type_try_from (rj_response_type (resolve_job_params w (jd_overrides d))) \<noteq> None"
    and laws: "serde_v1_laws (ae_to_string (dp_app env)) from_str"
  shows "\<exists>e s'. process_deque_job env (Inr (j, False)) s =
       (Inr (cancelled_dispatch_result env i wid w (j_metadata j) d rid e), s') \<and>
     gone (dp_app env) i s' \<and> (\<forall>k m. starts k m s' = starts k m s)"
proof -
  obtain e where e: "cancelled_by_worker (ae_to_string (dp_app env)) CANCELLED_BEFORE_EXECUTION = Inr e"
    "valid_utf8 (se_message e)" "valid_utf8 (se_origin e)" using cancelled_error_built [OF laws] .
  let ?r = "cancelled_dispatch_result env i wid w (j_metadata j) d rid e"
  obtain x where x: "jres_id ?r = Some rid" "jres_data ?r = Some x" "jr_status x = result_status_i32 RsCancelled"
    "jr_job_id x = Some i" "jr_error x = Some e"
    "jr_response_type x = rj_response_type (resolve_job_params w (jd_overrides d))"
    by (simp add: cancelled_dispatch_result_def Let_def)
  have none: "build_retry_job (dp_float_ops env) x w (jres_metadata ?r) = None" "\<not> cancel_seen x s"
    using x(3) by (simp_all add: build_retry_job_def cancel_seen_def)
  obtain res s1 where comp: "complete_job (dp_app env) rid x False s = (res, s1)" by (rule prod.exhaust)
  have run: "process_deque_job env (Inr (j, False)) s = (Inr ?r, store_result env rid x s1)"
    using j l seen e(1) rid process_completes [OF c x(1,2) none once, of i False] comp
    by (simp add: process_deque_job_def process_job_def check_cancellation_status_def
        check_cancellation_status_with_missing_status_def Let_def calmD [OF c] cancelled_dispatch_eligibility_def
        resolve_dispatch_preflight_def process_cancelled_dispatch_result_def)
  have "gone (dp_app env) i s1"
    using completion_outcome [OF calmD(8) [OF c] inv laws _ x(4) _ comp] e(2,3) x(5,6) rt by auto
  moreover have "starts k m s1 = starts k m s" for k m
    using complete_log comp by (metis snd_conv)
  ultimately show ?thesis using run by (auto simp: gone_store starts_def intro!: exI [of _ e])
qed

text \<open>
  C3: a job that was cancelled before it was delivered is not started.  The cancellation of a pending
  job of the channel is accepted; when its message is delivered later, no runner is started,
  a cancelled result is completed and nothing of the job is left.
\<close>

theorem cancelled_before_delivery:
  assumes c: "calm env" and inv: "mem_invar (ap_status s)" and pend: "claimable i n (ap_status s)"
    and chan: "rdb_only_row (dp_app env) i s = Inr False"
    and j: "j_id j = Some i" "j_data j = Some d" "jd_retried d = n" and l: "lookup_runner env d = Inr (wid, w, rd)"
    and once: "w_periodic_interval w = 0" and rid: "dp_id env = Inr rid"
    and rt: "response_type_try_from (rj_response_type (resolve_job_params w (jd_overrides d))) \<noteq> None"
    and laws: "serde_v1_laws (ae_to_string (dp_app env)) from_str"
  shows "\<exists>s1 s' e. cancel_job (dp_app env) i s = (Inr True, s1) \<and> process_deque_job env (Inr (j, False)) s1 =
       (Inr (cancelled_dispatch_result env i wid w (j_metadata j) d rid e), s') \<and>
     gone (dp_app env) i s' \<and> (\<forall>k m. starts k m s' = starts k m s)"
proof -
  obtain res s1 where can: "cancel_job (dp_app env) i s = (res, s1)" by (rule prod.exhaust)
  have st: "status_of i s = Some \<lparr>sr_status = JpsPending, sr_retried = n\<rparr>" using pend by (simp add: claimable_def)
  have s1: "res = Inr True" "status_of i s1 = Some \<lparr>sr_status = JpsCancelling, sr_retried = n\<rparr>" "ap_log s1 = ap_log s"
    using cancel_states [OF calmD(1) [OF c] inv st can] chan by simp_all
  have "mem_invar (ap_status s1)"
    using cancel_job_outcome [OF _ inv can] calmD(6) [OF c] by auto
  from cancelled_job_completes [OF c this s1(2) j l once rid rt laws] can s1 show ?thesis
    by (auto simp: starts_def)
qed

section \<open>A delivered attempt\<close>

lemma update_job_queue:
  assumes "ap_queue x = ap_queue y"
  shows "ap_queue (snd (update_job app j x)) = ap_queue (snd (update_job app j y))"
proof (cases "\<exists>i d w. j_id j = Some i \<and> j_data j = Some d \<and> find_data_by_opt app (jd_worker_id d) = Inr (Some w)")
  case True
  then obtain i d w where j: "j_id j = Some i" "j_data j = Some d"
    "find_data_by_opt app (jd_worker_id d) = Inr (Some w)" by blast
  have retry: "ap_queue (snd (enqueue_job_sync_enqueue_only app j w False RetryPublication a)) =
      ap_queue (snd (enqueue_job_sync_enqueue_only app j w False RetryPublication b))"
    if "ap_queue a = ap_queue b" for a b :: "'a app_state"
    using that j by (auto simp: enqueue_job_sync_enqueue_only_def creates_status_def Let_def split: sum.split prod.split)
  have queue: "ap_queue (snd (update_job app j s)) = (if uses_chan_queue (runs_later app d) w
      then ap_queue (snd (enqueue_job_sync_enqueue_only app j w False RetryPublication s)) else ap_queue s)" for s
  proof -
    obtain r1 s1 where s1: "(if uses_rdb_queue (runs_later app d) w
          then on_db app AcUpsert (upsert_with_pending_status_reset (ae_index app) (ae_now app 3) i d) s
          else (Inr False, reset_index_to_pending_for_retry app i s)) = (r1, s1)"
      by (rule prod.exhaust)
    obtain r2 s2 where s2: "(if uses_chan_queue (runs_later app d) w
          then enqueue_job_sync_enqueue_only app j w False RetryPublication s1 else (Inr i, s1)) = (r2, s2)"
      by (rule prod.exhaust)
    have q: "ap_queue s1 = ap_queue s" using s1 on_db_fields(2) by (auto split: if_splits)
    have "ap_queue s2 = (if uses_chan_queue (runs_later app d) w
        then ap_queue (snd (enqueue_job_sync_enqueue_only app j w False RetryPublication s)) else ap_queue s)"
      using s2 retry [OF q] q by (auto split: if_splits)
    then show ?thesis unfolding update_job_eq [OF j s1 s2] by (auto split: sum.split)
  qed
  show ?thesis unfolding queue using assms retry [OF assms] by simp
next
  case False
  then show ?thesis using assms by (auto simp: update_job_def Let_def split: option.split sum.split)
qed

lemma index_dispatched_fields [simp]:
  "ap_status (index_dispatched env st i wid w d s) = ap_status s"
  "ap_queue (index_dispatched env st i wid w d s) = ap_queue s"
  "ap_log (index_dispatched env st i wid w d s) = ap_log s"
  by (auto simp: index_dispatched_def on_tables_def split: option.split sum.split)

lemma claim_calm:
  assumes c: "calm env" and inv: "mem_invar (ap_status s)" and pend: "claimable i (jd_retried d) (ap_status s)"
  obtains st where
    "check_cancellation_status_with_missing_status env i wid w md d b s = (Inr DeExecute, s\<lparr>ap_status := st\<rparr>)"
    "mem_invar st"
    "mem_find_status_record st = (mem_find_status_record (ap_status s))
       (i \<mapsto> \<lparr>sr_status = JpsRunning, sr_retried = jd_retried d\<rparr>)"
proof -
  let ?p = "\<lparr>sr_status = JpsPending, sr_retried = jd_retried d\<rparr>"
  let ?r = "\<lparr>sr_status = JpsRunning, sr_retried = jd_retried d\<rparr>"
  obtain t st where cas: "mem_compare_and_set_status (ap_status s) i (Some ?p) (Some ?r) = (t, st)"
    by (rule prod.exhaust)
  have st: "status_of i s = Some ?p" using pend by (simp add: claimable_def)
  have "t = Applied" "mem_find_status_record st = (mem_find_status_record (ap_status s))(i \<mapsto> ?r)" "mem_invar st"
    using mem.cas_match [OF inv st, of "Some ?r"] mem.invar_cas [OF inv, of i "Some ?p" "Some ?r"] cas by simp_all
  with cas st show thesis
    by (intro that [of st]) (simp_all add: check_cancellation_status_with_missing_status_def Let_def calmD [OF c])
qed

text \<open>The result of a run that is published without trouble.\<close>

definition publishable :: "'c disp_env \<Rightarrow> job_result_data \<Rightarrow> bool" where
  "publishable env d \<longleftrightarrow> response_type_try_from (jr_response_type d) \<noteq> None \<and>
     (\<forall>e. jr_error d = Some e \<longrightarrow> valid_utf8 (se_message e) \<and> valid_utf8 (se_origin e))"

lemma completes_gone:
  assumes c: "calm env" and inv: "mem_invar (ap_status s)" and job: "jr_job_id d = Some i"
    and pub: "publishable env d" and laws: "serde_v1_laws (ae_to_string (dp_app env)) from_str"
  shows "gone (dp_app env) i (store_result env rid d (snd (complete_job (dp_app env) rid d False s)))"
    and "starts k m (store_result env rid d (snd (complete_job (dp_app env) rid d False s))) = starts k m s"
proof -
  obtain res s1 where comp: "complete_job (dp_app env) rid d False s = (res, s1)" by (rule prod.exhaust)
  have "gone (dp_app env) i s1"
    using completion_outcome [OF calmD(8) [OF c] inv laws _ job _ comp] pub by (auto simp: publishable_def)
  with comp show "gone (dp_app env) i (store_result env rid d (snd (complete_job (dp_app env) rid d False s)))"
    by (simp add: gone_store)
  show "starts k m (store_result env rid d (snd (complete_job (dp_app env) rid d False s))) = starts k m s"
    using complete_log [of k m "dp_app env" rid d False s] by (simp add: starts_def)
qed

lemma attempt_settles:
  assumes c: "calm env" and inv: "mem_invar (ap_status s)" and once: "w_periodic_interval w = 0"
    and r: "jres_id r = Some rid" "jres_data r = Some d"
    and job: "jr_job_id d = Some i" "status_of i s = Some cur" "sr_retried cur = jr_retried d"
      "sr_status cur \<noteq> JpsCancelling"
    and pub: "publishable env d" and laws: "serde_v1_laws (ae_to_string (dp_app env)) from_str"
  shows "\<exists>s'. process_and_wait env i r False w False s = (Inr r, s') \<and> (\<forall>k m. starts k m s' = starts k m s) \<and>
     (case build_retry_job (dp_float_ops env) d w (jres_metadata r) of
        None \<Rightarrow> gone (dp_app env) i s'
      | Some j' \<Rightarrow> claimable i (jr_retried d + 1) (ap_status s') \<and>
          ap_queue s' = ap_queue (snd (update_job (dp_app env) j' s)))"
proof (cases "build_retry_job (dp_float_ops env) d w (jres_metadata r)")
  case None
  have "\<not> cancel_seen d s" using job by (auto simp: cancel_seen_def)
  from process_completes [OF c r None this once, of i False] completes_gone [OF c inv job(1) pub laws] None
  show ?thesis by auto
next
  case (Some j')
  obtain st where st: "process_and_wait env i r False w False s =
      (Inr r, store_result env rid d (snd (update_job (dp_app env) j' (s\<lparr>ap_status := st\<rparr>))))"
    "mem_find_status_record st = (mem_find_status_record (ap_status s))
       (i \<mapsto> \<lparr>sr_status = JpsPending, sr_retried = jr_retried d + 1\<rparr>)"
    using process_retries [OF c r job Some, of False] by blast
  have "ap_queue (snd (update_job (dp_app env) j' (s\<lparr>ap_status := st\<rparr>))) = ap_queue (snd (update_job (dp_app env) j' s))"
    by (rule update_job_queue) simp
  with st Some show ?thesis by (auto simp: starts_def claimable_def update_job_fields)
qed


section \<open>The database dispatcher\<close>

lemma process_unclaimed:
  assumes c: "calm env" and r: "jres_id jr = Some rid" "jres_data jr = Some d"
    and job: "jr_job_id d = Some i" "status_of i s = None"
    and some: "build_retry_job (dp_float_ops env) d w (jres_metadata jr) = Some j'"
  shows "process_and_wait env i jr has_stream w False s =
     (Inr jr, store_result env rid d (snd (complete_job (dp_app env) rid d has_stream s)))"
proof -
  obtain b b' where ans: "dp_complete env = Inr (b, False)" "dp_store env = Inr b'"
    using calm_answers [OF c] .
  obtain nd where nd: "j_data j' = Some nd" using some by (auto elim!: build_retry_job_Some)
  let ?ps = "\<lparr>ps_repo = ap_status s, ps_log = []\<rparr>"
  have jr: "jr\<lparr>jres_data := Some d\<rparr> = jr" using r(2) by simp
  have live: "\<not> cancel_seen d s" using job by (auto simp: cancel_seen_def)
  have "transition_retry_to_pending_or_cancel (standalone_rp_env env) d j' ?ps = (Inr (CompleteWithoutClaim, d), ?ps)"
    using job nd by (simp add: transition_found calmD [OF c])
  then have "process_complete_or_retry_condition (standalone_rp_env env) rid d has_stream w (jres_metadata jr) ?ps =
      (Inr (Inr False, d), \<lparr>ps_repo = ap_status s, ps_log = [EfComplete rid d has_stream]\<rparr>)"
    using some ans by (simp add: process_complete_or_retry_condition_def bindP_def attempt_def call_def)
  then show ?thesis
    using r ans jr cancel_check_quiet [OF c live, of "[]"]
    by (simp add: process_and_wait_def process_result_on_def process_result_inner_def bindP_def call_def
        Let_def run_effect_def store_result_def await_completion_def)
qed

text \<open>
  C36: a job without a live status is never retried.  When the dispatcher of the database runs a job
  that has no entry in the status repository, as it does with every job that was enqueued for
  the database only and at once, a failed attempt is completed and the job removed although
  its retry policy asks for another attempt.
\<close>

theorem unpublished_job_never_retried:
  assumes c: "calm env" and inv: "mem_invar (ap_status s)" and unpublished: "status_of i s = None"
    and j: "j_id j = Some i" "j_data j = Some d" and l: "lookup_runner env d = Inr (wid, w, rdat)"
    and free: "grab_row env i d s = (Inr True, s1)"
    and live: "setup_cancellation_monitoring_if_supported (dp_run_env env j) = None"
    and out: "run_job (dp_run_env env j) (dp_static_runner env) (dp_runner env) w j = Some (Inr out)"
      "ro_stream out = None" "ro_result out = r" "jres_id r = Some rid" "jres_data r = Some rd"
    and retry: "build_retry_job (dp_float_ops env) rd w (jres_metadata r) = Some j'"
    and pub: "publishable env rd" and laws: "serde_v1_laws (ae_to_string (dp_app env)) from_str"
  shows "\<exists>s'. rdb_process_job env j None s = ((Inr (Some r), s'), None) \<and>
     starts i (jd_retried d) s' = starts i (jd_retried d) s + 1 \<and> gone (dp_app env) i s'"
proof -
  let ?s2 = "app_emit (RunnerStarted i (jd_retried d)) s1"
  have s1: "ap_status s1 = ap_status s" "ap_log s1 = ap_log s"
    using free by (auto simp: grab_row_def split: option.splits prod.splits)
  have rd: "jr_job_id rd = Some i" using run_job_attempt [OF out(1) live j(2)] out(3,5) j by simp
  have none: "status_of i ?s2 = None" and inv2: "mem_invar (ap_status ?s2)" using s1 unpublished inv by simp_all
  let ?s' = "store_result env rid rd (snd (complete_job (dp_app env) rid rd False ?s2))"
  have "process_and_wait env i r False w False ?s2 = (Inr r, ?s')"
    by (rule process_unclaimed [OF c out(4,5) rd none retry])
  then have "rdb_process_job env j None s = ((Inr (Some r), ?s'), None)"
    using j l unpublished free out
    by (simp add: rdb_process_job_def check_rdb_cancellation_status_def check_cancellation_status_with_missing_status_def
        Let_def calmD [OF c] resolve_dispatch_preflight_def execute_from_rdb_def execute_unrecorded_def run_rdb_job_def
        run_and_identify_def ensure_job_result_id_def)
  moreover have "starts i (jd_retried d) ?s' = starts i (jd_retried d) s + 1"
    using completes_gone(2) [OF c inv2 rd pub laws, where rid = rid and k = i and m = "jd_retried d"] s1 by (simp add: starts_def)
  ultimately show ?thesis using completes_gone(1) [OF c inv2 rd pub laws, where rid = rid] by blast
qed

text \<open>
  C37: a grab that fails strands its job.  The live status is claimed before the row is grabbed; when
  the database then fails, the dispatcher returns the error and leaves the status running, and
  every later dispatch of the job, once the database works again, skips it.
\<close>

theorem failed_grab_strands_job:
  assumes q: "\<forall>k st. ae_others (dp_app env) k st = st" and fail: "ae_fails (dp_app env) AcGrab = Some e"
    and inv: "mem_invar (ap_status s)" and pend: "claimable i n (ap_status s)"
    and j: "j_id j = Some i" "j_data j = Some d" "jd_retried d = n" and l: "lookup_runner env d = Inr (wid, w, rdat)"
    and again: "calm env'" "lookup_runner env' d = Inr (wid', w', rdat')"
  shows "\<exists>s'. rdb_process_job env j None s = ((Inl (disp_error e), s'), None) \<and> ap_db s' = ap_db s \<and>
     status_of i s' = Some \<lparr>sr_status = JpsRunning, sr_retried = n\<rparr> \<and>
     rdb_process_job env' j session s' = ((Inr None, s'), session)"
proof -
  let ?p = "\<lparr>sr_status = JpsPending, sr_retried = n\<rparr>" and ?r = "\<lparr>sr_status = JpsRunning, sr_retried = n\<rparr>"
  obtain t st where cas: "mem_compare_and_set_status (ap_status s) i (Some ?p) (Some ?r) = (t, st)"
    by (rule prod.exhaust)
  have p: "status_of i s = Some ?p" using pend by (simp add: claimable_def)
  have t: "t = Applied" "mem_find_status_record st i = Some ?r"
    using mem.cas_match [OF inv p, of "Some ?r"] cas by simp_all
  have others: "others_act (dp_app env) k x = x" for k x using q by (simp add: others_act_def)
  let ?s' = "s\<lparr>ap_status := st\<rparr>"
  have "rdb_process_job env j None s = ((Inl (disp_error e), ?s'), None)"
    using j l p cas t(1) fail
    by (simp add: rdb_process_job_def check_rdb_cancellation_status_def check_cancellation_status_with_missing_status_def
        Let_def others resolve_dispatch_preflight_def execute_from_rdb_def execute_unrecorded_def grab_row_def)
  moreover have "rdb_process_job env' j session ?s' = ((Inr None, ?s'), session)"
    using j again(2) t(2)
    by (simp add: rdb_process_job_def check_rdb_cancellation_status_def check_cancellation_status_with_missing_status_def
        Let_def calmD [OF again(1)] resolve_dispatch_preflight_def)
  ultimately show ?thesis using t(2) by auto
qed

lemma refuse_restores:
  assumes c: "calm env" and inv: "mem_invar (ap_status s)"
    and run: "status_of i s = Some \<lparr>sr_status = JpsRunning, sr_retried = jd_retried d\<rparr>"
  shows "\<exists>st. refuse_unstarted env reason j i d wid w s = (Inl (disp_error (RuntimeError reason)), s\<lparr>ap_status := st\<rparr>) \<and>
     claimable i (jd_retried d) st"
proof -
  let ?p = "\<lparr>sr_status = JpsPending, sr_retried = jd_retried d\<rparr>"
  let ?r = "\<lparr>sr_status = JpsRunning, sr_retried = jd_retried d\<rparr>"
  obtain t st where cas: "mem_compare_and_set_status (ap_status s) i (Some ?r) (Some ?p) = (t, st)"
    by (rule prod.exhaust)
  have "t = Applied" "mem_find_status_record st i = Some ?p"
    using mem.cas_match [OF inv run, of "Some ?p"] cas by simp_all
  with cas show ?thesis
    by (intro exI [of _ st]) (simp add: refuse_unstarted_def restore_or_finalize_unstarted_rdb_dispatch_def
        restore_pending_after_unstarted_rdb_dispatch_def Let_def calmD [OF c] claimable_def)
qed

lemma unconfirmed_released:
  assumes c: "calm env" and inv: "mem_invar (ap_status s)" and keys: "keys_ok (ap_db s)"
    and run: "status_of i s = Some \<lparr>sr_status = JpsRunning, sr_retried = jd_retried d\<rparr>"
    and db: "grab_and_mark_running (ae_now (dp_app env) 7) (dispatch_start p i wid w d) (ap_db s) = (Inr (Some x), db)"
    and late: "\<not> confirm_start (dp_instant env 1) p (dp_session_during env ss)"
  shows "\<exists>e st db2. execute_recorded env p ss j i d wid w s = (Inl e, s\<lparr>ap_status := st, ap_db := db2\<rparr>) \<and>
     claimable i (jd_retried d) st \<and> map_option jrw_grabbed_until_time (find_row_tx i db2) = Some (Some 0)"
proof -
  obtain r where r: "keys_ok db" "status_row_of i db = Some r" "sw_status r = 2" "live r"
      "sw_worker_instance_id r = Some (de_worker_instance_id x)" "sw_version r = de_status_version x"
      "map_option jrw_grabbed_until_time (find_row_tx i db) = Some (Some (de_grabbed_until_time x))" "de_job_id x = i"
    by (rule granted_dispatch [OF keys db]) (simp add: dispatch_start_def)
  obtain db2 where rel: "release_unstarted_dispatch (ae_now (dp_app env) 8) x db = (Claimed, db2)"
      "map_option jrw_grabbed_until_time (find_row_tx i db2) = Some (Some 0)"
    using release_succeeds [of db x r "ae_now (dp_app env) 8"] r by auto
  let ?why = "''worker instance was isolated before RDB runner start; RDB job was requeued''"
  have "\<exists>st. refuse_unstarted env ?why j i d wid w (s\<lparr>ap_db := db2\<rparr>) =
      (Inl (disp_error (RuntimeError ?why)), s\<lparr>ap_db := db2\<rparr>\<lparr>ap_status := st\<rparr>) \<and> claimable i (jd_retried d) st"
    by (rule refuse_restores [OF c]) (simp_all add: inv run)
  then obtain st where "refuse_unstarted env ?why j i d wid w (s\<lparr>ap_db := db2\<rparr>) =
      (Inl (disp_error (RuntimeError ?why)), s\<lparr>ap_db := db2\<rparr>\<lparr>ap_status := st\<rparr>)" "claimable i (jd_retried d) st"
    by blast
  then show ?thesis
    using db late rel
    by (intro exI [of _ "disp_error (RuntimeError ?why)"] exI [of _ st] exI [of _ db2])
      (simp add: execute_recorded_def grab_recorded_def calmD [OF c] release_isolated_def)
qed

text \<open>
  C7: a start that the session refuses is undone.  When the instance of the worker has lost its
  heartbeat before the dispatch, or loses it between the grab of the row and the start, no runner
  is started, the attempt can be claimed again, and the row is as free as it was or has its
  lease reset; the caller gets an error.
\<close>

theorem refused_start_is_undone:
  assumes c: "calm env" and inv: "mem_invar (ap_status s)" and keys: "keys_ok (ap_db s)"
    and pend: "claimable i n (ap_status s)"
    and j: "j_id j = Some i" "j_data j = Some d" "jd_retried d = n" and l: "lookup_runner env d = Inr (wid, w, rdat)"
    and permit: "acquire_start_permit (dp_instant env 0) ss = (permit, ss1)"
    and refused: "\<forall>p. permit = Some p \<longrightarrow> \<not> confirm_start (dp_instant env 1) p (dp_session_during env ss1) \<and>
        (\<exists>x s1. grab_recorded env p i wid w d s = (Inr (Some x), s1))"
    and run: "rdb_process_job env j (Some ss) s = ((res, s'), session)"
  shows "(\<exists>e. res = Inl e) \<and> claimable i n (ap_status s') \<and> (\<forall>k m. starts k m s' = starts k m s) \<and>
     map_option jrw_grabbed_until_time (row_of_job i s') \<in>
       {map_option jrw_grabbed_until_time (row_of_job i s), Some (Some 0)}"
proof -
  obtain st where st: "check_cancellation_status_with_missing_status env i wid w (j_metadata j) d True s =
      (Inr DeExecute, s\<lparr>ap_status := st\<rparr>)" "mem_invar st"
    "mem_find_status_record st = (mem_find_status_record (ap_status s))
       (i \<mapsto> \<lparr>sr_status = JpsRunning, sr_retried = jd_retried d\<rparr>)"
    using claim_calm [OF c inv] pend j(3) by blast
  have exec: "execute_from_rdb env j i d wid w (Some ss) (s\<lparr>ap_status := st\<rparr>) = ((res, s'), session)"
    using run j l st(1) by (simp add: rdb_process_job_def check_rdb_cancellation_status_def resolve_dispatch_preflight_def)
  have running: "mem_find_status_record st i = Some \<lparr>sr_status = JpsRunning, sr_retried = jd_retried d\<rparr>"
    using st(3) by simp
  show ?thesis
  proof (cases permit)
    case None
    let ?why = "''worker instance is isolated; RDB job remains pending''"
    have "\<exists>st'. refuse_unstarted env ?why j i d wid w (s\<lparr>ap_status := st\<rparr>) =
        (Inl (disp_error (RuntimeError ?why)), s\<lparr>ap_status := st\<rparr>\<lparr>ap_status := st'\<rparr>) \<and> claimable i (jd_retried d) st'"
      by (rule refuse_restores [OF c]) (simp_all add: st(2) running)
    then show ?thesis using exec permit None j(3) by (auto simp: execute_from_rdb_def starts_def)
  next
    case (Some p)
    obtain x db where db: "grab_and_mark_running (ae_now (dp_app env) 7) (dispatch_start p i wid w d) (ap_db s) =
        (Inr (Some x), db)"
      using refused Some by (auto simp: grab_recorded_def calmD [OF c] map_sum_Inr split: prod.splits)
    have "\<exists>e st' db2. execute_recorded env p ss1 j i d wid w (s\<lparr>ap_status := st\<rparr>) =
        (Inl e, s\<lparr>ap_status := st\<rparr>\<lparr>ap_status := st', ap_db := db2\<rparr>) \<and>
       claimable i (jd_retried d) st' \<and> map_option jrw_grabbed_until_time (find_row_tx i db2) = Some (Some 0)"
      using refused Some db by (intro unconfirmed_released [OF c]) (simp_all add: st(2) running keys)
    then show ?thesis using exec permit Some j(3) by (auto simp: execute_from_rdb_def starts_def)
  qed
qed

section \<open>Examples\<close>

text \<open>The job of the examples under a worker that retries twice.\<close>

definition example_retrying :: worker_data where
  "example_retrying = (example_app_worker 0)\<lparr>w_retry_policy := w_retry_policy example_worker\<rparr>"

definition example_retry_env :: "(string \<Rightarrow> bytes list) disp_env" where
  "example_retry_env = example_disp_env\<lparr>dp_app := example_app_env
     \<lparr>ae_find_worker := \<lambda>i. Inr (Some \<lparr>wk_id = Some i, wk_data = Some example_retrying\<rparr>)\<rparr>\<rparr>"

lemma example_calm: "calm example_disp_env" "calm example_retry_env"
  by (auto simp: calm_def quiet_def example_disp_env_def example_retry_env_def example_app_env_def)

definition example_attempt_data :: job_data where
  "example_attempt_data = default_job_data\<lparr>jd_worker_id := Some 1, jd_retried := 1\<rparr>"

lemma example_attempt_fields:
  "j_id example_attempt = Some 5" "j_data example_attempt = Some example_attempt_data"
  "jd_retried example_attempt_data = 1" "j_metadata example_attempt = Map.empty"
  by (simp_all add: example_attempt_def example_attempt_data_def)

lemma example_lookup:
  "lookup_runner example_disp_env example_attempt_data = Inr (1, example_app_worker 0, ''COMMAND'')"
  "lookup_runner example_retry_env example_attempt_data = Inr (1, example_retrying, ''COMMAND'')"
  by (simp_all add: lookup_runner_def find_by_opt_def example_disp_env_def example_retry_env_def example_app_env_def
      example_attempt_data_def example_retrying_def example_app_worker_def)

lemma example_pending: "mem_invar (ap_status example_pending_state)" "claimable 5 1 (ap_status example_pending_state)"
  by (simp_all add: mem_invar_def claimable_def example_pending_state_def example_app_state_def mem_find_status_record_def)

lemma second_attempt_allowed: "\<not> (2 :: u32) \<le> 1"
  by (simp add: word_le_nat_alt)

lemma example_attempt_inner:
  obtains r rd where
    "run_job_inner example_env example_retrying example_attempt = Some (Inr (r, None, OutNormal))"
    "jres_id r = Some 77" "jres_data r = Some rd" "jr_response_type rd = 0"
    "jr_error rd = Some \<lparr>se_code = 1, se_message = ''boom'', se_origin = ''COMMAND'', se_problem = None\<rparr>"
    "jr_status rd = result_status_i32 RsErrorAndRetry" "jr_retried rd = 1"
    "jr_resolved_retry_policy rd = w_retry_policy example_worker"
proof -
  have "setup_cancellation_monitoring_if_supported example_env = None"
    by (simp add: setup_cancellation_monitoring_if_supported_def example_env_def)
  moreover have "w_retry_policy example_worker \<noteq> None"
    "rp_max_retry (the (w_retry_policy example_worker)) = 2"
    by (simp_all add: example_worker_def)
  ultimately show thesis
    by (auto intro!: that simp: run_job_inner_def Job_Runner.example_run_defs example_retrying_def
        example_app_worker_def example_attempt_def run_and_result_def
        await_runner_def finish_run_def job_result_status_def handle_error_def bindE_def
        can_retry_def build_job_result_def resolve_job_params_def output_stream_def
        outcome_of_def run_wait_ms_def i64_wrap_id in_i64_def i64_min_def i64_max_def second_attempt_allowed)
qed

lemma example_attempt_run:
  obtains out rd j' where
    "run_job (dp_run_env example_retry_env example_attempt) (dp_static_runner example_retry_env)
       (dp_runner example_retry_env) example_retrying example_attempt = Some (Inr out)"
    "ro_stream out = None" "jres_id (ro_result out) = Some 77" "jres_data (ro_result out) = Some rd"
    "publishable example_retry_env rd"
    "build_retry_job (dp_float_ops example_retry_env) rd example_retrying (jres_metadata (ro_result out)) = Some j'"
proof -
  obtain r rd where run: "run_job_inner example_env example_retrying example_attempt = Some (Inr (r, None, OutNormal))"
    and rd: "jres_id r = Some 77" "jres_data r = Some rd" "jr_response_type rd = 0"
    "jr_error rd = Some \<lparr>se_code = 1, se_message = ''boom'', se_origin = ''COMMAND'', se_problem = None\<rparr>"
    "jr_status rd = result_status_i32 RsErrorAndRetry" "jr_retried rd = 1"
    "jr_resolved_retry_policy rd = w_retry_policy example_worker"
    by (rule example_attempt_inner)
  have "valid_utf8 ''boom''" "valid_utf8 ''COMMAND''" by (rule valid_utf8_ascii, simp)+
  then have pub: "publishable example_retry_env rd"
    using rd by (simp add: publishable_def response_type_try_from_def del: valid_utf8.simps)
  have static: "\<not> w_use_static example_retrying" "\<not> is_streaming example_attempt"
    by (simp_all add: example_retrying_def example_app_worker_def is_streaming_def example_attempt_def default_job_data_def)
  have env: "dp_run_env example_retry_env example_attempt = example_env" "dp_runner example_retry_env = Inr example_runner"
    "dp_float_ops example_retry_env = exact_float_ops"
    by (simp_all add: example_retry_env_def example_disp_env_def)
  obtain out where out: "run_with_runner example_env example_retrying example_attempt example_runner False = Some (Inr out)"
    "ro_stream out = None" "ro_result out = r"
    unfolding run_with_runner_def Let_def example_runner_ready(1,2) run by (simp add: bindE_def)
  have "build_retry_job exact_float_ops rd example_retrying md \<noteq> None" for md
    using rd by (simp add: build_retry_job_def option_or_def example_worker_def second_attempt_allowed)
  then obtain j' where "build_retry_job exact_float_ops rd example_retrying (jres_metadata r) = Some j'" by blast
  then show thesis
    using out rd pub static env by (intro that [of out rd j']) (simp_all add: run_job_def)
qed

lemma example_once: "w_periodic_interval example_retrying = 0" "w_periodic_interval (example_app_worker 0) = 0"
  "w_queue_type example_retrying \<noteq> queue_type_i32 QtWithBackup"
  by (simp_all add: example_retrying_def example_app_worker_def)

lemma example_laws:
  "serde_v1_laws (ae_to_string (dp_app example_disp_env)) ref_reader"
  "serde_v1_laws (ae_to_string (dp_app example_retry_env)) ref_reader"
  by (simp_all add: example_disp_env_def example_retry_env_def example_app_env_def ref_codec_laws)

lemma example_live:
  "setup_cancellation_monitoring_if_supported (dp_run_env example_retry_env example_attempt) = None"
  by (simp add: setup_cancellation_monitoring_if_supported_def example_retry_env_def example_disp_env_def example_env_def)

theorem cancelled_before_delivery_witness:
  "\<exists>s1 s' e. cancel_job (dp_app example_disp_env) 5 example_pending_state = (Inr True, s1) \<and>
     process_deque_job example_disp_env (Inr (example_attempt, False)) s1 =
       (Inr (cancelled_dispatch_result example_disp_env 5 1 (example_app_worker 0) Map.empty example_attempt_data 900 e), s') \<and>
     gone (dp_app example_disp_env) 5 s' \<and> (\<forall>k m. starts k m s' = starts k m example_pending_state)"
proof -
  have chan: "rdb_only_row (dp_app example_disp_env) 5 example_pending_state = Inr False"
    by (simp add: rdb_only_row_def job_find_def find_row_tx_def example_pending_state_def example_app_state_def)
  have rid: "dp_id example_disp_env = Inr 900" by (simp add: example_disp_env_def)
  have rt: "response_type_try_from (rj_response_type
      (resolve_job_params (example_app_worker 0) (jd_overrides example_attempt_data))) \<noteq> None"
    by (simp add: response_type_try_from_def resolve_job_params_def example_app_worker_def example_attempt_data_def
        default_job_data_def)
  from cancelled_before_delivery [OF example_calm(1) example_pending chan example_attempt_fields(1-3) example_lookup(1)
      example_once(2) rid rt example_laws(1)]
  show ?thesis by (simp only: example_attempt_fields(4))
qed


text \<open>The same job, with a row and without a status.\<close>

definition example_unpublished_state :: "(string \<Rightarrow> bytes list) app_state" where
  "example_unpublished_state = example_app_state\<lparr>ap_status := [],
     ap_db := (ap_db example_app_state)\<lparr>db_jobs := [example_job_row\<lparr>jrw_id := 5, jrw_grabbed_until_time := Some 0\<rparr>]\<rparr>\<rparr>"

lemma example_row_free: "\<exists>s1. grab_row example_retry_env 5 example_attempt_data example_unpublished_state = (Inr True, s1)"
  by (simp add: grab_row_def example_retry_env_def example_disp_env_def example_app_env_def grab_job_def
      grab_job_with_lease_def example_unpublished_state_def example_app_state_def example_attempt_data_def
      default_job_data_def unwrap_or_def update_jobs_def sql_update_def Let_def)

theorem unpublished_job_never_retried_witness:
  "\<exists>r s'. rdb_process_job example_retry_env example_attempt None example_unpublished_state = ((Inr (Some r), s'), None) \<and>
     starts 5 1 s' = 1 \<and> gone (dp_app example_retry_env) 5 s'"
proof -
  obtain out rd j' where out: "run_job (dp_run_env example_retry_env example_attempt) (dp_static_runner example_retry_env)
       (dp_runner example_retry_env) example_retrying example_attempt = Some (Inr out)"
    "ro_stream out = None" "jres_id (ro_result out) = Some 77" "jres_data (ro_result out) = Some rd"
    "publishable example_retry_env rd"
    "build_retry_job (dp_float_ops example_retry_env) rd example_retrying (jres_metadata (ro_result out)) = Some j'"
    by (rule example_attempt_run)
  obtain s1 where free: "grab_row example_retry_env 5 example_attempt_data example_unpublished_state = (Inr True, s1)"
    using example_row_free ..
  have st: "mem_invar (ap_status example_unpublished_state)" "status_of 5 example_unpublished_state = None"
    "starts 5 1 example_unpublished_state = 0"
    by (simp_all add: mem_invar_def mem_find_status_record_def starts_def example_unpublished_state_def example_app_state_def)
  from unpublished_job_never_retried [OF example_calm(2) st(1,2) example_attempt_fields(1,2) example_lookup(2) free
      example_live out(1,2) refl out(3,4) out(6,5) example_laws(2)] st(3)
  show ?thesis by (auto simp: example_attempt_fields(3))
qed

text \<open>A database whose grab fails, and a worker whose heartbeat is too old.\<close>

definition example_failing_env :: "(string \<Rightarrow> bytes list) disp_env" where
  "example_failing_env = example_disp_env\<lparr>dp_app := example_app_env
     \<lparr>ae_fails := \<lambda>c. if c = AcGrab then Some (DBError ''locked'') else None\<rparr>\<rparr>"

theorem failed_grab_strands_job_witness:
  "\<exists>s'. rdb_process_job example_failing_env example_attempt None example_pending_state =
       ((Inl (disp_error (DBError ''locked'')), s'), None) \<and>
     rdb_process_job example_disp_env example_attempt None s' = ((Inr None, s'), None)"
proof -
  have q: "\<forall>k st. ae_others (dp_app example_failing_env) k st = st"
    and fail: "ae_fails (dp_app example_failing_env) AcGrab = Some (DBError ''locked'')"
    by (simp_all add: example_failing_env_def example_disp_env_def example_app_env_def)
  have l: "lookup_runner example_failing_env example_attempt_data = Inr (1, example_app_worker 0, ''COMMAND'')"
    by (simp add: lookup_runner_def find_by_opt_def example_failing_env_def example_disp_env_def example_app_env_def
        example_attempt_data_def example_app_worker_def)
  from failed_grab_strands_job [OF q fail example_pending example_attempt_fields(1-3) l example_calm(1) example_lookup(1),
      of None]
  show ?thesis by blast
qed

definition example_stale_session :: session where
  "example_stale_session = (new_session 0 3 10 5)\<lparr>ss_state := SsIsolating\<rparr>"

theorem refused_start_is_undone_witness:
  "\<exists>e s' session. rdb_process_job example_disp_env example_attempt (Some example_stale_session) example_pending_state =
       ((Inl e, s'), session) \<and> claimable 5 1 (ap_status s')"
proof -
  obtain permit ss1 where permit: "acquire_start_permit (dp_instant example_disp_env 0) example_stale_session = (permit, ss1)"
    by (rule prod.exhaust)
  then have none: "permit = None" by (simp add: acquire_start_permit_def example_stale_session_def)
  obtain res s' session where run: "rdb_process_job example_disp_env example_attempt (Some example_stale_session)
      example_pending_state = ((res, s'), session)" by (metis prod.exhaust)
  have keys: "keys_ok (ap_db example_pending_state)"
    by (simp add: keys_ok_def example_pending_state_def example_app_state_def)
  have "\<forall>p. permit = Some p \<longrightarrow> \<not> confirm_start (dp_instant example_disp_env 1) p
      (dp_session_during example_disp_env ss1) \<and>
      (\<exists>x s1. grab_recorded example_disp_env p 5 1 (example_app_worker 0) example_attempt_data example_pending_state =
         (Inr (Some x), s1))" using none by simp
  from refused_start_is_undone [OF example_calm(1) example_pending(1) keys example_pending(2) example_attempt_fields(1-3)
      example_lookup(1) permit this run] run
  show ?thesis by blast
qed

end
