(* ===== verification/Workflow_Schema.thy ===== *)
theory Workflow_Schema
  imports Stream_Error
begin

text \<open>
  The workflow definition as the engine reads it: tasks and what they share
  (\<^verbatim>\<open>infra/src/workflow/definition/workflow.rs\<close> and \<^verbatim>\<open>workflow/tasks.rs\<close>), durations
  (\<^verbatim>\<open>workflow/supplement.rs\<close>), errors and the filters of a catch
  (\<^verbatim>\<open>workflow/errors.rs\<close>), positions (\<^verbatim>\<open>infra/src/workflow/position.rs\<close>), and the
  conversion between workflow errors and the classification of a failed job
  (\<^verbatim>\<open>app-wrapper/src/workflow/execute/failure.rs\<close>).

  A \<^verbatim>\<open>TaskList\<close> is a vector of hash maps from names to tasks; each map is the list of its
  entries in the order in which the map iterates.  The bodies of run and call tasks are
  left as JSON, since they are interpreted by the executors of those tasks only.
\<close>

section \<open>Insertion-ordered maps\<close>

text \<open>\<^verbatim>\<open>IndexMap::insert\<close> keeps the place of a key that is present; \<^verbatim>\<open>shift_remove\<close> keeps the
  order of the others.\<close>

fun index_insert :: "'k \<Rightarrow> 'v \<Rightarrow> ('k \<times> 'v) list \<Rightarrow> ('k \<times> 'v) list" where
  "index_insert k v [] = [(k, v)]"
| "index_insert k v ((k', v') # m) =
     (if k' = k then (k, v) # m else (k', v') # index_insert k v m)"

definition shift_remove :: "'k \<Rightarrow> ('k \<times> 'v) list \<Rightarrow> ('k \<times> 'v) list" where
  "shift_remove k m = filter (\<lambda>(k', v). k' \<noteq> k) m"

lemma map_of_index_insert [simp]: "map_of (index_insert k v m) = (map_of m)(k \<mapsto> v)"
  by (induction k v m rule: index_insert.induct) auto

lemma index_insert_new: "k \<notin> fst ` set m \<Longrightarrow> index_insert k v m = m @ [(k, v)]"
  by (induction k v m rule: index_insert.induct) auto

lemma map_of_shift_remove [simp]: "map_of (shift_remove k m) = (map_of m)(k := None)"
  by (induction m) (auto simp: shift_remove_def)

section \<open>Durations\<close>

datatype wf_duration =
    DurInline "int option" "int option" "int option" "int option" "int option"
      \<comment> \<open>days, hours, minutes, seconds, milliseconds\<close>
  | DurExpression string

definition u64_saturating_add :: "u64 \<Rightarrow> u64 \<Rightarrow> u64" where
  "u64_saturating_add a b =
     (if uint a + uint b < 2 ^ 64 then a + b else of_int (2 ^ 64 - 1))"

definition add_part :: "int option \<Rightarrow> u64 \<Rightarrow> u64 \<Rightarrow> u64" where
  "add_part part unt acc =
     (case part of
        None \<Rightarrow> acc
      | Some n \<Rightarrow>
          (if uint (of_int n :: u64) * uint unt < 2 ^ 64
           then u64_saturating_add acc (of_int n * unt)
           else acc))"

fun split_on :: "char \<Rightarrow> string \<Rightarrow> string list" where
  "split_on c [] = [[]]"
| "split_on c (x # xs) =
     (if x = c then [] # split_on c xs
      else (case split_on c xs of [] \<Rightarrow> [[x]] | p # ps \<Rightarrow> (x # p) # ps))"

datatype duration_unit = DuYear | DuMonth | DuWeek | DuDay | DuHour | DuMinute | DuSecond

definition date_unit :: "char \<Rightarrow> duration_unit option" where
  "date_unit c =
     (if c = CHR ''Y'' then Some DuYear
      else if c = CHR ''M'' then Some DuMonth
      else if c = CHR ''W'' then Some DuWeek
      else if c = CHR ''D'' then Some DuDay
      else None)"

definition time_unit :: "char \<Rightarrow> duration_unit option" where
  "time_unit c =
     (if c = CHR ''H'' then Some DuHour
      else if c = CHR ''M'' then Some DuMinute
      else if c = CHR ''S'' then Some DuSecond
      else None)"

text \<open>
  The expression form, \<^verbatim>\<open>P[n]Y[n]M[n]DT[n]H[n]M[n]S\<close>.  The milliseconds of one number with its
  unit are computed in floating-point arithmetic, which is the argument \<open>scaled\<close>; they are added
  as words.
\<close>

fun scan_duration ::
  "(duration_unit \<Rightarrow> string \<Rightarrow> u64) \<Rightarrow> (char \<Rightarrow> duration_unit option) \<Rightarrow> string \<Rightarrow> string \<Rightarrow> u64 \<Rightarrow> u64" where
  "scan_duration scaled unt [] number total_ms = total_ms"
| "scan_duration scaled unt (c # cs) number total_ms =
     (if char_digit c \<noteq> None \<or> c = CHR ''.'' then scan_duration scaled unt cs (number @ [c]) total_ms
      else if number \<noteq> []
      then scan_duration scaled unt cs []
             (case unt c of None \<Rightarrow> total_ms | Some u \<Rightarrow> total_ms + scaled u number)
      else scan_duration scaled unt cs number total_ms)"

definition expression_millis :: "(duration_unit \<Rightarrow> string \<Rightarrow> u64) \<Rightarrow> string \<Rightarrow> u64" where
  "expression_millis scaled expr =
     (let parts = split_on (CHR ''T'') expr;
          date_part = (case hd parts of
                         [] \<Rightarrow> []
                       | c # cs \<Rightarrow> (if c = CHR ''P'' then cs else []));
          time_part = (if length parts > 1 then parts ! 1 else [])
      in scan_duration scaled time_unit time_part []
           (scan_duration scaled date_unit date_part [] 0))"

definition to_millis :: "(duration_unit \<Rightarrow> string \<Rightarrow> u64) \<Rightarrow> wf_duration \<Rightarrow> u64" where
  "to_millis scaled d =
     (case d of
        DurInline days hours minutes seconds milliseconds \<Rightarrow>
          (let t0 = add_part days (24 * 60 * 60 * 1000) 0;
               t1 = add_part hours (60 * 60 * 1000) t0;
               t2 = add_part minutes (60 * 1000) t1;
               t3 = add_part seconds 1000 t2
           in (case milliseconds of
                 None \<Rightarrow> t3
               | Some ms \<Rightarrow> u64_saturating_add t3 (of_int ms)))
      | DurExpression e \<Rightarrow> expression_millis scaled e)"

definition from_millis :: "u64 \<Rightarrow> wf_duration" where
  "from_millis milliseconds =
     (let r = uint milliseconds;
          ms = r mod 1000; r1 = r div 1000;
          seconds = r1 mod 60; r2 = r1 div 60;
          minutes = r2 mod 60; r3 = r2 div 60;
          hours = r3 mod 24; days = r3 div 24
      in DurInline (Some days) (Some hours) (Some minutes) (Some seconds) (Some ms))"

lemma uint_of_int_u64: "0 \<le> n \<Longrightarrow> n < 2 ^ 64 \<Longrightarrow> uint (of_int n :: u64) = n"
  by (simp add: uint_word_of_int)

lemma saturating_add_exact:
  "uint a + uint b < 2 ^ 64 \<Longrightarrow> uint (u64_saturating_add a b) = uint a + uint b"
  by (simp add: u64_saturating_add_def uint_word_arith_bintrs(1) take_bit_int_eq_self)

lemma add_part_exact:
  assumes "0 \<le> n" and "0 < uint unt" and "uint acc + n * uint unt < 2 ^ 64"
  shows "uint (add_part (Some n) unt acc) = uint acc + n * uint unt"
proof -
  have "n * 1 \<le> n * uint unt" using assms by (intro mult_left_mono) auto
  then have n: "n < 2 ^ 64" "n * uint unt < 2 ^ 64"
    using assms(3) uint_ge_0 [of acc] by linarith+
  have u: "uint (of_int n :: u64) = n" by (rule uint_of_int_u64 [OF assms(1) n(1)])
  then have "uint (of_int n * unt :: u64) = n * uint unt"
    using n(2) assms by (simp add: uint_word_arith_bintrs(3) take_bit_int_eq_self)
  then show ?thesis
    using n(2) assms(3) saturating_add_exact [of acc "of_int n * unt"] by (simp add: add_part_def u)
qed

lemma to_millis_exact:
  assumes pos: "0 \<le> d" "0 \<le> h" "0 \<le> m" "0 \<le> s" "0 \<le> ms"
    and bound: "d * 86400000 + h * 3600000 + m * 60000 + s * 1000 + ms < 2 ^ 64"
  shows "uint (to_millis scaled (DurInline (Some d) (Some h) (Some m) (Some s) (Some ms))) =
    d * 86400000 + h * 3600000 + m * 60000 + s * 1000 + ms"
proof -
  let ?t0 = "add_part (Some d) 86400000 0" and ?t1 = "\<lambda>t. add_part (Some h) 3600000 t"
  have t0: "uint ?t0 = d * 86400000"
    using add_part_exact [of d 86400000 0] pos bound by simp
  have t1: "uint (?t1 ?t0) = d * 86400000 + h * 3600000"
    using add_part_exact [of h 3600000 ?t0] pos bound t0 by simp
  have t2: "uint (add_part (Some m) 60000 (?t1 ?t0)) = d * 86400000 + h * 3600000 + m * 60000"
    using add_part_exact [of m 60000 "?t1 ?t0"] pos bound t1 by simp
  have t3: "uint (add_part (Some s) 1000 (add_part (Some m) 60000 (?t1 ?t0))) =
      d * 86400000 + h * 3600000 + m * 60000 + s * 1000"
    using add_part_exact [of s 1000 "add_part (Some m) 60000 (?t1 ?t0)"] pos bound t2 by simp
  have ms: "uint (of_int ms :: u64) = ms" using pos bound by (intro uint_of_int_u64) linarith+
  have "to_millis scaled (DurInline (Some d) (Some h) (Some m) (Some s) (Some ms)) =
      u64_saturating_add (add_part (Some s) 1000 (add_part (Some m) 60000 (?t1 ?t0))) (of_int ms)"
    by (simp add: to_millis_def Let_def)
  then show ?thesis
    using saturating_add_exact [of "add_part (Some s) 1000 (add_part (Some m) 60000 (?t1 ?t0))"
        "of_int ms"] bound
    unfolding t3 ms by simp
qed

lemma millis_parts:
  fixes r :: int
  assumes "0 \<le> r"
  shows "r div 1000 div 60 div 60 div 24 * 86400000 + r div 1000 div 60 div 60 mod 24 * 3600000 +
    r div 1000 div 60 mod 60 * 60000 + r div 1000 mod 60 * 1000 + r mod 1000 = r"
    (is "?d * _ + ?h * _ + ?m * _ + ?s * _ + ?ms = r")
proof -
  have "r div 1000 div 60 div 60 = ?d * 24 + ?h" "r div 1000 div 60 = r div 1000 div 60 div 60 * 60 + ?m"
    "r div 1000 = r div 1000 div 60 * 60 + ?s" "r = r div 1000 * 1000 + ?ms"
    by simp_all
  then show ?thesis by (simp only: mult.assoc distrib_right add.assoc)
qed

lemma to_millis_from_millis: "to_millis scaled (from_millis m) = m"
proof -
  have r: "0 \<le> uint m" "uint m < 2 ^ 64" using uint_lt2p [of m] by simp_all
  have "uint (to_millis scaled (from_millis m)) = uint m"
    unfolding from_millis_def Let_def
    by (subst to_millis_exact)
       (simp_all only: millis_parts [OF r(1)] r pos_imp_zdiv_nonneg_iff pos_mod_sign zero_less_numeral)
  then show ?thesis by (simp only: word_uint_eq_iff)
qed

section \<open>Flow directives\<close>

datatype flow_directive_enum = FdContinue | FdExit | FdEnd | FdWait

datatype flow_directive = FdEnum flow_directive_enum | FdText string

datatype wf_then = ThContinue | ThExit | ThEnd | ThWait | ThTaskName string

definition then_from_str :: "string \<Rightarrow> wf_then" where
  "then_from_str s =
     (if s = ''continue'' then ThContinue
      else if s = ''exit'' then ThExit
      else if s = ''end'' then ThEnd
      else if s = ''wait'' then ThWait
      else ThTaskName s)"

fun then_to_string :: "wf_then \<Rightarrow> string" where
  "then_to_string ThContinue = ''continue''"
| "then_to_string ThExit = ''exit''"
| "then_to_string ThEnd = ''end''"
| "then_to_string ThWait = ''wait''"
| "then_to_string (ThTaskName name) = name"

lemma then_roundtrip:
  "(\<And>n. d = ThTaskName n \<Longrightarrow> n \<notin> {''continue'', ''exit'', ''end'', ''wait''}) \<Longrightarrow>
   then_from_str (then_to_string d) = d"
  by (cases d) (auto simp: then_from_str_def)

section \<open>Errors\<close>

record wf_error =
  er_type :: string
  er_status :: int
  er_title :: "string option"
  er_detail :: "string option"
  er_instance :: "string option"

datatype standard_error_type =
    SeConfiguration | SeValidation | SeExpression | SeAuthentication | SeAuthorization
  | SeTimeout | SeCommunication | SeRuntime

definition SPEC_URI_BASE :: string where
  "SPEC_URI_BASE = ''https://open-workflow-specification.org/spec/''"

definition LEGACY_SPEC_URI_BASE :: string where
  "LEGACY_SPEC_URI_BASE = ''https://serverlessworkflow.io/spec/''"

definition canonical_spec_uri :: "string \<Rightarrow> string" where
  "canonical_spec_uri uri =
     (case strip_prefix LEGACY_SPEC_URI_BASE uri of
        Some rest \<Rightarrow> SPEC_URI_BASE @ rest
      | None \<Rightarrow> uri)"

fun standard_error_name :: "standard_error_type \<Rightarrow> string" where
  "standard_error_name SeConfiguration = ''configuration''"
| "standard_error_name SeValidation = ''validation''"
| "standard_error_name SeExpression = ''expression''"
| "standard_error_name SeAuthentication = ''authentication''"
| "standard_error_name SeAuthorization = ''authorization''"
| "standard_error_name SeTimeout = ''timeout''"
| "standard_error_name SeCommunication = ''communication''"
| "standard_error_name SeRuntime = ''runtime''"

definition standard_error_uri :: "standard_error_type \<Rightarrow> string" where
  "standard_error_uri kind = SPEC_URI_BASE @ ''1.0.0/errors/'' @ standard_error_name kind"

definition all_standard_errors :: "standard_error_type list" where
  "all_standard_errors =
     [SeConfiguration, SeValidation, SeExpression, SeAuthentication, SeAuthorization,
      SeTimeout, SeCommunication, SeRuntime]"

definition standard_from_uri :: "string \<Rightarrow> standard_error_type option" where
  "standard_from_uri uri =
     find (\<lambda>kind. standard_error_uri kind = canonical_spec_uri uri) all_standard_errors"

fun default_status :: "standard_error_type \<Rightarrow> int" where
  "default_status SeConfiguration = 400"
| "default_status SeValidation = 400"
| "default_status SeExpression = 400"
| "default_status SeAuthentication = 401"
| "default_status SeAuthorization = 403"
| "default_status SeTimeout = 408"
| "default_status SeCommunication = 500"
| "default_status SeRuntime = 500"

definition standard_error ::
  "standard_error_type \<Rightarrow> string \<Rightarrow> string option \<Rightarrow> string option \<Rightarrow> wf_error" where
  "standard_error kind message pos detail =
     \<lparr>er_type = standard_error_uri kind, er_status = default_status kind,
      er_title = Some message, er_detail = detail, er_instance = pos\<rparr>"

definition error_to_string :: "wf_error \<Rightarrow> string" where
  "error_to_string e =
     ''Error: '' @ unwrap_or (er_title e) ''Unknown error'' @ '' '' @
     unwrap_or (er_detail e) ''No details'' @ '' '' @
     unwrap_or (er_instance e) ''No instance''"

text \<open>\<^verbatim>\<open>serde_json::to_value\<close> of an error: the fields in the order of the struct, absent ones
  left out.\<close>

definition error_to_json :: "wf_error \<Rightarrow> json" where
  "error_to_json e =
     (let opt = \<lambda>k v. (case v of None \<Rightarrow> [] | Some s \<Rightarrow> [(k, JStr s)])
      in JObj (opt ''detail'' (er_detail e) @ opt ''instance'' (er_instance e) @
               [(''status'', JInt (er_status e))] @ opt ''title'' (er_title e) @
               [(''type'', JStr (er_type e))]))"

lemma standard_from_uri_uri [simp]: "standard_from_uri (standard_error_uri kind) = Some kind"
  by (cases kind)
     (simp_all add: standard_from_uri_def standard_error_uri_def all_standard_errors_def
        canonical_spec_uri_def strip_prefix_def SPEC_URI_BASE_def LEGACY_SPEC_URI_BASE_def)

lemma standard_from_legacy_uri:
  "standard_from_uri (LEGACY_SPEC_URI_BASE @ ''1.0.0/errors/'' @ standard_error_name kind) =
   Some kind"
  by (cases kind)
     (simp_all add: standard_from_uri_def standard_error_uri_def all_standard_errors_def
        canonical_spec_uri_def strip_prefix_def SPEC_URI_BASE_def LEGACY_SPEC_URI_BASE_def)

subsection \<open>Filters of a catch\<close>

record error_filter =
  ef_details :: "string option"
  ef_instance :: "string option"
  ef_status :: "int option"
  ef_title :: "string option"
  ef_type :: "string option"

text \<open>Regular expressions are third-party code: escaping a text, and compiling and matching a
  pattern, where compiling may fail.\<close>

record regex_ops =
  rx_escape :: "string \<Rightarrow> string"
  rx_match :: "string \<Rightarrow> string \<Rightarrow> bool option"

definition template_part :: "regex_ops \<Rightarrow> string \<Rightarrow> string" where
  "template_part rx part =
     (case split_once (CHR ''}'') part of
        Some (v, rest) \<Rightarrow> ''(.*)'' @ rx_escape rx rest
      | None \<Rightarrow> rx_escape rx (CHR ''{'' # part))"

definition uri_template_pattern :: "regex_ops \<Rightarrow> string \<Rightarrow> string" where
  "uri_template_pattern rx template =
     (case split_on (CHR ''{'') template of
        [] \<Rightarrow> []
      | p # ps \<Rightarrow> rx_escape rx p @ concat (map (template_part rx) ps))"

definition uri_is_match :: "regex_ops \<Rightarrow> string \<Rightarrow> string \<Rightarrow> bool" where
  "uri_is_match rx template uri =
     unwrap_or (rx_match rx (''^'' @ uri_template_pattern rx template @ ''$'') uri) False"

definition field_matches :: "string option \<Rightarrow> string option \<Rightarrow> bool" where
  "field_matches expected actual =
     (case expected of None \<Rightarrow> True | Some x \<Rightarrow> actual = Some x)"

definition type_matches :: "regex_ops \<Rightarrow> string \<Rightarrow> string \<Rightarrow> bool" where
  "type_matches rx filter_type error_type =
     uri_is_match rx (canonical_spec_uri filter_type) (canonical_spec_uri error_type)"

definition error_filter_matches :: "regex_ops \<Rightarrow> error_filter \<Rightarrow> wf_error \<Rightarrow> bool" where
  "error_filter_matches rx f e \<longleftrightarrow>
     (case ef_status f of None \<Rightarrow> True | Some st \<Rightarrow> st = er_status e) \<and>
     field_matches (ef_details f) (er_detail e) \<and>
     field_matches (ef_title f) (er_title e) \<and>
     field_matches (ef_instance f) (er_instance e) \<and>
     (case ef_type f of None \<Rightarrow> True | Some t \<Rightarrow> type_matches rx t (er_type e))"

section \<open>Tasks\<close>

text \<open>A transformation is an expression or a map of expressions.\<close>

datatype transform_spec = TsExpression string | TsMap "(string \<times> json) list"

datatype wf_schema = ScInline json string | ScResource string

definition json_schema :: "wf_schema \<Rightarrow> json option" where
  "json_schema s =
     (case s of
        ScInline document format \<Rightarrow>
          (if format = [] \<or> format = ''json'' then Some document else None)
      | ScResource format \<Rightarrow> None)"

record wf_input =
  in_from :: "transform_spec option"
  in_schema :: "wf_schema option"

record wf_output =
  out_as :: "transform_spec option"
  out_schema :: "wf_schema option"

record wf_export =
  ex_as :: "transform_spec option"
  ex_schema :: "wf_schema option"

datatype task_timeout = TtTimeout wf_duration | TtReference string

record task_base =
  tb_checkpoint :: bool
  tb_export :: "wf_export option"
  tb_if :: "string option"
  tb_input :: "wf_input option"
  tb_output :: "wf_output option"
  tb_then :: "flow_directive option"
  tb_timeout :: "task_timeout option"

definition default_base :: task_base where
  "default_base =
     \<lparr>tb_checkpoint = False, tb_export = None, tb_if = None, tb_input = None, tb_output = None,
      tb_then = None, tb_timeout = None\<rparr>"

datatype for_on_error = OnErrorContinue | OnErrorBreak

record for_configuration =
  fc_at :: string
  fc_each :: string
  fc_in :: string

record switch_case =
  sc_when :: "string option"
  sc_then :: flow_directive

datatype raise_error = ReError wf_error | ReReference string

record retry_limit_attempt =
  rla_count :: "int option"
  rla_duration :: "wf_duration option"

record wf_retry_policy =
  wrp_backoff :: bool
  wrp_delay :: "wf_duration option"
  wrp_attempt :: "retry_limit_attempt option"

datatype catch_retry = CrPolicy wf_retry_policy | CrLabel string

record catch_config =
  cc_as :: "string option"
  cc_with :: "error_filter option"
  cc_except_when :: "string option"
  cc_retry :: "catch_retry option"
  cc_when :: "string option"

datatype task =
    ForkTask task_base "(string \<times> task) list list" bool
  | ForTask task_base for_configuration "(string \<times> task) list list" bool for_on_error
      "string option"
  | RaiseTask task_base raise_error
  | CallTask task_base json
  | RunTask task_base bool json
  | SetTask task_base "(string \<times> json) list"
  | SwitchTask task_base "(string \<times> switch_case) list list"
  | TryTask task_base "(string \<times> task) list list" catch_config
      "(string \<times> task) list list option"
  | DoTask task_base "(string \<times> task) list list"
  | WaitTask task_base wf_duration

type_synonym task_list = "(string \<times> task) list list"

fun base_of :: "task \<Rightarrow> task_base" where
  "base_of (ForkTask b bs c) = b"
| "base_of (ForTask b f ts p e w) = b"
| "base_of (RaiseTask b e) = b"
| "base_of (CallTask b c) = b"
| "base_of (RunTask b s r) = b"
| "base_of (SetTask b s) = b"
| "base_of (SwitchTask b s) = b"
| "base_of (TryTask b ts c d) = b"
| "base_of (DoTask b ts) = b"
| "base_of (WaitTask b d) = b"

fun task_type :: "task \<Rightarrow> string" where
  "task_type (ForkTask b bs c) = ''fork''"
| "task_type (ForTask b f ts p e w) = ''for''"
| "task_type (RaiseTask b e) = ''raise''"
| "task_type (CallTask b c) = ''call''"
| "task_type (RunTask b s r) = ''run''"
| "task_type (SetTask b s) = ''set''"
| "task_type (SwitchTask b s) = ''switch''"
| "task_type (TryTask b ts c d) = ''try''"
| "task_type (DoTask b ts) = ''do''"
| "task_type (WaitTask b d) = ''wait''"

definition catches :: "regex_ops \<Rightarrow> catch_config \<Rightarrow> wf_error \<Rightarrow> bool" where
  "catches rx c e = (case cc_with c of None \<Rightarrow> True | Some f \<Rightarrow> error_filter_matches rx f e)"

record workflow_schema =
  ws_name :: string
  ws_do :: task_list
  ws_input :: "wf_input option"
  ws_output :: "wf_output option"
  ws_timeout :: "task_timeout option"
  ws_timeouts :: "(string \<times> wf_duration) list"

definition create_do_task :: "workflow_schema \<Rightarrow> task" where
  "create_do_task w =
     DoTask (default_base\<lparr>tb_input := Some (unwrap_or (ws_input w) \<lparr>in_from = None, in_schema = None\<rparr>),
                          tb_output := ws_output w, tb_timeout := ws_timeout w\<rparr>) (ws_do w)"

section \<open>Positions\<close>

type_synonym wf_position = "json list"

definition pos_push :: "string \<Rightarrow> wf_position \<Rightarrow> wf_position" where
  "pos_push name p = p @ [JStr name]"

definition pos_push_idx :: "nat \<Rightarrow> wf_position \<Rightarrow> wf_position" where
  "pos_push_idx i p = p @ [JInt (int i)]"

definition pos_pop :: "wf_position \<Rightarrow> wf_position" where
  "pos_pop p = butlast p"

fun relative_loop :: "json list \<Rightarrow> json list \<Rightarrow> nat \<Rightarrow> json list \<Rightarrow> json list option" where
  "relative_loop base [] i relative = Some relative"
| "relative_loop base (v # vs) i relative =
     (if i < length base \<and> v \<noteq> base ! i then None
      else relative_loop base vs (i + 1)
             (if i \<ge> length base then relative @ [v] else relative))"

definition relative_path :: "wf_position \<Rightarrow> json list \<Rightarrow> json list option" where
  "relative_path p base =
     (if length p < length base then None else relative_loop base p 0 [])"

lemma pos_pop_push [simp]: "pos_pop (pos_push n p) = p" "pos_pop (pos_push_idx i p) = p"
  by (simp_all add: pos_pop_def pos_push_def pos_push_idx_def)

lemma relative_loop_beyond:
  "length base \<le> i \<Longrightarrow> relative_loop base vs i rel = Some (rel @ vs)"
  by (induction vs arbitrary: i rel) simp_all

lemma relative_loop_within:
  "length base \<le> i + length vs \<Longrightarrow>
   relative_loop base vs i rel =
     (if prefix (drop i base) vs then Some (rel @ drop (length base - i) vs) else None)"
proof (induction vs arbitrary: i rel)
  case (Cons v vs)
  show ?case
  proof (cases "i < length base")
    case True
    then have hd: "drop i base = base ! i # drop (i + 1) base"
      by (simp add: Cons_nth_drop_Suc)
    have tl: "drop (length base - i) (v # vs) = drop (length base - (i + 1)) vs"
      using True by (metis Suc_diff_Suc Suc_eq_plus1 drop_Suc_Cons)
    show ?thesis using True Cons.prems Cons.IH [of "i + 1" rel] unfolding hd tl by auto
  qed (simp add: relative_loop_beyond)
qed (simp add: relative_loop_beyond)

lemma relative_path_iff: "relative_path p base = Some r \<longleftrightarrow> p = base @ r"
proof (cases "length p < length base")
  case False
  then have "relative_path p base = (if prefix base p then Some (drop (length base) p) else None)"
    by (simp add: relative_path_def relative_loop_within)
  then show ?thesis by (auto simp: prefix_def)
qed (auto simp: relative_path_def)

lemma relative_path_self [simp]: "relative_path p p = Some []"
  by (simp add: relative_path_iff)

lemma relative_path_append [simp]: "relative_path (b @ r) b = Some r"
  by (simp add: relative_path_iff)

lemma relative_path_None: "relative_path p base = None \<longleftrightarrow> \<not> prefix base p"
  by (metis not_None_eq prefix_def relative_path_iff)

subsection \<open>Reading a JSON pointer\<close>

fun unescape :: "string \<Rightarrow> string" where
  "unescape [] = []"
| "unescape [c] = [c]"
| "unescape (c # d # s) =
     (if c = CHR ''~''
      then (if d = CHR ''0'' then CHR ''~'' # unescape s
            else if d = CHR ''1'' then CHR ''/'' # unescape s
            else c # d # unescape s)
      else c # unescape (d # s))"

definition unescape_to_value :: "string \<Rightarrow> json" where
  "unescape_to_value segment =
     (let s = unescape segment
      in (case parse_i64 s of Some n \<Rightarrow> JInt n | None \<Rightarrow> JStr s))"

definition position_parse :: "string \<Rightarrow> wf_position option" where
  "position_parse path =
     (case path of
        [] \<Rightarrow> Some []
      | c # rest \<Rightarrow>
          (if c = CHR ''/'' then Some (map unescape_to_value (split_on (CHR ''/'') rest))
           else None))"

text \<open>
  Printing a position is the stack of a third-party library, documented to follow RFC 6901:
  each element is preceded by a slash, with tildes and slashes escaped.
\<close>

fun rfc6901_escape :: "string \<Rightarrow> string" where
  "rfc6901_escape [] = []"
| "rfc6901_escape (c # s) =
     (if c = CHR ''~'' then ''~0'' else if c = CHR ''/'' then ''~1'' else [c]) @ rfc6901_escape s"

fun rfc6901_text :: "json \<Rightarrow> string" where
  "rfc6901_text (JStr s) = rfc6901_escape s"
| "rfc6901_text (JInt i) = show_int i"
| "rfc6901_text v = []"

definition rfc6901 :: "wf_position \<Rightarrow> string" where
  "rfc6901 p = concat (map (\<lambda>v. CHR ''/'' # rfc6901_text v) p)"

section \<open>Failures of workflow jobs\<close>

definition kind_for_code :: "i32 \<Rightarrow> standard_error_type option" where
  "kind_for_code code =
     (case stream_error_code_try_from code of
        None \<Rightarrow> None
      | Some c \<Rightarrow>
          (case c of
             SecTimeout \<Rightarrow> Some SeTimeout
           | SecTransportFailed \<Rightarrow> Some SeCommunication
           | SecProviderStreamFailed \<Rightarrow> Some SeCommunication
           | SecInvalidArgument \<Rightarrow> Some SeValidation
           | SecUnspecified \<Rightarrow> None
           | SecExecutionFailed \<Rightarrow> None
           | SecCancelled \<Rightarrow> None))"

definition code_for_type :: "string \<Rightarrow> stream_error_code" where
  "code_for_type type_uri =
     (case standard_from_uri type_uri of
        Some SeTimeout \<Rightarrow> SecTimeout
      | Some SeCommunication \<Rightarrow> SecTransportFailed
      | Some SeValidation \<Rightarrow> SecInvalidArgument
      | _ \<Rightarrow> SecExecutionFailed)"

definition workflow_failure ::
  "json_writer \<Rightarrow> wf_error \<Rightarrow> string \<Rightarrow> panic + stream_error" where
  "workflow_failure to_string e diagnostic =
     bindE (classified_error to_string (code_for_type (er_type e)) diagnostic ''WORKFLOW'') (\<lambda>failure.
       Inr (failure\<lparr>se_problem := Some
         \<lparr>pd_type = er_type e,
          pd_status = (if - (2 ^ 31) \<le> er_status e \<and> er_status e < 2 ^ 31 then er_status e else 0),
          pd_title = er_title e, pd_detail = er_detail e, pd_instance = er_instance e\<rparr>\<rparr>))"

definition raise_reported :: "problem_details \<Rightarrow> string option \<Rightarrow> wf_error option" where
  "raise_reported problem pos =
     (if pd_type problem = [] then None
      else
        (let status =
               (if pd_status problem > 0 then pd_status problem
                else default_status (unwrap_or (standard_from_uri (pd_type problem)) SeRuntime));
             detail =
               (case (pd_detail problem, pd_instance problem) of
                  (Some d, Some i) \<Rightarrow>
                    Some (d @ '' (raised at '' @ i @ '' in the child workflow)'')
                | (None, Some i) \<Rightarrow> Some (''raised at '' @ i @ '' in the child workflow'')
                | (d, None) \<Rightarrow> d)
         in Some \<lparr>er_type = pd_type problem, er_status = status, er_title = pd_title problem,
                  er_detail = detail, er_instance = pos\<rparr>))"

section \<open>Properties\<close>

lemma split_on_append:
  "c \<notin> set a \<Longrightarrow> split_on c (a @ c # b) = a # split_on c b"
  by (induction a) auto

lemma split_on_none: "c \<notin> set a \<Longrightarrow> split_on c a = [a]"
  by (induction a) auto

lemma unescape_escape [simp]: "unescape (rfc6901_escape s) = s"
proof (induction s)
  case (Cons c s)
  have plain: "unescape (c # t) = c # unescape t" if "c \<noteq> CHR ''~''" for c t
    using that by (cases t) simp_all
  show ?case using Cons.IH by (auto simp: plain)
qed simp

lemma escape_no_slash: "CHR ''/'' \<notin> set (rfc6901_escape s)"
  by (induction s) auto

lemma show_int_char:
  assumes "char_digit c = None" and "c \<noteq> CHR ''-''"
  shows "c \<notin> set (show_int i)"
proof
  assume "c \<in> set (show_int i)"
  then obtain n where "c \<in> set (show_nat n)"
    using assms(2) by (auto simp: show_int_def split: if_splits)
  then obtain d where "d < 10" "c = digit_char d" using set_show_nat by blast
  then show False using assms(1) by simp
qed

text \<open>Elements that a pointer can tell apart: 64-bit indices, and names that do not read as a
  number.\<close>

definition pointer_element :: "json \<Rightarrow> bool" where
  "pointer_element v =
     (case v of JStr s \<Rightarrow> parse_i64 s = None | JInt i \<Rightarrow> in_i64 i | _ \<Rightarrow> False)"

lemma unescape_digits: "CHR ''~'' \<notin> set s \<Longrightarrow> unescape s = s"
  by (induction s rule: unescape.induct) auto

lemma show_int_plain [simp]:
  "CHR ''/'' \<notin> set (show_int i)" "CHR ''~'' \<notin> set (show_int i)"
  by (rule show_int_char; simp add: char_digit_def)+

lemma element_roundtrip:
  "pointer_element v \<Longrightarrow> unescape_to_value (rfc6901_text v) = v"
  by (cases v)
     (auto simp: pointer_element_def unescape_to_value_def unescape_digits
        parse_i64_def in_i64_def i64_min_def i64_max_def parse_signed_show_int)

lemma element_no_slash: "CHR ''/'' \<notin> set (rfc6901_text v)"
  by (cases v) (simp_all add: escape_no_slash)

lemma position_segments:
  "map unescape_to_value (split_on (CHR ''/'') (rfc6901_text v @ rfc6901 p)) = v # p"
  if "\<forall>x \<in> set (v # p). pointer_element x"
  using that
proof (induction p arbitrary: v)
  case Nil
  then show ?case by (simp add: rfc6901_def split_on_none element_no_slash element_roundtrip)
next
  case (Cons w p)
  then show ?case
    by (simp add: rfc6901_def split_on_append element_no_slash element_roundtrip)
qed

lemma position_parse_print:
  "\<forall>x \<in> set p. pointer_element x \<Longrightarrow> position_parse (rfc6901 p) = Some p"
  using position_segments
  by (cases p) (auto simp: position_parse_def rfc6901_def)

lemma reported_error_raised:
  assumes "workflow_failure to_string e diagnostic = Inr failure"
    and "se_problem failure = Some problem"
    and "er_type e \<noteq> []"
  shows "\<exists>e'. raise_reported problem pos = Some e' \<and> er_type e' = er_type e \<and>
           er_title e' = er_title e \<and> er_instance e' = pos \<and>
           (0 < er_status e \<and> er_status e < 2 ^ 31 \<longrightarrow> er_status e' = er_status e)"
  using assms by (auto simp: workflow_failure_def bindE_eq_Inr raise_reported_def Let_def)

end
