(* ===== verification/Workflow_Context.thy ===== *)
theory Workflow_Context
  imports Workflow_Schema
begin

text \<open>
  The run-time state of a workflow (\<^verbatim>\<open>app-wrapper/src/workflow/execute/context.rs\<close>,
  \<^verbatim>\<open>expression.rs\<close> and \<^verbatim>\<open>checkpoint.rs\<close>) and the evaluation of expressions
  (\<^verbatim>\<open>infra/src/workflow/definition/transform.rs\<close>).

  A task context shares its position stack and its variables with the contexts it was cloned
  from (\<^verbatim>\<open>Arc<RwLock<WorkflowPosition>>\<close>, \<^verbatim>\<open>Arc<Mutex<ContextVariables>>\<close>).  The state holds both
  in stores, and a context holds their addresses, so that a push through one context is seen
  through all others that share the stack.  Cloning a context copies the addresses.

  The jq and Liquid engines, JSON schema validation, the printing of positions and the reading
  of floating-point numbers are third-party code: they are the fields of \<open>engines\<close>.
  Child job scopes, trace spans and log output are left out.
\<close>

section \<open>Contexts\<close>

datatype workflow_status = WsPending | WsRunning | WsWaiting | WsCompleted | WsFaulted | WsCancelled

type_synonym context_variables = "(string \<times> json) list"

record workflow_context =
  wc_name :: string
  wc_input :: json
  wc_status :: workflow_status
  wc_output :: "json option"
  wc_position :: wf_position
  wc_checkpoint_position :: "wf_position option"
  wc_resume_position :: "wf_position option"
  wc_variables :: nat

record task_context =
  tc_definition :: "task option"
  tc_raw_input :: json
  tc_input :: json
  tc_raw_output :: json
  tc_output :: json
  tc_variables :: nat
  tc_started_at :: nat
  tc_completed_at :: "nat option"
  tc_flow_directive :: wf_then
  tc_position :: nat

record workflow_checkpoint =
  wk_name :: string
  wk_input :: json
  wk_variables :: context_variables

record task_checkpoint =
  tk_input :: json
  tk_output :: json
  tk_variables :: context_variables
  tk_flow_directive :: string

record checkpoint =
  cp_workflow :: workflow_checkpoint
  cp_task :: task_checkpoint
  cp_position :: wf_position

record wf_state =
  st_context :: workflow_context
  st_positions :: "wf_position list"
  st_variables :: "context_variables list"
  st_checkpoints :: "(string \<times> checkpoint) list"
  st_clock :: nat
  st_polls :: nat

section \<open>Shared positions and variables\<close>

definition position_at :: "nat \<Rightarrow> wf_state \<Rightarrow> wf_position" where
  "position_at a s = (if a < length (st_positions s) then st_positions s ! a else [])"

definition set_position :: "nat \<Rightarrow> wf_position \<Rightarrow> wf_state \<Rightarrow> wf_state" where
  "set_position a p s = s\<lparr>st_positions := (st_positions s)[a := p]\<rparr>"

definition new_position :: "wf_position \<Rightarrow> wf_state \<Rightarrow> nat \<times> wf_state" where
  "new_position p s = (length (st_positions s), s\<lparr>st_positions := st_positions s @ [p]\<rparr>)"

definition variables_at :: "nat \<Rightarrow> wf_state \<Rightarrow> context_variables" where
  "variables_at a s = (if a < length (st_variables s) then st_variables s ! a else [])"

definition set_variables :: "nat \<Rightarrow> context_variables \<Rightarrow> wf_state \<Rightarrow> wf_state" where
  "set_variables a vs s = s\<lparr>st_variables := (st_variables s)[a := vs]\<rparr>"

definition new_variables :: "context_variables \<Rightarrow> wf_state \<Rightarrow> nat \<times> wf_state" where
  "new_variables vs s = (length (st_variables s), s\<lparr>st_variables := st_variables s @ [vs]\<rparr>)"

definition add_position_name :: "string \<Rightarrow> task_context \<Rightarrow> wf_state \<Rightarrow> wf_state" where
  "add_position_name name c s =
     set_position (tc_position c) (pos_push name (position_at (tc_position c) s)) s"

definition add_position_index :: "nat \<Rightarrow> task_context \<Rightarrow> wf_state \<Rightarrow> wf_state" where
  "add_position_index i c s =
     set_position (tc_position c) (pos_push_idx i (position_at (tc_position c) s)) s"

definition remove_position :: "task_context \<Rightarrow> wf_state \<Rightarrow> wf_state" where
  "remove_position c s =
     set_position (tc_position c) (pos_pop (position_at (tc_position c) s)) s"

definition add_context_value :: "string \<Rightarrow> json \<Rightarrow> task_context \<Rightarrow> wf_state \<Rightarrow> wf_state" where
  "add_context_value k v c s =
     set_variables (tc_variables c) (index_insert k v (variables_at (tc_variables c) s)) s"

definition remove_context_value :: "string \<Rightarrow> task_context \<Rightarrow> wf_state \<Rightarrow> wf_state" where
  "remove_context_value k c s =
     set_variables (tc_variables c) (shift_remove k (variables_at (tc_variables c) s)) s"

definition wf_add_context_value :: "string \<Rightarrow> json \<Rightarrow> wf_state \<Rightarrow> wf_state" where
  "wf_add_context_value k v s =
     (let a = wc_variables (st_context s)
      in set_variables a (index_insert k v (variables_at a s)) s)"

definition status_of :: "wf_state \<Rightarrow> workflow_status" where
  "status_of s = wc_status (st_context s)"

definition set_status :: "workflow_status \<Rightarrow> wf_state \<Rightarrow> wf_state" where
  "set_status w s = s\<lparr>st_context := (st_context s)\<lparr>wc_status := w\<rparr>\<rparr>"

definition is_cancelled :: "wf_state \<Rightarrow> bool" where
  "is_cancelled s \<longleftrightarrow> status_of s = WsCancelled"

definition new_task_context ::
  "task option \<Rightarrow> json \<Rightarrow> nat \<Rightarrow> nat \<Rightarrow> wf_state \<Rightarrow> task_context" where
  "new_task_context t input vars pos s =
     \<lparr>tc_definition = t, tc_raw_input = input, tc_input = input, tc_raw_output = input,
      tc_output = input, tc_variables = vars, tc_started_at = st_clock s, tc_completed_at = None,
      tc_flow_directive = ThContinue, tc_position = pos\<rparr>"

definition new_from_cp ::
  "task option \<Rightarrow> task_checkpoint \<Rightarrow> nat \<Rightarrow> wf_state \<Rightarrow> task_context \<times> wf_state" where
  "new_from_cp t cp pos s =
     (let (vars, s1) = new_variables (tk_variables cp) s
      in (\<lparr>tc_definition = t, tc_raw_input = tk_input cp, tc_input = tk_input cp,
           tc_raw_output = tk_output cp, tc_output = tk_output cp, tc_variables = vars,
           tc_started_at = st_clock s1, tc_completed_at = None,
           tc_flow_directive = then_from_str (tk_flow_directive cp), tc_position = pos\<rparr>, s1))"

definition set_input :: "json \<Rightarrow> task_context \<Rightarrow> task_context" where
  "set_input v c = c\<lparr>tc_input := v, tc_raw_output := v, tc_output := v\<rparr>"

definition set_raw_output :: "json \<Rightarrow> task_context \<Rightarrow> task_context" where
  "set_raw_output v c = c\<lparr>tc_raw_output := v, tc_output := v\<rparr>"

definition set_completed_at :: "wf_state \<Rightarrow> task_context \<Rightarrow> task_context" where
  "set_completed_at s c = c\<lparr>tc_completed_at := Some (st_clock s)\<rparr>"

definition clone_with_isolated_position ::
  "task_context \<Rightarrow> wf_state \<Rightarrow> task_context \<times> wf_state" where
  "clone_with_isolated_position c s =
     (let (a, s1) = new_position (position_at (tc_position c) s) s
      in (c\<lparr>tc_position := a\<rparr>, s1))"

section \<open>Expression contexts\<close>

text \<open>
  The variables of one evaluation.  \<open>$context\<close>, \<open>$runtime\<close>, \<open>$workflow\<close> and \<open>$task\<close> are views of the
  two contexts, built from snapshots when an expression mentions them, unless a variable of
  the same name hides them.
\<close>

record expr_context =
  ec_values :: context_variables
  ec_workflow :: workflow_context
  ec_task :: task_context

definition ec_insert :: "string \<Rightarrow> json \<Rightarrow> expr_context \<Rightarrow> expr_context" where
  "ec_insert k v e = e\<lparr>ec_values := index_insert k v (ec_values e)\<rparr>"

definition expression :: "task_context \<Rightarrow> wf_state \<Rightarrow> expr_context" where
  "expression c s =
     (let e0 = \<lparr>ec_values = [(''input'', tc_input c), (''output'', tc_output c)],
                ec_workflow = st_context s, ec_task = c\<rparr>;
          e1 = fold (\<lambda>(k, v). ec_insert k v) (variables_at (tc_variables c) s) e0
      in fold (\<lambda>(k, v). ec_insert k v) (variables_at (wc_variables (st_context s)) s) e1)"

record engines =
  eg_jq :: "string \<Rightarrow> json \<Rightarrow> expr_context \<Rightarrow> string + json"
  eg_liquid :: "string \<Rightarrow> json \<Rightarrow> expr_context \<Rightarrow> string + string"
  eg_parse_f64 :: "string \<Rightarrow> json option option"
  eg_validate :: "json \<Rightarrow> json \<Rightarrow> (string \<times> string) option"
  eg_read_error :: "json \<Rightarrow> string + wf_error"
  eg_show_json :: "json \<Rightarrow> string"
  eg_pointer :: "wf_position \<Rightarrow> string"
  eg_regex :: regex_ops
  eg_duration :: "duration_unit \<Rightarrow> string \<Rightarrow> u64"

section \<open>Trimming\<close>

text \<open>The UTF-8 encodings of the characters with the Unicode property White\_Space.\<close>

definition whitespace :: "string list" where
  "whitespace =
     map (\<lambda>c. [c]) [CHR 0x09, CHR 0x0A, CHR 0x0B, CHR 0x0C, CHR 0x0D, CHR 0x20] @
     [[CHR 0xC2, CHR 0x85], [CHR 0xC2, CHR 0xA0], [CHR 0xE1, CHR 0x9A, CHR 0x80],
      [CHR 0xE2, CHR 0x80, CHR 0xA8], [CHR 0xE2, CHR 0x80, CHR 0xA9],
      [CHR 0xE2, CHR 0x80, CHR 0xAF], [CHR 0xE2, CHR 0x81, CHR 0x9F],
      [CHR 0xE3, CHR 0x80, CHR 0x80]] @
     map (\<lambda>c. [CHR 0xE2, CHR 0x80, c])
       [CHR 0x80, CHR 0x81, CHR 0x82, CHR 0x83, CHR 0x84, CHR 0x85, CHR 0x86, CHR 0x87,
        CHR 0x88, CHR 0x89, CHR 0x8A]"

function strip_while :: "string list \<Rightarrow> string \<Rightarrow> string" where
  "strip_while ws s =
     (case find (\<lambda>w. w \<noteq> [] \<and> prefix w s) ws of
        None \<Rightarrow> s
      | Some w \<Rightarrow> strip_while ws (drop (length w) s))"
  by pat_completeness auto

lemma strip_while_shorter:
  assumes "find (\<lambda>w. w \<noteq> [] \<and> prefix w s) ws = Some w"
  shows "length (drop (length w) s) < length s"
proof -
  have "w \<noteq> []" "prefix w s" using assms by (auto simp: find_Some_iff)
  then show ?thesis using prefix_length_le [of w s] by (cases w) auto
qed

termination strip_while
  by (relation "measure (length \<circ> snd)") (use strip_while_shorter in \<open>auto simp del: length_drop\<close>)

declare strip_while.simps [simp del]

definition trim_start :: "string \<Rightarrow> string" where
  "trim_start s = strip_while whitespace s"

definition trim_end :: "string \<Rightarrow> string" where
  "trim_end s = rev (strip_while (map rev whitespace) (rev s))"

definition trim_start_matches :: "string \<Rightarrow> string \<Rightarrow> string" where
  "trim_start_matches pat s = strip_while [pat] s"

definition trim_end_matches :: "string \<Rightarrow> string \<Rightarrow> string" where
  "trim_end_matches pat s = rev (strip_while [rev pat] (rev s))"

section \<open>Evaluating expressions\<close>

definition is_transform_filter :: "string \<Rightarrow> bool" where
  "is_transform_filter f \<longleftrightarrow> prefix ''${'' (trim_start f) \<and> suffix ''}'' (trim_end f)"

definition is_transform_template :: "string \<Rightarrow> bool" where
  "is_transform_template f \<longleftrightarrow> prefix ''$${'' (trim_start f) \<and> suffix ''}'' (trim_end f)"

definition jq_filter_body :: "string \<Rightarrow> string" where
  "jq_filter_body f = trim_end_matches ''}'' (trim_start_matches ''${'' (trim_end (trim_start f)))"

definition liquid_template_body :: "string \<Rightarrow> string" where
  "liquid_template_body t =
     (let t1 = trim_end (trim_start_matches ''$${'' (trim_end (trim_start t)))
      in if suffix ''}'' t1 then butlast t1 else t1)"

definition execute_jq_filter ::
  "engines \<Rightarrow> json \<Rightarrow> string \<Rightarrow> expr_context \<Rightarrow> wf_error + json" where
  "execute_jq_filter eg raw_input f ctx =
     (if is_transform_filter f
      then (case eg_jq eg (jq_filter_body f) raw_input ctx of
              Inl e \<Rightarrow> Inl (standard_error SeExpression ''failed to parse jq filter'' None (Some e))
            | Inr v \<Rightarrow> Inr v)
      else Inr (JStr f))"

definition execute_liquid_template ::
  "engines \<Rightarrow> json \<Rightarrow> string \<Rightarrow> expr_context \<Rightarrow> wf_error + string" where
  "execute_liquid_template eg input t ctx =
     (if is_transform_template t
      then (case eg_liquid eg (liquid_template_body t) input ctx of
              Inl e \<Rightarrow>
                Inl (standard_error SeExpression ''failed to parse liquid template'' None (Some e))
            | Inr v \<Rightarrow> Inr v)
      else Inr t)"

definition liquid_value :: "engines \<Rightarrow> string \<Rightarrow> json" where
  "liquid_value eg r =
     (case parse_i64 r of
        Some n \<Rightarrow> JInt n
      | None \<Rightarrow>
          (case eg_parse_f64 eg r of
             Some (Some n) \<Rightarrow> n
           | Some None \<Rightarrow> JStr r
           | None \<Rightarrow>
               (if r = ''true'' then JBool True
                else if r = ''false'' then JBool False
                else JStr r)))"

definition execute_transform ::
  "engines \<Rightarrow> json \<Rightarrow> string \<Rightarrow> expr_context \<Rightarrow> wf_error + json" where
  "execute_transform eg input f ctx =
     (if is_transform_template f
      then bindE (execute_liquid_template eg input f ctx) (\<lambda>r. Inr (liquid_value eg r))
      else if is_transform_filter f then execute_jq_filter eg input f ctx
      else Inr (JStr f))"

definition eval_as_bool :: "json \<Rightarrow> bool" where
  "eval_as_bool v =
     (case v of
        JBool b \<Rightarrow> b
      | JInt i \<Rightarrow> in_i64 i \<and> i \<noteq> 0
      | JFloat r \<Rightarrow> False
      | JStr s \<Rightarrow> s \<noteq> []
      | JArr a \<Rightarrow> a \<noteq> []
      | JObj fs \<Rightarrow> fs \<noteq> []
      | JNull \<Rightarrow> False)"

definition execute_transform_as_bool ::
  "engines \<Rightarrow> json \<Rightarrow> string \<Rightarrow> expr_context \<Rightarrow> wf_error + bool" where
  "execute_transform_as_bool eg input f ctx =
     bindE (execute_transform eg input f ctx) (\<lambda>v. Inr (eval_as_bool v))"

text \<open>
  Within a map, the elements of an array that fail to evaluate are left out; within an array of
  an array the first failure is reported.
\<close>

definition ok_values :: "('e + 'a) list \<Rightarrow> 'a list" where
  "ok_values rs = concat (map (\<lambda>r. case r of Inl e \<Rightarrow> [] | Inr v \<Rightarrow> [v]) rs)"

primrec sequence :: "('e + 'a) list \<Rightarrow> 'e + 'a list" where
  "sequence [] = Inr []"
| "sequence (r # rs) = bindE r (\<lambda>v. bindE (sequence rs) (\<lambda>vs. Inr (v # vs)))"

fun transform_value ::
  "engines \<Rightarrow> json \<Rightarrow> expr_context \<Rightarrow> json \<Rightarrow> wf_error + json" where
  "transform_value eg input ctx (JObj fs) =
     bindE (sequence (map (\<lambda>(k, v). bindE (transform_value eg input ctx v) (\<lambda>w. Inr (k, w))) fs))
       (\<lambda>gs. Inr (JObj gs))"
| "transform_value eg input ctx (JArr vs) =
     Inr (JArr (ok_values (map (transform_value eg input ctx) vs)))"
| "transform_value eg input ctx (JStr f) = execute_transform eg input f ctx"
| "transform_value eg input ctx v = Inr v"

fun transform_ref_value ::
  "engines \<Rightarrow> json \<Rightarrow> expr_context \<Rightarrow> json \<Rightarrow> wf_error + json" and
  transform_ref_field ::
  "engines \<Rightarrow> json \<Rightarrow> expr_context \<Rightarrow> json \<Rightarrow> wf_error + json" where
  "transform_ref_value eg input ctx (JStr f) = execute_transform eg input f ctx"
| "transform_ref_value eg input ctx (JObj fs) =
     bindE (sequence (map (\<lambda>(k, v). bindE (transform_ref_field eg input ctx v) (\<lambda>w. Inr (k, w))) fs))
       (\<lambda>gs. Inr (JObj gs))"
| "transform_ref_value eg input ctx (JArr vs) =
     bindE (sequence (map (transform_ref_value eg input ctx) vs)) (\<lambda>ws. Inr (JArr ws))"
| "transform_ref_value eg input ctx v = Inr v"
| "transform_ref_field eg input ctx (JObj fs) =
     bindE (sequence (map (\<lambda>(k, v). bindE (transform_ref_field eg input ctx v) (\<lambda>w. Inr (k, w))) fs))
       (\<lambda>gs. Inr (JObj gs))"
| "transform_ref_field eg input ctx (JArr vs) =
     Inr (JArr (ok_values (map (transform_ref_value eg input ctx) vs)))"
| "transform_ref_field eg input ctx (JStr f) = execute_transform eg input f ctx"
| "transform_ref_field eg input ctx v = Inr v"

definition transform_ref_map ::
  "engines \<Rightarrow> json \<Rightarrow> (string \<times> json) list \<Rightarrow> expr_context \<Rightarrow> wf_error + json" where
  "transform_ref_map eg input fs ctx = transform_ref_field eg input ctx (JObj fs)"

definition transform_by ::
  "engines \<Rightarrow> json \<Rightarrow> transform_spec \<Rightarrow> expr_context \<Rightarrow> wf_error + json" where
  "transform_by eg raw_input spec ctx =
     (case spec of
        TsExpression f \<Rightarrow> execute_transform eg raw_input f ctx
      | TsMap fs \<Rightarrow> transform_ref_map eg raw_input fs ctx)"

section \<open>Flow directives\<close>

definition then_create ::
  "engines \<Rightarrow> json \<Rightarrow> flow_directive \<Rightarrow> expr_context \<Rightarrow> wf_error + wf_then" where
  "then_create eg out directive ctx =
     (case directive of
        FdEnum FdContinue \<Rightarrow> Inr ThContinue
      | FdEnum FdExit \<Rightarrow> Inr ThExit
      | FdEnum FdEnd \<Rightarrow> Inr ThEnd
      | FdEnum FdWait \<Rightarrow> Inr ThWait
      | FdText t \<Rightarrow>
          bindE (execute_transform eg out t ctx) (\<lambda>v.
            Inr (case v of JStr s \<Rightarrow> ThTaskName s | _ \<Rightarrow> ThTaskName t)))"

section \<open>Checkpoints\<close>

definition new_checkpoint_at :: "wf_position \<Rightarrow> task_context \<Rightarrow> wf_state \<Rightarrow> checkpoint" where
  "new_checkpoint_at p c s =
     \<lparr>cp_workflow = \<lparr>wk_name = wc_name (st_context s), wk_input = wc_input (st_context s),
                     wk_variables = variables_at (wc_variables (st_context s)) s\<rparr>,
      cp_task = \<lparr>tk_input = tc_input c, tk_output = tc_output c,
                 tk_variables = variables_at (tc_variables c) s,
                 tk_flow_directive = then_to_string (tc_flow_directive c)\<rparr>,
      cp_position = p\<rparr>"

definition new_checkpoint :: "task_context \<Rightarrow> wf_state \<Rightarrow> checkpoint" where
  "new_checkpoint c s = new_checkpoint_at (position_at (tc_position c) s) c s"

definition generate_key :: "string \<Rightarrow> string \<Rightarrow> string \<Rightarrow> string" where
  "generate_key execution_id workflow_name pos =
     workflow_name @ '':'' @ execution_id @ '':'' @ pos"

definition save_checkpoint_memory ::
  "string \<Rightarrow> checkpoint \<Rightarrow> (string \<times> checkpoint) list \<Rightarrow> (string \<times> checkpoint) list" where
  "save_checkpoint_memory key cp m = index_insert key cp m"

definition get_checkpoint_memory ::
  "string \<Rightarrow> (string \<times> checkpoint) list \<Rightarrow> checkpoint option" where
  "get_checkpoint_memory key m = map_of m key"

section \<open>Lemmas on the stores\<close>

named_theorems wf_simps \<open>rules for the state of the workflow engine\<close>

lemma position_at_set [wf_simps]:
  "a < length (st_positions s) \<Longrightarrow>
   position_at b (set_position a p s) = (if b = a then p else position_at b s)"
  by (simp add: position_at_def set_position_def)

lemma set_position_fields [wf_simps]:
  "length (st_positions (set_position a p s)) = length (st_positions s)"
  "st_context (set_position a p s) = st_context s"
  "st_variables (set_position a p s) = st_variables s"
  "st_checkpoints (set_position a p s) = st_checkpoints s"
  "st_clock (set_position a p s) = st_clock s"
  "st_polls (set_position a p s) = st_polls s"
  "status_of (set_position a p s) = status_of s"
  "variables_at b (set_position a p s) = variables_at b s"
  by (simp_all add: set_position_def status_of_def variables_at_def)

lemma set_variables_fields [wf_simps]:
  "st_positions (set_variables a vs s) = st_positions s"
  "length (st_variables (set_variables a vs s)) = length (st_variables s)"
  "st_context (set_variables a vs s) = st_context s"
  "st_checkpoints (set_variables a vs s) = st_checkpoints s"
  "st_clock (set_variables a vs s) = st_clock s"
  "st_polls (set_variables a vs s) = st_polls s"
  "status_of (set_variables a vs s) = status_of s"
  "position_at b (set_variables a vs s) = position_at b s"
  by (simp_all add: set_variables_def status_of_def position_at_def)

lemma variables_at_set [wf_simps]:
  "a < length (st_variables s) \<Longrightarrow>
   variables_at b (set_variables a vs s) = (if b = a then vs else variables_at b s)"
  by (simp add: variables_at_def set_variables_def)

lemma set_status_fields [wf_simps]:
  "st_positions (set_status w s) = st_positions s"
  "st_variables (set_status w s) = st_variables s"
  "st_checkpoints (set_status w s) = st_checkpoints s"
  "st_clock (set_status w s) = st_clock s"
  "status_of (set_status w s) = w"
  "position_at b (set_status w s) = position_at b s"
  "variables_at b (set_status w s) = variables_at b s"
  by (simp_all add: set_status_def status_of_def position_at_def variables_at_def)

lemma set_position_set [wf_simps]:
  "set_position a p (set_position a q s) = set_position a p s"
  by (simp add: set_position_def)

lemma set_position_id [wf_simps]:
  "position_at a s = p \<Longrightarrow> set_position a p s = s"
  by (cases s, cases "a < length (st_positions s)")
     (auto simp: set_position_def position_at_def list_update_beyond)

end
