(* ===== verification/Workflow_Task.thy ===== *)
theory Workflow_Task
  imports Workflow_Context
begin

text \<open>
  One task (\<^verbatim>\<open>app-wrapper/src/workflow/execute/task.rs\<close>, \<^verbatim>\<open>task/set.rs\<close>, \<^verbatim>\<open>task/switch.rs\<close>): what
  every task does before and after its own work, checkpoints, timeouts, and the tasks that have
  no tasks inside.

  The executors are streams of events.  A stream is a computation that hands each event to its
  consumer and goes on with the state that the consumer leaves, unless the consumer drops the
  stream.  A result is the list of the events that were handed over, how the stream ended, and
  the state.  Errors end every modelled stream, so an error is a way to end.

  Time is a clock of milliseconds.  A task that waits or runs a job is given the earliest
  deadline of the tasks around it; when it does not come back by then, the stream elapses, and
  the task to which this deadline belongs reports a timeout.
\<close>

section \<open>Events and streams\<close>

datatype wf_event =
    EvTaskStarted string string string
  | EvTaskCompleted string string string task_context
  | EvForItemFailed string string nat json
  | EvStreamingJobStarted json
  | EvStreamingData json
  | EvStreamingJobCompleted json task_context

fun event_context :: "wf_event \<Rightarrow> task_context option" where
  "event_context (EvTaskCompleted ty name pos c) = Some c"
| "event_context (EvStreamingJobCompleted ev c) = Some c"
| "event_context ev = None"

definition last_context :: "wf_event list \<Rightarrow> task_context option" where
  "last_context evs = fold (\<lambda>ev acc. option_or (event_context ev) acc) evs None"

text \<open>
  How a stream ends: after its last item; with an error; because a deadline passed; because the
  \<open>for\<close> loop at the given depth dropped it; or not at all (\<open>Stuck\<close>, also used when the fuel of the
  model is used up).
\<close>

datatype wf_outcome = Ended | Failed wf_error | Elapsed | Stopped nat | Stuck

type_synonym wf_consumer = "wf_event \<Rightarrow> wf_state \<Rightarrow> nat option \<times> wf_state"

type_synonym wf_run = "wf_event list \<times> wf_outcome \<times> wf_state"

definition yield :: "wf_consumer \<Rightarrow> wf_event \<Rightarrow> wf_state \<Rightarrow> wf_run" where
  "yield k ev s =
     (case k ev s of
        (None, s') \<Rightarrow> ([ev], Ended, s')
      | (Some d, s') \<Rightarrow> ([ev], Stopped d, s'))"

definition and_then :: "wf_run \<Rightarrow> (wf_state \<Rightarrow> wf_run) \<Rightarrow> wf_run" where
  "and_then r f =
     (case r of
        (evs, Ended, s) \<Rightarrow> (case f s of (evs', out, s') \<Rightarrow> (evs @ evs', out, s'))
      | (evs, out, s) \<Rightarrow> (evs, out, s))"

definition failing :: "wf_error \<Rightarrow> wf_state \<Rightarrow> wf_run" where
  "failing e s = ([], Failed e, s)"

section \<open>Environment\<close>

text \<open>
  What a run depends on: the engines, whether a checkpoint repository is configured and the id
  of the execution, the errors of the repository, the timeouts, when the workflow is cancelled
  from outside, and the executors of run, call and fork tasks and of parallel loops, which are
  arbitrary.  A leaf executor that does not come back by the deadline answers \<open>None\<close>.
\<close>

record wf_env =
  we_engines :: engines
  we_repository :: bool
  we_execution_id :: "string option"
  we_save_error :: "string \<Rightarrow> checkpoint \<Rightarrow> string option"
  we_load_error :: "string \<Rightarrow> string option"
  we_default_timeout :: "nat option"
  we_timeouts :: "(string \<times> wf_duration) list"
  we_cancel :: "nat \<Rightarrow> bool"
  we_leaf :: "task \<Rightarrow> string \<Rightarrow> task_context \<Rightarrow> nat option \<Rightarrow> wf_state \<Rightarrow>
              (wf_error + task_context) option \<times> wf_state"
  we_run_stream :: "task \<Rightarrow> string \<Rightarrow> task_context \<Rightarrow> nat option \<Rightarrow> wf_state \<Rightarrow>
              wf_event list \<times> (wf_error + json \<times> task_context) option \<times> wf_state"
  we_parallel :: "task \<Rightarrow> string \<Rightarrow> task_context \<Rightarrow> nat option \<Rightarrow> wf_consumer \<Rightarrow> wf_state \<Rightarrow> wf_run"

definition pointer_of :: "wf_env \<Rightarrow> nat \<Rightarrow> wf_state \<Rightarrow> string" where
  "pointer_of env a s = eg_pointer (we_engines env) (position_at a s)"

text \<open>\<^verbatim>\<open>Error::position\<close> with the stack of a context.\<close>

definition at_position :: "wf_env \<Rightarrow> nat \<Rightarrow> wf_state \<Rightarrow> wf_error \<Rightarrow> wf_error" where
  "at_position env a s e = e\<lparr>er_instance := Some (pointer_of env a s)\<rparr>"

text \<open>\<^verbatim>\<open>WorkflowExecutor::cancel\<close>, which another task may call between any two steps; whether it
  did before a check of the status is up to the environment.\<close>

definition cancel_status :: "wf_state \<Rightarrow> wf_state" where
  "cancel_status s =
     (if status_of s \<in> {WsRunning, WsPending, WsWaiting} then set_status WsCancelled s else s)"

definition poll_cancel :: "wf_env \<Rightarrow> wf_state \<Rightarrow> wf_state" where
  "poll_cancel env s =
     (let s1 = s\<lparr>st_polls := st_polls s + 1\<rparr>
      in if we_cancel env (st_polls s) then cancel_status s1 else s1)"

definition elapse :: "nat option \<Rightarrow> wf_state \<Rightarrow> wf_run" where
  "elapse dl s =
     (case dl of
        None \<Rightarrow> ([], Stuck, s)
      | Some d \<Rightarrow> ([], Elapsed, s\<lparr>st_clock := d\<rparr>))"

definition sleep :: "nat option \<Rightarrow> nat \<Rightarrow> wf_state \<Rightarrow> wf_run" where
  "sleep dl ms s =
     (case dl of
        Some d \<Rightarrow>
          (if st_clock s + ms > d then elapse dl s
           else ([], Ended, s\<lparr>st_clock := st_clock s + ms\<rparr>))
      | None \<Rightarrow> ([], Ended, s\<lparr>st_clock := st_clock s + ms\<rparr>))"

section \<open>Timeouts\<close>

definition millis :: "wf_env \<Rightarrow> wf_duration \<Rightarrow> nat" where
  "millis env d = unat (to_millis (eg_duration (we_engines env)) d)"

definition resolve_timeout_duration ::
  "wf_env \<Rightarrow> task_timeout option \<Rightarrow> nat option \<Rightarrow> wf_error + nat option" where
  "resolve_timeout_duration env timeout default_timeout =
     (case timeout of
        Some (TtTimeout d) \<Rightarrow> Inr (Some (millis env d))
      | Some (TtReference name) \<Rightarrow>
          (case map_of (we_timeouts env) name of
             Some d \<Rightarrow> Inr (Some (millis env d))
           | None \<Rightarrow>
               Inl (standard_error SeConfiguration (''Unresolved timeout reference: '' @ name)
                      None None))
      | None \<Rightarrow> Inr default_timeout)"

definition default_timeout_for :: "task \<Rightarrow> nat option \<Rightarrow> nat option" where
  "default_timeout_for t default_timeout =
     (case t of
        RunTask b s r \<Rightarrow> default_timeout
      | CallTask b c \<Rightarrow> default_timeout
      | _ \<Rightarrow> None)"

definition resolve_timeout :: "wf_env \<Rightarrow> task \<Rightarrow> wf_error + nat option" where
  "resolve_timeout env t =
     resolve_timeout_duration env (tb_timeout (base_of t))
       (default_timeout_for t (we_default_timeout env))"

text \<open>\<^verbatim>\<open>{:?}\<close> of a \<^verbatim>\<open>Duration\<close> of whole milliseconds.\<close>

fun strip_zeros :: "nat \<Rightarrow> nat \<Rightarrow> string" where
  "strip_zeros 0 n = []"
| "strip_zeros (Suc w) n =
     (if n mod 10 = 0 then strip_zeros w (n div 10)
      else replicate (Suc w - length (show_nat n)) (CHR ''0'') @ show_nat n)"

definition show_duration :: "nat \<Rightarrow> string" where
  "show_duration ms =
     (if ms \<ge> 1000
      then show_nat (ms div 1000) @
           (if ms mod 1000 = 0 then [] else CHR ''.'' # strip_zeros 3 (ms mod 1000)) @ ''s''
      else if ms > 0 then show_nat ms @ ''ms''
      else ''0ns'')"

definition earliest :: "nat option \<Rightarrow> nat option \<Rightarrow> nat option" where
  "earliest a b =
     (case (a, b) of
        (None, _) \<Rightarrow> b
      | (Some x, None) \<Rightarrow> Some x
      | (Some x, Some y) \<Rightarrow> Some (min x y))"

text \<open>Of two deadlines that pass, the one of the inner task is noticed first when both passed.\<close>

definition fires_first :: "nat option \<Rightarrow> nat option \<Rightarrow> bool" where
  "fires_first own outer =
     (case own of
        None \<Rightarrow> False
      | Some x \<Rightarrow> (case outer of None \<Rightarrow> True | Some y \<Rightarrow> x \<le> y))"

section \<open>Checkpoints\<close>

definition save_checkpoint_with_id ::
  "wf_env \<Rightarrow> string \<Rightarrow> checkpoint \<Rightarrow> wf_state \<Rightarrow> string option \<times> wf_state" where
  "save_checkpoint_with_id env exec_id cp s =
     (let key = generate_key exec_id (wc_name (st_context s))
                  (eg_pointer (we_engines env) (cp_position cp))
      in (case we_save_error env key cp of
            Some e \<Rightarrow> (Some e, s)
          | None \<Rightarrow>
              (None, s\<lparr>st_checkpoints := save_checkpoint_memory key cp (st_checkpoints s)\<rparr>)))"

definition get_checkpoint_with_id ::
  "wf_env \<Rightarrow> string \<Rightarrow> string \<Rightarrow> wf_state \<Rightarrow> string + checkpoint option" where
  "get_checkpoint_with_id env exec_id pos s =
     (let key = generate_key exec_id (wc_name (st_context s)) pos
      in (case we_load_error env key of
            Some e \<Rightarrow> Inl e
          | None \<Rightarrow> Inr (get_checkpoint_memory key (st_checkpoints s))))"

definition restore_workflow :: "checkpoint \<Rightarrow> wf_state \<Rightarrow> wf_state" where
  "restore_workflow cp s =
     (let (a, s1) = new_variables (wk_variables (cp_workflow cp)) s
      in s1\<lparr>st_context := (st_context s1)\<lparr>wc_position := cp_position cp,
              wc_input := wk_input (cp_workflow cp), wc_variables := a\<rparr>\<rparr>)"

text \<open>\<open>Inr (Some c)\<close>: the context that the checkpoint holds, on the given position stack.\<close>

definition load_checkpoint ::
  "wf_env \<Rightarrow> nat \<Rightarrow> wf_state \<Rightarrow> (wf_error + task_context option) \<times> wf_state" where
  "load_checkpoint env a s =
     (case (we_execution_id env, we_repository env, wc_checkpoint_position (st_context s)) of
        (Some exec_id, True, Some pos) \<Rightarrow>
          (let pointer = eg_pointer (we_engines env) pos
           in (case get_checkpoint_with_id env exec_id pointer s of
                 Inl e \<Rightarrow>
                   (Inl (standard_error SeRuntime
                      (''Failed to load checkpoint from execution_id: '' @ exec_id @
                       '', workflow: '' @ wc_name (st_context s) @ '', position: '' @ pointer)
                      (Some (pointer_of env a s)) (Some e)), s)
               | Inr None \<Rightarrow> (Inr None, s)
               | Inr (Some cp) \<Rightarrow>
                   (let (c, s2) = new_from_cp None (cp_task cp) a (restore_workflow cp s)
                    in (Inr (Some c), s2))))
      | _ \<Rightarrow> (Inr None, s))"

definition reach_for_checkpoint :: "wf_env \<Rightarrow> nat \<Rightarrow> wf_state \<Rightarrow> bool option" where
  "reach_for_checkpoint env a s =
     (case wc_checkpoint_position (st_context s) of
        None \<Rightarrow> None
      | Some cp \<Rightarrow>
          Some (relative_path cp (position_at a s) = Some [] \<and> we_execution_id env \<noteq> None))"

definition can_execute_next :: "nat \<Rightarrow> wf_state \<Rightarrow> bool" where
  "can_execute_next a s =
     (case wc_checkpoint_position (st_context s) of
        None \<Rightarrow> True
      | Some cp \<Rightarrow> relative_path cp (position_at a s) \<noteq> None)"

definition save_checkpoint ::
  "wf_env \<Rightarrow> task_context \<Rightarrow> task \<Rightarrow> wf_state \<Rightarrow> (wf_error + unit) \<times> wf_state" where
  "save_checkpoint env c t s =
     (if we_repository env \<and> tb_checkpoint (base_of t)
      then (case we_execution_id env of
              None \<Rightarrow> (Inr (), s)
            | Some exec_id \<Rightarrow>
                (case save_checkpoint_with_id env exec_id (new_checkpoint c s) s of
                   (None, s1) \<Rightarrow> (Inr (), s1)
                 | (Some e, s1) \<Rightarrow>
                     (let s2 = add_position_name ''checkpoint'' c s1
                      in (Inl (standard_error SeRuntime ''Failed to save checkpoint''
                                 (Some (pointer_of env (tc_position c) s2)) None), s2))))
      else (Inr (), s))"

section \<open>Input and output of a task\<close>

definition update_context_by_input ::
  "wf_env \<Rightarrow> task \<Rightarrow> expr_context \<Rightarrow> task_context \<Rightarrow> wf_state \<Rightarrow> (wf_error + task_context) \<times> wf_state" where
  "update_context_by_input env t ctx c s =
     (let eg = we_engines env;
          input = tb_input (base_of t);
          schema = Option.bind (Option.bind input in_schema) json_schema;
          invalid = Option.bind schema (\<lambda>sch. eg_validate eg sch (tc_input c))
      in (case invalid of
            Some (m, detail) \<Rightarrow>
              (let s1 = add_position_name ''input'' c s
               in (Inl (standard_error SeValidation m (Some (pointer_of env (tc_position c) s1))
                          (Some detail)), s1))
          | None \<Rightarrow>
              (case Option.bind input in_from of
                 None \<Rightarrow> (Inr (set_input (tc_raw_input c) c), s)
               | Some from \<Rightarrow>
                   (case transform_by eg (tc_raw_input c) from ctx of
                      Inl e \<Rightarrow> (Inl e, s)
                    | Inr v \<Rightarrow> (Inr (set_input v c), s)))))"

definition export_values :: "json \<Rightarrow> wf_state \<Rightarrow> wf_state" where
  "export_values v s =
     (case v of
        JObj fs \<Rightarrow> fold (\<lambda>(k, x). wf_add_context_value k x) fs s
      | _ \<Rightarrow> s)"

definition fail_below ::
  "wf_env \<Rightarrow> string \<Rightarrow> task_context \<Rightarrow> wf_error \<Rightarrow> wf_state \<Rightarrow> (wf_error + 'a) \<times> wf_state" where
  "fail_below env name c e s =
     (let s1 = add_position_name name c s in (Inl (at_position env (tc_position c) s1 e), s1))"

definition update_context_by_output ::
  "wf_env \<Rightarrow> task \<Rightarrow> expr_context \<Rightarrow> task_context \<Rightarrow> wf_state \<Rightarrow> (wf_error + task_context) \<times> wf_state" where
  "update_context_by_output env t ctx c s =
     (let eg = we_engines env; b = base_of t in
      case (case Option.bind (tb_output b) out_as of
              None \<Rightarrow> Inr (tc_raw_output c)
            | Some as \<Rightarrow> transform_by eg (tc_raw_output c) as ctx) of
        Inl e \<Rightarrow> fail_below env ''output'' c e s
      | Inr out \<Rightarrow>
          (let c1 = c\<lparr>tc_output := out\<rparr>; ctx1 = ec_insert ''output'' out ctx in
           case (case Option.bind (tb_export b) ex_as of
                   None \<Rightarrow> Inr JNull
                 | Some as \<Rightarrow> transform_by eg out as ctx1) of
             Inl e \<Rightarrow> fail_below env ''export'' c1 e s
           | Inr exported \<Rightarrow>
               (let s1 = export_values exported s in
                case (case tb_then b of
                        None \<Rightarrow> Inr ThContinue
                      | Some flow \<Rightarrow> then_create eg out flow ctx1) of
                  Inl e \<Rightarrow> fail_below env ''then'' c1 e s1
                | Inr directive \<Rightarrow>
                    (let c2 = c1\<lparr>tc_flow_directive := directive\<rparr> in
                     case save_checkpoint env c2 t s1 of
                       (Inl e, s2) \<Rightarrow> (Inl e, s2)
                     | (Inr _, s2) \<Rightarrow> (Inr (set_completed_at s2 c2), s2)))))"

section \<open>Tasks without tasks inside\<close>

definition set_execute ::
  "wf_env \<Rightarrow> (string \<times> json) list \<Rightarrow> task_context \<Rightarrow> wf_state \<Rightarrow> (wf_error + task_context) \<times> wf_state" where
  "set_execute env values c s =
     (let s1 = add_position_name ''set'' c s in
      case transform_ref_map (we_engines env) (tc_input c) values (expression c s1) of
        Inl e \<Rightarrow> (Inl (at_position env (tc_position c) s1 e), s1)
      | Inr v \<Rightarrow>
          (Inr (c\<lparr>tc_raw_output := v\<rparr>), remove_position c (export_values v s1)))"

fun switch_find ::
  "wf_env \<Rightarrow> task_context \<Rightarrow> expr_context \<Rightarrow> (string \<times> switch_case) list \<Rightarrow>
   wf_error + switch_case option" where
  "switch_find env c ctx [] = Inr None"
| "switch_find env c ctx ((name, sc) # cases) =
     (case sc_when sc of
        None \<Rightarrow> Inr (Some sc)
      | Some w \<Rightarrow>
          (case execute_transform_as_bool (we_engines env) (tc_input c) w ctx of
             Inl e \<Rightarrow> Inl e
           | Inr True \<Rightarrow> Inr (Some sc)
           | Inr False \<Rightarrow> switch_find env c ctx cases))"

definition switch_execute ::
  "wf_env \<Rightarrow> (string \<times> switch_case) list list \<Rightarrow> task_context \<Rightarrow> wf_state \<Rightarrow>
   (wf_error + task_context) \<times> wf_state" where
  "switch_execute env items c s =
     (let c1 = c\<lparr>tc_output := tc_input c\<rparr>;
          s1 = add_position_name ''switch'' c1 s;
          ctx = expression c1 s1
      in (case switch_find env c1 ctx (concat items) of
            Inl e \<Rightarrow> fail_below env ''when'' c1 e s1
          | Inr None \<Rightarrow> (Inr c1, remove_position c1 s1)
          | Inr (Some sc) \<Rightarrow>
              (case then_create (we_engines env) (tc_output c1) (sc_then sc) ctx of
                 Inl e \<Rightarrow> fail_below env ''then'' c1 e s1
               | Inr d \<Rightarrow> (Inr (c1\<lparr>tc_flow_directive := d\<rparr>), remove_position c1 s1))))"

definition execute_error_transform ::
  "engines \<Rightarrow> json \<Rightarrow> string \<Rightarrow> expr_context \<Rightarrow> wf_error + json" where
  "execute_error_transform eg input v ctx =
     (if is_transform_template v
      then bindE (execute_liquid_template eg input v ctx) (\<lambda>r. Inr (JStr r))
      else execute_transform eg input v ctx)"

definition error_field_position ::
  "wf_env \<Rightarrow> task_context \<Rightarrow> string option \<Rightarrow> wf_state \<Rightarrow> string" where
  "error_field_position env c field s =
     (let p = pos_push ''error'' (position_at (tc_position c) s)
      in eg_pointer (we_engines env) (case field of None \<Rightarrow> p | Some f \<Rightarrow> pos_push f p))"

definition evaluate_text ::
  "wf_env \<Rightarrow> task_context \<Rightarrow> expr_context \<Rightarrow> string \<Rightarrow> string option \<Rightarrow> wf_state \<Rightarrow>
   wf_error + string option" where
  "evaluate_text env c ctx field value s =
     (case value of
        None \<Rightarrow> Inr None
      | Some v \<Rightarrow>
          (case execute_error_transform (we_engines env) (tc_input c) v ctx of
             Inl e \<Rightarrow> Inl (e\<lparr>er_instance := Some (error_field_position env c (Some field) s)\<rparr>)
           | Inr (JStr t) \<Rightarrow> Inr (Some t)
           | Inr w \<Rightarrow>
               Inl (standard_error SeExpression
                      (''raise.error.'' @ field @ '' must evaluate to a string'')
                      (Some (error_field_position env c (Some field) s))
                      (Some (''actual value: '' @ eg_show_json (we_engines env) w)))))"

definition resolve_error ::
  "wf_env \<Rightarrow> raise_error \<Rightarrow> task_context \<Rightarrow> wf_state \<Rightarrow> wf_error + wf_error" where
  "resolve_error env raised c s =
     (let ctx = expression c s; here = Some (pointer_of env (tc_position c) s) in
      case raised of
        ReError e \<Rightarrow>
          bindE (evaluate_text env c ctx ''title'' (er_title e) s) (\<lambda>title.
          bindE (evaluate_text env c ctx ''detail'' (er_detail e) s) (\<lambda>detail.
            Inr (e\<lparr>er_title := title, er_detail := detail, er_instance := here\<rparr>)))
      | ReReference v \<Rightarrow>
          (case execute_error_transform (we_engines env) (tc_input c) v ctx of
             Inl e \<Rightarrow> Inl (e\<lparr>er_instance := Some (error_field_position env c None s)\<rparr>)
           | Inr (JStr detail) \<Rightarrow>
               Inr \<lparr>er_type = standard_error_uri SeRuntime, er_status = 500,
                    er_title = Some ''Workflow runtime error'', er_detail = Some detail,
                    er_instance = here\<rparr>
           | Inr (JObj fs) \<Rightarrow>
               (case eg_read_error (we_engines env) (JObj fs) of
                  Inr e \<Rightarrow> Inr e
                | Inl m \<Rightarrow>
                    Inl (standard_error SeExpression
                           ''raise.error expression must evaluate to an Error object''
                           (Some (error_field_position env c None s)) (Some m)))
           | Inr w \<Rightarrow>
               Inl (standard_error SeExpression
                      ''raise.error must evaluate to a string or Error object''
                      (Some (error_field_position env c None s))
                      (Some (''actual value: '' @ eg_show_json (we_engines env) w)))))"

definition raise_execute ::
  "wf_env \<Rightarrow> raise_error \<Rightarrow> task_context \<Rightarrow> wf_state \<Rightarrow>
   (wf_error + task_context) \<times> wf_state" where
  "raise_execute env raised c s =
     (let s1 = add_position_name ''raise'' c s in
      case resolve_error env raised c s1 of
        Inl e \<Rightarrow> (Inl e, s1)
      | Inr e \<Rightarrow> (Inl e, s1))"

end
