(* ===== verification/Workflow_Flow.thy ===== *)
theory Workflow_Flow
  imports Workflow_Task
begin

text \<open>
  Control flow: task lists (\<^verbatim>\<open>task/stream/do.rs\<close>), loops (\<^verbatim>\<open>task/stream/for.rs\<close>, sequential),
  \<^verbatim>\<open>try\<close> (\<^verbatim>\<open>task/stream/try_.rs\<close>), \<^verbatim>\<open>TaskExecutor\<close> (\<^verbatim>\<open>task.rs\<close>), and the workflow itself
  (\<^verbatim>\<open>workflow.rs\<close>).

  Jumps and retries can run forever, so the executors have fuel: every task of a list, every
  retry and every level of nesting takes one unit, and a run without fuel left is \<open>Stuck\<close>.
\<close>

section \<open>Task lists\<close>

type_synonym wf_executor =
  "string \<Rightarrow> task \<Rightarrow> task_context \<Rightarrow> wf_consumer \<Rightarrow> wf_state \<Rightarrow> wf_run"

type_synonym task_entry = "string \<times> nat \<times> task"

primrec task_map_from :: "task_list \<Rightarrow> nat \<Rightarrow> task_entry list \<Rightarrow> task_entry list" where
  "task_map_from [] idx acc = acc"
| "task_map_from (item # items) idx acc =
     task_map_from items (idx + 1)
       (fold (\<lambda>(name, t). index_insert name (idx, t)) item acc)"

definition task_map :: "task_list \<Rightarrow> task_entry list" where
  "task_map ts = task_map_from ts 0 []"

definition iter_next :: "'a list \<Rightarrow> 'a option \<times> 'a list" where
  "iter_next xs = (case xs of [] \<Rightarrow> (None, []) | x # ys \<Rightarrow> (Some x, ys))"

definition find_checkpoint_task ::
  "wf_env \<Rightarrow> task_context \<Rightarrow> task_entry list \<Rightarrow> wf_state \<Rightarrow> nat option" where
  "find_checkpoint_task env c tasks s =
     (case wc_checkpoint_position (st_context s) of
        None \<Rightarrow> None
      | Some pos \<Rightarrow>
          (case relative_path pos (position_at (tc_position c) s) of
             None \<Rightarrow> None
           | Some rpath \<Rightarrow>
               (if length rpath < 2 then None
                else map_option (\<lambda>(name, index, t). index)
                       (find (\<lambda>(name, index, t). rpath ! 0 = JInt (int index) \<and> rpath ! 1 = JStr name)
                          tasks))))"

definition wait_already_handled :: "wf_position \<Rightarrow> wf_state \<Rightarrow> bool" where
  "wait_already_handled current s \<longleftrightarrow>
     status_of s = WsWaiting \<and>
     (case wc_resume_position (st_context s) of
        None \<Rightarrow> False
      | Some r \<Rightarrow> (case relative_path r current of None \<Rightarrow> False | Some rp \<Rightarrow> rp \<noteq> []))"

definition suspend_at ::
  "wf_env \<Rightarrow> wf_position \<Rightarrow> task_context \<Rightarrow> wf_state \<Rightarrow> wf_state" where
  "suspend_at env p result s =
     (let s1 =
        (case (we_repository env, we_execution_id env) of
           (True, Some exec_id) \<Rightarrow>
             snd (save_checkpoint_with_id env exec_id (new_checkpoint_at p result s) s)
         | _ \<Rightarrow> s)
      in s1\<lparr>st_context := (st_context s1)\<lparr>wc_resume_position := Some p, wc_status := WsWaiting\<rparr>\<rparr>)"

definition wait_task ::
  "wf_env \<Rightarrow> string \<Rightarrow> nat \<Rightarrow> task_context \<Rightarrow> task_entry option \<Rightarrow> wf_state \<Rightarrow> wf_state" where
  "wait_task env name pos result next_pair s =
     (let p = position_at (tc_position result) s in
      if wait_already_handled (pos_push name (pos_push_idx pos p)) s then s
      else (case next_pair of
              Some (next_name, next_idx, t) \<Rightarrow>
                suspend_at env (pos_push next_name (pos_push_idx next_idx p)) result s
            | None \<Rightarrow>
                (if length p \<le> 2 then set_status WsCompleted s
                 else suspend_at env (pos_pop p) result s)))"

definition next_task ::
  "wf_env \<Rightarrow> task_entry list \<Rightarrow> string \<Rightarrow> nat \<Rightarrow> task_context \<Rightarrow> task_entry option \<Rightarrow> wf_state \<Rightarrow>
   task_entry option \<times> wf_state" where
  "next_task env tasks name pos result next_pair s =
     (case tc_flow_directive result of
        ThContinue \<Rightarrow> (next_pair, s)
      | ThEnd \<Rightarrow> (None, set_status WsCompleted s)
      | ThExit \<Rightarrow> (None, s)
      | ThWait \<Rightarrow> (None, wait_task env name pos result next_pair s)
      | ThTaskName tname \<Rightarrow> (find (\<lambda>(k, v). k = tname) tasks, s))"

primrec do_loop ::
  "nat \<Rightarrow> wf_executor \<Rightarrow> wf_env \<Rightarrow> task_entry list \<Rightarrow> nat option \<Rightarrow> task_entry option \<Rightarrow>
   task_entry list \<Rightarrow> task_context \<Rightarrow> wf_consumer \<Rightarrow> wf_state \<Rightarrow> wf_run" where
  "do_loop 0 ex env tasks cp current rest prev k s =
     (case current of
        None \<Rightarrow> ([], Ended, remove_position prev s)
      | Some _ \<Rightarrow> ([], Stuck, s))"
| "do_loop (Suc n) ex env tasks cp current rest prev k s =
     (case current of
        None \<Rightarrow> ([], Ended, remove_position prev s)
      | Some (name, pos, t) \<Rightarrow>
          (if (case cp of None \<Rightarrow> False | Some p \<Rightarrow> pos < p)
           then do_loop n ex env tasks cp (fst (iter_next rest)) (snd (iter_next rest)) prev k s
           else
             (let s1 = poll_cancel env (add_position_index pos prev s) in
              if status_of s1 \<noteq> WsRunning
              then ([], Ended, remove_position prev (remove_position prev s1))
              else
                (case ex name t prev k s1 of
                   (evs, Failed e, s2) \<Rightarrow>
                     (evs, Failed (at_position env (tc_position prev) s2 e), s2)
                 | (evs, Ended, s2) \<Rightarrow>
                     (case last_context evs of
                        None \<Rightarrow> (evs, Ended, remove_position prev (remove_position prev s2))
                      | Some result \<Rightarrow>
                          (let s3 = remove_position result s2;
                               (next_pair, rest') = iter_next rest;
                               (current', s4) = next_task env tasks name pos result next_pair s3
                           in and_then (evs, Ended, s4)
                                (do_loop n ex env tasks cp current' rest' result k)))
                 | (evs, out, s2) \<Rightarrow> (evs, out, s2)))))"

definition do_stream ::
  "nat \<Rightarrow> wf_executor \<Rightarrow> wf_env \<Rightarrow> task_list \<Rightarrow> task_context \<Rightarrow> wf_consumer \<Rightarrow> wf_state \<Rightarrow> wf_run" where
  "do_stream n ex env ts c k s =
     (let tasks = task_map ts;
          s1 = add_position_name ''do'' c s;
          cp = (if we_repository env then find_checkpoint_task env c tasks s1 else None);
          (current, rest) = iter_next tasks
      in do_loop n ex env tasks cp current rest c k s1)"

section \<open>Try\<close>

definition catch_condition ::
  "wf_env \<Rightarrow> string \<Rightarrow> string option \<Rightarrow> task_context \<Rightarrow> expr_context \<Rightarrow> wf_state \<Rightarrow>
   (wf_error + bool) \<times> wf_state" where
  "catch_condition env field cond c ctx s =
     (case cond of
        None \<Rightarrow> (Inr (field = ''when''), s)
      | Some w \<Rightarrow>
          (case execute_transform_as_bool (we_engines env) (tc_raw_input c) w ctx of
             Inl e \<Rightarrow> fail_below env field c e s
           | Inr b \<Rightarrow> (Inr b, s)))"

definition execute_catch_block ::
  "wf_env \<Rightarrow> catch_config \<Rightarrow> task_context \<Rightarrow> wf_error \<Rightarrow> wf_state \<Rightarrow> (wf_error + task_context) \<times> wf_state" where
  "execute_catch_block env cfg c e s =
     (if \<not> catches (eg_regex (we_engines env)) cfg e then (Inl e, s)
      else
        (let s1 = add_position_name ''catch'' c s;
             s2 = add_context_value (unwrap_or (cc_as cfg) ''error'') (error_to_json e) c s1;
             ctx = expression c s2
         in (case catch_condition env ''when'' (cc_when cfg) c ctx s2 of
               (Inl e', s3) \<Rightarrow> (Inl e', s3)
             | (Inr False, s3) \<Rightarrow> (Inl e, s3)
             | (Inr True, s3) \<Rightarrow>
                 (case catch_condition env ''except_when'' (cc_except_when cfg) c ctx s3 of
                    (Inl e', s4) \<Rightarrow> (Inl e', s4)
                  | (Inr True, s4) \<Rightarrow> (Inl e, s4)
                  | (Inr False, s4) \<Rightarrow> (Inr c, remove_position c s4)))))"

definition eval_retry_condition ::
  "wf_env \<Rightarrow> catch_retry \<Rightarrow> nat \<Rightarrow> int \<Rightarrow> wf_state \<Rightarrow> bool" where
  "eval_retry_condition env r start_time retry_count s =
     (case r of
        CrLabel l \<Rightarrow> False
      | CrPolicy p \<Rightarrow>
          (case wrp_attempt p of
             None \<Rightarrow> True
           | Some a \<Rightarrow>
               \<not> (case rla_count a of None \<Rightarrow> False | Some c \<Rightarrow> retry_count \<ge> c) \<and>
               \<not> (case rla_duration a of
                     None \<Rightarrow> False
                   | Some d \<Rightarrow> st_clock s - start_time > millis env d)))"

definition retry_delay :: "wf_env \<Rightarrow> nat option \<Rightarrow> catch_retry \<Rightarrow> wf_state \<Rightarrow> wf_run" where
  "retry_delay env dl r s =
     (case r of
        CrLabel l \<Rightarrow> ([], Ended, s)
      | CrPolicy p \<Rightarrow>
          and_then (if wrp_backoff p then sleep dl 1000 s else ([], Ended, s)) (\<lambda>s1.
            (case wrp_delay p of None \<Rightarrow> ([], Ended, s1) | Some d \<Rightarrow> sleep dl (millis env d) s1)))"

text \<open>The loop of attempts ends with the context to go on with and whether an error was caught,
  or it ends the stream.\<close>

primrec try_loop ::
  "nat \<Rightarrow> wf_executor \<Rightarrow> wf_env \<Rightarrow> nat option \<Rightarrow> task_list \<Rightarrow> catch_config \<Rightarrow> nat \<Rightarrow> int \<Rightarrow>
   task_context \<Rightarrow> wf_consumer \<Rightarrow> wf_state \<Rightarrow>
   wf_event list \<times> (wf_outcome + task_context \<times> bool) \<times> wf_state" where
  "try_loop 0 ex env dl ts cfg start_time retry_count c k s = ([], Inl Stuck, s)"
| "try_loop (Suc n) ex env dl ts cfg start_time retry_count c k s =
     (if ts = [] then ([], Inr (c, False), s)
      else
        (let try_position = pointer_of env (tc_position c) s in
         case do_stream n ex env ts c k s of
           (evs, Ended, s1) \<Rightarrow>
             (case last_context evs of
                Some ctx \<Rightarrow> (evs, Inr (ctx, False), s1)
              | None \<Rightarrow>
                  (evs, Inl (Failed (standard_error SeRuntime
                     ''No task context returned from try task list execution''
                     (Some try_position) None)), s1))
         | (evs, Failed e, s1) \<Rightarrow>
             (case execute_catch_block env cfg (unwrap_or (last_context evs) c) e s1 of
                (Inl e', s2) \<Rightarrow> (evs, Inl (Failed e'), s2)
              | (Inr catch_ctx, s2) \<Rightarrow>
                  (case cc_retry cfg of
                     None \<Rightarrow> (evs, Inr (catch_ctx, True), s2)
                   | Some r \<Rightarrow>
                       (if eval_retry_condition env r start_time retry_count s2
                        then (case retry_delay env dl r s2 of
                                (_, Ended, s3) \<Rightarrow>
                                  (case try_loop n ex env dl ts cfg start_time (retry_count + 1)
                                          catch_ctx k s3 of
                                     (evs', r', s4) \<Rightarrow> (evs @ evs', r', s4))
                              | (_, out, s3) \<Rightarrow> (evs, Inl out, s3))
                        else (evs, Inr (catch_ctx, True), s2))))
         | (evs, out, s1) \<Rightarrow> (evs, Inl out, s1)))"

definition try_completed ::
  "wf_env \<Rightarrow> string \<Rightarrow> task_context \<Rightarrow> wf_consumer \<Rightarrow> wf_state \<Rightarrow> wf_run" where
  "try_completed env name c k s =
     yield k (EvTaskCompleted ''tryTask'' name (pointer_of env (tc_position c) s) c) s"

definition try_stream ::
  "nat \<Rightarrow> wf_executor \<Rightarrow> wf_env \<Rightarrow> nat option \<Rightarrow> task_list \<Rightarrow> catch_config \<Rightarrow> task_list option \<Rightarrow>
   string \<Rightarrow> task_context \<Rightarrow> wf_consumer \<Rightarrow> wf_state \<Rightarrow> wf_run" where
  "try_stream n ex env dl ts cfg catch_do name c k s =
     (let s1 = add_position_name ''try'' c s in
      case try_loop n ex env dl ts cfg (st_clock s1) 0 c k s1 of
        (evs, Inl out, s2) \<Rightarrow> (evs, out, s2)
      | (evs, Inr (res, caught), s2) \<Rightarrow>
          (let s3 = remove_position res s2 in
           case (if caught then catch_do else None) of
             None \<Rightarrow> and_then (evs, Ended, s3) (try_completed env name res k)
           | Some ts' \<Rightarrow>
               (case do_stream n ex env ts' res k s3 of
                  (evs', Ended, s4) \<Rightarrow>
                    and_then (evs @ evs', Ended, s4)
                      (try_completed env name (unwrap_or (last_context evs') res) k)
                | (evs', out, s4) \<Rightarrow> (evs @ evs', out, s4))))"

section \<open>Loops\<close>

definition prepare_for_item ::
  "wf_env \<Rightarrow> json \<Rightarrow> nat \<Rightarrow> string \<Rightarrow> string \<Rightarrow> task_context \<Rightarrow> string option \<Rightarrow> wf_state \<Rightarrow>
   (wf_error + task_context \<times> json) \<times> wf_state" where
  "prepare_for_item env item i item_name index_name c whl s =
     (let (c1, s1) = clone_with_isolated_position c s;
          s2 = add_context_value item_name item c1 s1;
          s3 = add_context_value index_name (JInt (int i)) c1 s2;
          ctx = expression c1 s3
      in (case (case whl of
                  None \<Rightarrow> Inr (JBool True)
                | Some w \<Rightarrow> transform_value (we_engines env) (tc_input c1) ctx (JStr w)) of
            Inl e \<Rightarrow> fail_below env ''while'' c1 e s3
          | Inr cond \<Rightarrow> (Inr (c1, cond), s3)))"

definition item_error_position ::
  "wf_env \<Rightarrow> wf_error \<Rightarrow> nat \<Rightarrow> task_context \<Rightarrow> wf_state \<Rightarrow> string" where
  "item_error_position env e i c s =
     (case er_instance e of
        Some (ch # p) \<Rightarrow> ch # p
      | _ \<Rightarrow>
          (let base = pointer_of env (tc_position c) s;
               trimmed = (if suffix ''/'' base then butlast base else base)
           in trimmed @ ''/'' @ show_nat i))"

definition build_item_error_event ::
  "wf_env \<Rightarrow> string \<Rightarrow> wf_error \<Rightarrow> nat \<Rightarrow> json \<Rightarrow> task_context \<Rightarrow> wf_state \<Rightarrow> wf_event" where
  "build_item_error_event env name e i item c s =
     EvForItemFailed name (item_error_position env e i c s) i
       (JObj [(''error'', error_to_json e), (''index'', JInt (int i)), (''item'', item)])"

definition unsupported_wait :: "string option \<Rightarrow> wf_error" where
  "unsupported_wait pos =
     standard_error SeConfiguration
       (''Wait directive inside ForTask is not currently supported. '' @
        ''Move the '' @ [CHR 0x27] @ ''then: wait'' @ [CHR 0x27] @ '' to a task outside of the for loop.'') pos None"

definition fault_unsupported_wait :: "string option \<Rightarrow> wf_state \<Rightarrow> wf_error \<times> wf_state" where
  "fault_unsupported_wait pos s = (unsupported_wait pos, set_status WsRunning s)"

text \<open>What the loop does with an event of its body: it stops when the workflow was cancelled or is
  waiting, and forwards the event otherwise.\<close>

definition for_consumer :: "nat \<Rightarrow> wf_consumer \<Rightarrow> wf_consumer" where
  "for_consumer depth k ev s =
     (if is_cancelled s \<or> status_of s = WsWaiting then (Some depth, s) else k ev s)"

definition event_position :: "wf_env \<Rightarrow> wf_event list \<Rightarrow> wf_state \<Rightarrow> string option" where
  "event_position env evs s =
     (if evs = [] then None
      else map_option (\<lambda>c. pointer_of env (tc_position c) s) (event_context (last evs)))"

text \<open>The loop over the items: the events, how it ended (\<open>Ended\<close> when the loop is left for its
  final event), whether an item was processed, and the state.\<close>

fun for_items ::
  "nat \<Rightarrow> wf_executor \<Rightarrow> wf_env \<Rightarrow> nat \<Rightarrow> string \<Rightarrow> string \<Rightarrow> string \<Rightarrow> task_list \<Rightarrow> for_on_error \<Rightarrow>
   string option \<Rightarrow> task_context \<Rightarrow> wf_consumer \<Rightarrow> (nat \<times> json) list \<Rightarrow> bool \<Rightarrow> wf_state \<Rightarrow>
   wf_event list \<times> wf_outcome \<times> bool \<times> wf_state" where
  "for_items n ex env depth name item_name index_name ts on_error whl c k [] has s =
     ([], Ended, has, s)"
| "for_items n ex env depth name item_name index_name ts on_error whl c k ((i, item) # items) has s =
     (let s0 = poll_cancel env s;
          next_item = (\<lambda>evs addr s'.
            if is_cancelled s' then (evs, Ended, True, s')
            else if status_of s' = WsWaiting
            then (case fault_unsupported_wait (Some (pointer_of env addr s')) s' of
                    (e, s'') \<Rightarrow> (evs, Failed e, True, s''))
            else (case for_items n ex env depth name item_name index_name ts on_error whl c k
                         items True s' of
                    (evs', out, has', s'') \<Rightarrow> (evs @ evs', out, has', s'')))
      in
      if is_cancelled s0 then ([], Ended, has, s0)
      else
        (case prepare_for_item env item i item_name index_name c whl s0 of
           (Inl e, s1) \<Rightarrow> ([], Failed e, has, s1)
         | (Inr (pc, cond), s1) \<Rightarrow>
             (let s2 = poll_cancel env s1 in
              if is_cancelled s2 \<or> \<not> eval_as_bool cond then ([], Ended, has, s2)
              else
                (case do_stream n ex env ts pc (for_consumer depth k) s2 of
                   (evs, Ended, s3) \<Rightarrow> next_item evs (tc_position pc) s3
                 | (evs, Failed e, s3) \<Rightarrow>
                     (if is_cancelled s3 then (evs, Ended, True, s3)
                      else (case on_error of
                              OnErrorBreak \<Rightarrow> (evs, Failed e, True, s3)
                            | OnErrorContinue \<Rightarrow>
                                (case yield k (build_item_error_event env name e i item c s3) s3 of
                                   (evs', Ended, s4) \<Rightarrow> next_item (evs @ evs') (tc_position pc) s4
                                 | (evs', out, s4) \<Rightarrow> (evs @ evs', out, True, s4))))
                 | (evs, Stopped d, s3) \<Rightarrow>
                     (if d \<noteq> depth then (evs, Stopped d, True, s3)
                      else if is_cancelled s3 then (butlast evs, Ended, True, s3)
                      else (case fault_unsupported_wait (event_position env evs s3) s3 of
                              (e, s4) \<Rightarrow> (butlast evs, Failed e, True, s4)))
                 | (evs, out, s3) \<Rightarrow> (evs, out, True, s3)))))"

definition for_finish ::
  "wf_env \<Rightarrow> string \<Rightarrow> string \<Rightarrow> string \<Rightarrow> bool \<Rightarrow> task_context \<Rightarrow> wf_consumer \<Rightarrow> wf_state \<Rightarrow> wf_run" where
  "for_finish env name item_name index_name has c k s =
     (let c1 = (if has then c else set_raw_output (JArr []) c);
          s1 = remove_context_value index_name c1 (remove_context_value item_name c1 s);
          p = pointer_of env (tc_position c1) s1;
          s2 = remove_position c1 s1
      in if is_cancelled s2 then ([], Ended, s2)
         else yield k (EvTaskCompleted ''forTask'' name p c1) s2)"

definition for_empty ::
  "wf_env \<Rightarrow> string \<Rightarrow> string \<Rightarrow> string \<Rightarrow> task_context \<Rightarrow> wf_consumer \<Rightarrow> wf_state \<Rightarrow> wf_run" where
  "for_empty env name item_name index_name c k s =
     (let c1 = set_raw_output (JArr []) c;
          s1 = remove_context_value index_name c1 (remove_context_value item_name c1 s);
          s2 = remove_position c1 s1
      in if is_cancelled s2 then ([], Ended, s2)
         else yield k (EvTaskCompleted ''forTask'' name (pointer_of env (tc_position c1) s2) c1) s2)"

definition for_stream ::
  "nat \<Rightarrow> wf_executor \<Rightarrow> wf_env \<Rightarrow> nat \<Rightarrow> nat option \<Rightarrow> task \<Rightarrow> for_configuration \<Rightarrow> task_list \<Rightarrow> bool \<Rightarrow>
   for_on_error \<Rightarrow> string option \<Rightarrow> string \<Rightarrow> task_context \<Rightarrow> wf_consumer \<Rightarrow> wf_state \<Rightarrow> wf_run" where
  "for_stream n ex env depth dl t cfg ts in_parallel on_error whl name c k s =
     (let s1 = add_position_name ''for'' c s in
      case transform_value (we_engines env) (tc_input c) (expression c s1) (JStr (fc_in cfg)) of
        Inl e \<Rightarrow>
          (let s2 = add_position_name ''in'' c s1
           in failing (at_position env (tc_position c) s2 e) s2)
      | Inr (JArr items) \<Rightarrow>
          (let item_name = (if fc_each cfg = [] then ''item'' else fc_each cfg);
               index_name = (if fc_at cfg = [] then ''index'' else fc_at cfg)
           in if in_parallel then we_parallel env t name c dl k s1
              else if items = [] then for_empty env name item_name index_name c k s1
              else (case for_items n ex env depth name item_name index_name ts on_error whl c k
                           (zip [0..<length items] items) False s1 of
                      (evs, Ended, has, s2) \<Rightarrow>
                        and_then (evs, Ended, s2)
                          (for_finish env name item_name index_name has c k)
                    | (evs, out, has, s2) \<Rightarrow> (evs, out, s2)))
      | Inr _ \<Rightarrow>
          (let c1 = set_raw_output (JArr []) c
           in yield k (EvTaskCompleted ''forTask'' name (pointer_of env (tc_position c1) s1) c1)
                (remove_position c1 s1)))"

section \<open>One task\<close>

datatype task_entry_result = TeError wf_error | TeSkip wf_event | TeRun task_context

definition enter_task ::
  "wf_env \<Rightarrow> string \<Rightarrow> task \<Rightarrow> task_context \<Rightarrow> wf_state \<Rightarrow> task_entry_result \<times> wf_state" where
  "enter_task env name t parent s =
     (let a = tc_position parent;
          s1 = add_position_name name parent s;
          c0 = new_task_context (Some t) (tc_output parent) (tc_variables parent) a s1;
          go = (\<lambda>c s'.
            if can_execute_next a s' then (TeRun c, s')
            else (TeSkip (EvTaskCompleted ''skip'' name (pointer_of env a s') (set_completed_at s' c)),
                  s'))
      in (case reach_for_checkpoint env a s1 of
            None \<Rightarrow> (TeRun c0, s1)
          | Some False \<Rightarrow> go c0 s1
          | Some True \<Rightarrow>
              (case load_checkpoint env a s1 of
                 (Inl e, s2) \<Rightarrow> (TeError (at_position env a s2 e), s2)
               | (Inr None, s2) \<Rightarrow>
                   (TeError (standard_error SeRuntime
                      (''No checkpoint found for task: '' @ name @ '', execution_id: '' @
                       (case we_execution_id env of
                          None \<Rightarrow> ''None''
                        | Some i \<Rightarrow> ''Some(ExecutionId { value: '' @ debug_str i @ '' })''))
                      (Some (pointer_of env a s2)) None), s2)
               | (Inr (Some c), s2) \<Rightarrow>
                   go c (s2\<lparr>st_context := (st_context s2)\<lparr>wc_checkpoint_position := None\<rparr>\<rparr>))))"

definition task_condition ::
  "wf_env \<Rightarrow> string \<Rightarrow> task \<Rightarrow> expr_context \<Rightarrow> task_context \<Rightarrow> wf_state \<Rightarrow> task_entry_result \<times> wf_state" where
  "task_condition env name t ctx c s =
     (case tb_if (base_of t) of
        None \<Rightarrow> (TeRun c, s)
      | Some cond \<Rightarrow>
          (case execute_transform_as_bool (we_engines env) (tc_raw_input c) cond ctx of
             Inr True \<Rightarrow> (TeRun c, s)
           | Inr False \<Rightarrow>
               (let p = pointer_of env (tc_position c) s; s1 = remove_position c s
                in (TeSkip (EvTaskCompleted ''skip_if'' name p (set_completed_at s1 c)), s1))
           | Inl e \<Rightarrow>
               (let s1 = add_position_name ''if'' c s
                in (TeError (at_position env (tc_position c) s1 e), s1))))"

fun task_type_name :: "task \<Rightarrow> string" where
  "task_type_name (DoTask b ts) = ''doTask''"
| "task_type_name (ForTask b f ts p e w) = ''forTask''"
| "task_type_name (ForkTask b bs c) = ''forkTask''"
| "task_type_name (RaiseTask b e) = ''raiseTask''"
| "task_type_name (CallTask b c) = ''callTask''"
| "task_type_name (RunTask b s r) = ''runTask''"
| "task_type_name (SetTask b s) = ''setTask''"
| "task_type_name (SwitchTask b s) = ''switchTask''"
| "task_type_name (TryTask b ts c d) = ''tryTask''"
| "task_type_name (WaitTask b d) = ''waitTask''"

definition finish_task ::
  "wf_env \<Rightarrow> string \<Rightarrow> task \<Rightarrow> wf_consumer \<Rightarrow> (wf_error + task_context) \<times> wf_state \<Rightarrow> wf_run" where
  "finish_task env name t k r =
     (case r of
        (Inl e, s) \<Rightarrow> failing e s
      | (Inr c, s) \<Rightarrow>
          (case update_context_by_output env t (expression c s) c s of
             (Inl e, s1) \<Rightarrow> failing e s1
           | (Inr c', s1) \<Rightarrow>
               yield k (EvTaskCompleted (task_type_name t) name (pointer_of env (tc_position c') s1) c')
                 s1))"

primrec yield_all :: "wf_consumer \<Rightarrow> wf_event list \<Rightarrow> wf_state \<Rightarrow> wf_run" where
  "yield_all k [] s = ([], Ended, s)"
| "yield_all k (ev # evs) s = and_then (yield k ev s) (yield_all k evs)"

definition leaf_task ::
  "wf_env \<Rightarrow> nat option \<Rightarrow> string \<Rightarrow> task \<Rightarrow> task_context \<Rightarrow> wf_consumer \<Rightarrow> wf_state \<Rightarrow> wf_run" where
  "leaf_task env dl name t c k s =
     (case we_leaf env t name c dl s of
        (None, s1) \<Rightarrow> elapse dl s1
      | (Some r, s1) \<Rightarrow> finish_task env name t k (r, s1))"

definition run_stream_task ::
  "wf_env \<Rightarrow> nat option \<Rightarrow> string \<Rightarrow> task \<Rightarrow> task_context \<Rightarrow> wf_consumer \<Rightarrow> wf_state \<Rightarrow> wf_run" where
  "run_stream_task env dl name t c k s =
     (case we_run_stream env t name c dl s of
        (evs, r, s1) \<Rightarrow>
          and_then (yield_all k evs s1) (\<lambda>s2.
            (case r of
               None \<Rightarrow> elapse dl s2
             | Some (Inl e) \<Rightarrow> failing e s2
             | Some (Inr (ev, c1)) \<Rightarrow>
                 (case update_context_by_output env t (expression c1 s2) c1 s2 of
                    (Inl e, s3) \<Rightarrow> failing e s3
                  | (Inr c2, s3) \<Rightarrow> yield k (EvStreamingJobCompleted ev c2) s3))))"

definition wait_execute ::
  "wf_env \<Rightarrow> nat option \<Rightarrow> string \<Rightarrow> task \<Rightarrow> wf_duration \<Rightarrow> task_context \<Rightarrow> wf_consumer \<Rightarrow> wf_state \<Rightarrow> wf_run" where
  "wait_execute env dl name t d c k s =
     and_then (sleep dl (millis env d) s) (\<lambda>s1.
       finish_task env name t k (Inr (c\<lparr>tc_output := tc_input c\<rparr>), s1))"

definition execute_task ::
  "nat \<Rightarrow> (nat \<Rightarrow> nat option \<Rightarrow> wf_executor) \<Rightarrow> wf_env \<Rightarrow> nat \<Rightarrow> nat option \<Rightarrow> wf_executor" where
  "execute_task n ex env depth dl name t c k s =
     (case t of
        DoTask b ts \<Rightarrow> do_stream n (ex depth dl) env ts c k s
      | ForTask b cfg ts par on_error whl \<Rightarrow>
          for_stream n (ex (depth + 1) dl) env depth dl t cfg ts par on_error whl name c k s
      | TryTask b ts cfg catch_do \<Rightarrow> try_stream n (ex depth dl) env dl ts cfg catch_do name c k s
      | ForkTask b bs compete \<Rightarrow> leaf_task env dl name t c k s
      | CallTask b body \<Rightarrow> leaf_task env dl name t c k s
      | RunTask b streaming body \<Rightarrow>
          (if streaming then run_stream_task env dl name t c k s
           else leaf_task env dl name t c k s)
      | RaiseTask b e \<Rightarrow> finish_task env name t k (raise_execute env e c s)
      | SetTask b values \<Rightarrow> finish_task env name t k (set_execute env values c s)
      | SwitchTask b items \<Rightarrow> finish_task env name t k (switch_execute env items c s)
      | WaitTask b d \<Rightarrow> wait_execute env dl name t d c k s)"

text \<open>What \<^verbatim>\<open>TaskExecutor::execute\<close> makes of the stream of its task.\<close>

definition close_task ::
  "wf_env \<Rightarrow> string \<Rightarrow> string \<Rightarrow> nat option \<Rightarrow> nat option \<Rightarrow> nat option \<Rightarrow> wf_run \<Rightarrow> wf_run" where
  "close_task env name err_pos after own dl r =
     (case r of
        (evs, Ended, s) \<Rightarrow>
          (if evs = []
           then ([], Failed (standard_error SeRuntime ''No task context returned'' (Some err_pos) None), s)
           else (case last_context evs of
                   None \<Rightarrow> (evs, Ended, s)
                 | Some c \<Rightarrow> (evs, Ended, remove_position c s)))
      | (evs, Elapsed, s) \<Rightarrow>
          (if fires_first own dl
           then (evs, Failed (standard_error SeTimeout
                   (''Task '' @ [CHR 0x27] @ name @ [CHR 0x27] @ '' timed out after '' @ show_duration (unwrap_or after 0))
                   (Some err_pos) None), s)
           else (evs, Elapsed, s))
      | (evs, out, s) \<Rightarrow> (evs, out, s))"

definition task_execute ::
  "(nat option \<Rightarrow> wf_executor) \<Rightarrow> wf_env \<Rightarrow> nat option \<Rightarrow> wf_executor" where
  "task_execute inner env dl name t parent k s =
     (case enter_task env name t parent s of
        (TeError e, s1) \<Rightarrow> failing e s1
      | (TeSkip ev, s1) \<Rightarrow> yield k ev s1
      | (TeRun c, s1) \<Rightarrow>
          (let ctx = expression c s1 in
           case task_condition env name t ctx c s1 of
             (TeError e, s2) \<Rightarrow> failing e s2
           | (TeSkip ev, s2) \<Rightarrow> yield k ev s2
           | (TeRun c, s2) \<Rightarrow>
               (case update_context_by_input env t ctx c s2 of
                  (Inl e, s3) \<Rightarrow> failing (at_position env (tc_position parent) s3 e) s3
                | (Inr c1, s3) \<Rightarrow>
                    (case resolve_timeout env t of
                       Inl e \<Rightarrow> failing e s3
                     | Inr after \<Rightarrow>
                         (let p = pointer_of env (tc_position c1) s3;
                              own = map_option (\<lambda>d. st_clock s3 + d) after
                          in and_then (yield k (EvTaskStarted (task_type_name t) name p) s3)
                               (\<lambda>s4. close_task env name p after own dl
                                        (inner (earliest own dl) name t c1 k s4)))))))"

primrec exec :: "nat \<Rightarrow> wf_env \<Rightarrow> nat \<Rightarrow> nat option \<Rightarrow> wf_executor" where
  "exec 0 env depth dl name t parent k s = ([], Stuck, s)"
| "exec (Suc n) env depth dl name t parent k s =
     task_execute (execute_task n (exec n env) env depth) env dl name t parent k s"

section \<open>The workflow\<close>

definition ROOT_TASK_NAME :: string where "ROOT_TASK_NAME = ''ROOT''"

definition root_pointer :: "wf_env \<Rightarrow> string" where
  "root_pointer env = eg_pointer (we_engines env) [JStr ROOT_TASK_NAME]"

text \<open>\<^verbatim>\<open>WorkflowContext::new\<close>, with the variables of the given context object.\<close>

definition init_state ::
  "workflow_schema \<Rightarrow> json \<Rightarrow> json \<Rightarrow> wf_position option \<Rightarrow> (string \<times> checkpoint) list \<Rightarrow> nat \<Rightarrow> wf_state" where
  "init_state w input ctx cp_pos checkpoints now =
     \<lparr>st_context = \<lparr>wc_name = ws_name w, wc_input = input, wc_status = WsPending, wc_output = None,
        wc_position = [], wc_checkpoint_position = cp_pos, wc_resume_position = None,
        wc_variables = 0\<rparr>,
      st_positions = [], st_variables = [unwrap_or (as_object ctx) []],
      st_checkpoints = checkpoints, st_clock = now, st_polls = 0\<rparr>"

text \<open>\<^verbatim>\<open>WorkflowExecutor::init\<close>: a checkpoint that comes with the request is stored first.\<close>

definition workflow_init ::
  "wf_env \<Rightarrow> workflow_schema \<Rightarrow> json \<Rightarrow> json \<Rightarrow> checkpoint option \<Rightarrow> (string \<times> checkpoint) list \<Rightarrow> nat \<Rightarrow>
   wf_error + wf_state" where
  "workflow_init env w input ctx cp checkpoints now =
     (let s = init_state w input ctx (map_option cp_position cp) checkpoints now
      in (case (cp, we_execution_id env, we_repository env) of
            (Some c, Some exec_id, True) \<Rightarrow>
              (case save_checkpoint_with_id env exec_id c s of
                 (Some e, s1) \<Rightarrow>
                   Inl (standard_error SeRuntime ''Failed to save checkpoint'' (Some (root_pointer env))
                          (Some e))
               | (None, s1) \<Rightarrow> Inr s1)
          | _ \<Rightarrow> Inr s))"

definition set_fault :: "json \<Rightarrow> wf_state \<Rightarrow> wf_state" where
  "set_fault v s =
     s\<lparr>st_context := (st_context s)\<lparr>wc_status := WsFaulted,
         wc_output := Some (JObj [(''error'', v)])\<rparr>\<rparr>"

fun obj_get :: "string \<Rightarrow> json \<Rightarrow> json option" where
  "obj_get k (JObj fs) = map_of fs k"
| "obj_get k v = None"

text \<open>Default values of a schema, for the properties that the input lacks; fuel bounds the
  nesting of the schema.\<close>

fun apply_defaults :: "nat \<Rightarrow> json \<Rightarrow> json \<Rightarrow> json" where
  "apply_defaults 0 input schema = input"
| "apply_defaults (Suc n) input schema =
     (case input of
        JObj obj \<Rightarrow>
          (case obj_get ''properties'' schema of
             Some (JObj props) \<Rightarrow>
               JObj (fold (\<lambda>(key, prop) o'.
                 (case map_of o' key of
                    Some v \<Rightarrow>
                      (if as_object v \<noteq> None \<and> obj_get ''properties'' prop \<noteq> None
                       then index_insert key (apply_defaults n v prop) o'
                       else o')
                  | None \<Rightarrow>
                      (case obj_get ''default'' prop of
                         Some d \<Rightarrow> index_insert key d o'
                       | None \<Rightarrow> o'))) props obj)
           | _ \<Rightarrow> input)
      | _ \<Rightarrow> input)"

definition apply_schema_defaults :: "json \<Rightarrow> json \<Rightarrow> json" where
  "apply_schema_defaults input schema = apply_defaults (size schema) input schema"

text \<open>The consumer of the events of the root task: the last completed task gives the output and
  the position of the workflow.\<close>

definition workflow_consumer :: wf_consumer where
  "workflow_consumer ev s =
     (None,
      (case event_context ev of
         None \<Rightarrow> s
       | Some c \<Rightarrow>
           s\<lparr>st_context := (st_context s)\<lparr>wc_output := Some (tc_output c),
               wc_position := position_at (tc_position c) s\<rparr>\<rparr>))"

definition workflow_input ::
  "wf_env \<Rightarrow> workflow_schema \<Rightarrow> wf_state \<Rightarrow> (wf_error + json) \<times> wf_state" where
  "workflow_input env w s =
     (let input = wc_input (st_context s) in
      case Option.bind (Option.bind (ws_input w) in_schema) json_schema of
        None \<Rightarrow> (Inr input, s)
      | Some schema \<Rightarrow>
          (case eg_validate (we_engines env) schema input of
             Some (m, e) \<Rightarrow>
               (Inl (standard_error SeValidation (''Workflow input validation failed: '' @ e)
                       (Some (root_pointer env)) (Some e)), set_fault (JStr e) s)
           | None \<Rightarrow>
               (let merged = apply_schema_defaults input schema
                in (Inr merged, s\<lparr>st_context := (st_context s)\<lparr>wc_input := merged\<rparr>\<rparr>))))"

definition workflow_checkpoint_context ::
  "wf_env \<Rightarrow> workflow_schema \<Rightarrow> wf_state \<Rightarrow> (wf_error + task_context option) \<times> wf_state" where
  "workflow_checkpoint_context env w s =
     (case (we_execution_id env, we_repository env, wc_checkpoint_position (st_context s)) of
        (Some exec_id, True, Some pos) \<Rightarrow>
          (let pointer = eg_pointer (we_engines env) pos
           in (case get_checkpoint_with_id env exec_id pointer s of
                 Inl e \<Rightarrow>
                   (Inl (standard_error SeRuntime
                      (''Failed to load checkpoint from execution_id: '' @ exec_id @
                       '', workflow: '' @ ws_name w @ '', position: '' @ pointer)
                      (Some (root_pointer env)) (Some e)), set_fault (JStr e) s)
               | Inr None \<Rightarrow> (Inr None, s)
               | Inr (Some cp) \<Rightarrow>
                   (let s1 = restore_workflow cp s;
                        (a, s2) = new_position [] s1;
                        (c, s3) = new_from_cp None (cp_task cp) a s2
                    in (Inr (Some c), s3))))
      | _ \<Rightarrow> (Inr None, s))"

definition initial_task_context :: "json \<Rightarrow> wf_state \<Rightarrow> task_context \<times> wf_state" where
  "initial_task_context input s =
     (let (v, s1) = new_variables [] s;
          (a, s2) = new_position [] s1
      in (new_task_context None input v a s2, s2))"

definition workflow_output :: "wf_env \<Rightarrow> workflow_schema \<Rightarrow> wf_state \<Rightarrow> wf_state" where
  "workflow_output env w s =
     (case Option.bind (ws_output w) out_as of
        None \<Rightarrow> s
      | Some as \<Rightarrow>
          (let ctx = st_context s;
               (a, s1) = new_position [] s;
               c = (new_task_context None (wc_input ctx) (wc_variables ctx) a s1)
                     \<lparr>tc_output := unwrap_or (wc_output ctx) JNull\<rparr>
           in (case wc_output ctx of
                 None \<Rightarrow> s1
               | Some out \<Rightarrow>
                   (case transform_by (we_engines env) out as (expression c s1) of
                      Inr v \<Rightarrow> s1\<lparr>st_context := (st_context s1)\<lparr>wc_output := Some v\<rparr>\<rparr>
                    | Inl e \<Rightarrow> set_fault (JStr (error_to_string e)) s1))))"

definition finish_workflow :: "wf_env \<Rightarrow> workflow_schema \<Rightarrow> wf_state \<Rightarrow> wf_state" where
  "finish_workflow env w s =
     (if status_of s = WsRunning
      then (let s1 = workflow_output env w s
            in if status_of s1 = WsRunning then set_status WsCompleted s1 else s1)
      else s)"

definition execute_workflow_with_events ::
  "nat \<Rightarrow> wf_env \<Rightarrow> workflow_schema \<Rightarrow> wf_state \<Rightarrow> wf_run" where
  "execute_workflow_with_events n env w s0 =
     (case workflow_checkpoint_context env w (set_status WsRunning s0) of
        (Inl e, s1) \<Rightarrow> failing e s1
      | (Inr cp_context, s1) \<Rightarrow>
          (case workflow_input env w s1 of
             (Inl e, s2) \<Rightarrow> failing e s2
           | (Inr input, s2) \<Rightarrow>
               (let (c, s3) = (case cp_context of
                                 Some c \<Rightarrow> (c, s2)
                               | None \<Rightarrow> initial_task_context input s2)
                in (case (case Option.bind (ws_input w) in_from of
                            None \<Rightarrow> Inr input
                          | Some from \<Rightarrow>
                              transform_by (we_engines env) input from (expression c s3)) of
                      Inl e \<Rightarrow>
                        failing (e\<lparr>er_instance := Some (root_pointer env)\<rparr>)
                          (set_fault (JStr (error_to_string e)) s3)
                    | Inr v \<Rightarrow>
                        (case exec n env 0 None ROOT_TASK_NAME (create_do_task w) (set_input v c)
                                workflow_consumer s3 of
                           (evs, Failed e, s4) \<Rightarrow>
                             (evs, Failed e, set_fault (JStr (error_to_string e)) s4)
                         | (evs, Ended, s4) \<Rightarrow> (evs, Ended, finish_workflow env w s4)
                         | (evs, out, s4) \<Rightarrow> (evs, out, s4))))))"

end
