(* ===== verification/Workflow_Runs.thy ===== *)
theory Workflow_Runs
  imports Workflow_Flow
begin

text \<open>
  Runs of task lists.  The lemmas follow lists of \<^verbatim>\<open>set\<close> tasks through the executors, since
  the way a list is walked through depends on its tasks only by the directives they return.
\<close>

section \<open>Steps of set tasks\<close>

text \<open>A \<^verbatim>\<open>set\<close> task with only a flow directive, its values, and what they evaluate to.\<close>

definition set_task :: "flow_directive option \<Rightarrow> (string \<times> json) list \<Rightarrow> task" where
  "set_task thn vs = SetTask (default_base\<lparr>tb_then := thn\<rparr>) vs"

definition sets :: "wf_env \<Rightarrow> (string \<times> json) list \<Rightarrow> (string \<times> json) list \<Rightarrow> bool" where
  "sets env vs ws \<longleftrightarrow>
     (\<forall>input ctx. transform_ref_map (we_engines env) input vs ctx = Inr (JObj ws))"

definition directs :: "wf_env \<Rightarrow> flow_directive option \<Rightarrow> wf_then \<Rightarrow> bool" where
  "directs env thn d \<longleftrightarrow>
     (case thn of
        None \<Rightarrow> d = ThContinue
      | Some f \<Rightarrow> (\<forall>out ctx. then_create (we_engines env) out f ctx = Inr d))"

text \<open>A state in which a task can be run at address \<open>a\<close> of the positions: running, and not on the
  way to a checkpoint.\<close>

definition ready :: "nat \<Rightarrow> wf_state \<Rightarrow> bool" where
  "ready a s \<longleftrightarrow>
     a < length (st_positions s) \<and> wc_variables (st_context s) < length (st_variables s) \<and>
     wc_checkpoint_position (st_context s) = None \<and> status_of s = WsRunning"

definition with_output :: "json \<Rightarrow> wf_position \<Rightarrow> wf_state \<Rightarrow> wf_state" where
  "with_output v p s =
     s\<lparr>st_context := (st_context s)\<lparr>wc_output := Some v, wc_position := p\<rparr>\<rparr>"

definition after_set :: "(string \<times> json) list \<Rightarrow> wf_position \<Rightarrow> wf_state \<Rightarrow> wf_state" where
  "after_set ws p s = with_output (JObj ws) p (export_values (JObj ws) s)"

definition set_context ::
  "task \<Rightarrow> (string \<times> json) list \<Rightarrow> wf_then \<Rightarrow> task_context \<Rightarrow> wf_state \<Rightarrow> task_context" where
  "set_context t ws d parent s =
     (new_task_context (Some t) (tc_output parent) (tc_variables parent) (tc_position parent) s)
       \<lparr>tc_raw_output := JObj ws, tc_output := JObj ws, tc_flow_directive := d,
        tc_completed_at := Some (st_clock s)\<rparr>"

lemma new_task_context_fields [simp]:
  "tc_position (new_task_context t v vars a s) = a"
  "tc_output (new_task_context t v vars a s) = v"
  "tc_variables (new_task_context t v vars a s) = vars"
  by (simp_all add: new_task_context_def)

lemma set_context_fields [simp]:
  "tc_position (set_context t ws d parent s) = tc_position parent"
  "tc_flow_directive (set_context t ws d parent s) = d"
  "tc_output (set_context t ws d parent s) = JObj ws"
  "tc_input (set_context t ws d parent s) = tc_output parent"
  "tc_variables (set_context t ws d parent s) = tc_variables parent"
  by (simp_all add: set_context_def new_task_context_def)

lemma base_of_set_task [simp]: "base_of (set_task thn vs) = default_base\<lparr>tb_then := thn\<rparr>"
  by (simp add: set_task_def)

lemma set_task_simps [simp]:
  "task_type_name (set_task thn vs) = ''setTask''"
  "default_timeout_for (set_task thn vs) default_timeout = None"
  by (simp_all add: set_task_def default_timeout_for_def)

lemma default_base_fields [simp]:
  "tb_checkpoint default_base = False" "tb_export default_base = None" "tb_if default_base = None"
  "tb_input default_base = None" "tb_output default_base = None" "tb_then default_base = None"
  "tb_timeout default_base = None"
  by (simp_all add: default_base_def)

lemma export_values_null [simp]: "export_values JNull s = s"
  by (simp add: export_values_def)

lemma export_values_object:
  assumes "wc_variables (st_context s) < length (st_variables s)"
  shows "export_values (JObj ws) s =
    set_variables (wc_variables (st_context s))
      (fold (\<lambda>(k, x). index_insert k x) ws (variables_at (wc_variables (st_context s)) s)) s"
  using assms
proof (induction ws arbitrary: s)
  case Nil
  then show ?case
    by (cases s) (simp add: export_values_def set_variables_def variables_at_def)
next
  case (Cons w ws)
  obtain k x where w: "w = (k, x)" by (cases w)
  let ?a = "wc_variables (st_context s)"
  let ?s = "wf_add_context_value k x s"
  have s: "?s = set_variables ?a (index_insert k x (variables_at ?a s)) s"
    by (simp add: wf_add_context_value_def Let_def)
  have "export_values (JObj ((k, x) # ws)) s = export_values (JObj ws) ?s"
    by (simp add: export_values_def)
  also have "\<dots> = set_variables ?a
      (fold (\<lambda>(k, x). index_insert k x) ws (index_insert k x (variables_at ?a s))) ?s"
    using Cons.IH [of ?s] Cons.prems by (simp add: s wf_simps)
  also have "\<dots> = set_variables ?a
      (fold (\<lambda>(k, x). index_insert k x) ((k, x) # ws) (variables_at ?a s)) s"
    by (simp add: s set_variables_def)
  finally show ?case by (simp add: w)
qed

lemma after_set_fields:
  assumes "wc_variables (st_context s) < length (st_variables s)"
  shows "st_positions (after_set ws p s) = st_positions s"
    and "length (st_variables (after_set ws p s)) = length (st_variables s)"
    and "st_checkpoints (after_set ws p s) = st_checkpoints s"
    and "st_clock (after_set ws p s) = st_clock s"
    and "st_polls (after_set ws p s) = st_polls s"
    and "status_of (after_set ws p s) = status_of s"
    and "wc_variables (st_context (after_set ws p s)) = wc_variables (st_context s)"
    and "wc_checkpoint_position (st_context (after_set ws p s)) =
         wc_checkpoint_position (st_context s)"
    and "wc_output (st_context (after_set ws p s)) = Some (JObj ws)"
    and "wc_name (st_context (after_set ws p s)) = wc_name (st_context s)"
    and "wc_input (st_context (after_set ws p s)) = wc_input (st_context s)"
    and "position_at b (after_set ws p s) = position_at b s"
    and "ready a (after_set ws p s) = ready a s"
  using assms
  by (simp_all add: after_set_def with_output_def export_values_object set_variables_def
       status_of_def position_at_def ready_def)

definition set_result ::
  "(string \<times> json) list \<Rightarrow> wf_then \<Rightarrow> wf_state \<Rightarrow> task_context \<Rightarrow> task_context" where
  "set_result ws d s c =
     (set_input (tc_raw_input c) c)
       \<lparr>tc_raw_output := JObj ws, tc_output := JObj ws, tc_flow_directive := d,
        tc_completed_at := Some (st_clock s)\<rparr>"

lemma set_result_fields [simp]:
  "tc_position (set_result ws d s c) = tc_position c"
  "tc_variables (set_result ws d s c) = tc_variables c"
  "tc_flow_directive (set_result ws d s c) = d"
  "tc_output (set_result ws d s c) = JObj ws"
  "tc_raw_input (set_result ws d s c) = tc_raw_input c"
  by (simp_all add: set_result_def set_input_def)

lemma exported_position:
  assumes "wc_variables (st_context s) < length (st_variables s)"
  shows "export_values (JObj ws) (set_position a q s) = set_position a q (export_values (JObj ws) s)"
  using assms
  by (simp add: export_values_object wf_simps) (simp add: set_variables_def set_position_def)

lemma set_position_same: "position_at a s = p \<Longrightarrow> set_position a p s = s"
  by (cases "a < length (st_positions s)")
     (auto simp: set_position_def position_at_def list_update_beyond)

lemma exec_set_entered:
  assumes enter: "enter_task env name (set_task thn vs) parent s = (TeRun c, s1)"
    and a: "tc_position c = a" "a < length (st_positions s1)"
    and p: "position_at a s1 = p" "p = P @ [JStr name]"
    and v: "wc_variables (st_context s1) < length (st_variables s1)"
    and vs: "sets env vs ws" and d: "directs env thn d"
  shows "exec (Suc n) env depth dl name (set_task thn vs) parent workflow_consumer s =
    ([EvTaskStarted ''setTask'' name (eg_pointer (we_engines env) p),
      EvTaskCompleted ''setTask'' name (eg_pointer (we_engines env) p) (set_result ws d s1 c)],
     Ended, set_position a P (after_set ws p s1))"
proof -
  let ?t = "set_task thn vs"
  let ?c = "set_input (tc_raw_input c) c"
  let ?e = "export_values (JObj ws) s1"
  have pos_c: "tc_position ?c = a" using a by (simp add: set_input_def)
  have input: "update_context_by_input env ?t ctx c s1 = (Inr ?c, s1)" for ctx
    by (simp add: update_context_by_input_def)
  have e: "a < length (st_positions ?e)" "position_at a ?e = p" "st_clock ?e = st_clock s1"
    using v a p by (simp_all add: export_values_object wf_simps)
  have run: "set_execute env vs ?c s1 = (Inr (?c\<lparr>tc_raw_output := JObj ws\<rparr>), ?e)"
    using vs a(2) e p(1) v
    by (simp add: set_execute_def Let_def add_position_name_def pos_c wf_simps pos_push_def sets_def
        exported_position remove_position_def pos_pop_def set_position_same)
  let ?c2 = "set_result ws d s1 c"
  have out: "update_context_by_output env ?t ctx (?c\<lparr>tc_raw_output := JObj ws\<rparr>) ?e =
      (Inr ?c2, ?e)" for ctx
    using d e
    by (cases thn)
       (simp_all add: update_context_by_output_def Let_def directs_def save_checkpoint_def
          set_completed_at_def set_result_def)
  have inner: "execute_task n (exec n env) env depth dl' name ?t ?c workflow_consumer s1 =
      ([EvTaskCompleted ''setTask'' name (eg_pointer (we_engines env) p) ?c2], Ended,
       after_set ws p s1)" for dl'
    using e run out a
    by (simp add: execute_task_def finish_task_def set_task_def yield_def workflow_consumer_def
        pointer_of_def with_output_def after_set_def)
  have closed: "remove_position ?c2 (after_set ws p s1) = set_position a P (after_set ws p s1)"
    using v a p by (simp add: remove_position_def after_set_fields pos_pop_def)
  have "task_execute (execute_task n (exec n env) env depth) env dl name ?t parent
      workflow_consumer s =
    ([EvTaskStarted ''setTask'' name (eg_pointer (we_engines env) p),
      EvTaskCompleted ''setTask'' name (eg_pointer (we_engines env) p) ?c2],
     Ended, set_position a P (after_set ws p s1))"
    using input enter inner closed p(1)
    by (simp add: task_execute_def task_condition_def Let_def
        resolve_timeout_def resolve_timeout_duration_def and_then_def
        yield_def workflow_consumer_def close_task_def last_context_def option_or_def
        pointer_of_def pos_c earliest_def)
  then show ?thesis by simp
qed

lemma after_set_position:
  assumes "wc_variables (st_context s) < length (st_variables s)"
    and "a < length (st_positions s)" and "P = position_at a s"
  shows "set_position a P (after_set ws p (set_position a q s)) = after_set ws p s"
  using assms
  by (intro wf_state.equality)
     (simp_all add: after_set_def with_output_def export_values_object wf_simps set_variables_def
        set_position_def position_at_def variables_at_def)

lemma exec_set:
  assumes ready: "ready (tc_position parent) s"
    and vs: "sets env vs ws" and d: "directs env thn d"
    and p: "p = position_at (tc_position parent) s @ [JStr name]"
  shows "exec (Suc n) env depth dl name (set_task thn vs) parent workflow_consumer s =
    ([EvTaskStarted ''setTask'' name (eg_pointer (we_engines env) p),
      EvTaskCompleted ''setTask'' name (eg_pointer (we_engines env) p)
        (set_context (set_task thn vs) ws d parent s)], Ended, after_set ws p s)"
proof -
  let ?a = "tc_position parent"
  let ?s1 = "set_position ?a p s"
  let ?c = "new_task_context (Some (set_task thn vs)) (tc_output parent) (tc_variables parent) ?a s"
  have a: "?a < length (st_positions s)" and cp: "wc_checkpoint_position (st_context s) = None"
    and v: "wc_variables (st_context s) < length (st_variables s)"
    using ready by (simp_all add: ready_def)
  have "add_position_name name parent s = ?s1"
    by (simp add: add_position_name_def pos_push_def p)
  then have enter: "enter_task env name (set_task thn vs) parent s = (TeRun ?c, ?s1)"
    using cp by (simp add: enter_task_def Let_def reach_for_checkpoint_def wf_simps
        new_task_context_def)
  have "set_result ws d ?s1 ?c = set_context (set_task thn vs) ws d parent s"
    by (simp add: set_result_def set_context_def set_input_def new_task_context_def wf_simps)
  then show ?thesis
    using exec_set_entered [OF enter _ _ _ p _ vs d, of ?a] after_set_position [OF v a refl] a v
    by (simp add: wf_simps del: exec.simps)
qed

section \<open>Lists of set tasks\<close>

definition polled :: "wf_state \<Rightarrow> wf_state" where
  "polled s = s\<lparr>st_polls := st_polls s + 1\<rparr>"

definition step_events ::
  "wf_env \<Rightarrow> string \<Rightarrow> wf_position \<Rightarrow> task_context \<Rightarrow> wf_event list" where
  "step_events env name p c =
     [EvTaskStarted ''setTask'' name (eg_pointer (we_engines env) p),
      EvTaskCompleted ''setTask'' name (eg_pointer (we_engines env) p) c]"

lemma last_context_step [simp]: "last_context (step_events env name p c) = Some c"
  by (simp add: step_events_def last_context_def option_or_def)

lemma polled_fields [simp]:
  "st_positions (polled s) = st_positions s" "st_variables (polled s) = st_variables s"
  "st_context (polled s) = st_context s" "st_checkpoints (polled s) = st_checkpoints s"
  "st_clock (polled s) = st_clock s" "st_polls (polled s) = st_polls s + 1" "status_of (polled s) = status_of s"
  "position_at a (polled s) = position_at a s" "variables_at a (polled s) = variables_at a s"
  "ready a (polled s) = ready a s"
  by (simp_all add: polled_def status_of_def position_at_def variables_at_def ready_def)

lemma do_loop_set:
  assumes ready: "ready (tc_position prev) s" and calm: "\<not> we_cancel env (st_polls s)"
    and vs: "sets env vs ws" and d: "directs env thn d"
    and p: "p = position_at (tc_position prev) s @ [JInt (int i), JStr name]"
    and c: "c = set_context (set_task thn vs) ws d prev s"
    and cp: "\<And>q. cp = Some q \<Longrightarrow> q \<le> i"
  shows "do_loop (Suc n) (exec (Suc m) env depth dl) env tasks cp
      (Some (name, i, set_task thn vs)) rest prev workflow_consumer s =
    (let (current, s') = next_task env tasks name i c (fst (iter_next rest))
                           (after_set ws p (polled s))
     in and_then (step_events env name p c, Ended, s')
          (do_loop n (exec (Suc m) env depth dl) env tasks cp current (snd (iter_next rest)) c
             workflow_consumer))"
proof -
  let ?a = "tc_position prev"
  let ?P = "position_at ?a s"
  let ?s1 = "set_position ?a (?P @ [JInt (int i)]) (polled s)"
  have a: "?a < length (st_positions s)" and v: "wc_variables (st_context s) < length (st_variables s)"
    and run: "status_of s = WsRunning"
    using ready by (simp_all add: ready_def)
  have pushed: "poll_cancel env (add_position_index i prev s) = ?s1"
    using calm
    by (simp add: poll_cancel_def Let_def add_position_index_def pos_push_idx_def polled_def
        set_position_def)
  have ready1: "ready ?a ?s1"
    using ready by (simp add: ready_def wf_simps)
  have ex: "exec (Suc m) env depth dl name (set_task thn vs) prev workflow_consumer ?s1 =
      (step_events env name p c, Ended, after_set ws p ?s1)"
    using exec_set [OF ready1 vs d, of p name] a
    by (simp add: wf_simps p c step_events_def set_context_def new_task_context_def)
  have popped: "remove_position c (after_set ws p ?s1) = after_set ws p (polled s)"
    using a v
    by (intro wf_state.equality)
       (simp_all add: remove_position_def c after_set_def with_output_def export_values_object
          wf_simps set_variables_def set_position_def position_at_def variables_at_def pos_pop_def)
  show ?thesis
    using run a cp
    by (cases cp) (simp_all add: pushed wf_simps ex popped Let_def case_prod_unfold del: exec.simps)
qed

text \<open>A step of a list: the name, the directive and the values of its task, with what they
  evaluate to.\<close>

type_synonym set_step =
  "string \<times> flow_directive option \<times> (string \<times> json) list \<times> (string \<times> json) list \<times> wf_then"

fun step_ok :: "wf_env \<Rightarrow> set_step \<Rightarrow> bool" where
  "step_ok env (name, thn, vs, ws, d) \<longleftrightarrow> sets env vs ws \<and> directs env thn d"

fun step_directive :: "set_step \<Rightarrow> wf_then" where
  "step_directive (name, thn, vs, ws, d) = d"

fun step_values :: "set_step \<Rightarrow> (string \<times> json) list" where
  "step_values (name, thn, vs, ws, d) = ws"

fun step_task :: "set_step \<Rightarrow> task" where
  "step_task (name, thn, vs, ws, d) = set_task thn vs"

primrec entries :: "nat \<Rightarrow> set_step list \<Rightarrow> task_entry list" where
  "entries i [] = []"
| "entries i (x # xs) = (fst x, i, step_task x) # entries (i + 1) xs"

definition step_list :: "set_step list \<Rightarrow> task_list" where
  "step_list xs = map (\<lambda>x. [(fst x, step_task x)]) xs"

definition started :: "wf_event list \<Rightarrow> string list" where
  "started evs =
     concat (map (\<lambda>ev. case ev of EvTaskStarted ty name p \<Rightarrow> [name] | _ \<Rightarrow> []) evs)"

fun walk ::
  "wf_env \<Rightarrow> wf_position \<Rightarrow> nat \<Rightarrow> set_step list \<Rightarrow> task_context \<Rightarrow> wf_state \<Rightarrow>
   wf_event list \<times> task_context \<times> wf_state" where
  "walk env P i [] prev s = ([], prev, s)"
| "walk env P i ((name, thn, vs, ws, d) # xs) prev s =
     (let p = P @ [JInt (int i), JStr name];
          c = set_context (set_task thn vs) ws d prev s
      in (case walk env P (i + 1) xs c (after_set ws p (polled s)) of
            (evs, r) \<Rightarrow> (step_events env name p c @ evs, r)))"

lemma started_simps [simp]:
  "started [] = []" "started (evs @ evs') = started evs @ started evs'"
  "started (step_events env name p c) = [name]"
  by (simp_all add: started_def step_events_def)

lemma entries_append: "entries i (xs @ ys) = entries i xs @ entries (i + length xs) ys"
  by (induction xs arbitrary: i) simp_all

lemma names_of_entries [simp]: "map fst (entries i xs) = map fst xs"
  by (induction xs arbitrary: i) simp_all

lemma task_map_steps:
  "distinct (map fst acc @ map fst xs) \<Longrightarrow>
   task_map_from (step_list xs) i acc = acc @ entries i xs"
proof (induction xs arbitrary: i acc)
  case (Cons x xs)
  have "fst x \<notin> fst ` set acc" using Cons.prems by auto
  then have "index_insert (fst x) (i, step_task x) acc = acc @ [(fst x, i, step_task x)]"
    by (rule index_insert_new)
  then show ?case using Cons by (simp add: step_list_def)
qed (simp add: step_list_def)

lemma and_then_assoc: "and_then (and_then r f) g = and_then r (\<lambda>s. and_then (f s) g)"
  by (auto simp: and_then_def split: prod.splits wf_outcome.splits)

lemma and_then_ended [simp]:
  "and_then ([], Ended, s) f = f s"
  by (simp add: and_then_def split: prod.split)

lemma and_then_prepend:
  "f s = and_then (evs', Ended, s') g \<Longrightarrow>
   and_then (evs, Ended, s) f = and_then (evs @ evs', Ended, s') g"
  by (simp add: and_then_def split: prod.split)

definition exports :: "set_step list \<Rightarrow> context_variables \<Rightarrow> context_variables" where
  "exports xs = fold (\<lambda>x. fold (\<lambda>(k, v). index_insert k v) (step_values x)) xs"

definition last_output :: "set_step list \<Rightarrow> json \<Rightarrow> json" where
  "last_output xs v = (if xs = [] then v else JObj (step_values (last xs)))"

definition walked ::
  "set_step list \<Rightarrow> task_context \<Rightarrow> wf_state \<Rightarrow> wf_event list \<Rightarrow> task_context \<Rightarrow> wf_state \<Rightarrow> bool" where
  "walked xs prev s evs prev' s' \<longleftrightarrow>
     started evs = map fst xs \<and> tc_position prev' = tc_position prev \<and>
     tc_variables prev' = tc_variables prev \<and>
     tc_output prev' = last_output xs (tc_output prev) \<and>
     ready (tc_position prev) s' \<and> st_positions s' = st_positions s \<and>
     length (st_variables s') = length (st_variables s) \<and>
     st_checkpoints s' = st_checkpoints s \<and> st_clock s' = st_clock s \<and>
     st_polls s' = st_polls s + length xs \<and>
     wc_name (st_context s') = wc_name (st_context s) \<and>
     wc_input (st_context s') = wc_input (st_context s) \<and>
     wc_variables (st_context s') = wc_variables (st_context s) \<and>
     wc_output (st_context s') =
       (if xs = [] then wc_output (st_context s) else Some (last_output xs JNull)) \<and>
     variables_at (wc_variables (st_context s)) s' =
       exports xs (variables_at (wc_variables (st_context s)) s)"

lemma after_set_variables:
  assumes "wc_variables (st_context s) < length (st_variables s)"
  shows "variables_at (wc_variables (st_context s)) (after_set ws p s) =
    fold (\<lambda>(k, v). index_insert k v) ws (variables_at (wc_variables (st_context s)) s)"
  using assms
  by (simp add: after_set_def with_output_def export_values_object set_variables_def variables_at_def)

lemma walk_walked:
  "walk env P i xs prev s = (evs, prev', s') \<Longrightarrow> ready (tc_position prev) s \<Longrightarrow>
   walked xs prev s evs prev' s'"
proof (induction xs arbitrary: i prev s evs)
  case Nil
  then show ?case by (simp add: walked_def last_output_def exports_def)
next
  case (Cons x xs)
  obtain name thn vs ws d where x: "x = (name, thn, vs, ws, d)" by (cases x) auto
  let ?p = "P @ [JInt (int i), JStr name]"
  let ?c = "set_context (set_task thn vs) ws d prev s"
  let ?s = "after_set ws ?p (polled s)"
  have v: "wc_variables (st_context (polled s)) < length (st_variables (polled s))"
    using Cons.prems(2) by (simp add: ready_def)
  note fields = after_set_fields [OF v] after_set_variables [OF v]
  obtain evs1 where w: "walk env P (i + 1) xs ?c ?s = (evs1, prev', s')"
    and evs: "evs = step_events env name ?p ?c @ evs1"
    using Cons.prems(1) unfolding x by (auto simp: Let_def split: prod.splits)
  have "ready (tc_position ?c) ?s" using Cons.prems(2) by (simp add: fields)
  then have "walked xs ?c ?s evs1 prev' s'" by (rule Cons.IH [OF w])
  then show ?case
    using fields by (auto simp: walked_def evs x last_output_def exports_def)
qed

lemma do_loop_walk:
  assumes "\<And>j. j < length xs \<Longrightarrow> \<not> we_cancel env (st_polls s + j)" and "ready (tc_position prev) s"
    and "P = position_at (tc_position prev) s"
    and "\<forall>x \<in> set xs. step_ok env x \<and> step_directive x = ThContinue"
    and "walk env P i xs prev s = (evs, prev', s')"
    and "l = entries i xs @ ys" and "\<And>q. cp = Some q \<Longrightarrow> q \<le> i"
  shows "do_loop (n + length xs) (exec (Suc m) env depth dl) env tasks cp
      (fst (iter_next l)) (snd (iter_next l)) prev workflow_consumer s =
    and_then (evs, Ended, s')
      (do_loop n (exec (Suc m) env depth dl) env tasks cp (fst (iter_next ys))
         (snd (iter_next ys)) prev' workflow_consumer)"
  using assms
proof (induction xs arbitrary: i prev s evs l)
  case (Cons x xs)
  obtain name thn vs ws d where x: "x = (name, thn, vs, ws, d)" by (cases x) auto
  have ok: "sets env vs ws" "directs env thn d" and d: "d = ThContinue"
    using Cons.prems(4) by (auto simp: x)
  let ?p = "P @ [JInt (int i), JStr name]"
  let ?c = "set_context (set_task thn vs) ws d prev s"
  let ?s = "after_set ws ?p (polled s)"
  have v: "wc_variables (st_context (polled s)) < length (st_variables (polled s))"
    using Cons.prems(2) by (simp add: ready_def)
  obtain evs1 where w: "walk env P (i + 1) xs ?c ?s = (evs1, prev', s')"
    and evs: "evs = step_events env name ?p ?c @ evs1"
    using Cons.prems(5) unfolding x by (auto simp: Let_def split: prod.splits)
  let ?l = "entries (i + 1) xs @ ys"
  have l: "l = (name, i, set_task thn vs) # ?l" using Cons.prems(6) by (simp add: x)
  have tl: "do_loop (n + length xs) (exec (Suc m) env depth dl) env tasks cp
      (fst (iter_next ?l)) (snd (iter_next ?l)) ?c workflow_consumer ?s =
    and_then (evs1, Ended, s') (do_loop n (exec (Suc m) env depth dl) env tasks cp
       (fst (iter_next ys)) (snd (iter_next ys)) prev' workflow_consumer)"
  proof (rule Cons.IH [OF _ _ _ _ w refl])
    show "\<not> we_cancel env (st_polls ?s + j)" if "j < length xs" for j
      using Cons.prems(1) [of "Suc j"] that by (simp add: after_set_fields [OF v])
  qed (use Cons.prems(2,3,4,7) in \<open>auto simp: after_set_fields [OF v] intro: le_SucI\<close>)
  have calm: "\<not> we_cancel env (st_polls s)" using Cons.prems(1) [of 0] by simp
  have "next_task env tasks name i ?c np ?s = (np, ?s)" for np
    by (simp add: next_task_def d)
  then have "do_loop (Suc (n + length xs)) (exec (Suc m) env depth dl) env tasks cp
      (Some (name, i, set_task thn vs)) ?l prev workflow_consumer s =
    and_then (step_events env name ?p ?c, Ended, ?s)
      (do_loop (n + length xs) (exec (Suc m) env depth dl) env tasks cp
         (fst (iter_next ?l)) (snd (iter_next ?l)) ?c workflow_consumer)"
    using do_loop_set [where n = "n + length xs" and p = ?p, OF Cons.prems(2) calm ok(1,2) _ refl
          Cons.prems(7)] Cons.prems(3)
    by simp
  also have "\<dots> = and_then (evs, Ended, s') (do_loop n (exec (Suc m) env depth dl) env tasks cp
       (fst (iter_next ys)) (snd (iter_next ys)) prev' workflow_consumer)"
    unfolding evs by (rule and_then_prepend) (rule tl)
  finally show ?case by (simp add: l iter_next_def [of "_ # _"] del: exec.simps do_loop.simps)
qed simp

section \<open>Workflows of set tasks\<close>

definition step_workflow :: "string \<Rightarrow> set_step list \<Rightarrow> workflow_schema" where
  "step_workflow name xs =
     \<lparr>ws_name = name, ws_do = step_list xs, ws_input = None, ws_output = None, ws_timeout = None,
      ws_timeouts = []\<rparr>"

definition list_position :: wf_position where
  "list_position = [JStr ROOT_TASK_NAME, JStr ''do'']"

definition start_state ::
  "workflow_schema \<Rightarrow> json \<Rightarrow> json \<Rightarrow> (string \<times> checkpoint) list \<Rightarrow> nat \<Rightarrow> wf_state" where
  "start_state w input ctx cps now =
     (set_status WsRunning (init_state w input ctx None cps now))
       \<lparr>st_positions := [list_position], st_variables := [unwrap_or (as_object ctx) [], []]\<rparr>"

definition start_context :: "workflow_schema \<Rightarrow> json \<Rightarrow> nat \<Rightarrow> task_context" where
  "start_context w input now =
     \<lparr>tc_definition = Some (create_do_task w), tc_raw_input = input, tc_input = input,
      tc_raw_output = input, tc_output = input, tc_variables = 1, tc_started_at = now,
      tc_completed_at = None, tc_flow_directive = ThContinue, tc_position = 0\<rparr>"

lemma base_of_create_do_task:
  "base_of (create_do_task (step_workflow name xs)) =
     default_base\<lparr>tb_input := Some \<lparr>in_from = None, in_schema = None\<rparr>\<rparr>"
  by (simp add: create_do_task_def step_workflow_def unwrap_or_def default_base_def)

lemma start_ready: "ready 0 (start_state w input ctx cps now)"
  by (simp add: start_state_def init_state_def set_status_def ready_def status_of_def)

lemma start_position [simp]: "position_at 0 (start_state w input ctx cps now) = list_position"
  by (simp add: start_state_def position_at_def)

lemma root_task:
  assumes c: "tc_position c = a" and a: "a < length (st_positions s)" and p: "position_at a s = []"
    and cp: "case wc_checkpoint_position (st_context s) of
       None \<Rightarrow> True | Some q \<Rightarrow> relative_path q [JStr ROOT_TASK_NAME] \<notin> {None, Some []}"
    and w: "w = step_workflow name xs" and "distinct (map fst xs)"
    and start: "start = (if we_repository env
       then find_checkpoint_task env c (entries 0 xs) (set_position a list_position s) else None)"
    and run: "do_loop n (exec n env 0 None) env (entries 0 xs) start
       (fst (iter_next (entries 0 xs))) (snd (iter_next (entries 0 xs)))
       (new_task_context (Some (create_do_task w)) (tc_output c) (tc_variables c) a s)
       workflow_consumer (set_position a list_position s) = (evs, Ended, s')"
    and last: "last_context evs = Some c'"
  shows "exec (Suc n) env 0 None ROOT_TASK_NAME (create_do_task w) c workflow_consumer s =
    (EvTaskStarted ''doTask'' ROOT_TASK_NAME (root_pointer env) # evs, Ended, remove_position c' s')"
proof -
  let ?t = "create_do_task w"
  let ?s1 = "set_position a [JStr ROOT_TASK_NAME] s"
  let ?c = "new_task_context (Some ?t) (tc_output c) (tc_variables c) a s"
  have t: "?t = DoTask (base_of ?t) (step_list xs)"
    by (simp add: create_do_task_def w step_workflow_def)
  have b: "base_of ?t = default_base\<lparr>tb_input := Some \<lparr>in_from = None, in_schema = None\<rparr>\<rparr>"
    by (simp add: w base_of_create_do_task)
  have push: "add_position_name ROOT_TASK_NAME c s = ?s1"
    using p by (simp add: add_position_name_def c pos_push_def)
  have enter: "enter_task env ROOT_TASK_NAME ?t c s = (TeRun ?c, ?s1)"
    using cp a
    by (auto simp: enter_task_def Let_def push reach_for_checkpoint_def can_execute_next_def wf_simps c
        new_task_context_def split: option.splits)
  have input: "update_context_by_input env ?t ctx ?c ?s1 = (Inr ?c, ?s1)" for ctx
    by (simp add: update_context_by_input_def b set_input_def new_task_context_def)
  have tasks: "task_map (step_list xs) = entries 0 xs"
    using task_map_steps [of "[]" xs 0] assms(6) by (simp add: task_map_def)
  have found: "find_checkpoint_task env ?c ts = find_checkpoint_task env c ts" for ts
    by (intro ext) (simp add: find_checkpoint_task_def c cong: option.case_cong)
  have dstream: "do_stream n (exec n env 0 None) env (step_list xs) ?c workflow_consumer ?s1 =
      (evs, Ended, s')"
    using run a
    by (cases "we_repository env")
       (simp_all add: do_stream_def tasks Let_def add_position_name_def pos_push_def wf_simps start
        found list_position_def [symmetric] case_prod_unfold)
  have name: "task_type_name ?t = ''doTask''" and def_to: "default_timeout_for ?t d = None" for d
    by (subst t; simp add: default_timeout_for_def)+
  have inner: "execute_task n (exec n env) env 0 None ROOT_TASK_NAME ?t ?c workflow_consumer ?s1 =
      (evs, Ended, s')"
    by (subst t) (simp add: execute_task_def dstream)
  have ne: "evs \<noteq> []" using last by (auto simp: last_context_def)
  have cond: "task_condition env ROOT_TASK_NAME ?t ctx ?c ?s1 = (TeRun ?c, ?s1)" for ctx
    by (simp add: task_condition_def b)
  have timeout: "resolve_timeout env ?t = Inr None"
    by (simp add: resolve_timeout_def resolve_timeout_duration_def b def_to)
  show ?thesis
    using a ne last
    by (simp add: task_execute_def enter input cond timeout Let_def and_then_def yield_def
        workflow_consumer_def name inner earliest_def close_task_def pointer_of_def wf_simps
        root_pointer_def)
qed

lemma fresh_run:
  assumes w: "w = step_workflow name xs" and "distinct (map fst xs)"
    and run: "do_loop n (exec n env 0 None) env (entries 0 xs) None
       (fst (iter_next (entries 0 xs))) (snd (iter_next (entries 0 xs)))
       (start_context w input now) workflow_consumer (start_state w input ctx cps now) =
       (evs, Ended, s')"
    and last: "last_context evs = Some c'"
  shows "execute_workflow_with_events (Suc n) env w (init_state w input ctx None cps now) =
    (EvTaskStarted ''doTask'' ROOT_TASK_NAME (root_pointer env) # evs, Ended,
     finish_workflow env w (remove_position c' s'))"
proof -
  let ?s = "set_status WsRunning (init_state w input ctx None cps now)"
  let ?c = "new_task_context None input 1 0 ?s"
  let ?s3 = "?s\<lparr>st_variables := [unwrap_or (as_object ctx) [], []], st_positions := [[]]\<rparr>"
  have cp: "workflow_checkpoint_context env w ?s = (Inr None, ?s)"
    by (simp add: workflow_checkpoint_context_def init_state_def set_status_def
        split: option.split bool.split)
  have wi: "ws_input w = None" by (simp add: w step_workflow_def)
  have input: "workflow_input env w ?s = (Inr input, ?s)"
    by (simp add: workflow_input_def wi init_state_def set_status_def)
  have init: "initial_task_context input ?s = (?c, ?s3)"
    by (simp add: initial_task_context_def new_variables_def new_position_def init_state_def
        set_status_def new_task_context_def)
  have start: "set_position 0 list_position ?s3 = start_state w input ctx cps now"
    by (simp add: start_state_def set_position_def)
  have sc: "new_task_context (Some (create_do_task w)) (tc_output (set_input input ?c))
      (tc_variables (set_input input ?c)) 0 ?s3 = start_context w input now"
    by (simp add: new_task_context_def start_context_def set_input_def init_state_def set_status_def)
  have "exec (Suc n) env 0 None ROOT_TASK_NAME (create_do_task w) (set_input input ?c)
      workflow_consumer ?s3 =
    (EvTaskStarted ''doTask'' ROOT_TASK_NAME (root_pointer env) # evs, Ended, remove_position c' s')"
  proof (rule root_task [OF _ _ _ _ w assms(2) _ _ last])
    show "tc_position (set_input input ?c) = 0" by (simp add: set_input_def)
    show "0 < length (st_positions ?s3)" and "position_at 0 ?s3 = []"
      by (simp_all add: position_at_def)
    have "wc_checkpoint_position (st_context ?s3) = None"
      by (simp add: init_state_def set_status_def)
    then show "case wc_checkpoint_position (st_context ?s3) of
         None \<Rightarrow> True | Some q \<Rightarrow> relative_path q [JStr ROOT_TASK_NAME] \<notin> {None, Some []}"
      and "None = (if we_repository env then find_checkpoint_task env (set_input input ?c)
             (entries 0 xs) (set_position 0 list_position ?s3) else None)"
      by (simp_all add: find_checkpoint_task_def wf_simps)
  qed (unfold sc start, rule run)
  then show ?thesis
    by (simp add: execute_workflow_with_events_def cp input init wi del: exec.simps)
qed

lemma last_context_fold:
  "fold (\<lambda>ev acc. option_or (event_context ev) acc) evs acc = option_or (last_context evs) acc"
proof (induction evs arbitrary: acc)
  case (Cons ev evs)
  have "last_context (ev # evs) =
      option_or (last_context evs) (option_or (event_context ev) None)"
    unfolding last_context_def [of "ev # evs"] by (simp add: Cons.IH)
  then show ?case
    by (cases "last_context evs"; cases "event_context ev") (simp_all add: Cons.IH)
qed (simp add: last_context_def)

lemma last_context_append:
  "last_context (evs @ evs') = option_or (last_context evs') (last_context evs)"
  using last_context_fold [of evs' "last_context evs"] by (simp add: last_context_def)

lemma walk_last_context:
  "walk env P i xs prev s = (evs, prev', s') \<Longrightarrow>
   last_context evs = (if xs = [] then None else Some prev')"
proof (induction env P i xs prev s arbitrary: evs rule: walk.induct)
  case (2 env P i name thn vs ws d xs prev s)
  let ?p = "P @ [JInt (int i), JStr name]"
  let ?c = "set_context (set_task thn vs) ws d prev s"
  obtain evs1 where w: "walk env P (i + 1) xs ?c (after_set ws ?p (polled s)) = (evs1, prev', s')"
    and evs: "evs = step_events env name ?p ?c @ evs1"
    using 2(2) by (auto simp: Let_def split: prod.splits)
  from 2(1) [OF refl refl w] w show ?case
    by (cases "xs = []") (auto simp: evs last_context_append option_or_def)
qed (simp add: last_context_def)

section \<open>Samples\<close>

text \<open>An environment without expressions to evaluate, which keeps checkpoints in memory, and tasks
  that set a number.\<close>

definition sample_engines :: engines where
  "sample_engines =
     \<lparr>eg_jq = \<lambda>f v ctx. Inr v, eg_liquid = \<lambda>t v ctx. Inr t, eg_parse_f64 = \<lambda>s. None,
      eg_validate = \<lambda>schema v. None, eg_read_error = \<lambda>v. Inl ''not an error'',
      eg_show_json = \<lambda>v. [], eg_pointer = rfc6901,
      eg_regex = \<lparr>rx_escape = \<lambda>s. s, rx_match = \<lambda>p s. Some (p = s)\<rparr>, eg_duration = \<lambda>u s. 0\<rparr>"

definition sample_env :: wf_env where
  "sample_env =
     \<lparr>we_engines = sample_engines, we_repository = True, we_execution_id = Some ''e1'',
      we_save_error = \<lambda>k cp. None, we_load_error = \<lambda>k. None, we_default_timeout = None,
      we_timeouts = [], we_cancel = \<lambda>j. False, we_leaf = \<lambda>t name c dl s. (None, s),
      we_run_stream = \<lambda>t name c dl s. ([], None, s),
      we_parallel = \<lambda>t name c dl k s. ([], Stuck, s)\<rparr>"

definition sample_step :: "string \<Rightarrow> flow_directive option \<Rightarrow> int \<Rightarrow> wf_then \<Rightarrow> set_step" where
  "sample_step name thn v d = (name, thn, [(name, JInt v)], [(name, JInt v)], d)"

lemma sample_step_simps [simp]:
  "fst (sample_step name thn v d) = name" "step_directive (sample_step name thn v d) = d"
  "step_values (sample_step name thn v d) = [(name, JInt v)]"
  "step_ok env (sample_step name thn v d) = directs env thn d"
  by (simp_all add: sample_step_def sets_def transform_ref_map_def bindE_def)

lemma sample_directs [simp]:
  "directs env None d = (d = ThContinue)" "directs env (Some (FdEnum FdWait)) ThWait"
  by (simp_all add: directs_def then_create_def)

lemma sample_plain: "\<not> is_transform_template ''c''" "\<not> is_transform_filter ''c''"
  by code_simp+

lemma sample_jump: "directs sample_env (Some (FdText ''c'')) (ThTaskName ''c'')"
  by (simp add: directs_def then_create_def execute_transform_def sample_plain bindE_def)

lemma sample_env_simps [simp]:
  "we_cancel sample_env j = False" "we_repository sample_env"
  "we_execution_id sample_env = Some ''e1''" "we_save_error sample_env key cp = None"
  "we_load_error sample_env key = None"
  by (simp_all add: sample_env_def)

end
