(* ===== verification/Workflow_Control.thy ===== *)
theory Workflow_Control
  imports Workflow_Runs
begin

text \<open>
  What a workflow run does with the flow directives of its tasks: continuing, jumping to a named
  task, and suspending for a later run.
\<close>

section \<open>Continuing\<close>

abbreviation continuing :: "wf_env \<Rightarrow> set_step list \<Rightarrow> bool" where
  "continuing env xs \<equiv> (\<forall>x \<in> set xs. step_ok env x \<and> step_directive x = ThContinue)"

abbreviation do_steps ::
  "nat \<Rightarrow> nat \<Rightarrow> wf_env \<Rightarrow> task_entry list \<Rightarrow> nat option \<Rightarrow> task_entry list \<Rightarrow> task_context \<Rightarrow>
   wf_state \<Rightarrow> wf_run" where
  "do_steps n m env tasks cp l prev s \<equiv>
     do_loop n (exec (Suc m) env 0 None) env tasks cp (fst (iter_next l)) (snd (iter_next l)) prev
       workflow_consumer s"

lemma iter_next_simps [simp]:
  "iter_next [] = (None, [])" "iter_next (x # xs) = (Some x, xs)"
  by (simp_all add: iter_next_def)

lemma do_loop_end [simp]:
  "do_loop n ex env tasks cp None rest prev k s = ([], Ended, remove_position prev s)"
  by (cases n) simp_all

text \<open>The engine between two tasks of the list of the workflow.\<close>

definition at_list :: "task_context \<Rightarrow> wf_state \<Rightarrow> bool" where
  "at_list c s \<longleftrightarrow> tc_position c = 0 \<and> ready 0 s \<and> position_at 0 s = list_position"

lemma walk_at_list:
  assumes "walk env P i xs c s = (evs, c', s')" and "at_list c s"
  shows "at_list c' s'" "walked xs c s evs c' s'"
    "last_context evs = (if xs = [] then None else Some c')"
proof -
  show walked: "walked xs c s evs c' s'"
    by (rule walk_walked [OF assms(1)]) (use assms(2) in \<open>simp add: at_list_def\<close>)
  have "position_at 0 s' = position_at 0 s" using walked by (simp add: walked_def position_at_def)
  then show "at_list c' s'" using walked assms(2) by (simp add: at_list_def walked_def)
  show "last_context evs = (if xs = [] then None else Some c')"
    by (rule walk_last_context [OF assms(1)])
qed

lemma do_steps_until:
  assumes "walk env list_position i xs c s = (evs, c', s')"
    and "\<forall>j < length xs. \<not> we_cancel env (st_polls s + j)" and "at_list c s"
    and "continuing env xs" and "length xs \<le> n" and "case cp of None \<Rightarrow> True | Some q \<Rightarrow> q \<le> i"
  shows "do_steps n m env tasks cp (entries i xs @ ys) c s =
    and_then (evs, Ended, s') (do_steps (n - length xs) m env tasks cp ys c')"
proof -
  have "do_steps (n - length xs + length xs) m env tasks cp (entries i xs @ ys) c s =
      and_then (evs, Ended, s') (do_steps (n - length xs) m env tasks cp ys c')"
    by (rule do_loop_walk [OF _ _ _ _ assms(1) refl]) (use assms in \<open>auto simp: at_list_def\<close>)
  then show ?thesis using assms(5) by simp
qed

lemma do_steps_walk:
  assumes "walk env list_position i xs c s = (evs, c', s')"
    and "\<forall>j. \<not> we_cancel env j" and "at_list c s"
    and "continuing env xs" and "length xs \<le> n" and "case cp of None \<Rightarrow> True | Some q \<Rightarrow> q \<le> i"
  shows "do_steps n m env tasks cp (entries i xs @ ys) c s =
    and_then (evs, Ended, s') (do_steps (n - length xs) m env tasks cp ys c')"
  using assms by (intro do_steps_until) auto

lemma do_step_walk:
  assumes "walk env list_position i [x] c s = (evs, c', s')"
    and calm: "\<forall>j. \<not> we_cancel env j" and at: "at_list c s"
    and ok: "step_ok env x" and cp: "case cp of None \<Rightarrow> True | Some q \<Rightarrow> q \<le> i"
  shows "tc_flow_directive c' = step_directive x" (is ?directive)
    and "do_loop (Suc n) (exec (Suc m) env 0 None) env tasks cp (Some (fst x, i, step_task x)) l c
        workflow_consumer s =
      (let (current, s1) = next_task env tasks (fst x) i c' (fst (iter_next l)) s'
       in and_then (evs, Ended, s1)
            (do_loop n (exec (Suc m) env 0 None) env tasks cp current (snd (iter_next l)) c'
               workflow_consumer))" (is ?run)
proof -
  obtain name thn vs ws d where x: "x = (name, thn, vs, ws, d)" by (cases x) auto
  have ok: "sets env vs ws" "directs env thn d" using ok by (simp_all add: x)
  let ?p = "list_position @ [JInt (int i), JStr name]"
  have c': "c' = set_context (set_task thn vs) ws d c s" and s': "s' = after_set ws ?p (polled s)"
    and evs: "evs = step_events env name ?p c'"
    using assms(1) by (auto simp: x Let_def)
  show ?directive by (simp add: c' x)
  have cp': "q \<le> i" if "cp = Some q" for q using cp that by simp
  have "ready (tc_position c) s" and p: "?p = position_at (tc_position c) s @ [JInt (int i), JStr name]"
    using at by (simp_all add: at_list_def)
  then show ?run
    using do_loop_set [OF _ _ ok p c' cp'] calm
    by (simp add: x evs s' del: exec.simps do_loop.simps)
qed

lemma finish_steps:
  assumes w: "w = step_workflow name xs" and at: "at_list c s'"
    and s: "s = finish_workflow env w (remove_position c (remove_position c s'))"
  shows "status_of s = WsCompleted" "wc_output (st_context s) = wc_output (st_context s')"
    "wc_variables (st_context s) = wc_variables (st_context s')" "variables_at a s = variables_at a s'"
    "position_at 0 s = []"
proof -
  have st: "status_of s' = WsRunning" and a: "0 < length (st_positions s')"
    using at by (simp_all add: at_list_def ready_def)
  have out: "ws_output w = None" by (simp add: w step_workflow_def)
  have "s = set_status WsCompleted (set_position 0 [] s')"
    using st a at
    by (simp add: s finish_workflow_def remove_position_def at_list_def wf_simps pos_pop_def
        list_position_def workflow_output_def out)
  then show "status_of s = WsCompleted" "wc_output (st_context s) = wc_output (st_context s')"
    "wc_variables (st_context s) = wc_variables (st_context s')" "variables_at a s = variables_at a s'"
    "position_at 0 s = []"
    using a by (simp_all add: set_status_def status_of_def variables_at_def position_at_def
        set_position_def)
qed

lemma start_context_fields [simp]:
  "tc_position (start_context w input now) = 0" "tc_output (start_context w input now) = input"
  "tc_variables (start_context w input now) = 1"
  by (simp_all add: start_context_def)

lemma start_state_fields [simp]:
  "wc_variables (st_context (start_state w input ctx cps now)) = 0"
  "variables_at 0 (start_state w input ctx cps now) = unwrap_or (as_object ctx) []"
  "wc_input (st_context (start_state w input ctx cps now)) = input"
  "wc_name (st_context (start_state w input ctx cps now)) = ws_name w"
  by (simp_all add: start_state_def init_state_def set_status_def variables_at_def)

lemma start_at_list: "at_list (start_context w input now) (start_state w input ctx cps now)"
  by (simp add: at_list_def start_ready)

lemma started_root [simp]: "started (EvTaskStarted ty name p # evs) = name # started evs"
  by (simp add: started_def)



section \<open>Jumping\<close>

lemma find_entry:
  "fst b \<notin> fst ` set us \<Longrightarrow>
   find (\<lambda>(k, v). k = fst b) (entries i (us @ b # vs)) = Some (fst b, i + length us, step_task b)"
  by (induction us arbitrary: i) auto

lemma do_steps_jump:
  assumes calm: "\<forall>j. \<not> we_cancel env j" and at: "at_list c0 s0"
    and xs: "xs = pre @ a # x # mid @ b # post" and "distinct (map fst xs)"
    and ok: "continuing env pre" "step_ok env a" "step_ok env b" "step_directive b = ThContinue"
      "continuing env (mid @ b # post)"
    and jump: "step_directive a = ThTaskName (fst b)" and n: "length xs \<le> n"
    and w1: "walk env list_position 0 pre c0 s0 = (evs1, c1, s1)"
    and w2: "walk env list_position (length pre) [a] c1 s1 = (evs2, c2, s2)"
    and w3: "walk env list_position (length pre + 2 + length mid) [b] c2 s2 = (evs3, c3, s3)"
    and w4: "walk env list_position (length pre + 2) (mid @ b # post) c3 s3 = (evs4, c4, s4)"
  shows "do_steps n m env (entries 0 xs) None (entries 0 xs) c0 s0 =
    (evs1 @ evs2 @ evs3 @ evs4, Ended, remove_position c4 s4)"
proof -
  let ?i = "length pre" and ?l = "mid @ b # post"
  let ?ts = "entries 0 xs" and ?l2 = "entries (?i + 1) (x # ?l)" and ?l3 = "entries (?i + 2) ?l"
  let ?j = "?i + 2 + length mid" and ?k = "n - ?i"
  note k1 = walk_at_list [OF w1 at] note k2 = walk_at_list [OF w2 k1(1)]
  note k3 = walk_at_list [OF w3 k2(1)]
  have k: "?k = Suc (Suc (?k - 2))" "length ?l \<le> ?k - 2" "?i \<le> n"
    using n by (simp_all add: xs)
  have d2: "tc_flow_directive c2 = ThTaskName (fst b)" and d3: "tc_flow_directive c3 = ThContinue"
    using do_step_walk(1) [OF w2 calm k1(1) ok(2), of None] jump
      do_step_walk(1) [OF w3 calm k2(1) ok(3), of None] ok(4) by simp_all
  have "fst b \<notin> fst ` set (pre @ a # x # mid)" using assms(4) by (auto simp: xs)
  then have target: "find (\<lambda>(k, v). k = fst b) ?ts = Some (fst b, ?j, step_task b)"
    using find_entry [of b "pre @ a # x # mid" 0 post] by (simp add: xs)
  have "do_steps n m env ?ts None ?ts c0 s0 =
      and_then (evs1, Ended, s1) (do_loop ?k (exec (Suc m) env 0 None) env ?ts None
        (Some (fst a, ?i, step_task a)) ?l2 c1 workflow_consumer)"
    using do_steps_walk [where m = m and tasks = ?ts and cp = None and ys = "entries ?i (a # x # ?l)",
        OF w1 calm at ok(1) k(3)]
    by (simp add: xs entries_append del: exec.simps do_loop.simps)
  moreover have "do_loop (Suc (Suc (?k - 2))) (exec (Suc m) env 0 None) env ?ts None
      (Some (fst a, ?i, step_task a)) ?l2 c1 workflow_consumer s1 =
    and_then (evs2, Ended, s2) (do_loop (Suc (?k - 2)) (exec (Suc m) env 0 None) env ?ts None
      (Some (fst b, ?j, step_task b)) ?l3 c2 workflow_consumer)"
    using do_step_walk(2) [where n = "Suc (?k - 2)" and m = m and tasks = ?ts and cp = None and l = ?l2,
        OF w2 calm k1(1) ok(2)]
    by (simp add: next_task_def d2 target del: exec.simps do_loop.simps)
  moreover have "do_loop (Suc (?k - 2)) (exec (Suc m) env 0 None) env ?ts None
      (Some (fst b, ?j, step_task b)) ?l3 c2 workflow_consumer s2 =
    and_then (evs3, Ended, s3) (do_steps (?k - 2) m env ?ts None ?l3 c3)"
    using do_step_walk(2) [where n = "?k - 2" and m = m and tasks = ?ts and cp = None and l = ?l3,
        OF w3 calm k2(1) ok(3)]
    by (simp add: next_task_def d3 del: exec.simps do_loop.simps)
  moreover have "do_steps (?k - 2) m env ?ts None ?l3 c3 s3 = (evs4, Ended, remove_position c4 s4)"
    using do_steps_walk [where m = m and tasks = ?ts and cp = None and ys = "[]",
        OF w4 calm k3(1) ok(5) k(2)]
    by (simp add: and_then_def del: exec.simps do_loop.simps)
  ultimately show ?thesis using k(1) by (simp add: and_then_def del: exec.simps do_loop.simps)
qed



section \<open>Cancelling\<close>

definition cancelled_at :: "wf_env \<Rightarrow> nat \<Rightarrow> bool" where
  "cancelled_at env j \<longleftrightarrow> we_cancel env j \<and> (\<forall>i < j. \<not> we_cancel env i)"

lemma do_step_cancelled:
  assumes "we_cancel env (st_polls s)" and at: "at_list c s"
  shows "\<exists>s'. do_loop (Suc n) ex env tasks None (Some (name, i, t)) l c k s = ([], Ended, s') \<and>
    status_of s' = WsCancelled"
  using assms
  by (simp add: poll_cancel_def add_position_index_def wf_simps at_list_def ready_def cancel_status_def
      remove_position_def Let_def)
     (simp add: set_status_def status_of_def set_position_def)

lemma start_polls [simp]: "st_polls (start_state w input ctx cps now) = 0"
  by (simp add: start_state_def init_state_def set_status_def)



section \<open>Switching\<close>



end
