(* ===== verification/Workflow_Resume.thy ===== *)
theory Workflow_Resume
  imports Workflow_Control
begin

text \<open>
  Suspending and resuming: a task with the directive \<^verbatim>\<open>wait\<close> stores a checkpoint at the position of
  the next task, and a later run starts there.
\<close>

definition resume_point :: "nat \<Rightarrow> string \<Rightarrow> wf_position" where
  "resume_point i name = list_position @ [JInt (int i), JStr name]"

text \<open>An environment that keeps checkpoints, with every access to them answered.\<close>

definition keeps_checkpoints :: "wf_env \<Rightarrow> string \<Rightarrow> bool" where
  "keeps_checkpoints env exec_id \<longleftrightarrow>
     we_repository env \<and> we_execution_id env = Some exec_id \<and>
     (\<forall>key cp. we_save_error env key cp = None) \<and> (\<forall>key. we_load_error env key = None)"

definition checkpoint_key :: "wf_env \<Rightarrow> string \<Rightarrow> string \<Rightarrow> wf_position \<Rightarrow> string" where
  "checkpoint_key env exec_id name p = generate_key exec_id name (eg_pointer (we_engines env) p)"

section \<open>The run that suspends\<close>

definition suspended ::
  "wf_env \<Rightarrow> string \<Rightarrow> wf_position \<Rightarrow> task_context \<Rightarrow> wf_state \<Rightarrow> wf_state" where
  "suspended env exec_id p c s =
     s\<lparr>st_checkpoints :=
          index_insert (checkpoint_key env exec_id (wc_name (st_context s)) p) (new_checkpoint_at p c s)
            (st_checkpoints s),
       st_context := (st_context s)\<lparr>wc_resume_position := Some p, wc_status := WsWaiting\<rparr>\<rparr>"

lemma wait_suspends:
  assumes "keeps_checkpoints env exec_id" and "at_list c s"
  shows "wait_task env name i c (Some (next, j, t)) s = suspended env exec_id (resume_point j next) c s"
  using assms
  by (simp add: wait_task_def Let_def at_list_def ready_def wait_already_handled_def suspend_at_def
      keeps_checkpoints_def save_checkpoint_with_id_def checkpoint_key_def new_checkpoint_at_def
      save_checkpoint_memory_def resume_point_def suspended_def pos_push_def pos_push_idx_def)

lemma do_steps_wait:
  assumes calm: "\<forall>j. \<not> we_cancel env j" and at: "at_list c0 s0"
    and keeps: "keeps_checkpoints env exec_id"
    and xs: "xs = pre @ w # y # post" and ok: "continuing env pre" "step_ok env w"
    and wait: "step_directive w = ThWait" and n: "length pre < n"
    and w1: "walk env list_position 0 pre c0 s0 = (evs1, c1, s1)"
    and w2: "walk env list_position (length pre) [w] c1 s1 = (evs2, c2, s2)"
  shows "do_steps n m env (entries 0 xs) None (entries 0 xs) c0 s0 =
    (evs1 @ evs2, Ended,
     remove_position c2 (suspended env exec_id (resume_point (length pre + 1) (fst y)) c2 s2))"
proof -
  let ?i = "length pre" and ?ts = "entries 0 xs" and ?l = "entries (length pre + 1) (y # post)"
  note k1 = walk_at_list [OF w1 at] note k2 = walk_at_list [OF w2 k1(1)]
  obtain k where k: "n - ?i = Suc k" using n by (cases "n - ?i") auto
  have d2: "tc_flow_directive c2 = ThWait"
    using do_step_walk(1) [OF w2 calm k1(1) ok(2), of None] wait by simp
  have "do_steps n m env ?ts None ?ts c0 s0 =
      and_then (evs1, Ended, s1) (do_loop (Suc k) (exec (Suc m) env 0 None) env ?ts None
        (Some (fst w, ?i, step_task w)) ?l c1 workflow_consumer)"
    using do_steps_walk [where m = m and tasks = ?ts and cp = None and n = n
          and ys = "entries ?i (w # y # post)", OF w1 calm at ok(1)] n
    by (simp add: xs entries_append k del: exec.simps do_loop.simps)
  moreover have "do_loop (Suc k) (exec (Suc m) env 0 None) env ?ts None
      (Some (fst w, ?i, step_task w)) ?l c1 workflow_consumer s1 =
    (evs2, Ended, remove_position c2 (suspended env exec_id (resume_point (?i + 1) (fst y)) c2 s2))"
    using do_step_walk(2) [where n = k and m = m and tasks = ?ts and cp = None and l = ?l,
        OF w2 calm k1(1) ok(2)]
    by (simp add: next_task_def d2 wait_suspends [OF keeps k2(1)] and_then_def
        del: exec.simps do_loop.simps)
  ultimately show ?thesis by (simp add: and_then_def del: exec.simps do_loop.simps)
qed

section \<open>The run that resumes\<close>

lemma do_loop_skip:
  "i + length us \<le> q \<Longrightarrow>
   do_loop (n + length us) ex env tasks (Some q) (fst (iter_next (entries i us @ l)))
     (snd (iter_next (entries i us @ l))) c k s =
   do_loop n ex env tasks (Some q) (fst (iter_next l)) (snd (iter_next l)) c k s"
  by (induction us arbitrary: i) simp_all

definition restored :: "checkpoint \<Rightarrow> wf_state \<Rightarrow> wf_state" where
  "restored cp s =
     s\<lparr>st_variables := st_variables s @ [wk_variables (cp_workflow cp), tk_variables (cp_task cp)],
       st_context := (st_context s)\<lparr>wc_position := cp_position cp,
         wc_input := wk_input (cp_workflow cp), wc_variables := length (st_variables s)\<rparr>\<rparr>"

definition restored_context :: "checkpoint \<Rightarrow> nat \<Rightarrow> wf_state \<Rightarrow> task_context" where
  "restored_context cp a s =
     \<lparr>tc_definition = None, tc_raw_input = tk_input (cp_task cp), tc_input = tk_input (cp_task cp),
      tc_raw_output = tk_output (cp_task cp), tc_output = tk_output (cp_task cp),
      tc_variables = length (st_variables s) + 1, tc_started_at = st_clock s, tc_completed_at = None,
      tc_flow_directive = then_from_str (tk_flow_directive (cp_task cp)), tc_position = a\<rparr>"

lemma load_restores:
  assumes "keeps_checkpoints env exec_id" and "wc_checkpoint_position (st_context s) = Some p"
    and "map_of (st_checkpoints s) (checkpoint_key env exec_id (wc_name (st_context s)) p) = Some cp"
  shows "load_checkpoint env a s = (Inr (Some (restored_context cp a s)), restored cp s)"
  using assms
  by (simp add: load_checkpoint_def keeps_checkpoints_def get_checkpoint_with_id_def checkpoint_key_def
      get_checkpoint_memory_def restore_workflow_def new_from_cp_def new_variables_def restored_def
      restored_context_def)

definition resumed :: "checkpoint \<Rightarrow> wf_state \<Rightarrow> wf_state" where
  "resumed cp s =
     (restored cp s)\<lparr>st_context := (st_context (restored cp s))\<lparr>wc_checkpoint_position := None\<rparr>\<rparr>"

lemma resumed_fields:
  "st_positions (resumed cp s) = st_positions s" "status_of (resumed cp s) = status_of s"
  "wc_checkpoint_position (st_context (resumed cp s)) = None"
  "wc_variables (st_context (resumed cp s)) < length (st_variables (resumed cp s))"
  "variables_at (wc_variables (st_context (resumed cp s))) (resumed cp s) = wk_variables (cp_workflow cp)"
  "position_at a (resumed cp s) = position_at a s"
  by (simp_all add: resumed_def restored_def status_of_def variables_at_def position_at_def)

lemma enter_resumes:
  assumes "keeps_checkpoints env exec_id" and "wc_checkpoint_position (st_context s) = Some p"
    and "map_of (st_checkpoints s) (checkpoint_key env exec_id (wc_name (st_context s)) p) = Some cp"
    and a: "tc_position c = a" "a < length (st_positions s)"
    and p: "p = position_at a s @ [JStr name]"
  shows "enter_task env name t c s = (TeRun (restored_context cp a s), resumed cp (set_position a p s))"
proof -
  let ?s = "set_position a p s"
  have push: "add_position_name name c s = ?s" by (simp add: add_position_name_def a pos_push_def p)
  have "load_checkpoint env a ?s = (Inr (Some (restored_context cp a ?s)), restored cp ?s)"
    by (rule load_restores) (use assms in \<open>simp_all add: wf_simps\<close>)
  moreover have "restored_context cp a ?s = restored_context cp a s"
    by (simp add: restored_context_def wf_simps)
  ultimately show ?thesis
    using assms(1,2) a
    by (simp add: enter_task_def push reach_for_checkpoint_def wf_simps keeps_checkpoints_def Let_def
        resumed_def can_execute_next_def)
qed

definition on_the_way ::
  "wf_env \<Rightarrow> string \<Rightarrow> wf_position \<Rightarrow> checkpoint \<Rightarrow> wf_state \<Rightarrow> bool" where
  "on_the_way env exec_id p cp s \<longleftrightarrow>
     0 < length (st_positions s) \<and> position_at 0 s = list_position \<and> status_of s = WsRunning \<and>
     wc_checkpoint_position (st_context s) = Some p \<and>
     map_of (st_checkpoints s) (checkpoint_key env exec_id (wc_name (st_context s)) p) = Some cp"

lemma resume_step:
  assumes calm: "\<forall>j. \<not> we_cancel env j" and keeps: "keeps_checkpoints env exec_id"
    and c: "tc_position c = 0" and s: "on_the_way env exec_id (resume_point i (fst y)) cp s"
    and ok: "step_ok env y" "step_directive y = ThContinue"
  obtains evs c' s' where
    "do_loop (Suc n) (exec (Suc m) env 0 None) env tasks (Some i) (Some (fst y, i, step_task y)) l c
       workflow_consumer s = and_then (evs, Ended, s') (do_steps n m env tasks (Some i) l c')"
    and "last_context evs = Some c'" and "started evs = [fst y]" and "at_list c' s'"
    and "tc_raw_input c' = tk_input (cp_task cp)"
    and "EvTaskCompleted ''setTask'' (fst y) (eg_pointer (we_engines env) (resume_point i (fst y))) c' \<in> set evs"
    and "wc_output (st_context s') = Some (JObj (step_values y))"
    and "variables_at (wc_variables (st_context s')) s' = exports [y] (wk_variables (cp_workflow cp))"
proof -
  obtain name thn vs ws d where y: "y = (name, thn, vs, ws, d)" by (cases y) auto
  have ok: "sets env vs ws" "directs env thn ThContinue" using ok by (simp_all add: y)
  let ?P = "list_position @ [JInt (int i)]" and ?p = "resume_point i name"
  let ?s1 = "set_position 0 ?P (polled s)"
  define S where "S = resumed cp (set_position 0 ?p ?s1)"
  let ?C = "restored_context cp 0 ?s1"
  let ?c' = "set_result ws ThContinue S ?C" and ?s' = "set_position 0 list_position (after_set ws ?p S)"
  let ?evs = "step_events env name ?p ?c'"
  have a: "0 < length (st_positions s)" "position_at 0 s = list_position"
    and run: "status_of s = WsRunning" using s by (simp_all add: on_the_way_def)
  have S: "0 < length (st_positions S)" "position_at 0 S = ?p" "status_of S = WsRunning"
    "wc_checkpoint_position (st_context S) = None"
    "variables_at (wc_variables (st_context S)) S = wk_variables (cp_workflow cp)"
    and v: "wc_variables (st_context S) < length (st_variables S)"
    using a run by (simp_all add: S_def resumed_fields wf_simps)
  have p: "?p = ?P @ [JStr name]" by (simp add: resume_point_def)
  have pushed: "poll_cancel env (add_position_index i c s) = ?s1"
    using calm a
    by (simp add: poll_cancel_def Let_def add_position_index_def pos_push_idx_def polled_def
        set_position_def c)
  have enter: "enter_task env name (set_task thn vs) c ?s1 = (TeRun ?C, S)"
    unfolding S_def
    by (rule enter_resumes [OF keeps _ _ c]) (use s in \<open>simp_all add: on_the_way_def wf_simps y p\<close>)
  have ex: "exec (Suc m) env 0 None name (set_task thn vs) c workflow_consumer ?s1 =
      (?evs, Ended, set_position 0 ?P (after_set ws ?p S))"
    unfolding step_events_def
    by (rule exec_set_entered [OF enter _ _ _ p _ ok])
       (use S v in \<open>simp_all add: restored_context_def\<close>)
  note fields = after_set_fields [OF v] after_set_variables [OF v]
  have popped: "remove_position ?c' (set_position 0 ?P (after_set ws ?p S)) = ?s'"
    using S by (simp add: remove_position_def wf_simps pos_pop_def restored_context_def fields)
  have "do_loop (Suc n) (exec (Suc m) env 0 None) env tasks (Some i) (Some (fst y, i, step_task y)) l c
       workflow_consumer s = and_then (?evs, Ended, ?s') (do_steps n m env tasks (Some i) l ?c')"
    using run a
    by (simp add: pushed wf_simps ex popped Let_def case_prod_unfold y next_task_def del: exec.simps)
  moreover have "at_list ?c' ?s'"
    using S v by (simp add: at_list_def restored_context_def ready_def wf_simps fields)
  moreover have "EvTaskCompleted ''setTask'' name (eg_pointer (we_engines env) ?p) ?c' \<in> set ?evs"
    by (simp add: step_events_def)
  ultimately show ?thesis
    using that S by (simp add: restored_context_def fields wf_simps y exports_def)
qed

definition resume_state ::
  "workflow_schema \<Rightarrow> json \<Rightarrow> json \<Rightarrow> wf_position \<Rightarrow> checkpoint \<Rightarrow> (string \<times> checkpoint) list \<Rightarrow> nat \<Rightarrow>
   wf_state" where
  "resume_state w input ctx p cp cps now =
     (restored cp (set_status WsRunning (init_state w input ctx (Some p) cps now)))
       \<lparr>st_positions := [list_position]\<rparr>"

definition resume_context :: "workflow_schema \<Rightarrow> checkpoint \<Rightarrow> nat \<Rightarrow> task_context" where
  "resume_context w cp now =
     (start_context w (wk_input (cp_workflow cp)) now)\<lparr>tc_variables := 2\<rparr>"

lemma resume_on_the_way:
  assumes "map_of cps (checkpoint_key env exec_id (ws_name w) p) = Some cp"
  shows "on_the_way env exec_id p cp (resume_state w input ctx p cp cps now)"
  using assms
  by (simp add: on_the_way_def resume_state_def restored_def set_status_def init_state_def status_of_def
      position_at_def)

lemma find_resume_point:
  "find (\<lambda>(name, index, t). JInt (int (i + length us)) = JInt (int index) \<and> JStr (fst y) = JStr name)
     (entries i (us @ y # vs)) = Some (fst y, i + length us, step_task y)"
proof (induction us arbitrary: i)
  case (Cons u us)
  then show ?case using Cons [of "i + 1"] by simp
qed simp

lemma resume_run:
  assumes keeps: "keeps_checkpoints env exec_id" and w: "w = step_workflow name xs"
    and "distinct (map fst xs)" and xs: "xs = us @ y # vs"
    and p: "p = resume_point (length us) (fst y)"
    and cp: "map_of cps (checkpoint_key env exec_id name p) = Some cp"
    and run: "do_loop n (exec n env 0 None) env (entries 0 xs) (Some (length us))
       (fst (iter_next (entries 0 xs))) (snd (iter_next (entries 0 xs)))
       (resume_context w cp now) workflow_consumer (resume_state w input ctx p cp cps now) =
       (evs, Ended, s')"
    and last: "last_context evs = Some c'"
  shows "execute_workflow_with_events (Suc n) env w (init_state w input ctx (Some p) cps now) =
    (EvTaskStarted ''doTask'' ROOT_TASK_NAME (root_pointer env) # evs, Ended,
     finish_workflow env w (remove_position c' s'))"
proof -
  let ?s = "set_status WsRunning (init_state w input ctx (Some p) cps now)"
  let ?r = "(restored cp ?s)\<lparr>st_positions := [[]]\<rparr>"
  let ?v = "wk_input (cp_workflow cp)"
  let ?c = "restored_context cp 0 ?s"
  have fields: "wc_name (st_context ?s) = name" "wc_checkpoint_position (st_context ?s) = Some p"
    "st_checkpoints ?s = cps" "st_positions ?s = []" "st_clock ?s = now" "length (st_variables ?s) = 1"
    by (simp_all add: set_status_def init_state_def w step_workflow_def)
  have loaded: "workflow_checkpoint_context env w ?s = (Inr (Some ?c), ?r)"
    using keeps cp fields
    by (simp add: workflow_checkpoint_context_def keeps_checkpoints_def get_checkpoint_with_id_def
        checkpoint_key_def get_checkpoint_memory_def restore_workflow_def new_variables_def
        new_position_def new_from_cp_def restored_def restored_context_def Let_def)
  have wi: "ws_input w = None" by (simp add: w step_workflow_def)
  have rf: "wc_input (st_context (restored cp ?s)) = ?v" "st_clock (restored cp ?s) = now"
    "wc_checkpoint_position (st_context (restored cp ?s)) = Some p"
    using fields by (simp_all add: restored_def)
  have input: "workflow_input env w ?r = (Inr ?v, ?r)"
    by (simp add: workflow_input_def wi rf)
  have start: "set_position 0 list_position ?r = resume_state w input ctx p cp cps now"
    by (simp add: resume_state_def set_position_def)
  have sc: "new_task_context (Some (create_do_task w)) (tc_output (set_input ?v ?c))
      (tc_variables (set_input ?v ?c)) 0 ?r = resume_context w cp now"
    using fields
    by (simp add: new_task_context_def start_context_def set_input_def resume_context_def
        restored_context_def rf)
  have "exec (Suc n) env 0 None ROOT_TASK_NAME (create_do_task w) (set_input ?v ?c)
      workflow_consumer ?r =
    (EvTaskStarted ''doTask'' ROOT_TASK_NAME (root_pointer env) # evs, Ended, remove_position c' s')"
  proof (rule root_task [OF _ _ _ _ w assms(3) _ _ last])
    show "tc_position (set_input ?v ?c) = 0" by (simp add: set_input_def restored_context_def)
    show "0 < length (st_positions ?r)" and "position_at 0 ?r = []"
      by (simp_all add: position_at_def)
    have "relative_path p [JStr ROOT_TASK_NAME] \<notin> {None, Some []}"
      by (simp add: p resume_point_def list_position_def relative_path_iff relative_path_None)
    then show "case wc_checkpoint_position (st_context ?r) of
         None \<Rightarrow> True | Some q \<Rightarrow> relative_path q [JStr ROOT_TASK_NAME] \<notin> {None, Some []}"
      by (simp add: rf)
    have "relative_path p list_position = Some [JInt (int (length us)), JStr (fst y)]"
      by (simp add: p resume_point_def)
    then show "Some (length us) = (if we_repository env then find_checkpoint_task env (set_input ?v ?c)
             (entries 0 xs) (set_position 0 list_position ?r) else None)"
      using keeps find_resume_point [of 0 us y vs]
      by (simp add: find_checkpoint_task_def wf_simps rf set_input_def restored_context_def xs
          keeps_checkpoints_def)
  qed (unfold sc start, rule run)
  then show ?thesis
    by (simp add: execute_workflow_with_events_def loaded input wi del: exec.simps)
qed

section \<open>Both runs\<close>

lemma walk_input: "walk env P i [x] c s = (evs, c', s') \<Longrightarrow> tc_input c' = tc_output c"
  by (cases x) (auto simp: Let_def)

lemma suspending_run:
  assumes calm: "\<forall>j. \<not> we_cancel env j" and keeps: "keeps_checkpoints env exec_id"
    and "distinct (map fst xs)" and xs: "xs = pre @ w # y # post"
    and ok: "continuing env pre" "step_ok env w" and wait: "step_directive w = ThWait"
    and n: "length xs < n" and p: "p = resume_point (length pre + 1) (fst y)"
  obtains evs s cp where
    "execute_workflow_with_events n env (step_workflow name xs)
       (init_state (step_workflow name xs) input ctx None cps now) = (evs, Ended, s)"
    and "started evs = ROOT_TASK_NAME # map fst pre @ [fst w]" and "status_of s = WsWaiting"
    and "wc_resume_position (st_context s) = Some p"
    and "map_of (st_checkpoints s) (checkpoint_key env exec_id name p) = Some cp"
    and "wk_variables (cp_workflow cp) = exports (pre @ [w]) (unwrap_or (as_object ctx) [])"
    and "tk_input (cp_task cp) = last_output pre input"
proof -
  let ?w = "step_workflow name xs"
  let ?c = "start_context ?w input now" and ?s = "start_state ?w input ctx cps now"
  obtain m where m: "n = Suc (Suc m)" using n xs by (cases n; cases "n - 1") auto
  obtain evs1 c1 s1 where w1: "walk env list_position 0 pre ?c ?s = (evs1, c1, s1)"
    by (rule prod_cases3)
  obtain evs2 c2 s2 where w2: "walk env list_position (length pre) [w] c1 s1 = (evs2, c2, s2)"
    by (rule prod_cases3)
  note k1 = walk_at_list [OF w1 start_at_list] note k2 = walk_at_list [OF w2 k1(1)]
  have "do_steps (Suc m) m env (entries 0 xs) None (entries 0 xs) ?c ?s =
      (evs1 @ evs2, Ended, remove_position c2 (suspended env exec_id p c2 s2))"
    unfolding p by (rule do_steps_wait [OF calm start_at_list keeps xs ok wait _ w1 w2])
      (use n m xs in simp)
  then have run: "execute_workflow_with_events n env ?w (init_state ?w input ctx None cps now) =
      (EvTaskStarted ''doTask'' ROOT_TASK_NAME (root_pointer env) # evs1 @ evs2, Ended,
       finish_workflow env ?w (remove_position c2 (remove_position c2 (suspended env exec_id p c2 s2))))"
    unfolding m by (rule fresh_run [OF refl assms(3)])
      (use k2(3) in \<open>simp add: last_context_append option_or_def\<close>)
  have st: "status_of (remove_position c2 (remove_position c2 (suspended env exec_id p c2 s2))) = WsWaiting"
    by (simp add: remove_position_def wf_simps) (simp add: suspended_def status_of_def)
  have name: "wc_name (st_context s2) = name" and input: "tc_input c2 = tc_output c1"
    and vars: "variables_at (wc_variables (st_context s2)) s2 =
      exports (pre @ [w]) (unwrap_or (as_object ctx) [])"
    using k1(2) k2(2) walk_input [OF w2]
    by (simp_all add: walked_def exports_def) (simp add: step_workflow_def)
  show ?thesis
  proof (rule that [where cp = "new_checkpoint_at p c2 s2"])
    show "execute_workflow_with_events n env ?w (init_state ?w input ctx None cps now) =
      (EvTaskStarted ''doTask'' ROOT_TASK_NAME (root_pointer env) # evs1 @ evs2, Ended,
       remove_position c2 (remove_position c2 (suspended env exec_id p c2 s2)))"
      using run st by (simp add: finish_workflow_def)
  qed (use st k1(2) k2(2) name input vars in
      \<open>simp_all add: walked_def remove_position_def wf_simps suspended_def new_checkpoint_at_def\<close>)
qed

lemma resuming_run:
  assumes calm: "\<forall>j. \<not> we_cancel env j" and keeps: "keeps_checkpoints env exec_id"
    and "distinct (map fst xs)" and xs: "xs = us @ y # vs" and ok: "continuing env (y # vs)"
    and n: "length xs < n" and p: "p = resume_point (length us) (fst y)"
    and cp: "map_of cps (checkpoint_key env exec_id name p) = Some cp"
  obtains evs s c where
    "execute_workflow_with_events n env (step_workflow name xs)
       (init_state (step_workflow name xs) input ctx (Some p) cps now) = (evs, Ended, s)"
    and "started evs = ROOT_TASK_NAME # map fst (y # vs)" and "status_of s = WsCompleted"
    and "wc_output (st_context s) = Some (JObj (step_values (last xs)))"
    and "variables_at (wc_variables (st_context s)) s = exports (y # vs) (wk_variables (cp_workflow cp))"
    and "EvTaskCompleted ''setTask'' (fst y) (eg_pointer (we_engines env) p) c \<in> set evs"
    and "tc_raw_input c = tk_input (cp_task cp)"
proof -
  let ?w = "step_workflow name xs" and ?ts = "entries 0 xs" and ?q = "length us"
  let ?c = "resume_context ?w cp now" and ?s = "resume_state ?w input ctx p cp cps now"
  let ?l = "entries (?q + 1) vs"
  obtain m where m: "n = Suc (Suc m)" using n xs by (cases n; cases "n - 1") auto
  have c: "tc_position ?c = 0" by (simp add: resume_context_def)
  have way: "on_the_way env exec_id (resume_point ?q (fst y)) cp ?s"
    unfolding p [symmetric] by (rule resume_on_the_way) (use cp in \<open>simp add: step_workflow_def\<close>)
  obtain k where k: "Suc m = Suc (k + length vs) + ?q" using n m xs by (auto dest: less_imp_Suc_add)
  obtain evs1 c1 s1 where
    s1: "do_loop (Suc (k + length vs)) (exec (Suc m) env 0 None) env ?ts (Some ?q)
       (Some (fst y, ?q, step_task y)) ?l ?c workflow_consumer ?s =
       and_then (evs1, Ended, s1) (do_steps (k + length vs) m env ?ts (Some ?q) ?l c1)"
    and l1: "last_context evs1 = Some c1" and st1: "started evs1 = [fst y]" and at1: "at_list c1 s1"
    and in1: "tc_raw_input c1 = tk_input (cp_task cp)"
    and ev1: "EvTaskCompleted ''setTask'' (fst y)
      (eg_pointer (we_engines env) (resume_point ?q (fst y))) c1 \<in> set evs1"
    and out1: "wc_output (st_context s1) = Some (JObj (step_values y))"
    and v1: "variables_at (wc_variables (st_context s1)) s1 = exports [y] (wk_variables (cp_workflow cp))"
    by (rule resume_step [OF calm keeps c way]) (use ok in auto)
  obtain evs2 c2 s2 where w2: "walk env list_position (?q + 1) vs c1 s1 = (evs2, c2, s2)"
    by (rule prod_cases3)
  note k2 = walk_at_list [OF w2 at1]
  have l2: "last_context (evs1 @ evs2) = Some c2"
    using k2(3) l1 w2 by (cases "vs = []") (simp_all add: last_context_append option_or_def)
  have s2: "do_steps (k + length vs) m env ?ts (Some ?q) ?l c1 s1 = (evs2, Ended, remove_position c2 s2)"
    using do_steps_walk [where m = m and tasks = ?ts and cp = "Some ?q" and ys = "[]"
        and n = "k + length vs", OF w2 calm at1] ok
    by (simp add: and_then_def del: exec.simps do_loop.simps)
  have "do_steps (Suc m) m env ?ts (Some ?q) ?ts ?c ?s = (evs1 @ evs2, Ended, remove_position c2 s2)"
    using do_loop_skip [of 0 us ?q "Suc (k + length vs)" _ env ?ts "entries ?q (y # vs)"] s1 s2
    by (simp add: k xs entries_append and_then_def del: exec.simps do_loop.simps)
  then have run: "execute_workflow_with_events n env ?w (init_state ?w input ctx (Some p) cps now) =
      (EvTaskStarted ''doTask'' ROOT_TASK_NAME (root_pointer env) # evs1 @ evs2, Ended,
       finish_workflow env ?w (remove_position c2 (remove_position c2 s2)))"
    unfolding m by (rule resume_run [OF keeps refl assms(3) xs p cp _ l2])
  show ?thesis
    by (rule that [OF run]) (use k2(2) st1 in1 ev1 out1 v1
        finish_steps [where w = ?w and env = env, OF refl k2(1) refl] in
        \<open>auto simp: walked_def last_output_def exports_def xs p\<close>)
qed



end
