(* ===== verification/Workflow_Errors.thy ===== *)
theory Workflow_Errors
  imports Workflow_Control
begin

text \<open>
  Errors in the workflow engine: what a workflow records of its end, which errors end a loop that
  continues on errors, how often a \<^verbatim>\<open>try\<close> task tries, and what a caught error leaves behind.
\<close>

section \<open>The end of a workflow\<close>

lemma set_fault_fields [simp]:
  "status_of (set_fault v s) = WsFaulted"
  "wc_output (st_context (set_fault v s)) = Some (JObj [(''error'', v)])"
  by (simp_all add: set_fault_def status_of_def)

lemma finish_workflow_ends: "status_of (finish_workflow env w s) \<noteq> WsRunning"
  by (simp add: finish_workflow_def Let_def set_status_def status_of_def)

lemma checkpoint_context_fault:
  "workflow_checkpoint_context env w s = (Inl e, s') \<Longrightarrow> \<exists>v t. s' = set_fault v t"
  by (auto simp: workflow_checkpoint_context_def Let_def split: option.splits bool.splits sum.splits
      prod.splits)

lemma workflow_input_fault: "workflow_input env w s = (Inl e, s') \<Longrightarrow> \<exists>v t. s' = set_fault v t"
  by (auto simp: workflow_input_def Let_def split: option.splits)

text \<open>
  C19: what a run of a workflow records.  A run that ends does not leave the workflow as running,
  and a run that fails, whether in the checkpoint, in the input or in a task, leaves it as
  faulted with an error object as its output.
\<close>

theorem workflow_end_is_recorded:
  "case execute_workflow_with_events n env w s0 of
     (evs, Ended, s) \<Rightarrow> status_of s \<noteq> WsRunning
   | (evs, Failed e, s) \<Rightarrow>
       status_of s = WsFaulted \<and> (\<exists>v. wc_output (st_context s) = Some (JObj [(''error'', v)]))
   | _ \<Rightarrow> True"
  by (auto simp: execute_workflow_with_events_def failing_def Let_def finish_workflow_ends
      split: prod.splits sum.splits wf_outcome.splits option.splits
      dest!: checkpoint_context_fault workflow_input_fault)

section \<open>Loops that continue on errors\<close>

lemma yield_outcome: "yield k ev s = (evs, out, s') \<Longrightarrow> out = Ended \<or> (\<exists>d. out = Stopped d)"
  by (auto simp: yield_def split: prod.splits option.splits)

lemma for_items_errors:
  "for_items n ex env depth name item_name index_name ts OnErrorContinue None c k items has s =
     (evs, Failed e, has', s') \<Longrightarrow> \<exists>pos. e = unsupported_wait pos"
proof (induction items arbitrary: has s evs has' s')
  case (Cons x items)
  obtain i item where x: "x = (i, item)" by (cases x)
  show ?case
    using Cons.prems Cons.IH unfolding x
    by (auto simp: Let_def prepare_for_item_def fault_unsupported_wait_def
        split: prod.splits sum.splits wf_outcome.splits if_splits dest!: yield_outcome)
qed simp

lemma yield_no_failure: "fst (snd (yield k ev s)) \<noteq> Failed e"
  by (simp add: yield_def split: prod.split option.split)

lemma for_end_no_failure:
  "fst (snd (for_empty env name item_name index_name c k s)) \<noteq> Failed e"
  "fst (snd (for_finish env name item_name index_name has c k s)) \<noteq> Failed e"
  by (simp_all add: for_empty_def for_finish_def Let_def yield_no_failure)

lemma and_then_failure:
  "fst (snd (and_then (evs, out, s) f)) = Failed e \<longleftrightarrow>
   (if out = Ended then fst (snd (f s)) = Failed e else out = Failed e)"
  by (cases out) (simp_all add: and_then_def case_prod_unfold)

lemma for_stream_errors:
  assumes "fst (snd (for_stream n ex env depth dl t cfg ts False OnErrorContinue None name c k s)) =
      Failed e"
    and v: "transform_value (we_engines env) (tc_input c)
      (expression c (add_position_name ''for'' c s)) (JStr (fc_in cfg)) = Inr v"
  shows "\<exists>pos. e = unsupported_wait pos"
proof (cases v)
  case (JArr items)
  let ?item = "if fc_each cfg = [] then ''item'' else fc_each cfg"
  let ?index = "if fc_at cfg = [] then ''index'' else fc_at cfg"
  obtain evs out has s2 where r: "for_items n ex env depth name ?item ?index ts OnErrorContinue None c k
      (zip [0..<length items] items) False (add_position_name ''for'' c s) = (evs, out, has, s2)"
    by (rule prod_cases4)
  have "out = Failed e"
  proof (cases "items = []")
    case False
    then show ?thesis
      using assms(1) v
      by (cases out) (simp_all add: for_stream_def Let_def JArr r and_then_failure for_end_no_failure
          del: transform_value.simps)
  qed (use assms(1) v in \<open>simp add: for_stream_def Let_def JArr for_end_no_failure del: transform_value.simps\<close>)
  then show ?thesis using r by (auto intro: for_items_errors)
qed (use assms in \<open>simp_all add: for_stream_def Let_def yield_no_failure del: transform_value.simps\<close>)

text \<open>
  C17: a sequential \<^verbatim>\<open>for\<close> task with \<^verbatim>\<open>onError: continue\<close> and no \<^verbatim>\<open>while\<close>, whatever its tasks do.
  It fails only if the list of its items cannot be evaluated, or because one of its tasks has
  the directive to wait, which a loop does not support; an error of an item never ends it.
\<close>

theorem for_continue_survives_item_errors:
  "case for_stream n ex env depth dl t cfg ts False OnErrorContinue None name c k s of
     (evs, Failed e, s') \<Rightarrow>
       (\<exists>pos. e = unsupported_wait pos) \<or>
       isl (transform_value (we_engines env) (tc_input c)
              (expression c (add_position_name ''for'' c s)) (JStr (fc_in cfg)))
   | _ \<Rightarrow> True"
proof -
  obtain evs out s' where r: "for_stream n ex env depth dl t cfg ts False OnErrorContinue None name c k s =
      (evs, out, s')"
    by (rule prod_cases3)
  show ?thesis
    using for_stream_errors [of n ex env depth dl t cfg ts name c k s]
    by (cases out; cases "transform_value (we_engines env) (tc_input c)
        (expression c (add_position_name ''for'' c s)) (JStr (fc_in cfg))")
       (simp_all add: r del: transform_value.simps)
qed

section \<open>Attempts\<close>

lemma sleep_outcome: "fst (snd (sleep dl ms s)) \<noteq> Stuck"
  by (simp add: sleep_def elapse_def split: option.split)

lemma retry_delay_outcome: "fst (snd (retry_delay env dl r s)) \<noteq> Stuck"
  by (simp add: retry_delay_def and_then_def case_prod_unfold sleep_outcome
      split: catch_retry.split option.split wf_outcome.split)

definition attempts_limited :: "catch_config \<Rightarrow> int \<Rightarrow> bool" where
  "attempts_limited cfg limit \<longleftrightarrow>
     (case cc_retry cfg of
        Some (CrPolicy p) \<Rightarrow>
          (case wrp_attempt p of Some a \<Rightarrow> rla_count a = Some limit | None \<Rightarrow> False)
      | _ \<Rightarrow> True)"

lemma retry_below_limit:
  assumes "attempts_limited cfg limit" and "cc_retry cfg = Some r"
    and "eval_retry_condition env r start_time count s"
  shows "count < limit"
  using assms
  by (auto simp: attempts_limited_def eval_retry_condition_def split: catch_retry.splits option.splits)

text \<open>One round of the attempts, by the outcome of the block.\<close>

lemma try_loop_round:
  assumes "do_stream n ex env ts c k s = (evs, out, s1)" and "ts \<noteq> []"
  shows "try_loop (Suc n) ex env dl ts cfg start_time count c k s =
    (case out of
       Failed e \<Rightarrow>
         (case execute_catch_block env cfg (unwrap_or (last_context evs) c) e s1 of
            (Inl e', s2) \<Rightarrow> (evs, Inl (Failed e'), s2)
          | (Inr ctx, s2) \<Rightarrow>
              (case cc_retry cfg of
                 None \<Rightarrow> (evs, Inr (ctx, True), s2)
               | Some r \<Rightarrow>
                   (if eval_retry_condition env r start_time count s2
                    then (case retry_delay env dl r s2 of
                            (_, Ended, s3) \<Rightarrow>
                              (case try_loop n ex env dl ts cfg start_time (count + 1) ctx k s3 of
                                 (evs', r', s4) \<Rightarrow> (evs @ evs', r', s4))
                          | (_, out', s3) \<Rightarrow> (evs, Inl out', s3))
                    else (evs, Inr (ctx, True), s2))))
     | Ended \<Rightarrow>
         (case last_context evs of
            Some ctx \<Rightarrow> (evs, Inr (ctx, False), s1)
          | None \<Rightarrow>
              (evs, Inl (Failed (standard_error SeRuntime
                 ''No task context returned from try task list execution''
                 (Some (pointer_of env (tc_position c) s)) None)), s1))
     | _ \<Rightarrow> (evs, Inl out, s1))"
  using assms by (cases out) (simp_all add: Let_def)

lemma try_loop_ends:
  assumes limited: "attempts_limited cfg limit"
    and body: "\<forall>m \<ge> N. \<forall>c s. fst (snd (do_stream m ex env ts c k s)) \<noteq> Stuck"
  shows "N + nat (limit - count) < n \<Longrightarrow>
    fst (snd (try_loop n ex env dl ts cfg start_time count c k s)) \<noteq> Inl Stuck"
proof (induction n arbitrary: count c s)
  case (Suc n)
  show ?case
  proof (cases "ts = []")
    case False
    obtain evs out s1 where d: "do_stream n ex env ts c k s = (evs, out, s1)" by (rule prod_cases3)
    have "fst (snd (do_stream n ex env ts c k s)) \<noteq> Stuck" using body Suc.prems by simp
    then have out: "out \<noteq> Stuck" by (simp add: d)
    have again: "fst (snd (try_loop n ex env dl ts cfg start_time (count + 1) c' k s')) \<noteq> Inl Stuck"
      if "cc_retry cfg = Some r" "eval_retry_condition env r start_time count s2" for r s2 c' s'
    proof (rule Suc.IH)
      have "count < limit" by (rule retry_below_limit [OF limited that])
      then show "N + nat (limit - (count + 1)) < n" using Suc.prems by simp
    qed
    show ?thesis
      unfolding try_loop_round [OF d False]
      using out again
      by (simp add: retry_delay_outcome case_prod_unfold
          split: wf_outcome.split sum.split option.split)
  qed simp
qed simp

text \<open>
  C18: a \<^verbatim>\<open>try\<close> task whose retry policy limits the attempts, or which has none.  If its block comes
  to an end whenever it is run with fuel \<open>N\<close>, then so do its attempts, with a unit more for every
  attempt that the policy allows.
\<close>

theorem limited_attempts_terminate:
  assumes "attempts_limited cfg limit"
    and "\<forall>m \<ge> N. \<forall>c s. fst (snd (do_stream m ex env ts c k s)) \<noteq> Stuck"
  shows "fst (snd (try_loop (N + nat limit + 1) ex env dl ts cfg start_time 0 c k s)) \<noteq> Inl Stuck"
  by (rule try_loop_ends [OF assms]) simp

definition sample_catch :: catch_config where
  "sample_catch =
     \<lparr>cc_as = None, cc_with = None, cc_except_when = None,
      cc_retry = Some (CrPolicy \<lparr>wrp_backoff = False, wrp_delay = None,
        wrp_attempt = Some \<lparr>rla_count = Some 2, rla_duration = None\<rparr>\<rparr>), cc_when = None\<rparr>"

definition sample_failure :: wf_error where
  "sample_failure = standard_error SeRuntime ''failed'' None None"

lemma sample_block_ends:
  assumes "1 \<le> m"
  shows "fst (snd (do_stream m (\<lambda>name t c k s. failing sample_failure s) sample_env
    [[(''r'', set_task None [])]] c k s)) \<noteq> Stuck"
proof -
  obtain j where "m = Suc j" using assms by (cases m) auto
  then show ?thesis
    by (simp add: do_stream_def task_map_def iter_next_def Let_def failing_def index_insert_new
        split: option.split)
qed

theorem limited_attempts_terminate_witness:
  "fst (snd (try_loop (1 + nat 2 + 1) (\<lambda>name t c k s. failing sample_failure s) sample_env None
     [[(''r'', set_task None [])]] sample_catch 0 0 (start_context (step_workflow ''w'' []) JNull 0)
     workflow_consumer (start_state (step_workflow ''w'' []) JNull JNull [] 0))) \<noteq> Inl Stuck"
  by (rule limited_attempts_terminate) (auto simp: attempts_limited_def sample_catch_def sample_block_ends)

section \<open>What a caught error leaves\<close>

lemma position_at_variables [simp]: "position_at a (set_variables b vs s) = position_at a s"
  by (simp add: position_at_def set_variables_def)

lemma caught_plainly:
  assumes "catches (eg_regex (we_engines env)) cfg e" "cc_when cfg = None" "cc_except_when cfg = None"
    and a: "tc_position c < length (st_positions s)"
  shows "\<exists>s'. execute_catch_block env cfg c e s = (Inr c, s') \<and>
    position_at (tc_position c) s' = position_at (tc_position c) s \<and>
    tc_position c < length (st_positions s')"
  using assms
  by (simp add: execute_catch_block_def catch_condition_def Let_def remove_position_def
      add_position_name_def add_context_value_def pos_push_def pos_pop_def)
     (simp add: set_position_def set_variables_def position_at_def)

text \<open>
  C40: a \<^verbatim>\<open>try\<close> task of which the first task fails below the position of the block, with an error
  that is caught and neither retried nor handled.  The task completes, but of the positions
  below the block only the last one is taken from the stack, so that the stack is not the one
  before the task: everything after it runs at a wrong position.
\<close>

theorem caught_error_leaves_positions:
  assumes fails: "do_stream n ex env ts c workflow_consumer (add_position_name ''try'' c s) =
      (evs, Failed e, s2)"
    and "ts \<noteq> []" and first: "last_context evs = None"
    and a: "tc_position c < length (st_positions s2)"
    and below: "position_at (tc_position c) s2 =
      position_at (tc_position c) s @ JStr ''try'' # below" and "below \<noteq> []"
    and cfg: "catches (eg_regex (we_engines env)) cfg e" "cc_when cfg = None"
      "cc_except_when cfg = None" "cc_retry cfg = None"
  shows "\<exists>evs' s'.
    try_stream (Suc n) ex env dl ts cfg None name c workflow_consumer s = (evs', Ended, s') \<and>
    position_at (tc_position c) s' =
      position_at (tc_position c) s @ JStr ''try'' # butlast below \<and>
    position_at (tc_position c) s' \<noteq> position_at (tc_position c) s"
proof -
  obtain s3 where s3: "execute_catch_block env cfg c e s2 = (Inr c, s3)"
    "position_at (tc_position c) s3 = position_at (tc_position c) s2"
    "tc_position c < length (st_positions s3)"
    using caught_plainly [OF cfg(1-3) a] by blast
  let ?s4 = "remove_position c s3"
  have "position_at (tc_position c) ?s4 = position_at (tc_position c) s @ JStr ''try'' # butlast below"
    using s3 below assms(6) by (simp add: remove_position_def wf_simps pos_pop_def butlast_append)
  moreover have "position_at (tc_position c) (snd (workflow_consumer ev ?s4)) =
      position_at (tc_position c) ?s4" and "fst (workflow_consumer ev ?s4) = None" for ev
    by (simp_all add: workflow_consumer_def position_at_def split: option.split)
  moreover have "try_loop (Suc n) ex env dl ts cfg t0 0 c workflow_consumer (add_position_name ''try'' c s) =
      (evs, Inr (c, True), s3)" for t0
    by (simp add: try_loop_round [OF fails assms(2)] first s3 cfg(4) unwrap_or_def del: try_loop.simps)
  ultimately show ?thesis
    by (simp add: try_stream_def Let_def try_completed_def yield_def and_then_def case_prod_unfold
        del: try_loop.simps)
qed

definition sample_raise :: task_list where
  "sample_raise = [[(''r'', RaiseTask default_base (ReError sample_failure))]]"

definition sample_start :: wf_state where
  "sample_start = start_state (step_workflow ''w'' []) JNull JNull [] 0"

definition sample_parent :: task_context where
  "sample_parent = start_context (step_workflow ''w'' []) JNull 0"

lemma sample_block_fails:
  "(case do_stream 2 (exec 2 sample_env 0 None) sample_env sample_raise sample_parent workflow_consumer
       (add_position_name ''try'' sample_parent sample_start) of
      (evs, Failed e, s2) \<Rightarrow>
        last_context evs = None \<and> st_positions s2 =
          [list_position @ JStr ''try'' # [JStr ''do'', JInt 0, JStr ''r'', JStr ''raise'']]
    | _ \<Rightarrow> False)"
  by code_simp

theorem caught_error_leaves_positions_witness:
  "\<exists>evs s.
    try_stream 3 (exec 2 sample_env 0 None) sample_env None sample_raise
      (sample_catch\<lparr>cc_retry := None\<rparr>) None ''t'' sample_parent workflow_consumer sample_start =
      (evs, Ended, s) \<and>
    position_at 0 s = list_position @ JStr ''try'' # [JStr ''do'', JInt 0, JStr ''r''] \<and>
    position_at 0 s \<noteq> list_position"
proof -
  let ?below = "[JStr ''do'', JInt 0, JStr ''r'', JStr ''raise'']"
  obtain evs e s2 where
    run: "do_stream 2 (exec 2 sample_env 0 None) sample_env sample_raise sample_parent workflow_consumer
       (add_position_name ''try'' sample_parent sample_start) = (evs, Failed e, s2)"
    and first: "last_context evs = None"
    and below: "st_positions s2 = [list_position @ JStr ''try'' # ?below]"
    using sample_block_fails by (auto split: prod.splits wf_outcome.splits)
  have c: "tc_position sample_parent = 0" and p: "position_at 0 sample_start = list_position"
    by (simp_all add: sample_parent_def sample_start_def)
  have "catches rx (sample_catch\<lparr>cc_retry := None\<rparr>) e" for rx
    by (simp add: catches_def sample_catch_def)
  moreover have "cc_when (sample_catch\<lparr>cc_retry := None\<rparr>) = None"
    "cc_except_when (sample_catch\<lparr>cc_retry := None\<rparr>) = None"
    "cc_retry (sample_catch\<lparr>cc_retry := None\<rparr>) = None"
    by (simp_all add: sample_catch_def)
  moreover have "sample_raise \<noteq> []" by (simp add: sample_raise_def)
  moreover have "position_at 0 s2 = list_position @ JStr ''try'' # ?below"
    by (simp add: position_at_def below)
  ultimately show ?thesis
    using caught_error_leaves_positions [OF run _ first, of ?below "sample_catch\<lparr>cc_retry := None\<rparr>"
        None "''t''"] below
    by (simp add: c p numeral_3_eq_3)
qed

end
