(* ===== verification/Spec2Isabelle.thy ===== *)
theory Spec2Isabelle
  imports Dispatch_Outcome Workflow_Resume Workflow_Errors
begin

text \<open>
  Verification of the job core and the workflow engine of jobworkerp-rs.

  \<^bold>\<open>The program.\<close>  Clients enqueue jobs for workers.  A worker process takes a job from a
  queue, runs it with a runner, classifies what happened and hands the result to the result
  processor, which retries the job, completes it or discards the result, enqueues the next
  periodic run, and stores the result.  Streaming jobs hand out a stream whose last item, the
  End, says whether the stream succeeded.  Several worker processes share one status
  repository and one database.  A workflow is a job whose runner interprets a document of tasks:
  lists, loops, conditions, error handling, and tasks that run further jobs.

  \<^bold>\<open>Theories, in the order of the imports.\<close>
  \<^item> \<^verbatim>\<open>Prelude\<close>: integers of the source at their width, decimal numbers, UTF-8 boundaries, binary
    search, debug rendering, fallible computations.
  \<^item> \<^verbatim>\<open>Proto_Data\<close>: messages and enums of \<^verbatim>\<open>proto/protobuf/jobworkerp/data\<close>, the error type of
    \<^verbatim>\<open>base/src/error.rs\<close>.  An enum field is an integer, as in the generated structs.
  \<^item> \<^verbatim>\<open>Retry\<close>: \<^verbatim>\<open>RetryPolicyExt\<close> of \<^verbatim>\<open>proto/src/lib.rs\<close>, \<^verbatim>\<open>JobBuilder\<close> of \<^verbatim>\<open>app/src/app.rs\<close>,
    \<^verbatim>\<open>resolve_job_params\<close> of \<^verbatim>\<open>app/src/app/job.rs\<close>.
  \<^item> \<^verbatim>\<open>Json\<close> and \<^verbatim>\<open>Stream_Error\<close>: \<^verbatim>\<open>proto/src/stream_error.rs\<close>, the contract between producers
    and readers of a stream's End.
  \<^item> \<^verbatim>\<open>Job_Status\<close>: \<^verbatim>\<open>infra/src/infra/job/status.rs\<close> with \<^verbatim>\<open>memory.rs\<close> and \<^verbatim>\<open>redis.rs\<close>.  The
    locale \<open>status_repository\<close> is the trait's contract; \<open>mem\<close> and \<open>redis\<close> are its two
    interpretations.
  \<^item> \<^verbatim>\<open>Job_Runner\<close>: \<^verbatim>\<open>worker-app/src/worker/runner/result.rs\<close> and the execution part of
    \<^verbatim>\<open>worker-app/src/worker/runner.rs\<close>; \<open>retry_step\<close> and \<open>retry_chain\<close> relate attempts.
  \<^item> \<^verbatim>\<open>Stream_Guard\<close>: \<^verbatim>\<open>runner/stream_guard.rs\<close> as poll state machines and \<^verbatim>\<open>run_job\<close>.  The locale
    \<open>release_guard\<close> is what the guards share; it is interpreted for the pool object, the
    completion callback, the cancellation helper and the feed sender.
  \<^item> \<^verbatim>\<open>Result_Store\<close>: the tables of results and overrides (\<^verbatim>\<open>infra/src/infra/job_result\<close>,
    \<^verbatim>\<open>infra/src/infra/job/overrides.rs\<close>) and what is stored (\<^verbatim>\<open>app/src/app/job_result.rs\<close>).
  \<^item> \<^verbatim>\<open>Result_Processor\<close>: \<^verbatim>\<open>worker-app/src/worker/result_processor.rs\<close> and
    \<^verbatim>\<open>stream_outcome.rs\<close>, a client of the locale \<open>status_repository\<close>.

  \<^item> \<^verbatim>\<open>Job_Table\<close>: the table of jobs and the database queue (\<^verbatim>\<open>infra/src/infra/job/rdb.rs\<close>,
    \<^verbatim>\<open>rows.rs\<close>, \<^verbatim>\<open>queue/rdb.rs\<close>).
  \<^item> \<^verbatim>\<open>Status_Index\<close>: the index of job statuses (\<^verbatim>\<open>infra/src/infra/job/status/rdb.rs\<close>).
  \<^item> \<^verbatim>\<open>Status_Claims\<close>: the execution claims (\<^verbatim>\<open>infra/src/infra/job/status/execution.rs\<close>).  The locale
    \<open>version_cas\<close> is the contract of the operations that take over a row, interpreted for
    releasing, claiming, restoring and resetting; \<open>index_step\<close> is one step of any process.
  \<^item> \<^verbatim>\<open>Worker_Instances\<close>: the registry of worker processes (\<^verbatim>\<open>infra/src/infra/worker_instance.rs\<close> with
    \<^verbatim>\<open>memory.rs\<close> and \<^verbatim>\<open>redis.rs\<close>) and the recovery lock; \<open>other_step\<close> is one action of another process.
  \<^item> \<^verbatim>\<open>Recovery\<close>: the recovery of the jobs of lost processes
    (\<^verbatim>\<open>app/src/app/worker_instance/recovery.rs\<close>), a client of the claims and of the registry.
  \<^item> \<^verbatim>\<open>Chan_Queue\<close>: the queue of the standalone build (\<^verbatim>\<open>infra/src/infra/job/queue/chan.rs\<close>) over a
    channel library, and the cancellation channel.
  \<^item> \<^verbatim>\<open>Job_App\<close>: the job application of the standalone build (\<^verbatim>\<open>app/src/app/job/rdb_chan.rs\<close> and the
    shared parts of \<^verbatim>\<open>app/src/app/job.rs\<close>) on the tables, the memory repository, the cache and the
    channel queue.  \<^verbatim>\<open>Job_Cancel\<close> (cancellation), \<^verbatim>\<open>Job_Lifecycle\<close> (enqueueing and retries),
    \<^verbatim>\<open>Job_Completion\<close> (completion and purge) and \<^verbatim>\<open>Job_Invariant\<close> (sequences of operations) hold
    its properties.
  \<^item> \<^verbatim>\<open>Worker_Session\<close>: the worker's side of the recovery protocol
    (\<^verbatim>\<open>worker-app/src/worker/instance_session.rs\<close>, \<^verbatim>\<open>instance_registrar.rs\<close> and
    \<^verbatim>\<open>base/src/worker_instance_config.rs\<close>); \<open>session_step\<close> is one action of the tasks of a worker.
  \<^item> \<^verbatim>\<open>Dispatcher\<close>: the dispatchers of the standalone build (\<^verbatim>\<open>worker-app/src/worker/dispatcher.rs\<close>,
    \<^verbatim>\<open>dispatcher/chan.rs\<close>, \<^verbatim>\<open>dispatcher/rdb.rs\<close>), which put the queues, the status repository, the
    runner, the result processor, the application and the session together.  \<^verbatim>\<open>Dispatch_Safety\<close>
    (any interference) and \<^verbatim>\<open>Dispatch_Outcome\<close> (undisturbed runs) hold their properties.
  \<^item> \<^verbatim>\<open>Workflow_Schema\<close>: workflow documents (\<^verbatim>\<open>infra/src/workflow/definition/workflow.rs\<close> with
    \<^verbatim>\<open>tasks.rs\<close>, \<^verbatim>\<open>supplement.rs\<close>, \<^verbatim>\<open>errors.rs\<close>), positions (\<^verbatim>\<open>infra/src/workflow/position.rs\<close>) and the
    failures that a workflow reports (\<^verbatim>\<open>app-wrapper/src/workflow/execute/failure.rs\<close>).
  \<^item> \<^verbatim>\<open>Workflow_Context\<close>: the contexts of a run, their expressions and their checkpoints
    (\<^verbatim>\<open>execute/context.rs\<close>, \<^verbatim>\<open>expression.rs\<close>, \<^verbatim>\<open>checkpoint.rs\<close>, \<^verbatim>\<open>definition/transform.rs\<close>).  Positions and
    variables that contexts share are addresses into stores of the state.
  \<^item> \<^verbatim>\<open>Workflow_Task\<close>: events, timeouts, input and output of a task, and the tasks without tasks inside
    (\<^verbatim>\<open>execute/task.rs\<close>, \<^verbatim>\<open>task/set.rs\<close>, \<^verbatim>\<open>task/switch.rs\<close>).  \<^verbatim>\<open>Workflow_Flow\<close>: task lists, loops, \<^verbatim>\<open>try\<close>, the
    task executor and the workflow (\<^verbatim>\<open>task/stream/do.rs\<close>, \<^verbatim>\<open>for.rs\<close>, \<^verbatim>\<open>try_.rs\<close>, \<^verbatim>\<open>execute/workflow.rs\<close>).
    \<^verbatim>\<open>Workflow_Runs\<close> holds the lemmas that follow lists of tasks through the executors;
    \<^verbatim>\<open>Workflow_Control\<close> (directives and cancellation), \<^verbatim>\<open>Workflow_Resume\<close> (suspending and resuming) and
    \<^verbatim>\<open>Workflow_Errors\<close> (errors and attempts) hold the properties.

  \<^bold>\<open>How code is rendered.\<close>  A struct is a record and an enum a datatype.  \<^verbatim>\<open>u32\<close> and \<^verbatim>\<open>u64\<close> are words;
  \<^verbatim>\<open>i64\<close> and \<^verbatim>\<open>i32\<close> are integers with the wrap-around of a release build written out where they
  are computed with.  \<^verbatim>\<open>Result\<close> is a sum, with a panic as an error of its own.  Strings are their
  UTF-8 bytes.  An SQL statement, a Redis command and the Lua script are translated to the
  function on tables or hashes they denote.  An \<^verbatim>\<open>async\<close> handler is a function of the answers
  its environment gives; where other processes can act in between, their action is an
  arbitrary function applied at that point.  An \<^verbatim>\<open>async\<close> stream of workflow events is a computation
  that hands each event to a consumer, which may stop it.

  \<^bold>\<open>Parameters.\<close>  The JSON library (with \<open>serde_v1_laws\<close>), the protobuf codec of one column
  (with \<open>output_codec_laws\<close>) and of queued jobs (with \<open>job_codec_laws\<close>), the channel library
  (with \<open>chan_laws\<close>), floating point, the clock, the id generator,
  the runner and the pool are arguments of the definitions.  So are, for workflows, the jq and
  Liquid engines, regular expressions, JSON schemas, the printing of JSON pointers and the executors
  of \<^verbatim>\<open>run\<close>, \<^verbatim>\<open>call\<close> and \<^verbatim>\<open>fork\<close> tasks and of parallel loops; nothing is assumed of them.  The witnesses instantiate
  them with concrete functions.

  \<^bold>\<open>What is shown.\<close>
  \<^item> Retries: an attempt is retried only by its owner and at most once, a cancellation wins over
    a retry, chains of retries are bounded by the policy of the first attempt, whatever
    other workers and later changes of settings do.
  \<^item> Results: each processed result has one fate, a load-only request has no lifecycle, a failed
    End settles the stored result, stored data is read back, bulk deletion is safe, pages are
    bounded.
  \<^item> Streams: every reader recognises a failed End, bounded encodings keep the longest possible
    message, the idle timeout implements its reference and a stalled stream is reported as
    a timeout, resources are released exactly once, pooled runners are accounted for.
  \<^item> Repositories: memory and Redis agree on every sequence of operations, and a transition has
    a single winner.
  \<^item> Tables: a lease excludes other workers until it expires and its release undoes the grab, a
    dispatch is atomic, a claim is resolved once and never together with a release, versions
    never decrease, fetching is ordered and bounded, the index converges and its counts agree
    with its searches.
  \<^item> Recovery: the recovery lock protects an expired instance, its jobs are recovered only when they
    are certainly lost, with the loss recorded before the retry; a failing application never hides
    a job, and the recovery always returns.
  \<^item> Standalone application: where an enqueued job is kept, that a failed request leaves no trace (with
    the exception of a failed backup), that a reported cancellation has taken effect, that a
    completed job leaves nothing, that the purge spares known jobs, and that every
    sequence of operations keeps the state well-formed; two ways in which a retry is lost or
    hidden.  The channel queue refines lists of jobs.
  \<^item> Worker sessions: isolation is final, starts are timely, a worker whose instance was taken over or
    whose heartbeats are not answered stops, and a recovery does not overlap with the lost
    execution when its reserve covers the start timeout.
  \<^item> Dispatching: an attempt is started at most once however often it is delivered, a job cancelled
    before its delivery is not started, a delivered attempt is completed or handed on to the
    next one, a start that the session refuses is undone, and the whole process keeps its
    invariant; jobs without a live status are never retried, and a failing grab strands its job.
  \<^item> Workflows: tasks that continue run once each, in order; a suspended workflow resumes after the
    waiting task with all variables; no task starts after a cancellation; an error of an item never
    ends a loop that continues on errors; limited attempts come to an end; the end of a run is
    recorded; and what goes wrong with jumps, with the directives of \<^verbatim>\<open>switch\<close> and with the positions
    of caught errors.
  \<^item> Time: periodic jobs stay on their grid, the total timeout covers all attempts, no job
    starts early.

  \<^bold>\<open>Bounds and termination.\<close>  Fuel is used in two places.  The executors of workflows have fuel,
  since jumps and unlimited retries can go on forever: every task of a list, every attempt and every
  level of nesting takes a unit, and a run without fuel is \<open>Stuck\<close>.  The theorems on runs prove that
  one unit more than the tasks of the list is enough.  The default values of a schema have the size
  of the schema as fuel, which its nesting does not exceed.  The binary search of the bounded encoding is not
  structural and has a termination proof in \<^verbatim>\<open>Prelude\<close>.  The loop over the batches of a
  recovery reads tables that the handlers of the batch change; it is a partial function, proved to
  return on every input.  All other functions are total by their recursion.

  \<^bold>\<open>Not modelled.\<close>  The runners and plugins (external programs), the transport of the front
  ends, the LLM clients, the Redis queues with their dispatcher and the hybrid
  application, the MySQL variants of the statements, and the event loops around the handlers.  Of the
  workflow engine: the executors of \<^verbatim>\<open>run\<close>, \<^verbatim>\<open>call\<close> and \<^verbatim>\<open>fork\<close> tasks (they submit jobs), parallel loops,
  the scopes of child jobs, trace spans, the reading of documents, and the stream of contexts that
  \<^verbatim>\<open>execute_workflow\<close> makes of the events.
\<close>

end
